(* ===== verification/Py_Prelude.thy ===== *)
theory Py_Prelude
  imports Complex_Main "HOL-Library.AList" "HOL-Library.Sublist"
begin

text \<open>
  Shared vocabulary of the development: Python strings, JSON values, dictionaries
  and the numeric helpers the modelled modules use.

  A Python string is a \<^typ>\<open>string\<close>; one \<^typ>\<open>char\<close> stands for one code point below 256, so
  lengths, slices and case folding count code points exactly as Python does on that range.
  A Python dictionary is an association list in insertion order (\<open>AList.update\<close> keeps the
  position of an existing key, as Python does).  Python floats are exact rationals.
\<close>

named_theorems py_eval \<open>equations that evaluate the string and dictionary helpers on literals\<close>
named_theorems gate_simps \<open>characteristic equations of the request-shaping gates\<close>

lemma not_islE: "\<not> isl r \<Longrightarrow> (\<And>v. r = Inr v \<Longrightarrow> thesis) \<Longrightarrow> thesis"
  by (cases r) simp_all

lemma find_SomeD: "find P xs = Some x \<Longrightarrow> x \<in> set xs \<and> P x"
  by (auto simp: find_Some_iff)

section \<open>Characters\<close>

abbreviation ord :: "char \<Rightarrow> nat" where
  "ord c \<equiv> of_char c"

definition py_isspace :: "char \<Rightarrow> bool" where
  "py_isspace c \<longleftrightarrow> (let n = ord c in 9 \<le> n \<and> n \<le> 13 \<or> 28 \<le> n \<and> n \<le> 32 \<or> n = 133 \<or> n = 160)"

definition py_isdigit :: "char \<Rightarrow> bool" where
  "py_isdigit c \<longleftrightarrow> (let n = ord c in 48 \<le> n \<and> n \<le> 57)"

definition py_isalpha :: "char \<Rightarrow> bool" where
  "py_isalpha c \<longleftrightarrow> (let n = ord c in
     65 \<le> n \<and> n \<le> 90 \<or> 97 \<le> n \<and> n \<le> 122 \<or> n = 170 \<or> n = 181 \<or> n = 186 \<or>
     192 \<le> n \<and> n \<le> 255 \<and> n \<noteq> 215 \<and> n \<noteq> 247)"

text \<open>The class \<open>\w\<close> of Python's \<open>re\<close> on code points below 256.\<close>

definition py_isword :: "char \<Rightarrow> bool" where
  "py_isword c \<longleftrightarrow> py_isalpha c \<or> py_isdigit c \<or>
     (let n = ord c in n = 95 \<or> n = 178 \<or> n = 179 \<or> n = 185 \<or> 188 \<le> n \<and> n \<le> 190)"

definition py_lower_char :: "char \<Rightarrow> char" where
  "py_lower_char c = (let n = ord c in
     if 65 \<le> n \<and> n \<le> 90 \<or> 192 \<le> n \<and> n \<le> 222 \<and> n \<noteq> 215 then char_of (n + 32) else c)"

lemmas py_char_defs [py_eval] =
  py_isspace_def py_isdigit_def py_isalpha_def py_isword_def py_lower_char_def

lemma ord_less_256: "ord c < 256"
  by simp

lemma ord_py_lower_char:
  "ord (py_lower_char c) =
     (if 65 \<le> ord c \<and> ord c \<le> 90 \<or> 192 \<le> ord c \<and> ord c \<le> 222 \<and> ord c \<noteq> 215
      then ord c + 32 else ord c)"
  by (auto simp: py_lower_char_def Let_def)

lemma py_lower_char_idem [simp]: "py_lower_char (py_lower_char c) = py_lower_char c"
proof -
  have "ord (py_lower_char (py_lower_char c)) = ord (py_lower_char c)"
    by (simp only: ord_py_lower_char split: if_splits) auto
  then show ?thesis by (simp only: of_char_eq_iff)
qed

lemma py_isspace_lower [simp]: "py_isspace (py_lower_char c) = py_isspace c"
  by (simp only: py_isspace_def Let_def ord_py_lower_char) auto

section \<open>Strings\<close>

definition py_lower :: "string \<Rightarrow> string" where
  [py_eval]: "py_lower s = map py_lower_char s"

lemma length_py_lower [simp]: "length (py_lower s) = length s"
  by (simp add: py_lower_def)

lemma py_lower_idem [simp]: "py_lower (py_lower s) = py_lower s"
  by (simp add: py_lower_def)

lemma py_lower_append [simp]: "py_lower (s @ t) = py_lower s @ py_lower t"
  by (simp add: py_lower_def)

definition startswith :: "string \<Rightarrow> string \<Rightarrow> bool" where
  [py_eval]: "startswith s p \<longleftrightarrow> prefix p s"

definition endswith :: "string \<Rightarrow> string \<Rightarrow> bool" where
  [py_eval]: "endswith s p \<longleftrightarrow> prefix (rev p) (rev s)"

lemma endswith_suffix: "endswith s p \<longleftrightarrow> suffix p s"
  by (simp add: endswith_def suffix_to_prefix)

text \<open>\<open>p in s\<close>, the substring test.\<close>

fun py_in :: "string \<Rightarrow> string \<Rightarrow> bool" where
  "py_in p [] \<longleftrightarrow> p = []"
| "py_in p (c # s) \<longleftrightarrow> prefix p (c # s) \<or> py_in p s"

lemma py_in_iff_sublist: "py_in p s \<longleftrightarrow> sublist p s"
  by (induction s) (auto simp: sublist_Cons_right)

lemma py_in_append1: "py_in p s \<Longrightarrow> py_in p (s @ t)"
  by (metis py_in_iff_sublist sublist_append_rightI sublist_order.order_trans)

lemma py_in_refl [simp]: "py_in p p"
  by (simp add: py_in_iff_sublist)

fun py_lstrip :: "string \<Rightarrow> string" where
  "py_lstrip [] = []"
| "py_lstrip (c # s) = (if py_isspace c then py_lstrip s else c # s)"

definition py_rstrip :: "string \<Rightarrow> string" where
  [py_eval]: "py_rstrip s = rev (py_lstrip (rev s))"

definition py_strip :: "string \<Rightarrow> string" where
  [py_eval]: "py_strip s = py_rstrip (py_lstrip s)"

text \<open>\<open>s.strip(chars)\<close> with an explicit set of characters.\<close>

definition strip_chars :: "string \<Rightarrow> string \<Rightarrow> string" where
  [py_eval]: "strip_chars cs s =
     rev (dropWhile (\<lambda>c. c \<in> set cs) (rev (dropWhile (\<lambda>c. c \<in> set cs) s)))"

lemma py_lstrip_dropWhile: "py_lstrip s = dropWhile py_isspace s"
  by (induction s) auto

lemma py_strip_dropWhile:
  "py_strip s = rev (dropWhile py_isspace (rev (dropWhile py_isspace s)))"
  by (simp add: py_strip_def py_rstrip_def py_lstrip_dropWhile)

lemma length_py_lstrip_le: "length (py_lstrip s) \<le> length s"
  by (induction s) auto

lemma length_py_strip_le: "length (py_strip s) \<le> length s"
  using length_py_lstrip_le [of s] length_py_lstrip_le [of "rev (py_lstrip s)"]
  by (simp add: py_strip_def py_rstrip_def)

lemma py_strip_Nil [simp]: "py_strip [] = []"
  by (simp add: py_strip_def py_rstrip_def)

lemma dropWhile_id: "xs = [] \<or> \<not> P (hd xs) \<Longrightarrow> dropWhile P xs = xs"
  by (cases xs) auto

lemma hd_rev_dropWhile_rev:
  "dropWhile P (rev xs) \<noteq> [] \<Longrightarrow> hd (rev (dropWhile P (rev xs))) = hd xs"
  by (induction xs rule: rev_induct) (auto simp: hd_append)

lemma py_strip_idem [simp]: "py_strip (py_strip s) = py_strip s"
proof -
  let ?u = "dropWhile py_isspace s"
  let ?v = "dropWhile py_isspace (rev ?u)"
  have "dropWhile py_isspace (rev ?v) = rev ?v"
  proof (rule dropWhile_id, cases "?v = []")
    case False
    then have "?u \<noteq> []" by (metis dropWhile.simps(1) rev.simps(1))
    then have "\<not> py_isspace (hd ?u)" by (rule hd_dropWhile)
    with False show "rev ?v = [] \<or> \<not> py_isspace (hd (rev ?v))"
      by (simp add: hd_rev_dropWhile_rev)
  qed simp
  then show ?thesis by (simp add: py_strip_dropWhile)
qed

lemma set_dropWhile_subset: "set (dropWhile P xs) \<subseteq> set xs"
  by (metis set_dropWhileD subsetI)

lemma py_strip_eq_Nil_iff: "py_strip s = [] \<longleftrightarrow> (\<forall>c \<in> set s. py_isspace c)"
proof
  assume "py_strip s = []"
  then have *: "\<forall>c \<in> set (dropWhile py_isspace s). py_isspace c"
    by (simp add: py_strip_dropWhile dropWhile_eq_Nil_conv)
  have "dropWhile py_isspace s = []"
  proof (rule ccontr)
    assume ne: "dropWhile py_isspace s \<noteq> []"
    then have "\<not> py_isspace (hd (dropWhile py_isspace s))" by (rule hd_dropWhile)
    with * ne show False by (meson list.set_sel(1))
  qed
  then show "\<forall>c \<in> set s. py_isspace c" by (simp add: dropWhile_eq_Nil_conv)
next
  assume "\<forall>c \<in> set s. py_isspace c"
  then have "dropWhile py_isspace s = []" by (simp add: dropWhile_eq_Nil_conv)
  then show "py_strip s = []" by (simp only: py_strip_dropWhile dropWhile.simps rev.simps)
qed

text \<open>\<open>s.split()\<close>: the maximal runs of non-space characters.\<close>

fun split_ws_aux :: "string \<Rightarrow> string \<Rightarrow> string list" where
  "split_ws_aux [] acc = (if acc = [] then [] else [rev acc])"
| "split_ws_aux (c # s) acc =
     (if py_isspace c then (if acc = [] then split_ws_aux s [] else rev acc # split_ws_aux s [])
      else split_ws_aux s (c # acc))"

definition split_ws :: "string \<Rightarrow> string list" where
  [py_eval]: "split_ws s = split_ws_aux s []"

lemma split_ws_aux_tokens:
  assumes "t \<in> set (split_ws_aux s acc)" and "\<forall>c \<in> set acc. \<not> py_isspace c"
  shows "t \<noteq> [] \<and> (\<forall>c \<in> set t. \<not> py_isspace c)"
  using assms
proof (induction s arbitrary: acc)
  case Nil
  then show ?case by (cases "acc = []") simp_all
next
  case (Cons c s)
  consider "py_isspace c" "acc = []" | "py_isspace c" "acc \<noteq> []" | "\<not> py_isspace c" by blast
  then show ?case
  proof cases
    case 1
    with Cons.prems Cons.IH [of "[]"] show ?thesis by simp
  next
    case 2
    with Cons.prems(1) consider "t = rev acc" | "t \<in> set (split_ws_aux s [])" by auto
    then show ?thesis using 2 Cons.prems(2) Cons.IH [of "[]"] by cases simp_all
  next
    case 3
    with Cons.prems Cons.IH [of "c # acc"] show ?thesis by simp
  qed
qed

lemma split_ws_tokens: "t \<in> set (split_ws s) \<Longrightarrow> t \<noteq> [] \<and> (\<forall>c \<in> set t. \<not> py_isspace c)"
  using split_ws_aux_tokens [of t s "[]"] by (simp add: split_ws_def)

text \<open>\<open>s.split(c)\<close> for a single separator character; the result is never empty.\<close>

fun split_char :: "char \<Rightarrow> string \<Rightarrow> string list" where
  "split_char d [] = [[]]"
| "split_char d (c # s) =
     (case split_char d s of
        [] \<Rightarrow> [[c]]
      | t # ts \<Rightarrow> if c = d then [] # t # ts else (c # t) # ts)"

text \<open>\<open>sep.join(parts)\<close>.\<close>

fun py_join :: "string \<Rightarrow> string list \<Rightarrow> string" where
  "py_join sep [] = []"
| "py_join sep [s] = s"
| "py_join sep (s # t # ts) = s @ sep @ py_join sep (t # ts)"

lemma split_char_ne: "split_char d s \<noteq> []"
  by (induction s) (auto split: list.splits)

lemma py_join_split_char: "py_join [d] (split_char d s) = s"
proof (induction s)
  case Nil
  then show ?case by simp
next
  case (Cons c s)
  show ?case
  proof (cases "split_char d s")
    case Nil
    then show ?thesis using split_char_ne by blast
  next
    case (Cons t ts)
    with \<open>py_join [d] (split_char d s) = s\<close> show ?thesis
      by (cases ts) auto
  qed
qed

text \<open>\<open>s.partition(c)\<close> at the first separator: the part before it and, when present, after it.\<close>

fun cut_char :: "char \<Rightarrow> string \<Rightarrow> string \<times> string option" where
  "cut_char d [] = ([], None)"
| "cut_char d (c # s) =
     (if c = d then ([], Some s) else (let (a, b) = cut_char d s in (c # a, b)))"

text \<open>Python slices \<open>s[:n]\<close> and \<open>s[-n:]\<close>; the latter is the whole string for \<open>n = 0\<close>.\<close>

definition py_head :: "string \<Rightarrow> int \<Rightarrow> string" where
  [py_eval]: "py_head s n = (if n < 0 then take (nat (int (length s) + n)) s else take (nat n) s)"

definition py_tail :: "string \<Rightarrow> int \<Rightarrow> string" where
  [py_eval]: "py_tail s n =
     (if n > 0 then drop (length s - nat n) s else drop (nat (- n)) s)"

lemma length_py_head_nonneg: "0 \<le> n \<Longrightarrow> length (py_head s n) = min (length s) (nat n)"
  by (auto simp: py_head_def)

lemma length_py_tail_pos: "0 < n \<Longrightarrow> length (py_tail s n) = min (length s) (nat n)"
  by (auto simp: py_tail_def)

section \<open>JSON values and dictionaries\<close>

text \<open>
  The values \<open>json.loads\<close> returns.  \<open>JInt\<close> and \<open>JFloat\<close> keep Python's \<open>int\<close> and \<open>float\<close> apart,
  because the code tests \<open>isinstance(x, int)\<close>.
\<close>

datatype json =
    JNull
  | JBool bool
  | JInt int
  | JFloat rat
  | JStr string
  | JArr "json list"
  | JObj "(string \<times> json) list"

type_synonym jdict = "(string \<times> json) list"

text \<open>\<open>d.get(k)\<close>: absent keys and \<open>null\<close> values are both Python's \<open>None\<close>.\<close>

definition jget :: "string \<Rightarrow> jdict \<Rightarrow> json" where
  "jget k d = (case map_of d k of None \<Rightarrow> JNull | Some v \<Rightarrow> v)"

definition has_key :: "string \<Rightarrow> jdict \<Rightarrow> bool" where
  "has_key k d \<longleftrightarrow> map_of d k \<noteq> None"

abbreviation jset :: "string \<Rightarrow> json \<Rightarrow> jdict \<Rightarrow> jdict" where
  "jset \<equiv> AList.update"

abbreviation jdel :: "string \<Rightarrow> jdict \<Rightarrow> jdict" where
  "jdel \<equiv> AList.delete"

lemma map_of_update [simp]: "map_of (AList.update k v d) k' = (if k' = k then Some v else map_of d k')"
  by (simp add: update_conv')

lemma map_of_delete [simp]: "map_of (AList.delete k d) k' = (if k' = k then None else map_of d k')"
  by (simp add: delete_conv')

lemma jget_jset [simp]: "jget k' (jset k v d) = (if k' = k then v else jget k' d)"
  by (simp add: jget_def)

lemma jget_jdel [simp]: "jget k' (jdel k d) = (if k' = k then JNull else jget k' d)"
  by (simp add: jget_def)

lemma has_key_jset [simp]: "has_key k' (jset k v d) \<longleftrightarrow> k' = k \<or> has_key k' d"
  by (simp add: has_key_def)

lemma has_key_jdel [simp]: "has_key k' (jdel k d) \<longleftrightarrow> k' \<noteq> k \<and> has_key k' d"
  by (simp add: has_key_def)

lemma jget_no_key: "\<not> has_key k d \<Longrightarrow> jget k d = JNull"
  by (simp add: jget_def has_key_def)

lemma jget_Nil [simp]: "jget k [] = JNull"
  by (simp add: jget_def)

lemma jget_Cons [simp]: "jget k ((k', v) # d) = (if k' = k then v else jget k d)"
  by (simp add: jget_def)

lemma has_key_Nil [simp]: "\<not> has_key k []"
  by (simp add: has_key_def)

lemma has_key_Cons [simp]: "has_key k ((k', v) # d) \<longleftrightarrow> k' = k \<or> has_key k d"
  by (simp add: has_key_def)

lemma map_of_filter_key:
  "map_of (filter (\<lambda>p. Q (fst p)) d) k = (if Q k then map_of d k else None)"
  by (induction d) auto

lemma jget_filter_key:
  "jget k (filter (\<lambda>p. Q (fst p)) d) = (if Q k then jget k d else JNull)"
  by (simp add: jget_def map_of_filter_key)

lemma has_key_filter_key:
  "has_key k (filter (\<lambda>p. Q (fst p)) d) \<longleftrightarrow> Q k \<and> has_key k d"
  by (simp add: has_key_def map_of_filter_key)

text \<open>Python truthiness.\<close>

fun truthy :: "json \<Rightarrow> bool" where
  "truthy JNull = False"
| "truthy (JBool b) = b"
| "truthy (JInt n) = (n \<noteq> 0)"
| "truthy (JFloat q) = (q \<noteq> 0)"
| "truthy (JStr s) = (s \<noteq> [])"
| "truthy (JArr xs) = (xs \<noteq> [])"
| "truthy (JObj d) = (d \<noteq> [])"

text \<open>\<open>isinstance(x, int)\<close>: booleans are integers.\<close>

fun as_int :: "json \<Rightarrow> int option" where
  "as_int (JInt n) = Some n"
| "as_int (JBool b) = Some (if b then 1 else 0)"
| "as_int _ = None"

fun as_str :: "json \<Rightarrow> string option" where
  "as_str (JStr s) = Some s"
| "as_str _ = None"

fun as_obj :: "json \<Rightarrow> jdict option" where
  "as_obj (JObj d) = Some d"
| "as_obj _ = None"

fun as_list :: "json \<Rightarrow> json list option" where
  "as_list (JArr xs) = Some xs"
| "as_list _ = None"

lemma as_str_eq_Some [simp]: "as_str j = Some s \<longleftrightarrow> j = JStr s"
  by (cases j) auto

lemma as_obj_eq_Some [simp]: "as_obj j = Some d \<longleftrightarrow> j = JObj d"
  by (cases j) auto

lemma as_list_eq_Some [simp]: "as_list j = Some xs \<longleftrightarrow> j = JArr xs"
  by (cases j) auto

text \<open>\<open>isinstance(x, dict) and x.get(k) == s\<close> for a string \<open>s\<close>.\<close>

text \<open>\<open>x.get(k)\<close> on a value already known to be a dictionary.\<close>

fun dict_of :: "json \<Rightarrow> jdict" where
  "dict_of (JObj d) = d"
| "dict_of _ = []"

definition obj_field_is :: "json \<Rightarrow> string \<Rightarrow> string \<Rightarrow> bool" where
  "obj_field_is j k s \<longleftrightarrow> (case j of JObj d \<Rightarrow> jget k d = JStr s | _ \<Rightarrow> False)"

lemma obj_field_is_JObj [simp]: "obj_field_is (JObj d) k s \<longleftrightarrow> jget k d = JStr s"
  by (simp add: obj_field_is_def)

lemma obj_field_isE:
  assumes "obj_field_is j k s"
  obtains d where "j = JObj d" "jget k d = JStr s"
  using assms by (cases j) (auto simp: obj_field_is_def)

section \<open>Numbers\<close>

text \<open>Python's \<open>round\<close> on a float: to the nearest integer, ties to the even one.\<close>

definition py_round :: "rat \<Rightarrow> int" where
  "py_round x =
     (let f = \<lfloor>x\<rfloor>; d = x - of_int f
      in if d < 1 / 2 then f else if 1 / 2 < d then f + 1 else if even f then f else f + 1)"

lemma py_round_of_int [simp]: "py_round (of_int n) = n"
  by (simp add: py_round_def)

lemma py_round_floor_or_ceiling: "py_round x = \<lfloor>x\<rfloor> \<or> (py_round x = \<lfloor>x\<rfloor> + 1 \<and> of_int \<lfloor>x\<rfloor> + 1 / 2 \<le> x)"
  by (auto simp: py_round_def Let_def)

lemma py_round_le: "x \<le> of_int n \<Longrightarrow> py_round x \<le> n"
proof -
  assume le: "x \<le> of_int n"
  consider "py_round x = \<lfloor>x\<rfloor>" | "py_round x = \<lfloor>x\<rfloor> + 1" "of_int \<lfloor>x\<rfloor> + 1 / 2 \<le> x"
    using py_round_floor_or_ceiling by blast
  then show "py_round x \<le> n"
  proof cases
    case 1
    with le show ?thesis by (simp add: floor_le_iff)
  next
    case 2
    with le have "(of_int \<lfloor>x\<rfloor> :: rat) < of_int n" by linarith
    with 2 show ?thesis by simp
  qed
qed

lemma py_round_ge: "of_int n \<le> x \<Longrightarrow> n \<le> py_round x"
proof -
  assume "of_int n \<le> x"
  then have "n \<le> \<lfloor>x\<rfloor>" by (simp add: le_floor_iff)
  then show "n \<le> py_round x" using py_round_floor_or_ceiling [of x] by linarith
qed

lemma py_round_mono:
  assumes "x \<le> y" shows "py_round x \<le> py_round y"
proof (cases "\<lfloor>x\<rfloor> = \<lfloor>y\<rfloor>")
  case True
  with assms show ?thesis by (auto simp: py_round_def Let_def)
next
  case False
  with assms have "\<lfloor>x\<rfloor> + 1 \<le> \<lfloor>y\<rfloor>"
    using floor_mono [OF assms] by linarith
  then show ?thesis
    using py_round_floor_or_ceiling [of x] py_round_floor_or_ceiling [of y] by auto
qed

lemma py_round_near: "of_int (py_round x) \<le> x + 1 / 2 \<and> x - 1 / 2 \<le> of_int (py_round x)"
proof -
  have f: "of_int \<lfloor>x\<rfloor> \<le> x" "x < of_int \<lfloor>x\<rfloor> + 1"
    using floor_correct [of x] by simp_all
  consider "py_round x = \<lfloor>x\<rfloor>" "\<not> 1 / 2 < x - of_int \<lfloor>x\<rfloor>"
    | "py_round x = \<lfloor>x\<rfloor> + 1" "\<not> x - of_int \<lfloor>x\<rfloor> < 1 / 2"
  proof (cases "x - of_int \<lfloor>x\<rfloor> < 1 / 2")
    case True
    with that(1) show thesis unfolding py_round_def Let_def if_P [OF True] by linarith
  next
    case below: False
    show thesis
    proof (cases "1 / 2 < x - of_int \<lfloor>x\<rfloor> \<or> odd \<lfloor>x\<rfloor>")
      case True
      with below that(2) show thesis unfolding py_round_def Let_def by metis
    next
      case False
      with below that(1) show thesis unfolding py_round_def Let_def by metis
    qed
  qed
  then show ?thesis
  proof cases
    case 1
    with f show ?thesis unfolding 1(1) by linarith
  next
    case 2
    with f show ?thesis unfolding 2(1) of_int_add of_int_1 by linarith
  qed
qed

text \<open>\<open>str(n)\<close>.\<close>

fun show_nat_aux :: "nat \<Rightarrow> nat \<Rightarrow> string" where
  "show_nat_aux 0 n = []"
| "show_nat_aux (Suc k) n =
     (if n < 10 then [] else show_nat_aux k (n div 10)) @ [char_of (48 + n mod 10)]"

definition show_int :: "int \<Rightarrow> string" where
  "show_int n = (if n < 0 then ''-'' else []) @ show_nat_aux (Suc (nat \<bar>n\<bar>)) (nat \<bar>n\<bar>)"

end
