(* ===== verification/Payload_Common.thy ===== *)
theory Payload_Common
  imports Py_Prelude
begin

text \<open>
  \<^verbatim>\<open>anthrouter/mapper/common.py\<close>: the client-facing error, the token estimate, and the two
  passes over a payload that drop blocks upstream would reject or that break prompt caching
  (\<open>strip_all_thinking_blocks\<close>, \<open>strip_volatile_system_blocks\<close>).

  A pass is a function into the new value and a flag; the flag is the identity test
  (\<open>result is not messages\<close>) or the second component the Python returns.  The locale
  \<open>strip_pass\<close> states what callers rely on and is interpreted on both passes.
\<close>

definition CLASSIFIER_SENTINEL_KEY :: string where
  "CLASSIFIER_SENTINEL_KEY = ''_anthproxy_internal_classifier''"

definition nl :: string where
  "nl = [CHR 0x0A]"

definition is_user_msg :: "json \<Rightarrow> bool" where
  "is_user_msg m \<longleftrightarrow> obj_field_is m ''role'' ''user''"

section \<open>Errors\<close>

text \<open>\<open>AnthropicRequestError\<close> with its attributes.\<close>

record api_error =
  err_message :: string
  err_type :: string
  status_code :: int
  err_retry_after :: "rat option"
  connection_error :: bool
  upstream_status :: "int option"
  upstream_error_type :: "string option"

definition request_error :: "string \<Rightarrow> string \<Rightarrow> int \<Rightarrow> api_error" where
  "request_error msg ty st =
     \<lparr>err_message = msg, err_type = ty, status_code = st, err_retry_after = None,
      connection_error = False, upstream_status = None, upstream_error_type = None\<rparr>"

text \<open>Any other Python exception keeps its class only.\<close>

datatype py_error = KeyError | TypeError | AttributeError | ValueError | OverflowError | OtherError

datatype exn = RequestError api_error | PyError py_error

definition anthropic_error_payload :: "string \<Rightarrow> string \<Rightarrow> json" where
  "anthropic_error_payload ty msg =
     JObj [(''type'', JStr ''error''),
           (''error'', JObj [(''type'', JStr ty), (''message'', JStr msg)])]"

section \<open>The contract of a stripping pass\<close>

locale strip_pass =
  fixes pass :: "'a \<Rightarrow> 'a \<times> bool"
  assumes unchanged: "\<not> snd (pass x) \<Longrightarrow> fst (pass x) = x"
    and settles: "snd (pass x) \<Longrightarrow> \<not> snd (pass (fst (pass x)))"
begin

lemma second_pass_inert: "pass (fst (pass x)) = (fst (pass x), False)"
proof (cases "snd (pass x)")
  case True
  then have "\<not> snd (pass (fst (pass x)))" by (rule settles)
  then show ?thesis using unchanged [of "fst (pass x)"] by (simp add: prod_eq_iff)
next
  case False
  with unchanged [OF False] show ?thesis by (simp add: prod_eq_iff)
qed

lemma idempotent: "fst (pass (fst (pass x))) = fst (pass x)"
  by (simp add: second_pass_inert)

lemma iterate: "((\<lambda>y. fst (pass y)) ^^ Suc n) x = fst (pass x)"
  by (induction n) (simp_all add: idempotent)

end

section \<open>Thinking blocks\<close>

definition is_thinking_block :: "json \<Rightarrow> bool" where
  "is_thinking_block b \<longleftrightarrow>
     obj_field_is b ''type'' ''thinking'' \<or> obj_field_is b ''type'' ''redacted_thinking''"

definition text_block :: "string \<Rightarrow> json" where
  "text_block t = JObj [(''type'', JStr ''text''), (''text'', JStr t)]"

text \<open>The string of a \<open>type: text\<close> block; None for any other value.\<close>

definition text_of :: "json \<Rightarrow> string option" where
  "text_of blk =
     (case blk of JObj d \<Rightarrow> if jget ''type'' d = JStr ''text'' then as_str (jget ''text'' d) else None
      | _ \<Rightarrow> None)"

lemma text_of_dict: "text_of blk = Some t \<Longrightarrow> blk = JObj (dict_of blk)"
  by (cases blk) (simp_all add: text_of_def)

lemma text_of_text_block [simp]: "text_of (text_block t) = Some t"
  by (simp add: text_of_def text_block_def)

definition strip_thinking_msg :: "json \<Rightarrow> json \<times> bool" where
  "strip_thinking_msg msg =
     (case msg of
        JObj m \<Rightarrow>
          if jget ''role'' m \<noteq> JStr ''assistant'' then (msg, False)
          else (case jget ''content'' m of
                  JArr content \<Rightarrow>
                    let filtered = filter (\<lambda>b. \<not> is_thinking_block b) content
                    in if length filtered = length content then (msg, False)
                       else (JObj (jset ''content''
                               (JArr (if filtered = [] then [text_block []] else filtered)) m), True)
                | _ \<Rightarrow> (msg, False))
      | _ \<Rightarrow> (msg, False))"

text \<open>The original list is returned when no message changed.\<close>

definition strip_all_thinking_blocks :: "json list \<Rightarrow> json list \<times> bool" where
  "strip_all_thinking_blocks messages =
     (let rs = map strip_thinking_msg messages
      in if \<exists>r \<in> set rs. snd r then (map fst rs, True) else (messages, False))"

text \<open>An assistant message that still holds a thinking block.\<close>

definition has_thinking :: "json \<Rightarrow> bool" where
  "has_thinking msg \<longleftrightarrow>
     obj_field_is msg ''role'' ''assistant'' \<and>
     (case msg of JObj m \<Rightarrow>
        (case jget ''content'' m of JArr bs \<Rightarrow> list_ex is_thinking_block bs | _ \<Rightarrow> False)
      | _ \<Rightarrow> False)"

lemma not_thinking_text_block [simp]: "\<not> is_thinking_block (text_block t)"
  by (simp add: is_thinking_block_def text_block_def)

lemma filter_length_eq_iff: "length (filter P xs) = length xs \<longleftrightarrow> (\<forall>x \<in> set xs. P x)"
proof
  assume "length (filter P xs) = length xs"
  then show "\<forall>x \<in> set xs. P x"
    using length_filter_less [of _ xs P] by (metis less_irrefl)
qed simp

lemma strip_thinking_msg_flag: "snd (strip_thinking_msg msg) \<longleftrightarrow> has_thinking msg"
  by (auto simp: strip_thinking_msg_def has_thinking_def list_ex_iff Let_def filter_length_eq_iff
      split: json.splits)

lemma strip_thinking_msg_unchanged: "\<not> snd (strip_thinking_msg msg) \<Longrightarrow> fst (strip_thinking_msg msg) = msg"
  by (auto simp: strip_thinking_msg_def Let_def split: json.splits if_splits)

lemma strip_thinking_msg_clean: "\<not> has_thinking (fst (strip_thinking_msg msg))"
proof (cases "has_thinking msg")
  case True
  then obtain m bs where m: "msg = JObj m" "jget ''role'' m = JStr ''assistant''"
      "jget ''content'' m = JArr bs" "list_ex is_thinking_block bs"
    by (auto simp: has_thinking_def split: json.splits elim!: obj_field_isE)
  then have "length (filter (\<lambda>b. \<not> is_thinking_block b) bs) \<noteq> length bs"
    by (simp add: filter_length_eq_iff list_ex_iff)
  with m show ?thesis
    by (auto simp: strip_thinking_msg_def has_thinking_def list_ex_iff Let_def)
next
  case False
  then show ?thesis
    using strip_thinking_msg_unchanged [of msg] by (simp add: strip_thinking_msg_flag)
qed

lemma strip_all_flag:
  "snd (strip_all_thinking_blocks ms) \<longleftrightarrow> (\<exists>m \<in> set ms. has_thinking m)"
  by (auto simp: strip_all_thinking_blocks_def Let_def strip_thinking_msg_flag)

lemma strip_all_result: "fst (strip_all_thinking_blocks ms) = map (\<lambda>m. fst (strip_thinking_msg m)) ms"
proof (cases "\<exists>m \<in> set ms. has_thinking m")
  case True
  then show ?thesis
    by (auto simp: strip_all_thinking_blocks_def Let_def strip_thinking_msg_flag)
next
  case False
  then have "map (\<lambda>m. fst (strip_thinking_msg m)) ms = ms"
    by (intro map_idI) (auto simp: strip_thinking_msg_unchanged strip_thinking_msg_flag)
  with False show ?thesis
    by (auto simp: strip_all_thinking_blocks_def Let_def strip_thinking_msg_flag)
qed

interpretation thinking_pass: strip_pass strip_all_thinking_blocks
proof
  fix ms :: "json list"
  assume "\<not> snd (strip_all_thinking_blocks ms)"
  then show "fst (strip_all_thinking_blocks ms) = ms"
    by (auto simp: strip_all_thinking_blocks_def Let_def split: if_splits)
next
  fix ms :: "json list"
  show "\<not> snd (strip_all_thinking_blocks (fst (strip_all_thinking_blocks ms)))"
    by (simp add: strip_all_flag strip_all_result strip_thinking_msg_clean)
qed

section \<open>Token estimate\<close>

text \<open>
  Sum of all string lengths in a value.  Dictionary keys do not count.
\<close>

function count_chars :: "json \<Rightarrow> nat" where
  "count_chars (JStr s) = length s"
| "count_chars (JArr xs) = sum_list (map count_chars xs)"
| "count_chars (JObj d) = sum_list (map (\<lambda>p. count_chars (snd p)) d)"
| "count_chars JNull = 0"
| "count_chars (JBool b) = 0"
| "count_chars (JInt n) = 0"
| "count_chars (JFloat q) = 0"
  by pat_completeness auto
termination
proof (relation "measure size", goal_cases)
  case (2 xs x)
  then show ?case by (simp add: size_list_estimation less_Suc_eq_le size_list_estimation')
next
  case (3 d p)
  have "size (snd p) \<le> size_prod (\<lambda>_. 0) size p" by (cases p) simp
  also have "size_prod (\<lambda>_. 0) size p \<le> size_list (size_prod (\<lambda>_. 0) size) d"
    using 3 by (intro size_list_estimation') auto
  finally show ?case by (simp add: less_Suc_eq_le)
qed simp

definition TOOL_USE_BASE_OVERHEAD :: int where "TOOL_USE_BASE_OVERHEAD = 500"
definition TOOL_FRAMING_OVERHEAD :: int where "TOOL_FRAMING_OVERHEAD = 60"

text \<open>
  Iterating a JSON value as a Python \<open>for\<close> loop does: the elements of an array, the keys of
  an object, the characters of a string, nothing for a falsy value, and \<open>TypeError\<close> (None)
  for any other scalar.
\<close>

fun py_iter :: "json \<Rightarrow> json list option" where
  "py_iter (JArr xs) = Some xs"
| "py_iter (JObj d) = Some (map (\<lambda>p. JStr (fst p)) d)"
| "py_iter (JStr s) = Some (map (\<lambda>c. JStr [c]) s)"
| "py_iter v = (if truthy v then None else Some [])"

text \<open>\<open>msg.get('content') or ''\<close> counted; None where \<open>msg\<close> is not a dictionary.\<close>

fun messages_chars :: "json list \<Rightarrow> nat option" where
  "messages_chars [] = Some 0"
| "messages_chars (JObj m # ms) =
     map_option (\<lambda>n. count_chars (jget ''content'' m) + n) (messages_chars ms)"
| "messages_chars (_ # ms) = None"

text \<open>None stands for the exception \<open>estimate_input_tokens\<close> raises on a malformed payload.\<close>

definition estimate_input_tokens :: "jdict \<Rightarrow> int option" where
  "estimate_input_tokens payload =
     (case py_iter (jget ''messages'' payload) of
        None \<Rightarrow> None
      | Some msgs \<Rightarrow>
          (case messages_chars msgs of
             None \<Rightarrow> None
           | Some msg_chars \<Rightarrow>
               (case py_iter (jget ''tools'' payload) of
                  None \<Rightarrow> None
                | Some tools \<Rightarrow>
                    let total = msg_chars + count_chars (jget ''system'' payload)
                                + sum_list (map count_chars tools);
                        tokens = int (total div 4) +
                          (if tools = [] then 0
                           else TOOL_USE_BASE_OVERHEAD + TOOL_FRAMING_OVERHEAD * int (length tools))
                    in Some (max 1 tokens))))"

lemma estimate_pos: "estimate_input_tokens p = Some n \<Longrightarrow> 1 \<le> n"
  by (auto simp: estimate_input_tokens_def Let_def split: option.splits)

section \<open>Volatile and identity system blocks\<close>

definition VOLATILE_SYSTEM_BLOCK_PREFIXES :: "string list" where
  "VOLATILE_SYSTEM_BLOCK_PREFIXES = [''x-anthropic-billing-header:'']"

definition IDENTITY_SYSTEM_BLOCK_PREFIXES :: "string list" where
  "IDENTITY_SYSTEM_BLOCK_PREFIXES =
     [''You are Claude Code, Anthropic'' @ [CHR 0x27] @ ''s official CLI for Claude'',
      ''You are a Claude agent, built on Anthropic'' @ [CHR 0x27] @ ''s Claude Agent SDK'']"

definition text_starts_with :: "json \<Rightarrow> string list \<Rightarrow> bool" where
  "text_starts_with block pfxs \<longleftrightarrow>
     (case block of
        JObj d \<Rightarrow>
          (case jget ''text'' d of
             JStr t \<Rightarrow> list_ex (\<lambda>p. startswith (py_lstrip t) p) pfxs
           | _ \<Rightarrow> False)
      | _ \<Rightarrow> False)"

definition is_volatile_system_block :: "json \<Rightarrow> bool" where
  "is_volatile_system_block block = text_starts_with block VOLATILE_SYSTEM_BLOCK_PREFIXES"

definition is_identity_system_block :: "json \<Rightarrow> bool" where
  "is_identity_system_block block = text_starts_with block IDENTITY_SYSTEM_BLOCK_PREFIXES"

definition strip_volatile_system_blocks :: "json \<Rightarrow> json \<times> bool" where
  "strip_volatile_system_blocks system =
     (case system of
        JArr blocks \<Rightarrow>
          if blocks = [] then (system, False)
          else let kept = filter (\<lambda>b. \<not> is_volatile_system_block b) blocks
               in if length kept = length blocks \<or> \<not> list_ex is_identity_system_block kept
                  then (system, False)
                  else (JArr kept, True)
      | _ \<Rightarrow> (system, False))"

interpretation volatile_pass: strip_pass strip_volatile_system_blocks
proof
  fix s :: json
  assume "\<not> snd (strip_volatile_system_blocks s)"
  then show "fst (strip_volatile_system_blocks s) = s"
    by (auto simp: strip_volatile_system_blocks_def Let_def split: json.splits if_splits)
next
  fix s :: json
  assume "snd (strip_volatile_system_blocks s)"
  then show "\<not> snd (strip_volatile_system_blocks (fst (strip_volatile_system_blocks s)))"
    by (auto simp: strip_volatile_system_blocks_def Let_def split: json.splits if_splits)
qed

text \<open>No block is both kinds: the two prefix lists differ in their first character.\<close>

lemma volatile_not_identity: "is_volatile_system_block b \<Longrightarrow> \<not> is_identity_system_block b"
  by (auto simp: is_volatile_system_block_def is_identity_system_block_def text_starts_with_def
      VOLATILE_SYSTEM_BLOCK_PREFIXES_def IDENTITY_SYSTEM_BLOCK_PREFIXES_def startswith_def
      prefix_def split: json.splits)

lemma strip_volatile_stripped:
  assumes "strip_volatile_system_blocks s = (s', True)"
  obtains blocks where "s = JArr blocks"
    "s' = JArr (filter (\<lambda>b. \<not> is_volatile_system_block b) blocks)"
    "list_ex is_identity_system_block (filter (\<lambda>b. \<not> is_volatile_system_block b) blocks)"
    "list_ex is_volatile_system_block blocks"
  using assms
  by (auto simp: strip_volatile_system_blocks_def Let_def list_ex_iff filter_length_eq_iff
      split: json.splits if_splits)

end
