(* ===== verification/Http_Util.thy ===== *)
theory Http_Util
  imports Payload_Common
begin

text \<open>
  \<^verbatim>\<open>anthrouter/http_util.py\<close>: retry policy, rate-limit headers, the mapping of an upstream
  error to the client's error, and the lines of a server-sent-event stream.

  A response is its status, its headers and its body bytes (one character per byte).  Number and
  date parsing, JSON parsing, \<open>str\<close> of a JSON value and UTF-8 decoding are the fields of
  \<open>http_env\<close>; \<open>he_date_delta\<close> is the parsed date minus the current time.
\<close>

record http_env =
  he_float :: "string \<Rightarrow> rat option"
  he_int :: "string \<Rightarrow> int option"
  he_date_delta :: "string \<Rightarrow> rat option"
  he_loads :: "string \<Rightarrow> json option"
  he_str :: "json \<Rightarrow> string"
  he_decode :: "string \<Rightarrow> string"

record http_response =
  resp_status :: int
  resp_headers :: "(string \<times> string) list"
  resp_body :: string

definition MAX_RETRIES :: nat where "MAX_RETRIES = 3"
definition RETRYABLE_STATUSES :: "int list" where "RETRYABLE_STATUSES = [429, 500, 502, 503, 504]"
definition RETRY_BASE_DELAY :: rat where "RETRY_BASE_DELAY = 1"
definition RETRY_MAX_DELAY :: rat where "RETRY_MAX_DELAY = 30"

text \<open>\<open>resp.getheader(name)\<close>: names ignore case, repeated headers are joined.\<close>

definition getheader :: "http_response \<Rightarrow> string \<Rightarrow> string option" where
  "getheader resp name =
     (case filter (\<lambda>h. py_lower (fst h) = py_lower name) (resp_headers resp) of
        [] \<Rightarrow> None
      | hs \<Rightarrow> Some (py_join '', '' (map snd hs)))"

definition header_or_empty :: "http_response \<Rightarrow> string \<Rightarrow> string" where
  "header_or_empty resp name = (case getheader resp name of None \<Rightarrow> [] | Some v \<Rightarrow> v)"

definition parse_retry_after :: "http_env \<Rightarrow> http_response \<Rightarrow> rat option" where
  "parse_retry_after he resp =
     (let ms = header_or_empty resp ''retry-after-ms''; ra = header_or_empty resp ''Retry-After''
      in case (if ms = [] then None else he_float he ms) of
           Some v \<Rightarrow> Some (max 0 (v / 1000))
         | None \<Rightarrow>
             if ra = [] then None
             else (case he_float he ra of
                     Some v \<Rightarrow> Some (max 0 v)
                   | None \<Rightarrow>
                       (case he_date_delta he ra of
                          Some delta \<Rightarrow> if delta > 0 then Some delta else None
                        | None \<Rightarrow> None)))"

definition RATELIMIT_HEADERS :: "(string \<times> string) list" where
  "RATELIMIT_HEADERS =
     [(''requests_remaining'', ''anthropic-ratelimit-requests-remaining''),
      (''tokens_remaining'', ''anthropic-ratelimit-tokens-remaining''),
      (''input_tokens_remaining'', ''anthropic-ratelimit-input-tokens-remaining''),
      (''output_tokens_remaining'', ''anthropic-ratelimit-output-tokens-remaining'')]"

definition RATELIMIT_RESET_HEADERS :: "string list" where
  "RATELIMIT_RESET_HEADERS =
     [''anthropic-ratelimit-tokens-reset'', ''anthropic-ratelimit-requests-reset'',
      ''anthropic-ratelimit-input-tokens-reset'']"

definition ratelimit_entry :: "http_env \<Rightarrow> http_response \<Rightarrow> string \<times> string \<Rightarrow> (string \<times> json) option" where
  "ratelimit_entry he resp kh =
     (case getheader resp (snd kh) of
        None \<Rightarrow> None
      | Some raw \<Rightarrow> map_option (\<lambda>n. (fst kh, JInt n)) (he_int he raw))"

definition parse_ratelimit_headers :: "http_env \<Rightarrow> http_response \<Rightarrow> jdict" where
  "parse_ratelimit_headers he resp =
     List.map_filter (ratelimit_entry he resp) RATELIMIT_HEADERS @
     (case find (\<lambda>v. v \<noteq> []) (map (header_or_empty resp) RATELIMIT_RESET_HEADERS) of
        None \<Rightarrow> []
      | Some raw \<Rightarrow> [(''reset_at'', JStr raw)])"

definition backoff :: "nat \<Rightarrow> rat" where
  "backoff attempt = min (RETRY_BASE_DELAY * 2 ^ attempt) RETRY_MAX_DELAY"

definition retry_delay :: "http_env \<Rightarrow> http_response \<Rightarrow> nat \<Rightarrow> rat" where
  "retry_delay he resp attempt =
     (case parse_retry_after he resp of Some d \<Rightarrow> d | None \<Rightarrow> backoff attempt)"

definition should_retry :: "http_env \<Rightarrow> int \<Rightarrow> http_response \<Rightarrow> bool" where
  "should_retry he status resp \<longleftrightarrow>
     status \<in> set RETRYABLE_STATUSES \<and> (status = 429 \<longrightarrow> parse_retry_after he resp \<noteq> None)"

lemma parse_retry_after_nonneg: "parse_retry_after he resp = Some d \<Longrightarrow> 0 \<le> d"
  by (auto simp: parse_retry_after_def Let_def split: option.splits if_splits)

lemma retry_delay_nonneg: "0 \<le> retry_delay he resp n"
  by (auto simp: retry_delay_def backoff_def RETRY_BASE_DELAY_def RETRY_MAX_DELAY_def
      dest: parse_retry_after_nonneg split: option.splits)

section \<open>Upstream errors\<close>

definition DEFAULT_4XX_TYPES :: "(int \<times> string) list" where
  "DEFAULT_4XX_TYPES =
     [(401, ''authentication_error''), (403, ''permission_error''), (404, ''not_found_error''),
      (413, ''request_too_large''), (429, ''rate_limit_error'')]"

definition EXPIRED_THREAD_PREFIX :: string where
  "EXPIRED_THREAD_PREFIX = ''No thread state was found''"

text \<open>The message, the type and whether the body was a JSON object.\<close>

definition error_detail :: "http_env \<Rightarrow> string \<Rightarrow> json \<times> json \<times> bool" where
  "error_detail he body =
     (case he_loads he body of
        Some (JObj detail) \<Rightarrow>
          let error = (case jget ''error'' detail of JObj e \<Rightarrow> e | _ \<Rightarrow> []);
              own = jget ''message'' error; outer = jget ''message'' detail
          in (if truthy own then own else if truthy outer then outer else JStr (he_str he (JObj detail)),
              jget ''type'' error, True)
      | _ \<Rightarrow> (JStr (py_head (he_decode he body) 500), JNull, False))"

definition type_or :: "http_env \<Rightarrow> json \<Rightarrow> string \<Rightarrow> string" where
  "type_or he ty fallback =
     (if truthy ty then (case ty of JStr t \<Rightarrow> t | v \<Rightarrow> he_str he v) else fallback)"

definition default_4xx_type :: "int \<Rightarrow> string" where
  "default_4xx_type status =
     (case map_of DEFAULT_4XX_TYPES status of Some t \<Rightarrow> t | None \<Rightarrow> ''invalid_request_error'')"

text \<open>
  The exception \<open>handle_error_response\<close> raises.  The log line slices the message, so a message
  that is neither a string nor a list raises there; a list message is shown by its \<open>str\<close>.
\<close>

definition handle_error_response :: "http_env \<Rightarrow> int \<Rightarrow> string \<Rightarrow> http_response \<Rightarrow> exn" where
  "handle_error_response he status body resp =
     (let retry_after = parse_retry_after he resp;
          (message, ty, is_json) = error_detail he body
      in case (case message of JStr m \<Rightarrow> Some (m, True) | JArr xs \<Rightarrow> Some (he_str he (JArr xs), False)
               | _ \<Rightarrow> None) of
           None \<Rightarrow> PyError TypeError
         | Some (m, is_text) \<Rightarrow>
             if 400 \<le> status \<and> status < 500
             then let err_ty = type_or he ty (default_4xx_type status) in
               if status = 404 \<and> is_json \<and> \<not> is_text then PyError AttributeError
               else if status = 404 \<and> is_json \<and> startswith m EXPIRED_THREAD_PREFIX
               then RequestError ((request_error m ''invalid_request_error'' 400)
                      \<lparr>err_retry_after := retry_after, upstream_status := Some status,
                       upstream_error_type := Some err_ty\<rparr>)
               else RequestError ((request_error m err_ty status)\<lparr>err_retry_after := retry_after\<rparr>)
             else RequestError
                    ((request_error (''Upstream error (HTTP '' @ show_int status @ ''): '' @ m)
                        ''api_error'' 502)\<lparr>err_retry_after := retry_after\<rparr>))"

section \<open>Event streams\<close>

text \<open>The lines of a stream read to its end, however it was chunked.\<close>

definition sse_lines :: "string \<Rightarrow> string list" where
  "sse_lines body =
     (let parts = split_char CHR 0x0A body
      in if last parts = [] then butlast parts else parts)"

text \<open>The events: runs of lines up to a blank one, and a final unterminated run.\<close>

fun sse_events :: "string \<Rightarrow> string list \<Rightarrow> string list" where
  "sse_events pending [] = (if py_strip pending \<noteq> [] then [pending @ nl] else [])"
| "sse_events pending (line # rest) =
     (let p = pending @ line @ nl in
      if py_strip line = [] then (if py_strip p \<noteq> [] then p # sse_events [] rest else sse_events [] rest)
      else sse_events p rest)"

definition ink :: "string \<Rightarrow> string" where
  "ink s = filter (\<lambda>c. \<not> py_isspace c) s"

lemma ink_simps [simp]: "ink [] = []" "ink (s @ t) = ink s @ ink t" "ink nl = []"
  by (simp_all add: ink_def nl_def py_isspace_def)

lemma ink_blank: "py_strip s = [] \<Longrightarrow> ink s = []"
  by (simp add: py_strip_eq_Nil_iff ink_def filter_empty_conv)

lemma sse_events_ink: "ink (concat (sse_events pending lines)) = ink pending @ ink (concat lines)"
  by (induction pending lines rule: sse_events.induct) (auto simp: Let_def ink_blank dest: ink_blank)

lemma ink_join: "ink (py_join nl parts) = ink (concat parts)"
  by (induction nl parts rule: py_join.induct) simp_all

lemma sse_lines_ink: "ink (concat (sse_lines body)) = ink body"
proof -
  let ?parts = "split_char CHR 0x0A body"
  have "ink (concat (sse_lines body)) = ink (concat ?parts)"
  proof (cases "last ?parts = []")
    case True
    have "?parts = butlast ?parts @ [last ?parts]" using split_char_ne by simp
    then have "concat ?parts = concat (butlast ?parts) @ last ?parts" by (metis concat_append concat.simps append_Nil2)
    with True show ?thesis by (simp add: sse_lines_def Let_def)
  next
    case False
    then show ?thesis by (simp add: sse_lines_def Let_def)
  qed
  also have "\<dots> = ink (py_join nl ?parts)" by (simp add: ink_join)
  also have "\<dots> = ink body" by (simp add: nl_def py_join_split_char)
  finally show ?thesis .
qed

end
