(* ===== verification/Model_Table.thy ===== *)
theory Model_Table
  imports Payload_Common
begin

text \<open>
  \<^verbatim>\<open>anthrouter/model_tier.py\<close>, \<^verbatim>\<open>anthrouter/model_config.py\<close> and the cost helpers of
  \<^verbatim>\<open>anthrouter/db.py\<close>: tier names and ranks, the alias table, resolution of a model name to the
  upstream ID, output ceilings and prices.
\<close>

section \<open>Tiers\<close>

definition TIER_RANK :: "(string \<times> int) list" where
  "TIER_RANK = [(''haiku'', 0), (''sonnet'', 1), (''opus'', 2), (''fable'', 3)]"

definition tier_search_order :: "string list" where
  "tier_search_order = [''fable'', ''opus'', ''sonnet'', ''haiku'']"

definition classify_tier_str :: "string \<Rightarrow> string" where
  "classify_tier_str s =
     (case find (\<lambda>tier. py_in tier (py_lower s)) tier_search_order of
        Some tier \<Rightarrow> tier
      | None \<Rightarrow> ''other'')"

definition classify_model_tier :: "json \<Rightarrow> string" where
  "classify_model_tier model = (case model of JStr s \<Rightarrow> classify_tier_str s | _ \<Rightarrow> ''other'')"

definition model_tier_rank :: "string \<Rightarrow> int option" where
  "model_tier_rank s = map_of TIER_RANK (classify_tier_str s)"

lemma classify_tier_str_range:
  "classify_tier_str s \<in> {''fable'', ''opus'', ''sonnet'', ''haiku'', ''other''}"
proof (cases "find (\<lambda>tier. py_in tier (py_lower s)) tier_search_order")
  case None
  then show ?thesis by (simp add: classify_tier_str_def)
next
  case (Some t)
  then have "t \<in> set tier_search_order" by (auto simp: find_Some_iff)
  with Some show ?thesis by (auto simp: classify_tier_str_def tier_search_order_def)
qed

lemma model_tier_rank_bounds: "model_tier_rank s = Some r \<Longrightarrow> 0 \<le> r \<and> r \<le> 3"
  using classify_tier_str_range [of s] by (auto simp: model_tier_rank_def TIER_RANK_def)

lemma model_tier_rank_None_iff: "model_tier_rank s = None \<longleftrightarrow> classify_tier_str s = ''other''"
  using classify_tier_str_range [of s] by (auto simp: model_tier_rank_def TIER_RANK_def)

lemma classify_tier_str_lower [simp]: "classify_tier_str (py_lower s) = classify_tier_str s"
  by (simp add: classify_tier_str_def)

section \<open>Aliases\<close>

type_synonym aliases = "(string \<times> string) list"

definition MODEL_ALIASES :: aliases where
  "MODEL_ALIASES =
     [(''fable'', ''claude-fable-5-1''), (''opus'', ''claude-opus-5-5''),
      (''sonnet'', ''claude-sonnet-5-5''), (''haiku'', ''claude-haiku-5-5'')]"

definition MODEL_OUTPUT_LIMITS :: "(string \<times> int) list" where
  "MODEL_OUTPUT_LIMITS =
     [(''claude-fable-5-1'', 32768), (''claude-opus-5-5'', 128000),
      (''claude-sonnet-5-5'', 128000), (''claude-sonnet-4-6'', 128000),
      (''claude-sonnet-4-5'', 128000), (''claude-haiku-4-5-20251001'', 64000),
      (''claude-haiku-5-5'', 128000)]"

definition CONTEXT_SUFFIXES :: "string list" where
  "CONTEXT_SUFFIXES = ['':1m'', ''[1m]'']"

text \<open>\<open>{**MODEL_ALIASES, **aliases}\<close> as a lookup: caller-supplied entries win.\<close>

definition effective_alias :: "aliases \<Rightarrow> string \<Rightarrow> string option" where
  "effective_alias al m =
     (case map_of al m of Some t \<Rightarrow> Some t | None \<Rightarrow> map_of MODEL_ALIASES m)"

fun resolve_suffixes :: "aliases \<Rightarrow> string \<Rightarrow> string list \<Rightarrow> string" where
  "resolve_suffixes al m [] = m"
| "resolve_suffixes al m (suf # sufs) =
     (if endswith m suf
      then (case effective_alias al (take (length m - length suf) m) of
              Some t \<Rightarrow> t
            | None \<Rightarrow> resolve_suffixes al m sufs)
      else resolve_suffixes al m sufs)"

definition resolve_str :: "aliases \<Rightarrow> string \<Rightarrow> string" where
  "resolve_str al m =
     (case effective_alias al m of
        Some t \<Rightarrow> t
      | None \<Rightarrow> resolve_suffixes al m CONTEXT_SUFFIXES)"

text \<open>
  \<open>resolve_model\<close> on the raw payload field: a falsy value is the 400 of the code, an unhashable
  one fails the dictionary test, and any other non-string has no \<open>endswith\<close>.
\<close>

definition resolve_model :: "aliases \<Rightarrow> json \<Rightarrow> exn + string" where
  "resolve_model al model =
     (if \<not> truthy model
      then Inl (RequestError (request_error ''model is required'' ''invalid_request_error'' 400))
      else (case model of
              JStr m \<Rightarrow> Inr (resolve_str al m)
            | JArr _ \<Rightarrow> Inl (PyError TypeError)
            | JObj _ \<Rightarrow> Inl (PyError TypeError)
            | _ \<Rightarrow> Inl (PyError AttributeError)))"

lemma resolve_model_str: "m \<noteq> [] \<Longrightarrow> resolve_model al (JStr m) = Inr (resolve_str al m)"
  by (simp add: resolve_model_def)

lemma resolve_suffixes_cases:
  "resolve_suffixes al m sufs = m \<or>
   (\<exists>b. effective_alias al b = Some (resolve_suffixes al m sufs) \<and> (\<exists>suf \<in> set sufs. m = b @ suf))"
proof (induction sufs)
  case Nil
  then show ?case by simp
next
  case (Cons suf sufs)
  show ?case
  proof (cases "endswith m suf \<and> effective_alias al (take (length m - length suf) m) \<noteq> None")
    case True
    then have "m = take (length m - length suf) m @ suf"
      by (auto simp: endswith_suffix suffix_def)
    with True show ?thesis
      by (auto intro!: exI [of _ "take (length m - length suf) m"])
  next
    case False
    then have "resolve_suffixes al m (suf # sufs) = resolve_suffixes al m sufs"
      by (auto split: option.splits)
    with Cons.IH show ?thesis by auto
  qed
qed

lemma resolve_str_cases:
  "resolve_str al m = m \<or>
   (\<exists>b. effective_alias al b = Some (resolve_str al m) \<and>
        (m = b \<or> (\<exists>suf \<in> set CONTEXT_SUFFIXES. m = b @ suf)))"
  using resolve_suffixes_cases [of al m CONTEXT_SUFFIXES]
  by (auto simp: resolve_str_def split: option.splits)

text \<open>
  Finite facts about the built-in table, by evaluation: its targets are fixed points of the
  built-in resolution and carry the tier of their alias, context suffix or not.
\<close>

lemma default_targets_fixed: "list_all (\<lambda>p. resolve_str [] (snd p) = snd p) MODEL_ALIASES"
  by code_simp

lemma default_targets_tier:
  "list_all (\<lambda>p. list_all (\<lambda>suf. classify_tier_str (fst p @ suf) = classify_tier_str (snd p))
     ([] # CONTEXT_SUFFIXES)) MODEL_ALIASES"
  by code_simp

lemma default_alias_in_table: "effective_alias [] b = Some t \<Longrightarrow> (b, t) \<in> set MODEL_ALIASES"
  by (auto simp: effective_alias_def dest: map_of_SomeD)

lemma default_target_fixed: "effective_alias [] b = Some t \<Longrightarrow> resolve_str [] t = t"
  using default_targets_fixed default_alias_in_table [of b t] by (fastforce simp: list_all_iff)

lemma default_alias_tier:
  assumes "effective_alias [] b = Some t" "suf \<in> insert [] (set CONTEXT_SUFFIXES)"
  shows "classify_tier_str (b @ suf) = classify_tier_str t"
  using default_targets_tier default_alias_in_table [OF assms(1)] assms(2)
  by (fastforce simp: list_all_iff)

section \<open>Prices\<close>

text \<open>Tier to (input, output, cache read, cache write) USD per million tokens.\<close>

definition MODEL_PRICING :: "(string \<times> rat \<times> rat \<times> rat \<times> rat) list" where
  "MODEL_PRICING =
     [(''fable'', 10, 30, 1, 125 / 10), (''opus'', 5, 25, 1 / 2, 625 / 100),
      (''sonnet'', 3, 15, 3 / 10, 375 / 100), (''haiku'', 1, 5, 1 / 10, 125 / 100)]"

text \<open>Usage counters of one response; an absent or null counter is 0 (\<open>.get(...) or 0\<close>).\<close>

record usage =
  u_input :: int
  u_output :: int
  u_cache_creation :: int
  u_cache_read :: int

definition price_of :: "string \<Rightarrow> (rat \<times> rat \<times> rat \<times> rat) option" where
  "price_of model = map_of MODEL_PRICING (classify_tier_str model)"

definition compute_cost :: "string \<Rightarrow> usage \<Rightarrow> rat option" where
  "compute_cost model u =
     (case price_of model of
        None \<Rightarrow> None
      | Some (in_p, out_p, cr_p, cw_p) \<Rightarrow>
          Some ((of_int (u_input u) * in_p + of_int (u_output u) * out_p
                 + of_int (u_cache_read u) * cr_p + of_int (u_cache_creation u) * cw_p) / 1000000))"

definition compute_cache_savings :: "string \<Rightarrow> int option \<Rightarrow> rat option" where
  "compute_cache_savings model cache_read =
     (case cache_read of
        None \<Rightarrow> None
      | Some n \<Rightarrow>
          if n = 0 then None
          else (case price_of model of
                  None \<Rightarrow> None
                | Some (in_p, out_p, cr_p, cw_p) \<Rightarrow>
                    let saved = of_int n * (in_p - cr_p) / 1000000
                    in if saved > 0 then Some saved else None))"

lemma price_of_None_iff: "price_of model = None \<longleftrightarrow> model_tier_rank model = None"
  using classify_tier_str_range [of model]
  by (auto simp: price_of_def MODEL_PRICING_def model_tier_rank_def TIER_RANK_def)

lemma price_of_nonneg:
  "price_of model = Some (a, b, c, d) \<Longrightarrow> 0 \<le> c \<and> c \<le> a \<and> a \<le> d \<and> d \<le> b"
  using classify_tier_str_range [of model] by (auto simp: price_of_def MODEL_PRICING_def)

end
