(* ===== verification/Transform.thy ===== *)
theory Transform
  imports Model_Table
begin

text \<open>
  \<^verbatim>\<open>anthrouter/mapper/anthropic_transform.py\<close>: the outbound Messages request.  Routing changes
  the model, so a payload valid for the client's tier can be rejected by the routed one; every
  gate of \<open>build_body\<close> is one definition here, applied in the code's order.  \<open>build_body\<close> returns
  the body dictionary that \<open>json.dumps\<close> serializes.

  The section after each group of gates proves what the gate removes and that it leaves every
  other field alone; \<open>build_body_accepted\<close> puts them together.
\<close>

section \<open>Model predicates\<close>

definition is_pre_5_5_haiku :: "string \<Rightarrow> bool" where
  "is_pre_5_5_haiku model_id \<longleftrightarrow>
     py_in ''haiku'' (py_lower model_id) \<and> \<not> py_in ''haiku-5-5'' (py_lower model_id)"

definition is_haiku_5_5 :: "string \<Rightarrow> bool" where
  "is_haiku_5_5 model_id \<longleftrightarrow> py_in ''haiku-5-5'' (py_lower model_id)"

definition supports_effort :: "string \<Rightarrow> bool" where
  "supports_effort model_id \<longleftrightarrow> \<not> is_pre_5_5_haiku model_id"

definition PER_MESSAGE_EFFORT_BETA_PREFIX :: string where
  "PER_MESSAGE_EFFORT_BETA_PREFIX = ''mid-conversation-output-config''"

definition is_fable :: "string \<Rightarrow> bool" where
  "is_fable model_id \<longleftrightarrow> py_in ''fable'' (py_lower model_id)"

text \<open>\<open>any(beta.startswith(...))\<close> stops at the first match; a non-string before it raises.\<close>

fun any_beta_startswith :: "string \<Rightarrow> json list \<Rightarrow> exn + bool" where
  "any_beta_startswith p [] = Inr False"
| "any_beta_startswith p (JStr b # bs) =
     (if startswith b p then Inr True else any_beta_startswith p bs)"
| "any_beta_startswith p (_ # bs) = Inl (PyError AttributeError)"

definition supports_per_message_effort :: "string \<Rightarrow> json \<Rightarrow> exn + bool" where
  "supports_per_message_effort model_id betas =
     (if \<not> is_fable model_id then Inr True
      else case py_iter betas of
             None \<Rightarrow> Inl (PyError TypeError)
           | Some items \<Rightarrow> any_beta_startswith PER_MESSAGE_EFFORT_BETA_PREFIX items)"

definition supports_adaptive_thinking :: "string \<Rightarrow> bool" where
  "supports_adaptive_thinking model_id \<longleftrightarrow> \<not> is_pre_5_5_haiku model_id"

definition supports_disabled_thinking :: "string \<Rightarrow> bool" where
  "supports_disabled_thinking model_id \<longleftrightarrow> \<not> is_fable model_id"

definition requires_between_tools :: "string \<Rightarrow> bool" where
  "requires_between_tools model_id \<longleftrightarrow> py_in ''sonnet-5-5'' (py_lower model_id)"

definition BETWEEN_TOOLS_REJECTING_EFFORTS :: "json list" where
  "BETWEEN_TOOLS_REJECTING_EFFORTS = [JStr ''xhigh'', JStr ''max'']"

definition rejects_disabled_thinking_at_high_effort :: "string \<Rightarrow> bool" where
  "rejects_disabled_thinking_at_high_effort model_id \<longleftrightarrow> py_in ''haiku-5-5'' (py_lower model_id)"

definition SAMPLING_CONTROL_KEYS :: "string list" where
  "SAMPLING_CONTROL_KEYS = [''temperature'', ''top_p'', ''top_k'']"

definition FIXED_SAMPLING_FAMILIES :: "string list" where
  "FIXED_SAMPLING_FAMILIES =
     [''opus-4-7'', ''opus-4-8'', ''opus-5'', ''sonnet-4-6'', ''haiku-5-5'', ''fable'']"

definition supports_sampling_controls :: "string \<Rightarrow> bool" where
  "supports_sampling_controls model_id \<longleftrightarrow>
     \<not> list_ex (\<lambda>family. py_in family (py_lower model_id)) FIXED_SAMPLING_FAMILIES"

definition SYSTEM_ROLE_REJECTING_FAMILIES :: "string list" where
  "SYSTEM_ROLE_REJECTING_FAMILIES =
     [''sonnet-4-6'', ''claude-4-5-sonnet'', ''claude-sonnet-4-6'',
      ''claude-haiku-4-5-20251001'', ''haiku-4-5'']"

definition rejects_system_role_in_messages :: "string \<Rightarrow> bool" where
  "rejects_system_role_in_messages model_id \<longleftrightarrow>
     list_ex (\<lambda>family. py_in family (py_lower model_id)) SYSTEM_ROLE_REJECTING_FAMILIES"

definition LONG_CONTEXT_BETA_PREFIX :: string where
  "LONG_CONTEXT_BETA_PREFIX = ''context-1m''"

definition FALLBACK_BETA_PREFIX :: string where
  "FALLBACK_BETA_PREFIX = ''server-side-fallback''"

definition supports_long_context :: "string \<Rightarrow> bool" where
  "supports_long_context model_id \<longleftrightarrow> py_in ''opus'' (py_lower model_id)"

definition THINKING_REQUIRED_BETAS :: "string list" where
  "THINKING_REQUIRED_BETAS = [''clear_thinking_20251015'']"

definition THINKING_REQUIRED_EDIT_PREFIX :: string where
  "THINKING_REQUIRED_EDIT_PREFIX = ''clear_thinking''"

definition thinking_is :: "jdict \<Rightarrow> string \<Rightarrow> bool" where
  "thinking_is body t \<longleftrightarrow> obj_field_is (jget ''thinking'' body) ''type'' t"

definition thinking_active :: "jdict \<Rightarrow> string \<Rightarrow> bool" where
  "thinking_active payload resolved_model \<longleftrightarrow>
     thinking_is payload ''enabled'' \<or>
     thinking_is payload ''adaptive'' \<and> supports_adaptive_thinking resolved_model"

section \<open>Betas\<close>

text \<open>One client beta: kept (\<open>Some\<close>), dropped (\<open>None\<close>), or the exception a non-string raises.\<close>

definition beta_allowed :: "bool \<Rightarrow> bool \<Rightarrow> string \<Rightarrow> bool" where
  "beta_allowed active long_context_ok beta \<longleftrightarrow>
     \<not> (\<not> active \<and> beta \<in> set THINKING_REQUIRED_BETAS) \<and>
     \<not> (\<not> long_context_ok \<and> startswith beta LONG_CONTEXT_BETA_PREFIX) \<and>
     \<not> startswith beta FALLBACK_BETA_PREFIX"

fun merge_loop :: "bool \<Rightarrow> bool \<Rightarrow> string list \<Rightarrow> json list \<Rightarrow> exn + string list" where
  "merge_loop active ok betas [] = Inr betas"
| "merge_loop active ok betas (JStr beta # rest) =
     merge_loop active ok
       (if beta_allowed active ok beta \<and> beta \<notin> set betas then betas @ [beta] else betas) rest"
| "merge_loop active ok betas (JArr _ # rest) =
     Inl (PyError (if active then AttributeError else TypeError))"
| "merge_loop active ok betas (JObj _ # rest) =
     Inl (PyError (if active then AttributeError else TypeError))"
| "merge_loop active ok betas (_ # rest) = Inl (PyError AttributeError)"

definition merged_betas :: "aliases \<Rightarrow> jdict \<Rightarrow> exn + string list" where
  "merged_betas al payload =
     (let raw_model = jget ''model'' payload;
          resolved = (if truthy raw_model then resolve_model al raw_model else Inr [])
      in case resolved of
           Inl e \<Rightarrow> Inl e
         | Inr resolved_model \<Rightarrow>
             (case py_iter (jget ''_anthropic_beta'' payload) of
                None \<Rightarrow> Inl (PyError TypeError)
              | Some items \<Rightarrow>
                  merge_loop (thinking_active payload resolved_model)
                    (supports_long_context resolved_model) [] items))"

definition merge_betas :: "aliases \<Rightarrow> jdict \<Rightarrow> exn + string" where
  "merge_betas al payload = map_sum id (py_join '','') (merged_betas al payload)"

section \<open>Field gates\<close>

definition drop_internal_keys :: "jdict \<Rightarrow> jdict" where
  "drop_internal_keys payload =
     filter (\<lambda>p. fst p \<notin> {''_anthropic_beta'', CLASSIFIER_SENTINEL_KEY}) payload"

definition clamp_max_tokens :: "string \<Rightarrow> jdict \<Rightarrow> jdict" where
  "clamp_max_tokens model body =
     (case map_of MODEL_OUTPUT_LIMITS model of
        None \<Rightarrow> body
      | Some cap \<Rightarrow>
          (case as_int (jget ''max_tokens'' body) of
             None \<Rightarrow> body
           | Some n \<Rightarrow> if n > cap then jset ''max_tokens'' (JInt cap) body else body))"

definition drop_effort :: "jdict \<Rightarrow> jdict" where
  "drop_effort body =
     (case jget ''output_config'' body of
        JObj oc \<Rightarrow>
          if has_key ''effort'' oc
          then let oc' = filter (\<lambda>p. fst p \<noteq> ''effort'') oc
               in if oc' \<noteq> [] then jset ''output_config'' (JObj oc') body
                  else jdel ''output_config'' body
          else body
      | _ \<Rightarrow> body)"

definition effort_gate :: "string \<Rightarrow> jdict \<Rightarrow> jdict" where
  "effort_gate model body = (if supports_effort model then body else drop_effort body)"

definition classifier_low_effort :: "jdict \<Rightarrow> string \<Rightarrow> jdict \<Rightarrow> jdict" where
  "classifier_low_effort payload model body =
     (if truthy (jget CLASSIFIER_SENTINEL_KEY payload) \<and> is_haiku_5_5 model
      then let oc = (case jget ''output_config'' body of JObj d \<Rightarrow> d | _ \<Rightarrow> [])
           in jset ''output_config'' (JObj (jset ''effort'' (JStr ''low'') oc)) body
      else body)"

definition CLASSIFIER_IDENTITY_BLOCK :: json where
  "CLASSIFIER_IDENTITY_BLOCK =
     text_block (''You are Claude Code, Anthropic'' @ [CHR 0x27] @ ''s official CLI for Claude.'')"

definition classifier_identity :: "jdict \<Rightarrow> jdict \<Rightarrow> jdict" where
  "classifier_identity payload body =
     (if truthy (jget CLASSIFIER_SENTINEL_KEY payload)
      then (case jget ''system'' body of
              JStr s \<Rightarrow> jset ''system''
                (JArr (CLASSIFIER_IDENTITY_BLOCK # (if s = [] then [] else [text_block s]))) body
            | JNull \<Rightarrow> jset ''system'' (JArr [CLASSIFIER_IDENTITY_BLOCK]) body
            | JArr bs \<Rightarrow> jset ''system'' (JArr (CLASSIFIER_IDENTITY_BLOCK # bs)) body
            | _ \<Rightarrow> body)
      else body)"

text \<open>One entry of \<open>messages\<close>: the flag says the entry lost its \<open>output_config.effort\<close>.\<close>

definition drop_message_effort :: "json \<Rightarrow> json \<times> bool" where
  "drop_message_effort entry =
     (case entry of
        JObj m \<Rightarrow>
          (case jget ''output_config'' m of
             JObj oc \<Rightarrow>
               if has_key ''effort'' oc
               then let oc' = filter (\<lambda>p. fst p \<noteq> ''effort'') oc;
                        m' = filter (\<lambda>p. fst p \<noteq> ''output_config'') m
                    in (JObj (if oc' \<noteq> [] then jset ''output_config'' (JObj oc') m' else m'), True)
               else (entry, False)
           | _ \<Rightarrow> (entry, False))
      | _ \<Rightarrow> (entry, False))"

definition strip_per_message_effort :: "jdict \<Rightarrow> jdict" where
  "strip_per_message_effort body =
     (case jget ''messages'' body of
        JArr ms \<Rightarrow>
          let rs = map drop_message_effort ms
          in if \<exists>r \<in> set rs. snd r then jset ''messages'' (JArr (map fst rs)) body else body
      | _ \<Rightarrow> body)"

definition per_message_gate :: "jdict \<Rightarrow> string \<Rightarrow> jdict \<Rightarrow> exn + jdict" where
  "per_message_gate payload model body =
     (case supports_per_message_effort model (jget ''_anthropic_beta'' payload) of
        Inl e \<Rightarrow> Inl e
      | Inr ok \<Rightarrow> Inr (if ok then body else strip_per_message_effort body))"

definition adaptive_gate :: "string \<Rightarrow> jdict \<Rightarrow> jdict" where
  "adaptive_gate model body =
     (if \<not> supports_adaptive_thinking model \<and> thinking_is body ''adaptive''
      then jdel ''thinking'' body else body)"

definition disabled_gate :: "string \<Rightarrow> jdict \<Rightarrow> jdict" where
  "disabled_gate model body =
     (if \<not> supports_disabled_thinking model \<and> thinking_is body ''disabled''
      then jdel ''thinking'' body else body)"

definition body_effort :: "jdict \<Rightarrow> json" where
  "body_effort body = (case jget ''output_config'' body of JObj oc \<Rightarrow> jget ''effort'' oc | _ \<Rightarrow> JNull)"

text \<open>\<open>effort in frozenset\<close>: an unhashable effort raises.\<close>

definition effort_rejecting :: "jdict \<Rightarrow> exn + bool" where
  "effort_rejecting body =
     (case body_effort body of
        JArr _ \<Rightarrow> Inl (PyError TypeError)
      | JObj _ \<Rightarrow> Inl (PyError TypeError)
      | e \<Rightarrow> Inr (e \<in> set BETWEEN_TOOLS_REJECTING_EFFORTS))"

definition between_tools_gate :: "string \<Rightarrow> jdict \<Rightarrow> exn + jdict" where
  "between_tools_gate model body =
     (if requires_between_tools model \<and> thinking_is body ''disabled''
      then case effort_rejecting body of
             Inl e \<Rightarrow> Inl e
           | Inr True \<Rightarrow> Inr (jdel ''thinking'' body)
           | Inr False \<Rightarrow>
               Inr (jset ''thinking'' (JObj [(''type'', JStr ''between_tools'')]) body)
      else Inr body)"

definition high_effort_gate :: "string \<Rightarrow> jdict \<Rightarrow> exn + jdict" where
  "high_effort_gate model body =
     (if rejects_disabled_thinking_at_high_effort model \<and> thinking_is body ''disabled''
      then case effort_rejecting body of
             Inl e \<Rightarrow> Inl e
           | Inr True \<Rightarrow> Inr (jdel ''thinking'' body)
           | Inr False \<Rightarrow> Inr body
      else Inr body)"

definition is_thinking_edit :: "json \<Rightarrow> bool" where
  "is_thinking_edit e \<longleftrightarrow>
     (case e of
        JObj d \<Rightarrow> (case jget ''type'' d of JStr t \<Rightarrow> startswith t THINKING_REQUIRED_EDIT_PREFIX | _ \<Rightarrow> False)
      | _ \<Rightarrow> False)"

definition strip_thinking_edits :: "jdict \<Rightarrow> jdict" where
  "strip_thinking_edits body =
     (case jget ''context_management'' body of
        JObj cm \<Rightarrow>
          (case jget ''edits'' cm of
             JArr edits \<Rightarrow>
               let kept = filter (\<lambda>e. \<not> is_thinking_edit e) edits
               in if length kept = length edits then body
                  else let siblings = filter (\<lambda>p. fst p \<noteq> ''edits'') cm
                       in if kept \<noteq> []
                          then jset ''context_management'' (JObj (jset ''edits'' (JArr kept) siblings)) body
                          else if siblings \<noteq> [] then jset ''context_management'' (JObj siblings) body
                          else jdel ''context_management'' body
           | _ \<Rightarrow> body)
      | _ \<Rightarrow> body)"

definition edits_gate :: "jdict \<Rightarrow> string \<Rightarrow> jdict \<Rightarrow> jdict" where
  "edits_gate payload model body =
     (if thinking_active payload model then body else strip_thinking_edits body)"

definition sampling_gate :: "string \<Rightarrow> jdict \<Rightarrow> jdict" where
  "sampling_gate model body =
     (if supports_sampling_controls model then body
      else filter (\<lambda>p. fst p \<notin> set SAMPLING_CONTROL_KEYS) body)"

section \<open>Inline system turns\<close>

definition text_parts :: "json list \<Rightarrow> string list" where
  "text_parts blks = List.map_filter text_of blks"

definition stringify_content :: "json \<Rightarrow> string" where
  "stringify_content content =
     (case content of JStr s \<Rightarrow> s | JArr blks \<Rightarrow> py_join nl (text_parts blks) | _ \<Rightarrow> [])"

fun last_cache_control :: "json \<Rightarrow> json list \<Rightarrow> json" where
  "last_cache_control found [] = found"
| "last_cache_control found (blk # blks) =
     last_cache_control
       (case blk of
          JObj d \<Rightarrow> if jget ''type'' d = JStr ''text'' \<and> has_key ''cache_control'' d
                     then jget ''cache_control'' d else found
        | _ \<Rightarrow> found) blks"

definition system_message_cache_control :: "jdict \<Rightarrow> json" where
  "system_message_cache_control msg =
     (case jget ''content'' msg of
        JArr blks \<Rightarrow> last_cache_control (jget ''cache_control'' msg) blks
      | _ \<Rightarrow> jget ''cache_control'' msg)"

definition has_tool_use :: "jdict \<Rightarrow> bool" where
  "has_tool_use msg \<longleftrightarrow>
     (case jget ''content'' msg of
        JArr blks \<Rightarrow> list_ex (\<lambda>b. obj_field_is b ''type'' ''tool_use'') blks
      | _ \<Rightarrow> False)"

definition is_system_msg :: "json \<Rightarrow> bool" where
  "is_system_msg m \<longleftrightarrow> obj_field_is m ''role'' ''system''"

definition reminder_block :: "string \<Rightarrow> json \<Rightarrow> json" where
  "reminder_block t cc =
     JObj ([(''type'', JStr ''text''),
            (''text'', JStr (''<system-reminder>'' @ nl @ t @ nl @ ''</system-reminder>''))]
           @ (if cc = JNull then [] else [(''cache_control'', cc)]))"

definition user_blocks :: "json \<Rightarrow> json list" where
  "user_blocks content =
     (case content of
        JStr s \<Rightarrow> if s = [] then [] else [text_block s]
      | JArr bs \<Rightarrow> bs
      | _ \<Rightarrow> [])"

definition standalone_user :: "json \<Rightarrow> json" where
  "standalone_user block = JObj [(''role'', JStr ''user''), (''content'', JArr [block])]"

text \<open>Where one reminder block goes, given the messages emitted so far.\<close>

definition place_reminder :: "json list \<Rightarrow> json \<Rightarrow> json list" where
  "place_reminder out block =
     (case (if out = [] then JNull else last out) of
        JObj prev \<Rightarrow>
          if jget ''role'' prev = JStr ''user''
          then butlast out @
               [JObj (jset ''content'' (JArr (user_blocks (jget ''content'' prev) @ [block])) prev)]
          else if jget ''role'' prev = JStr ''assistant'' \<and> has_tool_use prev then out
          else out @ [standalone_user block]
      | _ \<Rightarrow> out @ [standalone_user block])"

definition rewrite_step :: "json list \<Rightarrow> json \<Rightarrow> json list" where
  "rewrite_step out m =
     (if \<not> is_system_msg m then out @ [m]
      else case m of
             JObj msg \<Rightarrow>
               let t = stringify_content (jget ''content'' msg)
               in if t = [] then out
                  else place_reminder out (reminder_block t (system_message_cache_control msg))
           | _ \<Rightarrow> out @ [m])"

definition rewrite_inline_system :: "json list \<Rightarrow> json list" where
  "rewrite_inline_system messages =
     (if list_ex is_system_msg messages then foldl rewrite_step [] messages else messages)"

definition rewrite_gate :: "bool \<Rightarrow> string \<Rightarrow> jdict \<Rightarrow> jdict" where
  "rewrite_gate force model body =
     (case jget ''messages'' body of
        JArr ms \<Rightarrow>
          if force \<or> rejects_system_role_in_messages model
          then jset ''messages'' (JArr (rewrite_inline_system ms)) body else body
      | _ \<Rightarrow> body)"

section \<open>The outbound body\<close>

definition build_body :: "aliases \<Rightarrow> jdict \<Rightarrow> bool \<Rightarrow> exn + jdict" where
  "build_body al payload force =
     (case resolve_model al (jget ''model'' payload) of
        Inl e \<Rightarrow> Inl e
      | Inr model \<Rightarrow>
          let b0 = jset ''model'' (JStr model) (drop_internal_keys payload);
              b1 = jdel ''fallbacks'' b0;
              b2 = clamp_max_tokens model b1;
              b3 = effort_gate model b2;
              b4 = classifier_low_effort payload model b3;
              b5 = classifier_identity payload b4
          in case per_message_gate payload model b5 of
               Inl e \<Rightarrow> Inl e
             | Inr b6 \<Rightarrow>
                 (case between_tools_gate model (disabled_gate model (adaptive_gate model b6)) of
                    Inl e \<Rightarrow> Inl e
                  | Inr b7 \<Rightarrow>
                      (case high_effort_gate model b7 of
                         Inl e \<Rightarrow> Inl e
                       | Inr b8 \<Rightarrow>
                           Inr (rewrite_gate force model
                                  (sampling_gate model (edits_gate payload model b8))))))"

section \<open>What each gate touches\<close>

text \<open>One frame lemma per gate: a field the gate is not about crosses unchanged.\<close>

lemma clamp_frame [gate_simps]:
  "k \<noteq> ''max_tokens'' \<Longrightarrow> map_of (clamp_max_tokens model body) k = map_of body k"
  by (simp add: clamp_max_tokens_def split: option.splits)

lemma drop_effort_frame:
  "k \<noteq> ''output_config'' \<Longrightarrow> map_of (drop_effort body) k = map_of body k"
  by (simp add: drop_effort_def Let_def split: json.splits)

lemma effort_gate_frame [gate_simps]:
  "k \<noteq> ''output_config'' \<Longrightarrow> map_of (effort_gate model body) k = map_of body k"
  by (simp add: effort_gate_def drop_effort_frame)

lemma low_effort_frame [gate_simps]:
  "k \<noteq> ''output_config'' \<Longrightarrow> map_of (classifier_low_effort payload model body) k = map_of body k"
  by (simp add: classifier_low_effort_def Let_def)

lemma identity_frame [gate_simps]:
  "k \<noteq> ''system'' \<Longrightarrow> map_of (classifier_identity payload body) k = map_of body k"
  by (simp add: classifier_identity_def split: json.splits)

lemma strip_per_message_frame:
  "k \<noteq> ''messages'' \<Longrightarrow> map_of (strip_per_message_effort body) k = map_of body k"
  by (simp add: strip_per_message_effort_def Let_def split: json.splits)

lemma per_message_frame:
  "per_message_gate payload model body = Inr body' \<Longrightarrow> k \<noteq> ''messages'' \<Longrightarrow>
   map_of body' k = map_of body k"
  by (auto simp: per_message_gate_def strip_per_message_frame split: sum.splits if_splits)

lemma adaptive_frame [gate_simps]:
  "k \<noteq> ''thinking'' \<Longrightarrow> map_of (adaptive_gate model body) k = map_of body k"
  by (simp add: adaptive_gate_def)

lemma disabled_frame [gate_simps]:
  "k \<noteq> ''thinking'' \<Longrightarrow> map_of (disabled_gate model body) k = map_of body k"
  by (simp add: disabled_gate_def)

lemma between_tools_frame:
  "between_tools_gate model body = Inr body' \<Longrightarrow> k \<noteq> ''thinking'' \<Longrightarrow>
   map_of body' k = map_of body k"
  by (auto simp: between_tools_gate_def split: sum.splits if_splits bool.splits)

lemma high_effort_frame:
  "high_effort_gate model body = Inr body' \<Longrightarrow> k \<noteq> ''thinking'' \<Longrightarrow>
   map_of body' k = map_of body k"
  by (auto simp: high_effort_gate_def split: sum.splits if_splits bool.splits)

lemma edits_frame [gate_simps]:
  "k \<noteq> ''context_management'' \<Longrightarrow> map_of (edits_gate payload model body) k = map_of body k"
  by (simp add: edits_gate_def strip_thinking_edits_def Let_def split: json.splits)

lemma sampling_map_of [gate_simps]:
  "map_of (sampling_gate model body) k =
     (if \<not> supports_sampling_controls model \<and> k \<in> set SAMPLING_CONTROL_KEYS then None
      else map_of body k)"
  by (simp add: sampling_gate_def map_of_filter_key [of "\<lambda>k. k \<notin> set SAMPLING_CONTROL_KEYS"])

lemma rewrite_frame [gate_simps]:
  "k \<noteq> ''messages'' \<Longrightarrow> map_of (rewrite_gate force model body) k = map_of body k"
  by (simp add: rewrite_gate_def split: json.splits)

lemma drop_internal_map_of [gate_simps]:
  "map_of (drop_internal_keys payload) k =
     (if k \<in> {''_anthropic_beta'', CLASSIFIER_SENTINEL_KEY} then None else map_of payload k)"
  unfolding drop_internal_keys_def
  using map_of_filter_key [of "\<lambda>k. k \<notin> {''_anthropic_beta'', CLASSIFIER_SENTINEL_KEY}" payload k]
  by (simp only: not_not if_not_P if_P split: if_splits) auto

text \<open>The stages of a successful \<open>build_body\<close>.\<close>

lemma build_body_stages:
  assumes "build_body al payload force = Inr body"
  obtains model b5 b6 b7 b8 where
    "resolve_model al (jget ''model'' payload) = Inr model"
    "b5 = classifier_identity payload (classifier_low_effort payload model (effort_gate model
            (clamp_max_tokens model
              (jdel ''fallbacks'' (jset ''model'' (JStr model) (drop_internal_keys payload))))))"
    "per_message_gate payload model b5 = Inr b6"
    "between_tools_gate model (disabled_gate model (adaptive_gate model b6)) = Inr b7"
    "high_effort_gate model b7 = Inr b8"
    "body = rewrite_gate force model (sampling_gate model (edits_gate payload model b8))"
  using assms
  by (auto simp: build_body_def Let_def split: sum.splits)

text \<open>The fields some gate may change.\<close>

definition GATED_KEYS :: "string list" where
  "GATED_KEYS = [''model'', ''fallbacks'', ''max_tokens'', ''output_config'', ''system'', ''messages'',
     ''thinking'', ''context_management'', ''_anthropic_beta'', CLASSIFIER_SENTINEL_KEY]
     @ SAMPLING_CONTROL_KEYS"

lemma sentinel_key_distinct [simp]:
  "CLASSIFIER_SENTINEL_KEY \<noteq> ''model''" "CLASSIFIER_SENTINEL_KEY \<noteq> ''fallbacks''"
  "CLASSIFIER_SENTINEL_KEY \<noteq> ''max_tokens''" "CLASSIFIER_SENTINEL_KEY \<noteq> ''output_config''"
  "CLASSIFIER_SENTINEL_KEY \<noteq> ''system''" "CLASSIFIER_SENTINEL_KEY \<noteq> ''messages''"
  "CLASSIFIER_SENTINEL_KEY \<noteq> ''thinking''" "CLASSIFIER_SENTINEL_KEY \<noteq> ''context_management''"
  "CLASSIFIER_SENTINEL_KEY \<noteq> ''tools''"
  by (simp_all add: CLASSIFIER_SENTINEL_KEY_def)

lemma sampling_keys_distinct [simp]:
  "''model'' \<notin> set SAMPLING_CONTROL_KEYS" "''fallbacks'' \<notin> set SAMPLING_CONTROL_KEYS"
  "''max_tokens'' \<notin> set SAMPLING_CONTROL_KEYS" "''output_config'' \<notin> set SAMPLING_CONTROL_KEYS"
  "''system'' \<notin> set SAMPLING_CONTROL_KEYS" "''messages'' \<notin> set SAMPLING_CONTROL_KEYS"
  "''thinking'' \<notin> set SAMPLING_CONTROL_KEYS" "''context_management'' \<notin> set SAMPLING_CONTROL_KEYS"
  "''_anthropic_beta'' \<notin> set SAMPLING_CONTROL_KEYS" "CLASSIFIER_SENTINEL_KEY \<notin> set SAMPLING_CONTROL_KEYS"
  by (simp_all add: SAMPLING_CONTROL_KEYS_def CLASSIFIER_SENTINEL_KEY_def)

lemma build_body_frame:
  assumes "build_body al payload force = Inr body" "k \<notin> set GATED_KEYS"
  shows "map_of body k = map_of payload k"
proof -
  have k: "k \<noteq> ''model''" "k \<noteq> ''fallbacks''" "k \<noteq> ''max_tokens''" "k \<noteq> ''output_config''"
    "k \<noteq> ''system''" "k \<noteq> ''messages''" "k \<noteq> ''thinking''" "k \<noteq> ''context_management''"
    "k \<noteq> ''_anthropic_beta''" "k \<noteq> CLASSIFIER_SENTINEL_KEY" "k \<notin> set SAMPLING_CONTROL_KEYS"
    using assms(2) by (auto simp: GATED_KEYS_def)
  show ?thesis
    using assms(1)
    by (rule build_body_stages)
       (simp add: gate_simps per_message_frame between_tools_frame high_effort_frame k)
qed

section \<open>The contract of the routed model\<close>

text \<open>What each model family rejects with HTTP 400, as the comments of the module document it.\<close>

definition has_effort :: "jdict \<Rightarrow> bool" where
  "has_effort d \<longleftrightarrow> (case jget ''output_config'' d of JObj oc \<Rightarrow> has_key ''effort'' oc | _ \<Rightarrow> False)"

definition msg_has_effort :: "json \<Rightarrow> bool" where
  "msg_has_effort m \<longleftrightarrow> (case m of JObj d \<Rightarrow> has_effort d | _ \<Rightarrow> False)"

definition body_messages :: "jdict \<Rightarrow> json list" where
  "body_messages body = (case jget ''messages'' body of JArr ms \<Rightarrow> ms | _ \<Rightarrow> [])"

definition within_output_limit :: "string \<Rightarrow> jdict \<Rightarrow> bool" where
  "within_output_limit model body \<longleftrightarrow>
     (case (map_of MODEL_OUTPUT_LIMITS model, as_int (jget ''max_tokens'' body)) of
        (Some cap, Some n) \<Rightarrow> n \<le> cap
      | _ \<Rightarrow> True)"

definition thinking_accepted :: "string \<Rightarrow> jdict \<Rightarrow> bool" where
  "thinking_accepted model body \<longleftrightarrow>
     (is_pre_5_5_haiku model \<longrightarrow> \<not> thinking_is body ''adaptive'') \<and>
     (is_fable model \<longrightarrow> \<not> thinking_is body ''disabled'') \<and>
     (requires_between_tools model \<longrightarrow> \<not> thinking_is body ''disabled'') \<and>
     (is_haiku_5_5 model \<longrightarrow> body_effort body \<in> set BETWEEN_TOOLS_REJECTING_EFFORTS \<longrightarrow>
        \<not> thinking_is body ''disabled'')"

definition accepted_by :: "string \<Rightarrow> jdict \<Rightarrow> bool" where
  "accepted_by model body \<longleftrightarrow>
     jget ''model'' body = JStr model \<and>
     \<not> has_key ''fallbacks'' body \<and> \<not> has_key ''_anthropic_beta'' body \<and>
     \<not> has_key CLASSIFIER_SENTINEL_KEY body \<and>
     within_output_limit model body \<and>
     (is_pre_5_5_haiku model \<longrightarrow> \<not> has_effort body) \<and>
     thinking_accepted model body \<and>
     (\<not> supports_sampling_controls model \<longrightarrow>
        list_all (\<lambda>k. \<not> has_key k body) SAMPLING_CONTROL_KEYS) \<and>
     (rejects_system_role_in_messages model \<longrightarrow> \<not> list_ex is_system_msg (body_messages body))"

lemma body_effort_cong: "map_of b ''output_config'' = map_of b' ''output_config'' \<Longrightarrow>
   body_effort b = body_effort b'"
  by (simp add: body_effort_def jget_def)

lemma has_effort_cong: "map_of b ''output_config'' = map_of b' ''output_config'' \<Longrightarrow>
   has_effort b = has_effort b'"
  by (simp add: has_effort_def jget_def)

lemma thinking_is_cong: "map_of b ''thinking'' = map_of b' ''thinking'' \<Longrightarrow>
   thinking_is b t = thinking_is b' t"
  by (simp add: thinking_is_def jget_def)

lemma within_output_limit_cong: "map_of b ''max_tokens'' = map_of b' ''max_tokens'' \<Longrightarrow>
   within_output_limit model b = within_output_limit model b'"
  by (simp add: within_output_limit_def jget_def)

lemma clamp_within: "within_output_limit model (clamp_max_tokens model body)"
  by (auto simp: within_output_limit_def clamp_max_tokens_def split: option.splits)

lemma has_key_filter_neq:
  "has_key k (filter (\<lambda>p. fst p \<noteq> k') d) \<longleftrightarrow> k \<noteq> k' \<and> has_key k d"
  using has_key_filter_key [of k "\<lambda>k. k \<noteq> k'" d] by simp

lemma jget_filter_neq:
  "jget k (filter (\<lambda>p. fst p \<noteq> k') d) = (if k = k' then JNull else jget k d)"
  using jget_filter_key [of k "\<lambda>k. k \<noteq> k'" d] by simp

lemma drop_effort_has_effort: "\<not> has_effort (drop_effort body)"
  by (auto simp: drop_effort_def has_effort_def Let_def has_key_filter_neq split: json.splits)

lemma effort_gate_has_effort: "is_pre_5_5_haiku model \<Longrightarrow> \<not> has_effort (effort_gate model body)"
  by (simp add: effort_gate_def supports_effort_def drop_effort_has_effort)

lemma low_effort_not_pre_5_5:
  "is_pre_5_5_haiku model \<Longrightarrow> classifier_low_effort payload model body = body"
  by (simp add: classifier_low_effort_def is_pre_5_5_haiku_def is_haiku_5_5_def)

lemma thinking_is_unique: "thinking_is b t \<Longrightarrow> thinking_is b t' \<longleftrightarrow> t' = t"
  by (auto simp: thinking_is_def obj_field_is_def split: json.splits)

lemma thinking_is_jdel [simp]: "\<not> thinking_is (jdel ''thinking'' b) t"
  by (simp add: thinking_is_def obj_field_is_def)

lemma thinking_is_jset_between [simp]:
  "thinking_is (jset ''thinking'' (JObj [(''type'', JStr ''between_tools'')]) b) t
   \<longleftrightarrow> t = ''between_tools''"
  by (auto simp: thinking_is_def obj_field_is_def)

lemma adaptive_gate_thinking:
  "thinking_is (adaptive_gate model b) t \<longleftrightarrow>
   thinking_is b t \<and> \<not> (t = ''adaptive'' \<and> \<not> supports_adaptive_thinking model)"
  by (auto simp: adaptive_gate_def thinking_is_unique)

lemma disabled_gate_thinking:
  "thinking_is (disabled_gate model b) t \<longleftrightarrow>
   thinking_is b t \<and> \<not> (t = ''disabled'' \<and> \<not> supports_disabled_thinking model)"
  by (auto simp: disabled_gate_def thinking_is_unique)

lemma between_tools_thinking:
  assumes "between_tools_gate model b = Inr b'"
  shows "thinking_is b' t \<Longrightarrow> t \<noteq> ''between_tools'' \<Longrightarrow> thinking_is b t"
    and "thinking_is b t \<Longrightarrow> t \<noteq> ''disabled'' \<Longrightarrow> thinking_is b' t"
    and "requires_between_tools model \<Longrightarrow> \<not> thinking_is b' ''disabled''"
  using assms
  by (auto simp: between_tools_gate_def thinking_is_unique split: sum.splits if_splits bool.splits)

lemma effort_rejecting_iff:
  "effort_rejecting b = Inr r \<Longrightarrow> r \<longleftrightarrow> body_effort b \<in> set BETWEEN_TOOLS_REJECTING_EFFORTS"
  by (auto simp: effort_rejecting_def split: json.splits)

lemma high_effort_thinking:
  assumes "high_effort_gate model b = Inr b'"
  shows "thinking_is b' t \<Longrightarrow> thinking_is b t"
    and "thinking_is b t \<Longrightarrow> t \<noteq> ''disabled'' \<Longrightarrow> thinking_is b' t"
    and "is_haiku_5_5 model \<Longrightarrow> body_effort b' \<in> set BETWEEN_TOOLS_REJECTING_EFFORTS \<Longrightarrow>
         \<not> thinking_is b' ''disabled''"
  using assms
  by (auto simp: high_effort_gate_def thinking_is_unique is_haiku_5_5_def
      rejects_disabled_thinking_at_high_effort_def
      dest: effort_rejecting_iff split: sum.splits if_splits bool.splits)

section \<open>The inline-system rewrite\<close>

text \<open>
  \<open>extends_user m m'\<close>: \<open>m'\<close> is the client's message \<open>m\<close>, or the user message \<open>m\<close> with reminder
  blocks appended after its own content.
\<close>

definition extends_user :: "json \<Rightarrow> json \<Rightarrow> bool" where
  "extends_user m m' \<longleftrightarrow> m' = m \<or>
     (case (m, m') of
        (JObj d, JObj d') \<Rightarrow>
          jget ''role'' d = JStr ''user'' \<and> jget ''role'' d' = JStr ''user'' \<and>
          prefix (user_blocks (jget ''content'' d)) (user_blocks (jget ''content'' d')) \<and>
          (\<forall>k \<in> set (map fst d) \<union> set (map fst d'). k \<noteq> ''content'' \<longrightarrow> jget k d' = jget k d)
      | _ \<Rightarrow> False)"

definition is_tool_turn :: "json \<Rightarrow> bool" where
  "is_tool_turn m \<longleftrightarrow>
     (case m of JObj d \<Rightarrow> jget ''role'' d = JStr ''assistant'' \<and> has_tool_use d | _ \<Rightarrow> False)"

lemma extends_user_refl [simp]: "extends_user m m"
  by (simp add: extends_user_def)

lemma jget_no_fst: "k \<notin> set (map fst d) \<Longrightarrow> jget k d = JNull"
  by (force simp: jget_def split: option.splits dest: map_of_SomeD)

lemma extends_user_snoc:
  assumes "extends_user m (JObj prev)" "jget ''role'' prev = JStr ''user''"
  shows "extends_user m
    (JObj (jset ''content'' (JArr (user_blocks (jget ''content'' prev) @ [b])) prev))"
proof (cases "m = JObj prev")
  case True
  then show ?thesis using assms(2) by (auto simp: extends_user_def user_blocks_def)
next
  case False
  with assms(1) obtain d where "m = JObj d" by (cases m) (auto simp: extends_user_def)
  with False assms show ?thesis
    by (auto simp: extends_user_def user_blocks_def dom_update)
qed

lemma not_system_standalone [simp]: "\<not> is_system_msg (standalone_user b)"
  by (simp add: is_system_msg_def standalone_user_def obj_field_is_def)

lemma place_reminder_cases:
  obtains (append_prev) prev where "out \<noteq> []" "last out = JObj prev" "jget ''role'' prev = JStr ''user''"
      "place_reminder out b = butlast out @
         [JObj (jset ''content'' (JArr (user_blocks (jget ''content'' prev) @ [b])) prev)]"
  | (dropped) "out \<noteq> []" "is_tool_turn (last out)" "place_reminder out b = out"
  | (alone) "out = [] \<or> \<not> is_user_msg (last out)" "out = [] \<or> \<not> is_tool_turn (last out)"
      "place_reminder out b = out @ [standalone_user b]"
proof (cases "out = []")
  case True
  then show ?thesis by (intro alone) (simp_all add: place_reminder_def)
next
  case ne: False
  show ?thesis
  proof (cases "\<exists>prev. last out = JObj prev")
    case False
    with ne show ?thesis
      by (intro alone)
         (auto simp: place_reminder_def is_tool_turn_def is_user_msg_def obj_field_is_def
           split: json.splits)
  next
    case True
    then obtain prev where prev: "last out = JObj prev" ..
    consider "jget ''role'' prev = JStr ''user''" | "is_tool_turn (last out)"
      | "jget ''role'' prev \<noteq> JStr ''user''" "\<not> is_tool_turn (last out)" by blast
    then show ?thesis
    proof cases
      case 1
      with ne prev show ?thesis by (intro append_prev) (simp_all add: place_reminder_def)
    next
      case 2
      with ne prev show ?thesis
        by (intro dropped) (simp_all add: place_reminder_def is_tool_turn_def)
    next
      case 3
      with ne prev show ?thesis
        by (intro alone)
           (auto simp: place_reminder_def is_tool_turn_def is_user_msg_def obj_field_is_def)
    qed
  qed
qed

definition clean :: "json list \<Rightarrow> bool" where
  "clean ms \<longleftrightarrow> \<not> list_ex is_system_msg ms"

lemma clean_simps [simp]:
  "clean []" "clean (m # ms) \<longleftrightarrow> \<not> is_system_msg m \<and> clean ms"
  "clean (ms @ ms') \<longleftrightarrow> clean ms \<and> clean ms'"
  by (auto simp: clean_def)

lemma clean_butlast: "clean ms \<Longrightarrow> clean (butlast ms)"
  by (auto simp: clean_def list_ex_iff dest: in_set_butlastD)

lemma place_reminder_clean: "clean out \<Longrightarrow> clean (place_reminder out b)"
proof (induction rule: place_reminder_cases [of out b, case_names append_prev dropped alone])
  case (append_prev prev)
  then show ?case by (simp add: clean_butlast) (simp add: is_system_msg_def obj_field_is_def)
qed simp_all

lemma rewrite_step_clean: "clean out \<Longrightarrow> clean (rewrite_step out m)"
  by (auto simp: rewrite_step_def Let_def place_reminder_clean is_system_msg_def obj_field_is_def
      split: json.splits)

lemma foldl_rewrite_clean: "clean out \<Longrightarrow> clean (foldl rewrite_step out ms)"
  by (induction ms arbitrary: out) (simp_all add: rewrite_step_clean)

lemma rewrite_clean: "\<not> list_ex is_system_msg (rewrite_inline_system ms)"
  using foldl_rewrite_clean [of "[]" ms] by (simp add: rewrite_inline_system_def clean_def)

lemma rewrite_clean_id: "\<not> list_ex is_system_msg ms \<Longrightarrow> rewrite_inline_system ms = ms"
  by (simp add: rewrite_inline_system_def)

lemma rewrite_idem: "rewrite_inline_system (rewrite_inline_system ms) = rewrite_inline_system ms"
  by (rule rewrite_clean_id [OF rewrite_clean])

subsection \<open>Messages keep their order, and nothing separates a tool call from its result\<close>

text \<open>
  \<open>placed ms out\<close>: \<open>out\<close> is \<open>ms\<close> with user messages extended and standalone user messages
  inserted anywhere except right after an assistant turn with a tool call.
\<close>

inductive placed :: "json list \<Rightarrow> json list \<Rightarrow> bool" where
  placed_Nil: "placed [] []"
| placed_snoc: "placed ms out \<Longrightarrow> extends_user m m' \<Longrightarrow> placed (ms @ [m]) (out @ [m'])"
| placed_insert: "placed ms out \<Longrightarrow> out = [] \<or> \<not> is_tool_turn (last out) \<Longrightarrow>
    is_user_msg u \<Longrightarrow> placed ms (out @ [u])"

inductive_cases placed_snocE: "placed ms (out @ [m])"
inductive_cases placed_NilE: "placed ms []"

lemma user_not_tool_turn: "is_user_msg m \<Longrightarrow> \<not> is_tool_turn m"
  by (auto simp: is_user_msg_def is_tool_turn_def obj_field_is_def split: json.splits)

lemma extends_user_is_user: "extends_user m m' \<Longrightarrow> is_user_msg m' \<longleftrightarrow> is_user_msg m"
  by (auto simp: extends_user_def is_user_msg_def obj_field_is_def split: json.splits)

lemma extends_user_non_user: "extends_user m m' \<Longrightarrow> \<not> is_user_msg m' \<or> \<not> is_user_msg m \<Longrightarrow> m' = m"
  by (auto simp: extends_user_def is_user_msg_def obj_field_is_def split: json.splits)

lemma placed_append_last:
  assumes "placed ms out" "out \<noteq> []" "last out = JObj prev" "jget ''role'' prev = JStr ''user''"
  shows "placed ms (butlast out @
    [JObj (jset ''content'' (JArr (user_blocks (jget ''content'' prev) @ [b])) prev)])"
  using assms(1)
proof cases
  case placed_Nil
  with assms(2) show ?thesis by simp
next
  case (placed_snoc ms0 out0 m m')
  then show ?thesis using assms(3,4) by (auto intro: placed.placed_snoc extends_user_snoc)
next
  case (placed_insert out0 u)
  then show ?thesis using assms(3,4)
    by (auto intro!: placed.placed_insert simp: is_user_msg_def obj_field_is_def)
qed

lemma placed_reminder: "placed ms out \<Longrightarrow> placed ms (place_reminder out b)"
  by (rule place_reminder_cases [of out b])
     (auto simp: is_user_msg_def obj_field_is_def standalone_user_def
       intro: placed_append_last placed.placed_insert)

lemma placed_foldl:
  "placed ns out \<Longrightarrow>
   placed (ns @ filter (\<lambda>m. \<not> is_system_msg m) ms) (foldl rewrite_step out ms)"
proof (induction ms arbitrary: ns out)
  case Nil
  then show ?case by simp
next
  case (Cons m ms)
  show ?case
  proof (cases "is_system_msg m")
    case True
    then have "placed ns (rewrite_step out m)"
      using Cons.prems
      by (auto simp: rewrite_step_def Let_def placed_reminder is_system_msg_def obj_field_is_def
          split: json.splits)
    from Cons.IH [OF this] True show ?thesis by simp
  next
    case False
    then have "placed (ns @ [m]) (rewrite_step out m)"
      using Cons.prems by (simp add: rewrite_step_def placed_snoc)
    from Cons.IH [OF this] False show ?thesis by simp
  qed
qed

lemma placed_refl: "placed ms ms"
  by (induction ms rule: rev_induct) (auto intro: placed.intros)

lemma rewrite_placed: "placed (filter (\<lambda>m. \<not> is_system_msg m) ms) (rewrite_inline_system ms)"
proof (cases "list_ex is_system_msg ms")
  case True
  then show ?thesis
    using placed_foldl [OF placed_Nil, of ms] by (simp add: rewrite_inline_system_def)
next
  case False
  then have "filter (\<lambda>m. \<not> is_system_msg m) ms = ms" by (simp add: list_ex_iff filter_id_conv)
  with False show ?thesis by (simp add: rewrite_inline_system_def placed_refl)
qed

lemma placed_non_user:
  "placed ms out \<Longrightarrow> filter (\<lambda>m. \<not> is_user_msg m) out = filter (\<lambda>m. \<not> is_user_msg m) ms"
  by (induction rule: placed.induct)
     (auto simp: extends_user_is_user dest: extends_user_non_user)

text \<open>The messages right after a tool call are the client's own, in the client's order.\<close>

definition pairs :: "'a list \<Rightarrow> ('a \<times> 'a) list" where
  "pairs xs = zip xs (tl xs)"

lemma pairs_simps [simp]: "pairs [] = []" "pairs [x] = []" "pairs (x # y # zs) = (x, y) # pairs (y # zs)"
  by (simp_all add: pairs_def)

lemma pairs_snoc: "pairs (xs @ [y]) = (if xs = [] then [] else pairs xs @ [(last xs, y)])"
proof (induction xs)
  case (Cons x xs)
  then show ?case by (cases xs) simp_all
qed simp

lemma placed_last_tool:
  "placed ms out \<Longrightarrow> out \<noteq> [] \<Longrightarrow> is_tool_turn (last out) \<Longrightarrow> ms \<noteq> [] \<and> last ms = last out"
  by (induction rule: placed.induct)
     (auto dest: extends_user_non_user user_not_tool_turn)

lemma placed_tool_pairs:
  "placed ms out \<Longrightarrow> (a, b) \<in> set (pairs out) \<Longrightarrow> is_tool_turn a \<Longrightarrow>
   \<exists>b0. (a, b0) \<in> set (pairs ms) \<and> extends_user b0 b"
proof (induction arbitrary: a b rule: placed.induct)
  case placed_Nil
  then show ?case by (simp add: pairs_def)
next
  case (placed_snoc ms out m m')
  consider "(a, b) \<in> set (pairs out)" | "out \<noteq> []" "a = last out" "b = m'"
    using placed_snoc.prems(1) by (auto simp: pairs_snoc split: if_splits)
  then show ?case
  proof cases
    case 1
    with placed_snoc.IH placed_snoc.prems(2) obtain b0
      where "(a, b0) \<in> set (pairs ms)" "extends_user b0 b" by blast
    then show ?thesis by (cases "ms = []") (auto simp: pairs_snoc)
  next
    case 2
    with placed_last_tool [OF placed_snoc.hyps(1)] placed_snoc.prems(2)
    have "ms \<noteq> []" "last ms = a" by auto
    with 2 placed_snoc.hyps(2) show ?thesis by (auto simp: pairs_snoc)
  qed
next
  case (placed_insert ms out u)
  then have "(a, b) \<in> set (pairs out)"
    by (auto simp: pairs_snoc split: if_splits)
  with placed_insert show ?case by blast
qed

section \<open>Clear-thinking edits and betas\<close>

definition body_edits :: "jdict \<Rightarrow> json list" where
  "body_edits body =
     (case jget ''context_management'' body of
        JObj cm \<Rightarrow> (case jget ''edits'' cm of JArr es \<Rightarrow> es | _ \<Rightarrow> [])
      | _ \<Rightarrow> [])"

lemma strip_thinking_edits_clean: "\<not> list_ex is_thinking_edit (body_edits (strip_thinking_edits body))"
  by (auto simp: strip_thinking_edits_def body_edits_def Let_def list_ex_iff jget_filter_neq
      filter_length_eq_iff split: json.splits)

lemma thinking_active_stages:
  assumes active: "thinking_active payload model"
    and p: "per_message_gate payload model b5 = Inr b6"
    and five: "map_of b5 ''thinking'' = map_of payload ''thinking''"
    and bt: "between_tools_gate model (disabled_gate model (adaptive_gate model b6)) = Inr b7"
    and he: "high_effort_gate model b7 = Inr b8"
  shows "thinking_active b8 model"
proof -
  from active obtain t where t: "t = ''enabled'' \<or> t = ''adaptive'' \<and> supports_adaptive_thinking model"
    "thinking_is payload t" by (auto simp: thinking_active_def)
  have "thinking_is b6 t"
    using t(2) five per_message_frame [OF p, of "''thinking''"] thinking_is_cong [of b6 payload t] by simp
  then have "thinking_is (disabled_gate model (adaptive_gate model b6)) t"
    using t(1) by (auto simp: adaptive_gate_thinking disabled_gate_thinking)
  then have "thinking_is b7 t" using between_tools_thinking(2) [OF bt] t(1) by auto
  then have "thinking_is b8 t" using high_effort_thinking(2) [OF he] t(1) by auto
  with t(1) show ?thesis by (auto simp: thinking_active_def)
qed

definition client_betas :: "jdict \<Rightarrow> json list" where
  "client_betas payload = (case py_iter (jget ''_anthropic_beta'' payload) of None \<Rightarrow> [] | Some bs \<Rightarrow> bs)"

lemma merge_loop_spec:
  "merge_loop active ok acc items = Inr bs \<Longrightarrow> distinct acc \<Longrightarrow>
   distinct bs \<and>
   set bs = set acc \<union> {b. JStr b \<in> set items \<and> beta_allowed active ok b} \<and>
   (\<exists>new. bs = acc @ new \<and> subseq (map JStr new) items)"
proof (induction active ok acc items rule: merge_loop.induct)
  case (2 active ok acc beta rest)
  let ?acc = "if beta_allowed active ok beta \<and> beta \<notin> set acc then acc @ [beta] else acc"
  have "merge_loop active ok ?acc rest = Inr bs" "distinct ?acc"
    using 2(2,3) by auto
  from 2(1) [OF this] obtain new where IH: "distinct bs"
    "set bs = set ?acc \<union> {b. JStr b \<in> set rest \<and> beta_allowed active ok b}"
    "bs = ?acc @ new" "subseq (map JStr new) rest" by blast
  have "\<exists>new. bs = acc @ new \<and> subseq (map JStr new) (JStr beta # rest)"
  proof (cases "beta_allowed active ok beta \<and> beta \<notin> set acc")
    case True
    with IH show ?thesis by (intro exI [of _ "beta # new"]) simp
  next
    case False
    with IH show ?thesis by (intro exI [of _ new]) auto
  qed
  with IH(1,2) show ?case by auto
qed auto

section \<open>Properties\<close>

text \<open>A request as a client sends it: every field some gate reads is present.\<close>

definition sample_payload :: jdict where
  "sample_payload =
     [(''model'', JStr ''haiku''), (''max_tokens'', JInt 900000),
      (''fallbacks'', JArr [JStr ''claude-opus-5-5'']),
      (''_anthropic_beta'', JArr [JStr ''clear_thinking_20251015'', JStr ''context-1m-2025-08-07'',
         JStr ''fine-grained'', JStr ''fine-grained'']),
      (''output_config'', JObj [(''effort'', JStr ''max'')]),
      (''thinking'', JObj [(''type'', JStr ''adaptive'')]), (''temperature'', JInt 1),
      (''context_management'', JObj [(''edits'', JArr [JObj [(''type'', JStr ''clear_thinking_20251015'')]])]),
      (''messages'', JArr
        [JObj [(''role'', JStr ''assistant''),
               (''content'', JArr [JObj [(''type'', JStr ''tool_use'')]])],
         JObj [(''role'', JStr ''system''), (''content'', JStr ''mode'')],
         JObj [(''role'', JStr ''user''), (''content'', JStr ''hi'')],
         JObj [(''role'', JStr ''system''), (''content'', JStr ''note'')]])]"

lemma sample_build:
  "build_body [(''haiku'', ''claude-haiku-4-5-20251001'')] sample_payload False = Inr
     [(''model'', JStr ''claude-haiku-4-5-20251001''), (''max_tokens'', JInt 64000),
      (''temperature'', JInt 1),
      (''messages'', JArr
        [JObj [(''role'', JStr ''assistant''),
               (''content'', JArr [JObj [(''type'', JStr ''tool_use'')]])],
         JObj [(''role'', JStr ''user''),
               (''content'', JArr [text_block ''hi'', reminder_block ''note'' JNull])]])]"
  by code_simp

lemma sample_build_adaptive:
  "build_body [] sample_payload False = Inr
     [(''model'', JStr ''claude-haiku-5-5''), (''max_tokens'', JInt 128000),
      (''output_config'', JObj [(''effort'', JStr ''max'')]),
      (''thinking'', JObj [(''type'', JStr ''adaptive'')]),
      (''context_management'', JObj [(''edits'', JArr [JObj [(''type'', JStr ''clear_thinking_20251015'')]])]),
      (''messages'', JArr (body_messages sample_payload))]"
  by code_simp

lemma build_body_accepts:
  assumes "build_body al payload force = Inr body"
    and "resolve_model al (jget ''model'' payload) = Inr model"
  shows "accepted_by model body"
  using assms(1)
proof (rule build_body_stages)
  fix m b5 b6 b7 b8
  assume m: "resolve_model al (jget ''model'' payload) = Inr m"
    and b5: "b5 = classifier_identity payload (classifier_low_effort payload m (effort_gate m
            (clamp_max_tokens m
              (jdel ''fallbacks'' (jset ''model'' (JStr m) (drop_internal_keys payload))))))"
    and b6: "per_message_gate payload m b5 = Inr b6"
    and b7: "between_tools_gate m (disabled_gate m (adaptive_gate m b6)) = Inr b7"
    and b8: "high_effort_gate m b7 = Inr b8"
    and body: "body = rewrite_gate force m (sampling_gate m (edits_gate payload m b8))"
  have [simp]: "model = m" using m assms(2) by simp
  note frames = gate_simps per_message_frame [OF b6] between_tools_frame [OF b7]
    high_effort_frame [OF b8] body
  have keys: "map_of body ''model'' = Some (JStr m)" "map_of body ''fallbacks'' = None"
    "map_of body ''_anthropic_beta'' = None" "map_of body CLASSIFIER_SENTINEL_KEY = None"
    by (simp_all add: frames b5)
  have thinking: "thinking_is body t = thinking_is b8 t" for t
    by (rule thinking_is_cong) (simp add: frames)
  have effort: "body_effort body = body_effort b8"
    by (rule body_effort_cong) (simp add: frames)
  have "thinking_accepted m body"
    unfolding thinking_accepted_def thinking effort
  proof (intro conjI impI)
    show "is_pre_5_5_haiku m \<Longrightarrow> \<not> thinking_is b8 ''adaptive''"
      using high_effort_thinking(1) [OF b8, of "''adaptive''"]
        between_tools_thinking(1) [OF b7, of "''adaptive''"]
      by (auto simp: disabled_gate_thinking adaptive_gate_thinking supports_adaptive_thinking_def)
    show "is_fable m \<Longrightarrow> \<not> thinking_is b8 ''disabled''"
      using high_effort_thinking(1) [OF b8, of "''disabled''"]
        between_tools_thinking(1) [OF b7, of "''disabled''"]
      by (auto simp: disabled_gate_thinking supports_disabled_thinking_def)
    show "requires_between_tools m \<Longrightarrow> \<not> thinking_is b8 ''disabled''"
      using high_effort_thinking(1) [OF b8] between_tools_thinking(3) [OF b7] by auto
    show "is_haiku_5_5 m \<Longrightarrow> body_effort b8 \<in> set BETWEEN_TOOLS_REJECTING_EFFORTS \<Longrightarrow>
        \<not> thinking_is b8 ''disabled''"
      using high_effort_thinking(3) [OF b8] by auto
  qed
  moreover have "within_output_limit m body"
    using clamp_within [of m "jdel ''fallbacks'' (jset ''model'' (JStr m) (drop_internal_keys payload))"]
    by (rule subst [OF within_output_limit_cong, rotated]) (simp add: frames b5)
  moreover have "is_pre_5_5_haiku m \<longrightarrow> \<not> has_effort body"
  proof
    assume old: "is_pre_5_5_haiku m"
    let ?c = "clamp_max_tokens m
      (jdel ''fallbacks'' (jset ''model'' (JStr m) (drop_internal_keys payload)))"
    have "has_effort body = has_effort (effort_gate m ?c)"
      by (rule has_effort_cong) (simp add: frames b5 low_effort_not_pre_5_5 [OF old])
    with effort_gate_has_effort [OF old] show "\<not> has_effort body" by simp
  qed
  moreover have "rejects_system_role_in_messages m \<longrightarrow> \<not> list_ex is_system_msg (body_messages body)"
    by (simp add: body body_messages_def rewrite_gate_def rewrite_clean split: json.splits)
  moreover have "\<not> supports_sampling_controls m \<longrightarrow>
      list_all (\<lambda>k. \<not> has_key k body) SAMPLING_CONTROL_KEYS"
    by (auto simp: has_key_def frames list_all_iff SAMPLING_CONTROL_KEYS_def)
  ultimately show ?thesis
    using keys by (simp add: accepted_by_def has_key_def jget_def)
qed



text \<open>A clear-thinking edit never outlives the thinking it depends on: when the body still
  carries one, the thinking the body itself declares is active for the routed model.\<close>

theorem clear_thinking_needs_thinking:
  assumes "build_body al payload force = Inr body"
    and "resolve_model al (jget ''model'' payload) = Inr model"
    and "list_ex is_thinking_edit (body_edits body)"
  shows "thinking_active body model"
  using assms(1)
proof (rule build_body_stages)
  fix m b5 b6 b7 b8
  assume m: "resolve_model al (jget ''model'' payload) = Inr m"
    and b5: "b5 = classifier_identity payload (classifier_low_effort payload m (effort_gate m
            (clamp_max_tokens m
              (jdel ''fallbacks'' (jset ''model'' (JStr m) (drop_internal_keys payload))))))"
    and b6: "per_message_gate payload m b5 = Inr b6"
    and b7: "between_tools_gate m (disabled_gate m (adaptive_gate m b6)) = Inr b7"
    and b8: "high_effort_gate m b7 = Inr b8"
    and body: "body = rewrite_gate force m (sampling_gate m (edits_gate payload m b8))"
  have [simp]: "model = m" using m assms(2) by simp
  have "map_of body ''context_management'' = map_of (edits_gate payload m b8) ''context_management''"
    by (simp add: gate_simps body)
  then have "list_ex is_thinking_edit (body_edits (edits_gate payload m b8))"
    using assms(3) by (simp add: body_edits_def jget_def)
  then have active: "thinking_active payload m"
    using strip_thinking_edits_clean by (auto simp: edits_gate_def split: if_splits)
  have "map_of b5 ''thinking'' = map_of payload ''thinking''"
    by (simp add: gate_simps b5 CLASSIFIER_SENTINEL_KEY_def)
  from thinking_active_stages [OF active b6 this b7 b8]
  have "thinking_active b8 m" .
  moreover have "map_of body ''thinking'' = map_of b8 ''thinking''" by (simp add: gate_simps body)
  ultimately show ?thesis
    by (simp add: thinking_active_def thinking_is_cong [of body b8])
qed

lemma clear_thinking_needs_thinking_witness:
  "thinking_active (projr (build_body [] sample_payload False)) ''claude-haiku-5-5''"
proof -
  have r: "resolve_model [] (jget ''model'' sample_payload) = Inr ''claude-haiku-5-5''" by code_simp
  show ?thesis
    by (simp only: sample_build_adaptive sum.sel,
        rule clear_thinking_needs_thinking [OF sample_build_adaptive r]) code_simp
qed

text \<open>Every field no gate is about crosses exactly as the client sent it, present or absent.\<close>

theorem build_body_preserves_other_fields:
  assumes "build_body al payload force = Inr body" and "k \<notin> set GATED_KEYS"
  shows "map_of body k = map_of payload k"
  using assms by (rule build_body_frame)

lemma build_body_preserves_other_fields_witness:
  "map_of (projr (build_body [] ((''stream'', JBool True) # sample_payload) True)) ''stream''
   = Some (JBool True)"
proof -
  have "\<not> isl (build_body [] ((''stream'', JBool True) # sample_payload) True)" by code_simp
  then obtain b where b: "build_body [] ((''stream'', JBool True) # sample_payload) True = Inr b"
    by (rule not_islE)
  have "''stream'' \<notin> set GATED_KEYS" by code_simp
  from build_body_preserves_other_fields [OF b this] b show ?thesis by simp
qed

text \<open>(C33) The inline-system rewrite never separates a tool call from its result: what follows an
  assistant tool call in the rewritten list is what followed it among the client's non-system
  messages, at most with reminder blocks appended to a user turn.\<close>

theorem rewrite_keeps_tool_results_adjacent:
  assumes "(a, b) \<in> set (pairs (rewrite_inline_system messages))" and "is_tool_turn a"
  shows "\<exists>b0. (a, b0) \<in> set (pairs (filter (\<lambda>m. \<not> is_system_msg m) messages)) \<and> extends_user b0 b"
  by (rule placed_tool_pairs [OF rewrite_placed assms])

lemma rewrite_keeps_tool_results_adjacent_witness:
  "\<exists>b0. (body_messages sample_payload ! 0, b0)
      \<in> set (pairs (filter (\<lambda>m. \<not> is_system_msg m) (body_messages sample_payload))) \<and>
     extends_user b0 (rewrite_inline_system (body_messages sample_payload) ! 1)"
proof (rule rewrite_keeps_tool_results_adjacent)
  show "(body_messages sample_payload ! 0, rewrite_inline_system (body_messages sample_payload) ! 1)
    \<in> set (pairs (rewrite_inline_system (body_messages sample_payload)))" by code_simp
  show "is_tool_turn (body_messages sample_payload ! 0)" by code_simp
qed

text \<open>The rewrite removes every system turn, keeps every non-user message in its order, and a
  second pass changes nothing.\<close>

theorem rewrite_inline_system_correct:
  "\<not> list_ex is_system_msg (rewrite_inline_system messages) \<and>
   filter (\<lambda>m. \<not> is_user_msg m) (rewrite_inline_system messages) =
     filter (\<lambda>m. \<not> is_user_msg m \<and> \<not> is_system_msg m) messages \<and>
   rewrite_inline_system (rewrite_inline_system messages) = rewrite_inline_system messages"
  using placed_non_user [OF rewrite_placed, of messages]
  by (simp add: rewrite_clean rewrite_idem conj_commute)

text \<open>The merged betas are the client's allowed betas, each once and in the client's order;
  thinking betas need active thinking, long-context betas an Opus model, and fallback betas never
  cross.\<close>

theorem merged_betas_correct:
  assumes "merged_betas al payload = Inr bs"
    and "truthy (jget ''model'' payload)" and "resolve_model al (jget ''model'' payload) = Inr model"
  shows "distinct bs \<and> subseq (map JStr bs) (client_betas payload) \<and>
     set bs = {b. JStr b \<in> set (client_betas payload) \<and> \<not> startswith b FALLBACK_BETA_PREFIX \<and>
       (b \<in> set THINKING_REQUIRED_BETAS \<longrightarrow> thinking_active payload model) \<and>
       (startswith b LONG_CONTEXT_BETA_PREFIX \<longrightarrow> supports_long_context model)}"
proof -
  from assms obtain items where items: "py_iter (jget ''_anthropic_beta'' payload) = Some items"
    and loop: "merge_loop (thinking_active payload model) (supports_long_context model) [] items = Inr bs"
    by (auto simp: merged_betas_def split: option.splits)
  have "client_betas payload = items" by (simp add: client_betas_def items)
  with merge_loop_spec [OF loop] show ?thesis by (auto simp: beta_allowed_def)
qed

lemma merged_betas_correct_witness:
  "merged_betas [] sample_payload = Inr [''clear_thinking_20251015'', ''fine-grained''] \<and>
   distinct [''clear_thinking_20251015'', ''fine-grained'']"
proof -
  have m: "merged_betas [] sample_payload = Inr [''clear_thinking_20251015'', ''fine-grained'']"
    "truthy (jget ''model'' sample_payload)"
    "resolve_model [] (jget ''model'' sample_payload) = Inr ''claude-haiku-5-5''"
    by code_simp+
  from merged_betas_correct [OF this] m(1) show ?thesis by blast
qed

end
