(* ===== verification/Transport.thy ===== *)
theory Transport
  imports Http_Util Transform
begin

text \<open>
  \<^verbatim>\<open>anthrouter/transport.py\<close>: the client's credentials, the outbound headers and the retry
  loop of \<open>_send_with_retries\<close> with its two one-shot recoveries.

  The upstream is an argument: its answer to a body may depend on the bodies sent before, and
  is a response or a network failure.  The state records the bodies sent and the sleeps taken.
\<close>

section \<open>Credentials and headers\<close>

definition AUTH_HEADERS :: "string list" where
  "AUTH_HEADERS = [''x-api-key'', ''authorization'']"

definition PASSTHROUGH_HEADERS :: "string list" where
  "PASSTHROUGH_HEADERS =
     [''anthropic-version'', ''anthropic-dangerous-direct-browser-access'', ''x-app'', ''user-agent'']"

definition ANTHROPIC_VERSION :: string where "ANTHROPIC_VERSION = ''2023-06-01''"

type_synonym header_map = "(string \<times> string) list"

record credentials =
  auth :: "string \<times> string"
  forward :: header_map

text \<open>A header the client sent with a non-empty value.\<close>

definition sent_header :: "header_map \<Rightarrow> string \<Rightarrow> (string \<times> string) option" where
  "sent_header headers name =
     (case map_of headers name of Some v \<Rightarrow> if v \<noteq> [] then Some (name, v) else None | None \<Rightarrow> None)"

definition missing_credentials :: api_error where
  "missing_credentials =
     request_error (''Missing credentials: send your own Anthropic x-api-key or Authorization ''
       @ ''header. anthrouter forwards the client credential and supplies none.'')
       ''authentication_error'' 401"

definition extract_client_credentials :: "header_map \<Rightarrow> exn + credentials" where
  "extract_client_credentials headers =
     (case List.map_filter (sent_header headers) AUTH_HEADERS of
        [] \<Rightarrow> Inl (RequestError missing_credentials)
      | a # _ \<Rightarrow>
          Inr \<lparr>auth = a, forward = List.map_filter (sent_header headers) PASSTHROUGH_HEADERS\<rparr>)"

definition request_headers :: "credentials \<Rightarrow> string \<Rightarrow> bool \<Rightarrow> header_map" where
  "request_headers cred betas stream =
     (let base = [(''anthropic-version'', ANTHROPIC_VERSION), (''Content-Type'', ''application/json''),
                  (''Accept'', if stream then ''text/event-stream'' else ''application/json'')];
          h = AList.updates (map fst (forward cred)) (map snd (forward cred)) base;
          h' = AList.update (fst (auth cred)) (snd (auth cred)) h
      in if betas \<noteq> [] then AList.update ''anthropic-beta'' betas h' else h')"

section \<open>The retry loop\<close>

datatype reply = Network_failure | Reply http_response

record transport_state =
  sent :: "jdict list"
  waits :: "rat list"

type_synonym upstream = "jdict list \<Rightarrow> jdict \<Rightarrow> reply"

definition connection_failed :: api_error where
  "connection_failed =
     (request_error (''Upstream connection error after 3 retries'') ''api_error'' 502)
       \<lparr>connection_error := True\<rparr>"

definition request_failed :: api_error where
  "request_failed = request_error ''Upstream request failed'' ''api_error'' 502"

text \<open>The thinking-block 400: the stripped payload, when stripping changes something.\<close>

definition thinking_400 :: "http_response \<Rightarrow> bool" where
  "thinking_400 resp \<longleftrightarrow>
     resp_status resp = 400 \<and> py_in ''thinking'' (resp_body resp) \<and>
     (py_in ''signature'' (resp_body resp) \<or> py_in ''redacted_thinking'' (resp_body resp))"

definition strip_recovery :: "bool \<Rightarrow> http_response \<Rightarrow> jdict \<Rightarrow> jdict option" where
  "strip_recovery stripped resp payload =
     (if \<not> stripped \<and> thinking_400 resp
      then case jget ''messages'' payload of
             JArr ms \<Rightarrow>
               (let (ms', changed) = strip_all_thinking_blocks ms in
                if changed then Some (jset ''messages'' (JArr ms') payload) else None)
           | _ \<Rightarrow> None
      else None)"

definition system_400 :: "http_response \<Rightarrow> bool" where
  "system_400 resp \<longleftrightarrow>
     resp_status resp = 400 \<and> py_in ''system'' (resp_body resp) \<and> py_in ''role'' (resp_body resp)"

text \<open>Whether the forced inline-system rewrite applies; resolving the model may raise.\<close>

definition rewrite_recovery :: "aliases \<Rightarrow> bool \<Rightarrow> http_response \<Rightarrow> jdict \<Rightarrow> exn + bool" where
  "rewrite_recovery al forced resp payload =
     (if \<not> forced \<and> system_400 resp
      then map_sum id (\<lambda>model.
             \<not> rejects_system_role_in_messages model \<and>
             (case jget ''messages'' payload of JArr ms \<Rightarrow> list_ex is_system_msg ms | _ \<Rightarrow> False))
           (resolve_model al (jget ''model'' payload))
      else Inr False)"

definition note_wait :: "rat \<Rightarrow> transport_state \<Rightarrow> transport_state" where
  "note_wait d st = st\<lparr>waits := waits st @ [d]\<rparr>"

text \<open>The attempts left, the number of the next one, the payload and body in force and the two
  one-shot flags.\<close>

fun send_loop ::
  "http_env \<Rightarrow> upstream \<Rightarrow> aliases \<Rightarrow> nat \<Rightarrow> nat \<Rightarrow> jdict \<Rightarrow> jdict \<Rightarrow> bool \<Rightarrow> bool \<Rightarrow>
   transport_state \<Rightarrow> (exn + http_response) \<times> transport_state" where
  "send_loop he up al 0 attempt payload body stripped forced st = (Inl (RequestError request_failed), st)"
| "send_loop he up al (Suc left) attempt payload body stripped forced st =
     (let st' = st\<lparr>sent := sent st @ [body]\<rparr> in
      case up (sent st) body of
        Network_failure \<Rightarrow>
          if left > 0
          then send_loop he up al left (Suc attempt) payload body stripped forced
                 (note_wait (backoff attempt) st')
          else (Inl (RequestError connection_failed), st')
      | Reply resp \<Rightarrow>
          if resp_status resp = 200 then (Inr resp, st')
          else if should_retry he (resp_status resp) resp \<and> left > 0
          then send_loop he up al left (Suc attempt) payload body stripped forced
                 (note_wait (retry_delay he resp attempt) st')
          else case strip_recovery stripped resp payload of
                 Some payload' \<Rightarrow>
                   (case build_body al payload' forced of
                      Inl e \<Rightarrow> (Inl e, st')
                    | Inr body' \<Rightarrow> send_loop he up al left (Suc attempt) payload' body' True forced st')
               | None \<Rightarrow>
                   (case rewrite_recovery al forced resp payload of
                      Inl e \<Rightarrow> (Inl e, st')
                    | Inr True \<Rightarrow>
                        (case build_body al payload True of
                           Inl e \<Rightarrow> (Inl e, st')
                         | Inr body' \<Rightarrow>
                             send_loop he up al left (Suc attempt) payload body' stripped True st')
                    | Inr False \<Rightarrow>
                        (Inl (handle_error_response he (resp_status resp) (resp_body resp) resp), st')))"

declare send_loop.simps(2) [simp del]

definition fresh_transport :: transport_state where
  "fresh_transport = \<lparr>sent = [], waits = []\<rparr>"

definition send_with_retries ::
  "http_env \<Rightarrow> upstream \<Rightarrow> aliases \<Rightarrow> jdict \<Rightarrow> (exn + http_response) \<times> transport_state" where
  "send_with_retries he up al payload =
     (case build_body al payload False of
        Inl e \<Rightarrow> (Inl e, fresh_transport)
      | Inr body \<Rightarrow>
          (case merge_betas al payload of
             Inl e \<Rightarrow> (Inl e, fresh_transport)
           | Inr betas \<Rightarrow>
               send_loop he up al (Suc MAX_RETRIES) 0 payload body False False fresh_transport))"

definition send_message ::
  "http_env \<Rightarrow> upstream \<Rightarrow> aliases \<Rightarrow> jdict \<Rightarrow> exn + json" where
  "send_message he up al payload =
     (case fst (send_with_retries he up al payload) of
        Inl e \<Rightarrow> Inl e
      | Inr resp \<Rightarrow>
          (case he_loads he (resp_body resp) of
             Some v \<Rightarrow> Inr v
           | None \<Rightarrow> Inl (RequestError (request_error
               (''Upstream returned non-JSON response: '' @
                he_str he (JStr (py_head (resp_body resp) 200))) ''api_error'' 502))))"

definition send_message_stream ::
  "http_env \<Rightarrow> upstream \<Rightarrow> aliases \<Rightarrow> jdict \<Rightarrow> exn + string list" where
  "send_message_stream he up al payload =
     map_sum id (\<lambda>resp. sse_events [] (sse_lines (he_decode he (resp_body resp))))
       (fst (send_with_retries he up al payload))"

text \<open>\<open>count_tokens\<close>: any failure of the upstream call falls back to the local estimate.\<close>

definition count_tokens_upstream ::
  "http_env \<Rightarrow> (jdict \<Rightarrow> reply) \<Rightarrow> aliases \<Rightarrow> jdict \<Rightarrow> json option" where
  "count_tokens_upstream he up al payload =
     (case (build_body al payload False, merge_betas al payload) of
        (Inr body, Inr betas) \<Rightarrow>
          (case up body of
             Reply resp \<Rightarrow> if resp_status resp = 200 then he_loads he (resp_body resp) else None
           | Network_failure \<Rightarrow> None)
      | _ \<Rightarrow> None)"

definition count_tokens ::
  "http_env \<Rightarrow> (jdict \<Rightarrow> reply) \<Rightarrow> aliases \<Rightarrow> jdict \<Rightarrow> exn + json" where
  "count_tokens he up al payload =
     (case count_tokens_upstream he up al payload of
        Some v \<Rightarrow> Inr v
      | None \<Rightarrow>
          (case estimate_input_tokens payload of
             None \<Rightarrow> Inl (PyError OtherError)
           | Some n \<Rightarrow>
               map_sum id (\<lambda>model. JObj [(''input_tokens'', JInt n), (''model'', JStr model)])
                 (resolve_model al (jget ''model'' payload))))"

section \<open>Bounds of the loop\<close>

text \<open>\<open>tried n ok st st'\<close>: at most \<open>n\<close> bodies were sent, each satisfying \<open>ok\<close>, with at most
  one wait between two sends.\<close>

definition tried :: "nat \<Rightarrow> (jdict \<Rightarrow> bool) \<Rightarrow> transport_state \<Rightarrow> transport_state \<Rightarrow> bool" where
  "tried n ok st st' \<longleftrightarrow>
     (\<exists>bs ws. sent st' = sent st @ bs \<and> waits st' = waits st @ ws \<and> length bs \<le> n \<and>
        length ws \<le> length bs \<and> list_all ok bs \<and> list_all (\<lambda>w. 0 \<le> w) ws)"

lemma tried_refl: "tried n ok st st"
  by (simp add: tried_def)

lemma tried_send:
  assumes "tried n ok st1 st2" "ok body"
    and "sent st1 = sent st @ [body]" "waits st1 = waits st \<or> (\<exists>w \<ge> 0. waits st1 = waits st @ [w])"
  shows "tried (Suc n) ok st st2"
proof -
  obtain bs ws where bs: "sent st2 = sent st1 @ bs" "waits st2 = waits st1 @ ws" "length bs \<le> n"
    "length ws \<le> length bs" "list_all ok bs" "list_all (\<lambda>w. 0 \<le> w) ws"
    using assms(1) unfolding tried_def by blast
  from assms(4) show ?thesis
  proof
    assume "waits st1 = waits st"
    with bs assms(2,3) show ?thesis
      unfolding tried_def by (intro exI [of _ "body # bs"] exI [of _ ws]) simp
  next
    assume "\<exists>w \<ge> 0. waits st1 = waits st @ [w]"
    then obtain w where "0 \<le> w" "waits st1 = waits st @ [w]" by blast
    with bs assms(2,3) show ?thesis
      unfolding tried_def by (intro exI [of _ "body # bs"] exI [of _ "w # ws"]) simp
  qed
qed

lemma resolve_preserved: "jget ''model'' p' = jget ''model'' p \<Longrightarrow>
    resolve_model al (jget ''model'' p') = resolve_model al (jget ''model'' p)"
  by simp

lemma strip_recovery_model:
  "strip_recovery s resp p = Some p' \<Longrightarrow> jget ''model'' p' = jget ''model'' p"
  by (auto simp: strip_recovery_def split_beta Let_def split: json.splits if_splits)

lemma send_loop_tried:
  assumes "resolve_model al (jget ''model'' payload) = Inr model" and "accepted_by model body"
  shows "tried n (accepted_by model) st (snd (send_loop he up al n attempt payload body stripped forced st))"
  using assms
proof (induction n arbitrary: attempt payload body stripped forced st)
  case 0
  show ?case by (simp add: tried_refl)
next
  case (Suc n)
  let ?st = "st\<lparr>sent := sent st @ [body]\<rparr>"
  have again: "tried (Suc n) (accepted_by model) st (snd (send_loop he up al n a p b s f (note_wait w ?st)))"
    if "resolve_model al (jget ''model'' p) = Inr model" "accepted_by model b" "0 \<le> w" for a p b s f w
    by (rule tried_send [OF Suc.IH [OF that(1,2)] Suc.prems(2)]) (use that(3) in \<open>auto simp: note_wait_def\<close>)
  have at_once: "tried (Suc n) (accepted_by model) st (snd (send_loop he up al n a p b s f ?st))"
    if "resolve_model al (jget ''model'' p) = Inr model" "accepted_by model b" for a p b s f
    by (rule tried_send [OF Suc.IH [OF that] Suc.prems(2)]) simp_all
  have stop: "tried (Suc n) (accepted_by model) st ?st"
    using tried_send [of n "accepted_by model" ?st ?st body st] Suc.prems(2) by (simp add: tried_refl)
  have backoff: "0 \<le> backoff attempt" by (simp add: backoff_def RETRY_BASE_DELAY_def RETRY_MAX_DELAY_def)
  have stripped: "tried (Suc n) (accepted_by model) st (snd (send_loop he up al n a p b s f ?st))"
    if "strip_recovery stripped resp payload = Some p" "build_body al p force = Inr b" for resp p b a s f force
  proof -
    have m: "resolve_model al (jget ''model'' p) = Inr model"
      using Suc.prems(1) strip_recovery_model [OF that(1)] by simp
    show ?thesis by (rule at_once [OF m build_body_accepts [OF that(2) m]])
  qed
  have rewritten: "tried (Suc n) (accepted_by model) st (snd (send_loop he up al n a payload b s f ?st))"
    if "build_body al payload True = Inr b" for b a s f
    by (rule at_once [OF Suc.prems(1) build_body_accepts [OF that Suc.prems(1)]])
  show ?case
    using again [OF Suc.prems] at_once stop backoff retry_delay_nonneg stripped rewritten
    by (auto simp: send_loop.simps(2) Let_def split: reply.splits option.splits sum.splits bool.splits)
qed

lemma send_with_retries_tried:
  assumes "resolve_model al (jget ''model'' payload) = Inr model"
  shows "tried 4 (accepted_by model) fresh_transport (snd (send_with_retries he up al payload))"
proof -
  have "tried (Suc MAX_RETRIES) (accepted_by model) fresh_transport
      (snd (send_loop he up al (Suc MAX_RETRIES) 0 payload body False False fresh_transport))"
    if "build_body al payload False = Inr body" for body
    by (rule send_loop_tried [OF assms build_body_accepts [OF that assms]])
  then show ?thesis
    by (auto simp: send_with_retries_def MAX_RETRIES_def tried_refl split: sum.splits)
qed

section \<open>Properties\<close>


definition plain_http_env :: http_env where
  "plain_http_env =
     \<lparr>he_float = (\<lambda>_. None), he_int = (\<lambda>_. None), he_date_delta = (\<lambda>_. None),
      he_loads = (\<lambda>_. None), he_str = (\<lambda>_. []), he_decode = (\<lambda>s. s)\<rparr>"

definition plain_reply :: "int \<Rightarrow> string \<Rightarrow> reply" where
  "plain_reply status body = Reply \<lparr>resp_status = status, resp_headers = [], resp_body = body\<rparr>"

definition thinking_payload :: jdict where
  "thinking_payload =
     [(''model'', JStr ''opus''),
      (''messages'', JArr
        [JObj [(''role'', JStr ''user''), (''content'', JStr ''hi'')],
         JObj [(''role'', JStr ''assistant''),
               (''content'', JArr [JObj [(''type'', JStr ''thinking'')], text_block ''x''])]])]"


text \<open>An error the policy does not retry reaches the client after exactly one send and no wait; a
  429 without upstream timing is such an error.\<close>

theorem unretried_error_sent_once:
  assumes "build_body al payload False = Inr body" and "merge_betas al payload = Inr betas"
    and "up [] body = Reply resp" and "resp_status resp \<noteq> 200"
    and "\<not> should_retry he (resp_status resp) resp"
    and "\<not> thinking_400 resp" and "\<not> system_400 resp"
  shows "send_with_retries he up al payload =
    (Inl (handle_error_response he (resp_status resp) (resp_body resp) resp), \<lparr>sent = [body], waits = []\<rparr>)"
  using assms
  by (simp add: send_with_retries_def send_loop.simps(2) fresh_transport_def strip_recovery_def
      rewrite_recovery_def)

lemma unretried_error_sent_once_witness:
  "length (sent (snd (send_with_retries plain_http_env (\<lambda>_ _. plain_reply 429 ''slow down'') []
     thinking_payload))) = 1"
proof -
  let ?resp = "\<lparr>resp_status = 429, resp_headers = [], resp_body = ''slow down''\<rparr>"
  have "\<not> isl (build_body [] thinking_payload False)" by code_simp
  then obtain body where b: "build_body [] thinking_payload False = Inr body" by (rule not_islE)
  have betas: "merge_betas [] thinking_payload = Inr []" by code_simp
  have r: "\<not> should_retry plain_http_env (resp_status ?resp) ?resp" by code_simp
  from unretried_error_sent_once [where up = "\<lambda>_ _. plain_reply 429 ''slow down''", OF b betas _ _ r]
  show ?thesis by (simp add: plain_reply_def thinking_400_def system_400_def)
qed

text \<open>The status the client sees: an upstream 4xx keeps its own status, except the expired-Thread 404
  that becomes a 400 with the upstream status kept beside it; every other status becomes a 502.  The
  upstream's retry timing is carried either way.\<close>

theorem error_status_mapped:
  assumes "error_detail he body = (JStr m, ty, is_json)"
  shows "\<exists>a. handle_error_response he status body resp = RequestError a \<and>
    err_retry_after a = parse_retry_after he resp \<and> \<not> connection_error a \<and>
    status_code a =
      (if status < 400 \<or> 500 \<le> status then 502
       else if status = 404 \<and> is_json \<and> startswith m EXPIRED_THREAD_PREFIX then 400 else status) \<and>
    (upstream_status a = None \<or> upstream_status a = Some 404 \<and> status_code a = 400)"
  using assms by (auto simp: handle_error_response_def Let_def request_error_def)

lemma error_status_mapped_witness:
  "\<exists>a. handle_error_response plain_http_env 529 ''busy'' \<lparr>resp_status = 529, resp_headers = [], resp_body = ''busy''\<rparr>
     = RequestError a \<and> status_code a = 502"
proof -
  have "error_detail plain_http_env ''busy'' = (JStr ''busy'', JNull, False)" by code_simp
  from error_status_mapped [OF this, of 529] show ?thesis by fastforce
qed

text \<open>A JSON error whose message is a number, a boolean or an object never reaches the client with its
  status: slicing it for the log raises first.\<close>

theorem non_text_message_raises:
  assumes "error_detail he body = (message, ty, is_json)" and "as_str message = None" and "as_list message = None"
  shows "handle_error_response he status body resp = PyError TypeError"
  using assms by (cases message) (simp_all add: handle_error_response_def Let_def)

text \<open>A thinking-block 400 on the last attempt is lost: the recovery uses up the loop without
  resending, and the client is told 502 instead of the upstream's 400.\<close>

theorem late_recovery_becomes_502:
  assumes "up (sent st) body = Reply resp"
    and "strip_recovery stripped resp payload = Some payload'" and "build_body al payload' forced = Inr body'"
  shows "send_loop he up al (Suc 0) attempt payload body stripped forced st =
    (Inl (RequestError request_failed), st\<lparr>sent := sent st @ [body]\<rparr>)"
proof -
  have "resp_status resp = 400"
    using assms(2) by (auto simp: strip_recovery_def thinking_400_def split: if_splits)
  with assms show ?thesis by (simp add: send_loop.simps(2) Let_def should_retry_def RETRYABLE_STATUSES_def)
qed

lemma late_recovery_becomes_502_witness:
  "fst (send_loop plain_http_env (\<lambda>_ _. plain_reply 400 ''thinking signature'') [] (Suc 0) 3
     thinking_payload [] False False fresh_transport) = Inl (RequestError request_failed)"
proof -
  let ?resp = "\<lparr>resp_status = 400, resp_headers = [], resp_body = ''thinking signature''\<rparr>"
  have "strip_recovery False ?resp thinking_payload \<noteq> None" by code_simp
  then obtain p where p: "strip_recovery False ?resp thinking_payload = Some p" by blast
  have "\<not> isl (build_body [] (the (strip_recovery False ?resp thinking_payload)) False)" by code_simp
  then obtain b where b: "build_body [] p False = Inr b" by (rule not_islE) (simp add: p)
  from late_recovery_becomes_502 [where up = "\<lambda>_ _. plain_reply 400 ''thinking signature''", OF _ p b]
  show ?thesis by (simp add: plain_reply_def)
qed

text \<open>Credentials pass through untouched and are never invented: without either auth header the
  request is refused with 401; otherwise the outbound headers carry the client's own value under the
  client's own header, the API key first.\<close>

theorem credentials_pass_through:
  "case extract_client_credentials headers of
     Inl e \<Rightarrow> e = RequestError missing_credentials \<and> status_code missing_credentials = 401 \<and>
       list_all (\<lambda>n. sent_header headers n = None) AUTH_HEADERS
   | Inr cred \<Rightarrow>
       map_of headers (fst (auth cred)) = Some (snd (auth cred)) \<and> snd (auth cred) \<noteq> [] \<and>
       map_of (request_headers cred betas stream) (fst (auth cred)) = map_of headers (fst (auth cred)) \<and>
       (fst (auth cred) = ''authorization'' \<longrightarrow> sent_header headers ''x-api-key'' = None)"
proof -
  have sh: "sent_header headers n = Some c \<Longrightarrow> map_of headers n = Some (snd c) \<and> snd c \<noteq> [] \<and> fst c = n" for n c
    by (auto simp: sent_header_def split: option.splits if_splits)
  show ?thesis
    by (cases "sent_header headers ''x-api-key''"; cases "sent_header headers ''authorization''")
       (auto simp: extract_client_credentials_def AUTH_HEADERS_def List.map_filter_simps
         missing_credentials_def request_error_def request_headers_def Let_def dest!: sh)
qed

lemma credentials_pass_through_witness:
  "\<exists>cred. extract_client_credentials [(''authorization'', ''Bearer t'')] = Inr cred \<and>
     map_of (request_headers cred ''b'' True) (fst (auth cred)) = Some ''Bearer t''"
proof -
  have e: "extract_client_credentials [(''authorization'', ''Bearer t'')] =
      Inr \<lparr>auth = (''authorization'', ''Bearer t''), forward = []\<rparr>" by code_simp
  from credentials_pass_through [of "[(''authorization'', ''Bearer t'')]" "''b''" True] e
  show ?thesis by simp
qed

text \<open>Regrouping the upstream stream into events loses nothing: every character of the stream that
  is not white space is forwarded, once and in order.\<close>

theorem sse_forwarding_lossless:
  "ink (concat (sse_events [] (sse_lines body))) = ink body"
  by (simp add: sse_events_ink sse_lines_ink)

end
