(* ===== verification/Request_Text.thy ===== *)
theory Request_Text
  imports Payload_Common
begin

text \<open>
  \<^verbatim>\<open>anthrouter/request_text.py\<close>: the wrapper blocks Claude Code injects into the final user
  message, affirmations, title and activity prompts, and the attribution reminder.

  Each regular expression of the module is a matcher: \<open>m s = Some rest\<close> when the expression
  matches at the start of \<open>s\<close> and \<open>rest\<close> is what follows the match.  The locale \<open>block_matcher\<close>
  states the one law scanning needs (a match consumes something), and its lemmas hold of
  \<open>re.sub\<close>, \<open>re.subn\<close> and \<open>re.finditer\<close> for every matcher it is interpreted on.
\<close>

section \<open>Scanning\<close>

type_synonym matcher = "string \<Rightarrow> string option"

text \<open>
  \<open>re.subn('', s)\<close>: the text without the matches and their number.  The length test is the
  termination argument; by the law of \<open>block_matcher\<close> it never fails.
\<close>

function sub_n :: "matcher \<Rightarrow> string \<Rightarrow> string \<times> nat" where
  "sub_n m [] = ([], 0)"
| "sub_n m (c # s) =
     (case m (c # s) of
        Some r \<Rightarrow>
          if length r \<le> length s then (let (t, n) = sub_n m r in (t, Suc n))
          else (let (t, n) = sub_n m s in (c # t, n))
      | None \<Rightarrow> (let (t, n) = sub_n m s in (c # t, n)))"
  by pat_completeness auto
termination by (relation "measure (length \<circ> snd)") auto

definition sub_all :: "matcher \<Rightarrow> string \<Rightarrow> string" where
  "sub_all m s = fst (sub_n m s)"

text \<open>\<open>[x.group(0) for x in re.finditer(s)]\<close>.\<close>

function find_matches :: "matcher \<Rightarrow> string \<Rightarrow> string list" where
  "find_matches m [] = []"
| "find_matches m (c # s) =
     (case m (c # s) of
        Some r \<Rightarrow>
          if length r \<le> length s
          then take (length (c # s) - length r) (c # s) # find_matches m r
          else find_matches m s
      | None \<Rightarrow> find_matches m s)"
  by pat_completeness auto
termination by (relation "measure (length \<circ> snd)") auto

declare sub_n.simps(2) [simp del] find_matches.simps(2) [simp del]

locale block_matcher =
  fixes m :: "string \<Rightarrow> string option"
  assumes consumes: "m s = Some r \<Longrightarrow> \<exists>p. p \<noteq> [] \<and> s = p @ r"
begin

lemma shorter: "m (c # s) = Some r \<Longrightarrow> length r \<le> length s"
  using consumes [of "c # s" r] by (auto simp: Cons_eq_append_conv)

lemma sub_n_match: "m (c # s) = Some r \<Longrightarrow> sub_n m (c # s) = (fst (sub_n m r), Suc (snd (sub_n m r)))"
  by (simp add: sub_n.simps(2) shorter split_beta)

lemma sub_n_skip: "m (c # s) = None \<Longrightarrow> sub_n m (c # s) = (c # fst (sub_n m s), snd (sub_n m s))"
  by (simp add: sub_n.simps(2) split_beta)

lemma find_match:
  "m (c # s) = Some r \<Longrightarrow>
   find_matches m (c # s) = take (length (c # s) - length r) (c # s) # find_matches m r"
  by (simp add: find_matches.simps(2) shorter)

lemma find_skip: "m (c # s) = None \<Longrightarrow> find_matches m (c # s) = find_matches m s"
  by (simp add: find_matches.simps(2))

text \<open>Induction along the scan.\<close>

lemma scan_induct [case_names Nil match skip]:
  assumes "P []"
    and "\<And>c s r. m (c # s) = Some r \<Longrightarrow> P r \<Longrightarrow> P (c # s)"
    and "\<And>c s. m (c # s) = None \<Longrightarrow> P s \<Longrightarrow> P (c # s)"
  shows "P s"
proof (induction s rule: length_induct)
  case (1 s)
  show ?case
  proof (cases s)
    case Nil
    with assms(1) show ?thesis by simp
  next
    case (Cons c t)
    show ?thesis
    proof (cases "m (c # t)")
      case None
      with 1 Cons assms(3) show ?thesis by simp
    next
      case (Some r)
      with shorter [OF Some] 1 Cons assms(2) [OF Some] show ?thesis by simp
    qed
  qed
qed

lemma sub_n_subseq: "subseq (fst (sub_n m s)) s"
proof (induction s rule: scan_induct)
  case (match c s r)
  then obtain p where "c # s = p @ r" using consumes by blast
  with match.IH have "subseq (fst (sub_n m r)) (c # s)" by (simp add: subseq_drop_many)
  then show ?case by (simp add: sub_n_match [OF match.hyps])
next
  case (skip c s)
  then show ?case by (simp add: sub_n_skip [OF skip.hyps])
qed simp

lemma sub_all_length: "length (sub_all m s) \<le> length s"
  unfolding sub_all_def using sub_n_subseq [of s] by (rule list_emb_length)

lemma sub_n_shrinks: "length (fst (sub_n m s)) + snd (sub_n m s) \<le> length s"
proof (induction s rule: scan_induct)
  case (match c s r)
  with shorter [OF match.hyps] show ?case by (simp add: sub_n_match [OF match.hyps])
next
  case (skip c s)
  then show ?case by (simp add: sub_n_skip [OF skip.hyps])
qed simp

lemma sub_n_zero: "snd (sub_n m s) = 0 \<Longrightarrow> fst (sub_n m s) = s"
proof (induction s rule: scan_induct)
  case (match c s r)
  then show ?case by (simp add: sub_n_match)
next
  case (skip c s)
  then show ?case by (simp add: sub_n_skip [OF skip.hyps])
qed simp

lemma sub_n_count: "snd (sub_n m s) = length (find_matches m s)"
proof (induction s rule: scan_induct)
  case (match c s r)
  then show ?case by (simp add: sub_n_match [OF match.hyps] find_match [OF match.hyps])
next
  case (skip c s)
  then show ?case by (simp add: sub_n_skip [OF skip.hyps] find_skip [OF skip.hyps])
qed simp

lemma find_matches_sublist: "raw \<in> set (find_matches m s) \<Longrightarrow> sublist raw s"
proof (induction s rule: scan_induct)
  case (match c s r)
  obtain p where p: "c # s = p @ r" using consumes [OF match.hyps] by blast
  then have pre: "take (length (c # s) - length r) (c # s) = p" by simp
  consider "raw = p" | "raw \<in> set (find_matches m r)"
    using match.prems unfolding find_match [OF match.hyps] pre by auto
  then show ?case
  proof cases
    case 1
    then show ?thesis unfolding p by simp
  next
    case 2
    with match.IH show ?thesis unfolding p by (meson sublist_append_leftI sublist_order.order_trans)
  qed
next
  case (skip c s)
  then show ?case by (simp only: find_skip sublist_Cons_right) blast
qed simp

end

section \<open>The wrapper-block expressions\<close>

text \<open>The text after the first \<open>d\<close>, or None.\<close>

fun after_char :: "char \<Rightarrow> string \<Rightarrow> string option" where
  "after_char d [] = None"
| "after_char d (c # s) = (if c = d then Some s else after_char d s)"

text \<open>The text after the first place where a closing matcher succeeds: \<open>.*?close\<close>.\<close>

fun after_first :: "matcher \<Rightarrow> string \<Rightarrow> string option" where
  "after_first close [] = close []"
| "after_first close (c # s) =
     (case close (c # s) of Some r \<Rightarrow> Some r | None \<Rightarrow> after_first close s)"

definition lit :: "string \<Rightarrow> matcher" where
  "lit p s = (if prefix p s then Some (drop (length p) s) else None)"

definition lit_ci :: "string \<Rightarrow> matcher" where
  "lit_ci p s =
     (if py_lower (take (length p) s) = p then Some (drop (length p) s) else None)"

text \<open>\<open>\b\<close> after a word character.\<close>

definition at_boundary :: "string \<Rightarrow> bool" where
  "at_boundary s \<longleftrightarrow> s = [] \<or> \<not> py_isword (hd s)"

text \<open>\<open><tag\b[^>]*>\<close>, with the tag name matched by \<open>opener\<close>.\<close>

definition open_tag :: "matcher \<Rightarrow> matcher" where
  "open_tag opener s =
     (case opener s of
        Some t \<Rightarrow> if at_boundary t then after_char CHR ''>'' t else None
      | None \<Rightarrow> None)"

definition transcript_match :: matcher where
  "transcript_match s =
     (case open_tag (lit ''<transcript'') s of
        Some body \<Rightarrow>
          (case after_first (lit ''</transcript>'') body of Some r \<Rightarrow> Some r | None \<Rightarrow> Some [])
      | None \<Rightarrow> None)"

text \<open>\<open></system-reminder\s*>\<close>, ignoring case.\<close>

definition close_reminder :: matcher where
  "close_reminder s =
     (case lit_ci ''</system-reminder'' s of
        Some t \<Rightarrow> (case py_lstrip t of c # r \<Rightarrow> if c = CHR ''>'' then Some r else None | [] \<Rightarrow> None)
      | None \<Rightarrow> None)"

definition system_reminder_match :: matcher where
  "system_reminder_match s =
     (case open_tag (lit_ci ''<system-reminder'') s of
        Some body \<Rightarrow> (case after_first close_reminder body of Some r \<Rightarrow> Some r | None \<Rightarrow> Some [])
      | None \<Rightarrow> None)"

definition WRAPPER_TAGS :: "string list" where
  "WRAPPER_TAGS =
     [''system-reminder'', ''local-command-caveat'', ''command-name'', ''command-message'',
      ''command-args'', ''local-command-stdout'', ''local-command-stderr'']"

definition LOCAL_COMMAND_WRAPPER_TAGS :: "string list" where
  "LOCAL_COMMAND_WRAPPER_TAGS = filter (\<lambda>tag. tag \<noteq> ''system-reminder'') WRAPPER_TAGS"

definition wrapper_match :: "string \<Rightarrow> matcher" where
  "wrapper_match tag s =
     (case lit (''<'' @ tag @ ''>'') s of
        Some body \<Rightarrow> after_first (lit (''</'' @ tag @ ''>'')) body
      | None \<Rightarrow> None)"

fun first_match :: "matcher list \<Rightarrow> matcher" where
  "first_match [] s = None"
| "first_match (m # ms) s = (case m s of Some r \<Rightarrow> Some r | None \<Rightarrow> first_match ms s)"

definition local_command_match :: matcher where
  "local_command_match = first_match (map wrapper_match LOCAL_COMMAND_WRAPPER_TAGS)"

subsection \<open>Every expression consumes what it matches\<close>

lemma after_char_suffix: "after_char d s = Some r \<Longrightarrow> suffix r s"
  by (induction s) (auto split: if_splits simp: suffix_Cons)

lemma after_first_suffix:
  assumes "\<And>s r. close s = Some r \<Longrightarrow> suffix r s"
  shows "after_first close s = Some r \<Longrightarrow> suffix r s"
  by (induction s) (auto split: option.splits simp: suffix_Cons dest: assms)

lemma lit_suffix: "lit p s = Some r \<Longrightarrow> suffix r s"
  by (auto simp: lit_def suffix_drop split: if_splits)

lemma lit_ci_suffix: "lit_ci p s = Some r \<Longrightarrow> suffix r s"
  by (auto simp: lit_ci_def suffix_drop split: if_splits)

lemma lit_shorter: "lit p s = Some r \<Longrightarrow> p \<noteq> [] \<Longrightarrow> length r < length s"
  by (auto simp: lit_def prefix_def split: if_splits)

lemma lit_ci_shorter:
  assumes "lit_ci p s = Some r" and "p \<noteq> []"
  shows "length r < length s"
proof -
  from assms(1) have p: "py_lower (take (length p) s) = p" and r: "r = drop (length p) s"
    by (auto simp: lit_ci_def split: if_splits)
  from p have "length (take (length p) s) = length p" by (metis length_py_lower)
  then have "length p \<le> length s" by simp
  with r assms(2) show ?thesis by (cases p) auto
qed

lemma py_lstrip_suffix: "suffix (py_lstrip s) s"
  by (induction s) (auto simp: suffix_Cons)

lemma close_reminder_suffix: "close_reminder s = Some r \<Longrightarrow> suffix r s"
  by (auto simp: close_reminder_def split: option.splits list.splits if_splits
      dest!: lit_ci_suffix)
     (metis py_lstrip_suffix suffix_ConsI suffix_order.order_refl suffix_order.trans)

lemma open_tag_shorter:
  assumes "open_tag m s = Some r" "\<And>s r. m s = Some r \<Longrightarrow> suffix r s \<and> length r < length s"
  shows "suffix r s \<and> length r < length s"
  using assms(1) assms(2) [of s] after_char_suffix
  by (auto simp: open_tag_def split: option.splits if_splits
      dest: suffix_length_le intro: suffix_order.trans)
     (meson after_char_suffix le_less_trans suffix_length_le)

lemma block_matcherI:
  assumes "\<And>s r. m s = Some r \<Longrightarrow> suffix r s \<and> length r < length s"
  shows "block_matcher m"
proof
  fix s r
  assume "m s = Some r"
  from assms [OF this] show "\<exists>p. p \<noteq> [] \<and> s = p @ r" by (auto simp: suffix_def)
qed

lemma opened_block_shorter:
  assumes "open_tag m s = Some body" and tail: "r = [] \<or> after_first close body = Some r"
    and m: "\<And>s r. m s = Some r \<Longrightarrow> suffix r s \<and> length r < length s"
    and close: "\<And>s r. close s = Some r \<Longrightarrow> suffix r s"
  shows "suffix r s \<and> length r < length s"
proof -
  have b: "suffix body s" "length body < length s" using open_tag_shorter [OF assms(1) m] by auto
  show ?thesis
  proof (cases "r = []")
    case True
    with b(2) show ?thesis by auto
  next
    case False
    with tail have "suffix r body" using after_first_suffix [of close body r, OF close] by simp
    with b show ?thesis by (auto intro: suffix_order.trans dest: suffix_length_le)
  qed
qed

lemma lit_transcript: "lit ''<transcript'' s = Some r \<Longrightarrow> suffix r s \<and> length r < length s"
  by (simp add: lit_suffix lit_shorter)

lemma lit_ci_reminder: "lit_ci ''<system-reminder'' s = Some r \<Longrightarrow> suffix r s \<and> length r < length s"
  by (simp add: lit_ci_suffix lit_ci_shorter)

interpretation transcript: block_matcher transcript_match
proof (rule block_matcherI)
  fix s r
  assume "transcript_match s = Some r"
  then obtain body where "open_tag (lit ''<transcript'') s = Some body"
    "r = [] \<or> after_first (lit ''</transcript>'') body = Some r"
    by (auto simp: transcript_match_def split: option.splits)
  then show "suffix r s \<and> length r < length s"
    by (rule opened_block_shorter) (simp_all add: lit_transcript lit_suffix)
qed

interpretation system_reminder: block_matcher system_reminder_match
proof (rule block_matcherI)
  fix s r
  assume "system_reminder_match s = Some r"
  then obtain body where "open_tag (lit_ci ''<system-reminder'') s = Some body"
    "r = [] \<or> after_first close_reminder body = Some r"
    by (auto simp: system_reminder_match_def split: option.splits)
  then show "suffix r s \<and> length r < length s"
    by (rule opened_block_shorter) (simp_all add: lit_ci_reminder close_reminder_suffix)
qed

lemma wrapper_match_shorter:
  assumes "wrapper_match tag s = Some r"
  shows "suffix r s \<and> length r < length s"
proof -
  from assms obtain body where b: "lit (''<'' @ tag @ ''>'') s = Some body"
    "after_first (lit (''</'' @ tag @ ''>'')) body = Some r"
    by (auto simp: wrapper_match_def split: option.splits)
  have "suffix r body" by (rule after_first_suffix [OF _ b(2)]) (rule lit_suffix)
  moreover have "suffix body s" "length body < length s"
    using lit_suffix [OF b(1)] lit_shorter [OF b(1)] by simp_all
  ultimately show ?thesis by (auto intro: suffix_order.trans dest: suffix_length_le)
qed

lemma first_match_shorter:
  assumes "\<And>m s r. m \<in> set ms \<Longrightarrow> m s = Some r \<Longrightarrow> suffix r s \<and> length r < length s"
  shows "first_match ms s = Some r \<Longrightarrow> suffix r s \<and> length r < length s"
  using assms by (induction ms) (auto split: option.splits)

interpretation local_command: block_matcher local_command_match
  by (rule block_matcherI)
     (auto simp: local_command_match_def dest!: first_match_shorter [rotated] wrapper_match_shorter)

section \<open>Reminders and transcripts\<close>

definition strip_reminders :: "string \<Rightarrow> string" where
  "strip_reminders t =
     py_strip (sub_all local_command_match (sub_all system_reminder_match (sub_all transcript_match t)))"

definition TRANSCRIPT_FALLBACK_LIMIT :: int where
  "TRANSCRIPT_FALLBACK_LIMIT = 1000"

definition transcript_roles :: "string list" where
  "transcript_roles = [''user'', ''human'', ''assistant'']"

text \<open>\<open>\s*(User|Human|Assistant)\s*:\<close>: the role, lower-cased, and what follows the colon.\<close>

definition role_marker :: "string \<Rightarrow> (string \<times> string) option" where
  "role_marker s =
     (case find (\<lambda>role. lit_ci role (py_lstrip s) \<noteq> None) transcript_roles of
        None \<Rightarrow> None
      | Some role \<Rightarrow>
          (case lit_ci role (py_lstrip s) of
             None \<Rightarrow> None
           | Some t \<Rightarrow>
               (case py_lstrip t of
                  [] \<Rightarrow> None
                | c # r \<Rightarrow> if c = CHR '':'' then Some (role, r) else None)))"

text \<open>\<open>(.*?)(?=\n\s*ROLE\s*:|\Z)\<close>: the captured turn and the unconsumed rest.\<close>

fun turn_text :: "string \<Rightarrow> string \<times> string" where
  "turn_text [] = ([], [])"
| "turn_text (c # s) =
     (if c = CHR 0x0A \<and> role_marker s \<noteq> None then ([], c # s)
      else (let (t, r) = turn_text s in (c # t, r)))"

text \<open>One match of the turn expression: \<open>^\<close> only holds at the start of the inner text.\<close>

definition turn_match :: "bool \<Rightarrow> string \<Rightarrow> (string \<times> string \<times> string) option" where
  "turn_match at_start s =
     (case (if at_start then Some s
            else case s of c # t \<Rightarrow> if c = CHR 0x0A then Some t else None | [] \<Rightarrow> None) of
        None \<Rightarrow> None
      | Some t \<Rightarrow>
          (case role_marker t of
             None \<Rightarrow> None
           | Some (role, r) \<Rightarrow> (let (turn, rest) = turn_text (py_lstrip r) in Some (role, turn, rest))))"

lemma turn_text_length: "length (snd (turn_text s)) \<le> length s"
  by (induction s) (auto simp: split_beta)

lemma role_marker_length: "role_marker s = Some (role, r) \<Longrightarrow> length r < length s"
  using length_py_lstrip_le [of s]
  by (auto simp: role_marker_def split: option.splits list.splits if_splits dest!: lit_ci_suffix
      suffix_length_le)
     (metis Suc_le_eq dual_order.trans length_Cons length_py_lstrip_le)

lemma turn_match_length: "turn_match b s = Some (role, turn, r) \<Longrightarrow> length r < length s"
proof -
  assume m: "turn_match b s = Some (role, turn, r)"
  then obtain t q where t: "length t \<le> length s" "role_marker t = Some (role, q)"
    and r: "r = snd (turn_text (py_lstrip q))"
    by (auto simp: turn_match_def split: option.splits if_splits list.splits prod.splits)
       (metis order_refl snd_conv, metis le_Suc_eq order_refl snd_conv)
  from role_marker_length [OF t(2)] turn_text_length [of "py_lstrip q"] length_py_lstrip_le [of q] t(1)
  show ?thesis unfolding r by linarith
qed

text \<open>The text of the last user or human turn, walking the markers left to right.\<close>

function last_user_turn :: "bool \<Rightarrow> string \<Rightarrow> string \<Rightarrow> string" where
  "last_user_turn at_start s found =
     (case turn_match at_start s of
        Some (role, turn, r) \<Rightarrow>
          last_user_turn False r (if role \<in> {''user'', ''human''} then py_strip turn else found)
      | None \<Rightarrow> (case s of [] \<Rightarrow> found | c # t \<Rightarrow> last_user_turn False t found))"
  by pat_completeness auto
termination
  by (relation "measure (\<lambda>(b, s, f). length s)") (auto dest: turn_match_length)

declare last_user_turn.simps [simp del]

text \<open>The inner content of one matched transcript block.\<close>

definition block_inner :: "string \<Rightarrow> string" where
  "block_inner raw =
     (let inner_start = length (takeWhile (\<lambda>c. c \<noteq> CHR ''>'') raw) + 1 in
      drop inner_start
        (if endswith raw ''</transcript>'' then take (length raw - length ''</transcript>'') raw else raw))"

definition last_transcript_user_turn :: "string \<Rightarrow> string" where
  "last_transcript_user_turn t =
     (let blocks = find_matches transcript_match t;
          inner = (if blocks = [] then [] else block_inner (last blocks))
      in if inner = [] then []
         else let found = last_user_turn True inner [] in
              if found \<noteq> [] then py_tail found TRANSCRIPT_FALLBACK_LIMIT
              else py_tail (py_strip inner) TRANSCRIPT_FALLBACK_LIMIT)"

lemma strip_reminders_length: "length (strip_reminders t) \<le> length t"
proof -
  let ?a = "sub_all transcript_match t" and ?b = "sub_all system_reminder_match (sub_all transcript_match t)"
  have "length (strip_reminders t) \<le> length (sub_all local_command_match ?b)"
    by (simp add: strip_reminders_def length_py_strip_le)
  also have "\<dots> \<le> length ?b" by (rule local_command.sub_all_length)
  also have "\<dots> \<le> length ?a" by (rule system_reminder.sub_all_length)
  also have "\<dots> \<le> length t" by (rule transcript.sub_all_length)
  finally show ?thesis .
qed

lemma strip_reminders_stripped [simp]: "py_strip (strip_reminders t) = strip_reminders t"
  by (simp add: strip_reminders_def)

lemma last_transcript_user_turn_length: "length (last_transcript_user_turn t) \<le> 1000"
  by (auto simp: last_transcript_user_turn_def Let_def length_py_tail_pos TRANSCRIPT_FALLBACK_LIMIT_def)

section \<open>Affirmations, titles and activity labels\<close>

definition AFFIRMATION_MAX_CHARS :: nat where "AFFIRMATION_MAX_CHARS = 40"

definition AFFIRMATION_PHRASES :: "string list" where
  "AFFIRMATION_PHRASES =
     [''yes'', ''yep'', ''yeah'', ''yup'', ''ok'', ''okay'', ''sure'',
      ''proceed'', ''go'', ''go ahead'', ''go for it'', ''please go ahead'',
      ''do it'', ''please do'', ''continue'', ''please continue'',
      ''confirmed'', ''sounds good'', ''lgtm'', ''ship it'', ''make it so'',
      ''run it'', ''please start'']"

definition AFFIRMATION_TRAILING_PUNCT :: string where
  "AFFIRMATION_TRAILING_PUNCT = ''.!?,;: ''"

definition AFFIRMATION_TOKENS :: "string list" where
  "AFFIRMATION_TOKENS =
     [''yes'', ''yep'', ''yeah'', ''ok'', ''okay'', ''sure'', ''please'', ''go'', ''ahead'',
      ''do'', ''it'', ''continue'', ''proceed'', ''start'']"

definition AFFIRMATION_MAX_TOKENS :: nat where "AFFIRMATION_MAX_TOKENS = 4"

definition AFFIRMATION_ANCHOR_TOKENS :: "string list" where
  "AFFIRMATION_ANCHOR_TOKENS =
     [''yes'', ''yep'', ''yeah'', ''ok'', ''okay'', ''sure'', ''go'', ''continue'', ''proceed'']"

definition affirmation_tokens_ok :: "string \<Rightarrow> bool" where
  "affirmation_tokens_ok normalized \<longleftrightarrow>
     (let tokens = filter (\<lambda>t. t \<noteq> []) (map (strip_chars AFFIRMATION_TRAILING_PUNCT) (split_ws normalized))
      in tokens \<noteq> [] \<and> length tokens \<le> AFFIRMATION_MAX_TOKENS \<and>
         list_all (\<lambda>t. t \<in> set AFFIRMATION_TOKENS) tokens \<and>
         list_ex (\<lambda>t. t \<in> set AFFIRMATION_ANCHOR_TOKENS) tokens)"

definition normalize_affirmation :: "string \<Rightarrow> string" where
  "normalize_affirmation t =
     strip_chars AFFIRMATION_TRAILING_PUNCT (py_join '' '' (split_ws (py_lower t)))"

definition is_short_affirmation :: "string \<Rightarrow> bool" where
  "is_short_affirmation t \<longleftrightarrow>
     length t \<le> AFFIRMATION_MAX_CHARS \<and>
     (let normalized = normalize_affirmation t in
        startswith normalized ''please '' \<and>
          py_strip (drop (length ''please '') normalized) \<in> set AFFIRMATION_PHRASES \<or>
        normalized \<in> set AFFIRMATION_PHRASES \<or>
        affirmation_tokens_ok normalized)"

definition TITLE_GEN_PREFIX :: string where
  "TITLE_GEN_PREFIX = ''write the title in the predominant language''"

text \<open>\<open>s.rsplit('\n', 1)[-1]\<close>.\<close>

definition last_line :: "string \<Rightarrow> string" where
  "last_line s = rev (takeWhile (\<lambda>c. c \<noteq> CHR 0x0A) (rev s))"

definition is_title_generation :: "string \<Rightarrow> bool" where
  "is_title_generation t \<longleftrightarrow>
     startswith (py_lstrip (last_line (py_rstrip (py_lower t)))) TITLE_GEN_PREFIX"

definition ACTIVITY_LABEL_PREFIX :: string where
  "ACTIVITY_LABEL_PREFIX = ''Describe your most recent action in 3-5 words''"

definition is_activity_label_prompt :: "string \<Rightarrow> bool" where
  "is_activity_label_prompt t \<longleftrightarrow> startswith (strip_reminders t) ACTIVITY_LABEL_PREFIX"

section \<open>The attribution reminder\<close>

definition ATTRIBUTION_REMINDER_PREFIX :: string where
  "ATTRIBUTION_REMINDER_PREFIX = ''Attribution for git commits and pull requests''"

text \<open>\<open><system-reminder(?=[\s>])\<close>, ignoring case: the text after the tag name.\<close>

definition reminder_opens :: matcher where
  "reminder_opens s =
     (case lit_ci ''<system-reminder'' s of
        Some (c # t) \<Rightarrow> if py_isspace c \<or> c = CHR ''>'' then Some (c # t) else None
      | _ \<Rightarrow> None)"

text \<open>The body up to the closing tag; it may not contain another opener.\<close>

fun attribution_body :: "string \<Rightarrow> string option" where
  "attribution_body [] = None"
| "attribution_body (c # s) =
     (case close_reminder (c # s) of
        Some r \<Rightarrow> Some r
      | None \<Rightarrow> if reminder_opens (c # s) \<noteq> None then None else attribution_body s)"

definition attribution_match :: matcher where
  "attribution_match s =
     (case reminder_opens s of
        None \<Rightarrow> None
      | Some t \<Rightarrow>
          if length (takeWhile (\<lambda>c. c \<noteq> CHR ''>'') t) > 512 then None
          else (case after_char CHR ''>'' t of
                  None \<Rightarrow> None
                | Some body \<Rightarrow>
                    (case lit ATTRIBUTION_REMINDER_PREFIX (py_lstrip body) of
                       None \<Rightarrow> None
                     | Some b \<Rightarrow> attribution_body b)))"

lemma attribution_body_suffix: "attribution_body s = Some r \<Longrightarrow> suffix r s"
  by (induction s)
     (auto split: option.splits if_splits simp: suffix_Cons dest: close_reminder_suffix)

lemma reminder_opens_shorter: "reminder_opens s = Some t \<Longrightarrow> suffix t s \<and> length t < length s"
  by (auto simp: reminder_opens_def split: option.splits list.splits if_splits dest!: lit_ci_reminder)

lemma attribution_match_shorter:
  assumes "attribution_match s = Some r"
  shows "suffix r s \<and> length r < length s"
proof -
  from assms obtain t body b where t: "reminder_opens s = Some t"
    and body: "after_char CHR ''>'' t = Some body"
    and b: "lit ATTRIBUTION_REMINDER_PREFIX (py_lstrip body) = Some b" and r: "attribution_body b = Some r"
    by (auto simp: attribution_match_def split: option.splits if_splits)
  have "suffix r b" using r by (rule attribution_body_suffix)
  also have "suffix b (py_lstrip body)" using b by (rule lit_suffix)
  also have "suffix (py_lstrip body) body" by (rule py_lstrip_suffix)
  also have "suffix body t" using body by (rule after_char_suffix)
  finally have "suffix r t" .
  with reminder_opens_shorter [OF t] show ?thesis
    by (auto intro: suffix_order.trans dest: suffix_length_le)
qed

interpretation attribution: block_matcher attribution_match
  by (rule block_matcherI [OF attribution_match_shorter])

definition is_blank_text_block :: "json \<Rightarrow> bool" where
  "is_blank_text_block block \<longleftrightarrow> (case text_of block of Some t \<Rightarrow> py_strip t = [] | None \<Rightarrow> False)"

text \<open>Where the breakpoint of a dropped block goes; None when the block before it cannot take it.\<close>

definition move_breakpoint :: "json \<Rightarrow> json list \<Rightarrow> json list option" where
  "move_breakpoint cc blocks =
     (case (if blocks = [] then JNull else last blocks) of
        JObj p \<Rightarrow>
          if has_key ''cache_control'' p then None
          else Some (butlast blocks @ [JObj (jset ''cache_control'' cc p)])
      | _ \<Rightarrow> None)"

text \<open>One block of a user message: the blocks kept so far and the reminders removed so far.\<close>

definition attribution_block :: "json list \<times> nat \<Rightarrow> json \<Rightarrow> json list \<times> nat" where
  "attribution_block acc block =
     (let (blocks, removed) = acc in
      case text_of block of
        None \<Rightarrow> (blocks @ [block], removed)
      | Some t \<Rightarrow>
          (let (new, n) = sub_n attribution_match t; d = dict_of block; cc = jget ''cache_control'' d in
           if n = 0 then (blocks @ [block], removed)
           else if py_strip new \<noteq> [] then (blocks @ [JObj (jset ''text'' (JStr new) d)], removed + n)
           else if cc = JNull then (blocks, removed + n)
           else (case move_breakpoint cc blocks of
                   None \<Rightarrow> (blocks @ [block], removed)
                 | Some blocks' \<Rightarrow> (blocks', removed + n))))"

definition strip_attribution_content :: "json \<Rightarrow> json \<times> nat" where
  "strip_attribution_content content =
     (case content of
        JStr t \<Rightarrow>
          (let (new, n) = sub_n attribution_match t in
           if n = 0 \<or> py_strip new = [] then (content, 0) else (JStr new, n))
      | JArr bs \<Rightarrow>
          (let (blocks, removed) = foldl attribution_block ([], 0) bs in
           if removed = 0 \<or> \<not> list_ex (\<lambda>b. \<not> is_blank_text_block b) blocks then (content, 0)
           else (JArr blocks, removed))
      | _ \<Rightarrow> (content, 0))"

definition strip_attribution_msg :: "json \<Rightarrow> json \<times> nat" where
  "strip_attribution_msg msg =
     (case msg of
        JObj d \<Rightarrow>
          if jget ''role'' d = JStr ''user''
          then (let (content, n) = strip_attribution_content (jget ''content'' d) in
                if n = 0 then (msg, 0) else (JObj (jset ''content'' content d), n))
          else (msg, 0)
      | _ \<Rightarrow> (msg, 0))"

definition strip_attribution_reminders :: "json \<Rightarrow> json \<times> nat" where
  "strip_attribution_reminders messages =
     (case messages of
        JArr ms \<Rightarrow>
          (let rs = map strip_attribution_msg ms; removed = sum_list (map snd rs) in
           if removed = 0 then (messages, 0) else (JArr (map fst rs), removed))
      | _ \<Rightarrow> (messages, 0))"

text \<open>A cache breakpoint, and content the upstream would reject as blank.\<close>

definition has_breakpoint :: "json \<Rightarrow> bool" where
  "has_breakpoint b \<longleftrightarrow> (case b of JObj d \<Rightarrow> jget ''cache_control'' d \<noteq> JNull | _ \<Rightarrow> False)"

definition blank_content :: "json \<Rightarrow> bool" where
  "blank_content content \<longleftrightarrow>
     (case content of JStr s \<Rightarrow> py_strip s = [] | JArr bs \<Rightarrow> list_all is_blank_text_block bs | _ \<Rightarrow> False)"

definition breakpoints :: "json \<Rightarrow> nat" where
  "breakpoints content = (case content of JArr bs \<Rightarrow> length (filter has_breakpoint bs) | _ \<Rightarrow> 0)"

lemma move_breakpoint_count:
  "move_breakpoint cc blocks = Some blocks' \<Longrightarrow> cc \<noteq> JNull \<Longrightarrow>
   length (filter has_breakpoint blocks') = Suc (length (filter has_breakpoint blocks))"
  by (cases blocks rule: rev_cases)
     (auto simp: move_breakpoint_def has_breakpoint_def jget_no_key split: json.splits if_splits)

lemma has_breakpoint_dict:
  "text_of block = Some t \<Longrightarrow> has_breakpoint block \<longleftrightarrow> jget ''cache_control'' (dict_of block) \<noteq> JNull"
  by (subst text_of_dict, assumption) (simp add: has_breakpoint_def)

lemma attribution_block_breakpoints:
  "length (filter has_breakpoint (fst (attribution_block acc block))) =
   length (filter has_breakpoint (fst acc @ [block]))"
proof (cases "text_of block")
  case None
  then show ?thesis by (simp add: attribution_block_def split_beta)
next
  case (Some t)
  then show ?thesis
    by (auto simp: attribution_block_def Let_def split_beta has_breakpoint_dict [OF Some]
        dest: move_breakpoint_count split: option.splits)
       (auto simp: has_breakpoint_def)
qed

lemma foldl_attribution_breakpoints:
  "length (filter has_breakpoint (fst (foldl attribution_block acc bs))) =
   length (filter has_breakpoint (fst acc)) + length (filter has_breakpoint bs)"
  by (induction bs arbitrary: acc) (simp_all add: attribution_block_breakpoints)

lemma strip_attribution_content_changed:
  assumes "strip_attribution_content c = (c', n)"
  shows "n = 0 \<Longrightarrow> c' = c" and "n \<noteq> 0 \<Longrightarrow> \<not> blank_content c'" and "breakpoints c' = breakpoints c"
  using assms foldl_attribution_breakpoints [of "([], 0)"]
  by (auto simp: strip_attribution_content_def blank_content_def breakpoints_def Let_def split_beta
      list_all_iff list_ex_iff split: json.splits if_splits)

text \<open>How one message may change.\<close>

definition attribution_stripped :: "json \<Rightarrow> json \<Rightarrow> bool" where
  "attribution_stripped m m' \<longleftrightarrow> m' = m \<or>
     (case m of
        JObj d \<Rightarrow>
          jget ''role'' d = JStr ''user'' \<and>
          (let c' = fst (strip_attribution_content (jget ''content'' d)) in
             m' = JObj (jset ''content'' c' d) \<and> \<not> blank_content c' \<and>
             breakpoints c' = breakpoints (jget ''content'' d))
      | _ \<Rightarrow> False)"

lemma strip_attribution_msg_stripped: "attribution_stripped m (fst (strip_attribution_msg m))"
proof (cases m)
  case (JObj d)
  obtain c n where c: "strip_attribution_content (jget ''content'' d) = (c, n)" by fastforce
  from strip_attribution_content_changed [OF c] show ?thesis
    by (auto simp: JObj attribution_stripped_def strip_attribution_msg_def c)
qed (simp_all add: attribution_stripped_def strip_attribution_msg_def)

section \<open>Properties\<close>

text \<open>Removing attribution reminders never leaves the upstream a message it rejects and never
  loses a cache breakpoint: every message is kept, changed only where it is a user turn, a changed
  turn still has non-blank content and as many cache breakpoints as before, and nothing changes when
  no reminder was removed.\<close>

theorem strip_attribution_safe:
  "\<exists>ms'. fst (strip_attribution_reminders (JArr ms)) = JArr ms' \<and>
     list_all2 attribution_stripped ms ms' \<and>
     (snd (strip_attribution_reminders (JArr ms)) = 0 \<and> ms' = ms \<or>
      0 < snd (strip_attribution_reminders (JArr ms)))"
proof -
  have "list_all2 attribution_stripped ms (map (fst \<circ> strip_attribution_msg) ms)"
    by (simp add: list_all2_conv_all_nth strip_attribution_msg_stripped)
  moreover have "list_all2 attribution_stripped ms ms"
    by (simp add: list_all2_conv_all_nth attribution_stripped_def)
  ultimately show ?thesis by (auto simp: strip_attribution_reminders_def Let_def)
qed

end
