(* ===== verification/Router_Core.thy ===== *)
theory Router_Core
  imports Model_Table Request_Text
begin

text \<open>
  \<^verbatim>\<open>anthrouter/model_router.py\<close>, the part without calls or shared state: tier labels and
  caps, the long-context beta, the calibration ratio, the routing summary, the bounded texts the
  classifier sees, the parsers of its answer and the keyword rules.

  \<open>hashlib.sha256\<close> over the serialized system prompt and \<open>json.loads\<close> are arguments.
\<close>

section \<open>Tier labels\<close>

datatype label = Trivial | Standard | Deep

fun label_name :: "label \<Rightarrow> string" where
  "label_name Trivial = ''trivial''"
| "label_name Standard = ''standard''"
| "label_name Deep = ''deep''"

fun label_rank :: "label \<Rightarrow> int" where
  "label_rank Trivial = 0"
| "label_rank Standard = 1"
| "label_rank Deep = 2"

instantiation label :: linorder
begin

definition less_eq_label :: "label \<Rightarrow> label \<Rightarrow> bool" where
  "less_eq_label a b \<longleftrightarrow> label_rank a \<le> label_rank b"

definition less_label :: "label \<Rightarrow> label \<Rightarrow> bool" where
  "less_label a b \<longleftrightarrow> label_rank a < label_rank b"

instance
proof
  fix a b :: label
  show "a \<le> b \<Longrightarrow> b \<le> a \<Longrightarrow> a = b"
    by (cases a; cases b) (simp_all add: less_eq_label_def)
qed (auto simp: less_eq_label_def less_label_def)

end

definition score_to_tier :: "rat \<Rightarrow> rat \<Rightarrow> rat \<Rightarrow> label" where
  "score_to_tier score trivial_threshold standard_threshold =
     (if score < trivial_threshold then Trivial
      else if score < standard_threshold then Standard else Deep)"

lemma score_to_tier_mono: "x \<le> y \<Longrightarrow> score_to_tier x t u \<le> score_to_tier y t u"
  by (auto simp: score_to_tier_def less_eq_label_def)

lemma score_to_tier_iff:
  assumes "t \<le> u"
  shows "score_to_tier s t u = Trivial \<longleftrightarrow> s < t"
    "score_to_tier s t u = Standard \<longleftrightarrow> t \<le> s \<and> s < u"
    "score_to_tier s t u = Deep \<longleftrightarrow> u \<le> s"
  using assms by (auto simp: score_to_tier_def)

definition LABEL_ORDER :: "(string \<times> int) list" where
  "LABEL_ORDER = [(''trivial'', 0), (''standard'', 1), (''deep'', 2)]"

lemma LABEL_ORDER_name [simp]: "map_of LABEL_ORDER (label_name l) = Some (label_rank l)"
  by (cases l) (simp_all add: LABEL_ORDER_def)

lemma LABEL_ORDER_SomeD: "map_of LABEL_ORDER s = Some r \<Longrightarrow> \<exists>l. s = label_name l \<and> r = label_rank l"
  by (auto simp: LABEL_ORDER_def split: if_splits
      intro: exI [of _ Trivial] exI [of _ Standard] exI [of _ Deep])

text \<open>The label map of the configuration: label to model string.\<close>

type_synonym label_map = "(string \<times> string) list"

text \<open>\<open>{model: order[label] for label, model in label_map.items() if label in order}\<close>.\<close>

definition reverse_ranks :: "label_map \<Rightarrow> (string \<times> int) list" where
  "reverse_ranks lm =
     foldl (\<lambda>acc p. case map_of LABEL_ORDER (fst p) of
                      Some r \<Rightarrow> AList.update (snd p) r acc
                    | None \<Rightarrow> acc) [] lm"

definition tier_rank_in :: "label_map \<Rightarrow> string \<Rightarrow> int option" where
  "tier_rank_in lm model =
     (case map_of (reverse_ranks lm) model of Some r \<Rightarrow> Some r | None \<Rightarrow> model_tier_rank model)"

definition cap_cached_tier :: "string \<Rightarrow> string \<Rightarrow> label_map option \<Rightarrow> string" where
  "cap_cached_tier cached_tier requested lm =
     (let cached_rank = (case lm of Some m \<Rightarrow> tier_rank_in m cached_tier
                         | None \<Rightarrow> model_tier_rank cached_tier)
      in case (cached_rank, model_tier_rank requested) of
           (Some c, Some r) \<Rightarrow> if c > r then requested else cached_tier
         | _ \<Rightarrow> cached_tier)"

text \<open>A label map is aligned when each target sits at the family rank of its label.\<close>

definition aligned_label_map :: "label_map \<Rightarrow> bool" where
  "aligned_label_map lm \<longleftrightarrow>
     list_all (\<lambda>p. case map_of LABEL_ORDER (fst p) of
                     Some r \<Rightarrow> model_tier_rank (snd p) = Some r | None \<Rightarrow> True) lm"

lemma foldl_reverse_aligned:
  assumes "aligned_label_map lm" "\<And>m r. map_of acc m = Some r \<Longrightarrow> model_tier_rank m = Some r"
    and "map_of (foldl (\<lambda>acc p. case map_of LABEL_ORDER (fst p) of
                      Some r \<Rightarrow> AList.update (snd p) r acc | None \<Rightarrow> acc) acc lm) m = Some r"
  shows "model_tier_rank m = Some r"
  using assms
proof (induction lm arbitrary: acc)
  case Nil
  then show ?case by simp
next
  case (Cons p lm)
  let ?acc = "case map_of LABEL_ORDER (fst p) of
                Some r \<Rightarrow> AList.update (snd p) r acc | None \<Rightarrow> acc"
  have lm: "aligned_label_map lm" using Cons.prems(1) by (simp add: aligned_label_map_def)
  have acc: "map_of ?acc m = Some r \<Longrightarrow> model_tier_rank m = Some r" for m r
    using Cons.prems(1,2)
    by (auto simp: aligned_label_map_def update_conv' split: option.splits if_splits)
  from Cons.IH [OF lm acc] Cons.prems(3) show ?case by simp
qed

lemma tier_rank_in_aligned: "aligned_label_map lm \<Longrightarrow> tier_rank_in lm m = model_tier_rank m"
  using foldl_reverse_aligned [of lm "[]" m]
  by (auto simp: tier_rank_in_def reverse_ranks_def split: option.splits)

lemma cap_cached_tier_range: "cap_cached_tier c r lm \<in> {c, r}"
  by (auto simp: cap_cached_tier_def Let_def split: option.splits)

section \<open>Eligibility, the long-context beta and the calibration ratio\<close>

definition is_model_auto_routable :: "json \<Rightarrow> bool" where
  "is_model_auto_routable model \<longleftrightarrow> (case model of JStr s \<Rightarrow> py_strip s \<noteq> [] | _ \<Rightarrow> False)"

definition LONG_CONTEXT_BETA :: string where
  "LONG_CONTEXT_BETA = ''context-1m-2025-08-07''"

definition ROUTER_LONG_CONTEXT_BETA_PREFIX :: string where
  "ROUTER_LONG_CONTEXT_BETA_PREFIX = ''context-1m''"

definition existing_betas :: "jdict \<Rightarrow> json list" where
  "existing_betas payload =
     (case jget ''_anthropic_beta'' payload of
        JArr bs \<Rightarrow> filter (\<lambda>b. as_str b \<noteq> None) bs | _ \<Rightarrow> [])"

definition is_long_beta :: "json \<Rightarrow> bool" where
  "is_long_beta b \<longleftrightarrow> (case b of JStr s \<Rightarrow> startswith s ROUTER_LONG_CONTEXT_BETA_PREFIX | _ \<Rightarrow> False)"

definition ensure_long_context_beta :: "jdict \<Rightarrow> jdict" where
  "ensure_long_context_beta payload =
     (if list_ex is_long_beta (existing_betas payload) then payload
      else jset ''_anthropic_beta'' (JArr (existing_betas payload @ [JStr LONG_CONTEXT_BETA])) payload)"

definition carries_long_beta :: "jdict \<Rightarrow> bool" where
  "carries_long_beta payload \<longleftrightarrow> list_ex is_long_beta (existing_betas payload)"

lemma is_long_beta_ours: "is_long_beta (JStr LONG_CONTEXT_BETA)"
  by code_simp

lemma ensure_long_context_beta_carries: "carries_long_beta (ensure_long_context_beta payload)"
  by (auto simp: carries_long_beta_def ensure_long_context_beta_def existing_betas_def
      is_long_beta_ours split: json.splits)

lemma ensure_long_context_beta_idem:
  "ensure_long_context_beta (ensure_long_context_beta payload) = ensure_long_context_beta payload"
  using ensure_long_context_beta_carries [of payload]
  by (simp add: ensure_long_context_beta_def [of "ensure_long_context_beta payload"] carries_long_beta_def)

definition RATIO_MIN_BASELINE :: int where "RATIO_MIN_BASELINE = 2000"
definition RATIO_MAX :: rat where "RATIO_MAX = 3"

definition clamp_ratio :: "rat \<Rightarrow> rat" where
  "clamp_ratio ratio = (if ratio < 1 then 1 else if ratio > RATIO_MAX then RATIO_MAX else ratio)"

definition calibrated_ratio :: "int \<Rightarrow> int \<Rightarrow> rat \<Rightarrow> rat" where
  "calibrated_ratio measured_input_tokens route_estimate prior_ratio =
     (if route_estimate < RATIO_MIN_BASELINE \<or> measured_input_tokens \<le> 0
      then clamp_ratio prior_ratio
      else clamp_ratio (of_int measured_input_tokens / of_int route_estimate))"

lemma clamp_ratio_bounds: "1 \<le> clamp_ratio r" "clamp_ratio r \<le> 3"
  by (auto simp: clamp_ratio_def RATIO_MAX_def)

lemma clamp_ratio_id: "1 \<le> r \<Longrightarrow> r \<le> 3 \<Longrightarrow> clamp_ratio r = r"
  by (auto simp: clamp_ratio_def RATIO_MAX_def)

lemma calibrated_ratio_bounds: "1 \<le> calibrated_ratio m e p" "calibrated_ratio m e p \<le> 3"
  by (auto simp: calibrated_ratio_def clamp_ratio_bounds)

section \<open>Texts of one message\<close>

text \<open>The blocks of a content list: the stripped and the raw texts, the non-text count and the image
  flag; None where a block is malformed.\<close>

fun user_blocks_text :: "json list \<Rightarrow> (string list \<times> string list \<times> nat \<times> bool) option" where
  "user_blocks_text [] = Some ([], [], 0, False)"
| "user_blocks_text (JObj d # bs) =
     (if jget ''type'' d = JStr ''text''
      then (case jget ''text'' d of
              JStr t \<Rightarrow>
                map_option (\<lambda>(ts, rs, n, img).
                  (if strip_reminders t = [] then ts else strip_reminders t # ts, t # rs, n, img))
                  (user_blocks_text bs)
            | _ \<Rightarrow> None)
      else map_option (\<lambda>(ts, rs, n, img).
             (ts, rs, Suc n, jget ''type'' d = JStr ''image'' \<or> img)) (user_blocks_text bs))"
| "user_blocks_text (_ # bs) = None"

definition extract_user_text :: "json \<Rightarrow> (string \<times> string \<times> nat \<times> bool) option" where
  "extract_user_text content =
     (case content of
        JStr s \<Rightarrow> Some (strip_reminders s, s, 0, False)
      | JArr bs \<Rightarrow>
          map_option (\<lambda>(ts, rs, n, img). (py_join '' '' ts, py_join '' '' rs, n, img))
            (user_blocks_text bs)
      | _ \<Rightarrow> None)"

definition TRUNCATION_MARKER :: string where
  "TRUNCATION_MARKER = nl @ ''...[truncated]...'' @ nl"

lemma length_TRUNCATION_MARKER [simp]: "length TRUNCATION_MARKER = 19"
  by (simp add: TRUNCATION_MARKER_def nl_def)

text \<open>\<open>int(x)\<close> of a float: truncation towards zero.\<close>

definition py_trunc :: "rat \<Rightarrow> int" where
  "py_trunc x = (if 0 \<le> x then \<lfloor>x\<rfloor> else - \<lfloor>- x\<rfloor>)"

definition TEXT_LIMIT :: int where "TEXT_LIMIT = 4000"
definition TEXT_LIMIT_HEAD_FRAC :: rat where "TEXT_LIMIT_HEAD_FRAC = 1 / 5"
definition PRIOR_RESPONSE_HEAD_FRAC :: rat where "PRIOR_RESPONSE_HEAD_FRAC = 3 / 10"

text \<open>\<open>head + marker + tail\<close>, the shared shape of both truncations.\<close>

definition head_tail :: "rat \<Rightarrow> int \<Rightarrow> string \<Rightarrow> string" where
  "head_tail share limit t =
     (let head_len = py_trunc (of_int limit * share);
          tail_len = limit - head_len - int (length TRUNCATION_MARKER)
      in py_head t head_len @ TRUNCATION_MARKER @ py_tail t tail_len)"

definition truncate_prior_response :: "string \<Rightarrow> int \<Rightarrow> string" where
  "truncate_prior_response t limit =
     (if int (length t) \<le> limit then t else head_tail PRIOR_RESPONSE_HEAD_FRAC limit t)"

definition truncate_classifier_text :: "string \<Rightarrow> string" where
  "truncate_classifier_text t =
     (if int (length t) > TEXT_LIMIT then head_tail TEXT_LIMIT_HEAD_FRAC TEXT_LIMIT t else t)"

lemma head_tail_length:
  assumes "0 \<le> share" "share \<le> 1 / 2" "40 \<le> limit" "limit < int (length t)"
  shows "int (length (head_tail share limit t)) = limit"
proof -
  define h where "h = py_trunc (of_int limit * share)"
  have le: "of_int limit * share \<le> (of_int limit :: rat) / 2"
    using assms(2,3) mult_left_mono [of share "1 / 2" "of_int limit"] by simp
  have h0: "0 \<le> h" and h: "h = \<lfloor>of_int limit * share\<rfloor>"
    using assms(1,3) by (auto simp: h_def py_trunc_def)
  have "(of_int h :: rat) \<le> of_int limit / 2" using le h of_int_floor_le order_trans by metis
  then have "(of_int (2 * h) :: rat) \<le> of_int limit" by simp
  then have h2: "2 * h \<le> limit" by (simp only: of_int_le_iff)
  have "length (py_head t h) = nat h"
    using h0 h2 assms(3,4) by (simp add: length_py_head_nonneg)
  moreover have "length (py_tail t (limit - h - 19)) = nat (limit - h - 19)"
    using h0 h2 assms(3,4) by (subst length_py_tail_pos) auto
  ultimately show ?thesis
    using h0 h2 assms(3) by (simp add: head_tail_def Let_def h_def [symmetric])
qed

lemma truncate_prior_response_length:
  "40 \<le> limit \<Longrightarrow> int (length (truncate_prior_response t limit)) = min (int (length t)) limit"
  by (auto simp: truncate_prior_response_def head_tail_length PRIOR_RESPONSE_HEAD_FRAC_def)

lemma truncate_classifier_text_length:
  "int (length (truncate_classifier_text t)) = min (int (length t)) 4000"
  by (auto simp: truncate_classifier_text_def head_tail_length TEXT_LIMIT_HEAD_FRAC_def TEXT_LIMIT_def)

section \<open>The routing summary\<close>

record routing_summary =
  final_user_text :: string
  text_truncated :: bool
  total_messages :: nat
  prior_user_messages :: nat
  prior_assistant_messages :: nat
  tool_use_count :: nat
  tool_result_count :: nat
  final_non_text_blocks :: nat
  has_images :: bool
  recovered_via_walkback :: bool
  final_is_tool_result_only :: bool
  short_affirmation :: bool
  system_prompt_sha256 :: "string option"
  trailing_skipped :: nat

definition TRAILING_SCAN_LIMIT :: nat where "TRAILING_SCAN_LIMIT = 8"
definition WALKBACK_TAIL_LIMIT :: int where "WALKBACK_TAIL_LIMIT = TRANSCRIPT_FALLBACK_LIMIT"

text \<open>The last user turn among the trailing \<open>TRAILING_SCAN_LIMIT\<close> messages.\<close>

definition final_user_index :: "json list \<Rightarrow> nat option" where
  "final_user_index ms =
     find (\<lambda>i. is_user_msg (ms ! i)) (rev [length ms - TRAILING_SCAN_LIMIT ..< length ms])"

definition count_blocks :: "string \<Rightarrow> json list \<Rightarrow> nat" where
  "count_blocks ty ms =
     sum_list (map (\<lambda>m. case jget ''content'' (dict_of m) of
                          JArr bs \<Rightarrow> length (filter (\<lambda>b. obj_field_is b ''type'' ty) bs)
                        | _ \<Rightarrow> 0) ms)"

definition count_roles :: "string \<Rightarrow> nat \<Rightarrow> json list \<Rightarrow> nat" where
  "count_roles role final_idx ms =
     length (filter (\<lambda>i. i \<noteq> final_idx \<and> obj_field_is (ms ! i) ''role'' role) [0..<length ms])"

definition tool_result_only :: "json \<Rightarrow> bool" where
  "tool_result_only content \<longleftrightarrow>
     (case content of
        JArr bs \<Rightarrow> bs \<noteq> [] \<and> list_all (\<lambda>b. obj_field_is b ''type'' ''tool_result'') bs
      | _ \<Rightarrow> False)"

text \<open>The text of an earlier turn: its own, or the last user turn of its transcript.\<close>

definition recover_text :: "string \<Rightarrow> string \<Rightarrow> string" where
  "recover_text own raw =
     (if own \<noteq> [] then own else strip_reminders (last_transcript_user_turn raw))"

fun walk_back :: "json list \<Rightarrow> string option" where
  "walk_back [] = None"
| "walk_back (prior # rest) =
     (if is_user_msg prior
      then case extract_user_text (jget ''content'' (dict_of prior)) of
             None \<Rightarrow> walk_back rest
           | Some (own, raw, _, _) \<Rightarrow>
               if recover_text own raw \<noteq> []
               then Some (py_head (recover_text own raw) WALKBACK_TAIL_LIMIT)
               else walk_back rest
      else walk_back rest)"

definition summary_of :: "(json \<Rightarrow> string option) \<Rightarrow> jdict \<Rightarrow> json list \<Rightarrow> nat \<Rightarrow>
    string \<times> string \<times> nat \<times> bool \<Rightarrow> routing_summary option" where
  "summary_of sha payload ms final_idx extracted =
     (let (own, raw, non_text, images) = extracted;
          direct = recover_text own raw;
          recovered = (if direct = [] then walk_back (rev (take final_idx ms)) else None);
          full = (case recovered of Some t \<Rightarrow> t | None \<Rightarrow> direct);
          shown = truncate_classifier_text full
      in if full = [] then None
         else Some \<lparr>final_user_text = shown,
                text_truncated = int (length full) > TEXT_LIMIT,
                total_messages = length ms,
                prior_user_messages = count_roles ''user'' final_idx ms,
                prior_assistant_messages = count_roles ''assistant'' final_idx ms,
                tool_use_count = count_blocks ''tool_use'' ms,
                tool_result_count = count_blocks ''tool_result'' ms,
                final_non_text_blocks = non_text,
                has_images = images,
                recovered_via_walkback = recovered \<noteq> None,
                final_is_tool_result_only =
                  tool_result_only (jget ''content'' (dict_of (ms ! final_idx))),
                short_affirmation = own \<noteq> [] \<and> is_short_affirmation shown,
                system_prompt_sha256 =
                  (if truthy (jget ''system'' payload) then sha (jget ''system'' payload) else None),
                trailing_skipped = length ms - 1 - final_idx\<rparr>)"

definition build_routing_summary :: "(json \<Rightarrow> string option) \<Rightarrow> jdict \<Rightarrow> routing_summary option" where
  "build_routing_summary sha payload =
     (case jget ''messages'' payload of
        JArr ms \<Rightarrow>
          (case final_user_index ms of
             None \<Rightarrow> None
           | Some final_idx \<Rightarrow>
               if list_ex (\<lambda>m. as_obj m = None) ms then None
               else (case extract_user_text (jget ''content'' (dict_of (ms ! final_idx))) of
                       None \<Rightarrow> None
                     | Some extracted \<Rightarrow> summary_of sha payload ms final_idx extracted))
      | _ \<Rightarrow> None)"

lemma final_user_index_SomeD:
  assumes "final_user_index ms = Some i"
  shows "i < length ms" "is_user_msg (ms ! i)" "length ms \<le> i + 8"
    "i < j \<Longrightarrow> j < length ms \<Longrightarrow> \<not> is_user_msg (ms ! j)"
proof -
  let ?a = "length ms - TRAILING_SCAN_LIMIT"
  from assms have "i \<in> set (rev [?a ..< length ms])" "is_user_msg (ms ! i)"
    using find_SomeD unfolding final_user_index_def by metis+
  then show "i < length ms" "is_user_msg (ms ! i)" "length ms \<le> i + 8"
    by (auto simp: TRAILING_SCAN_LIMIT_def)
  show "\<not> is_user_msg (ms ! j)" if "i < j" "j < length ms"
  proof
    assume j: "is_user_msg (ms ! j)"
    obtain n where n: "n < length (rev [?a ..< length ms])" "i = rev [?a ..< length ms] ! n"
      "\<forall>k<n. \<not> is_user_msg (ms ! (rev [?a ..< length ms] ! k))"
      using assms by (auto simp: final_user_index_def find_Some_iff)
    then have i: "i = length ms - Suc n" by (simp add: rev_nth)
    let ?k = "length ms - Suc j"
    have "?k < n" using that i n(1) by simp
    moreover have "rev [?a ..< length ms] ! ?k = j"
      using that i n(1) \<open>?k < n\<close> by (simp add: rev_nth)
    ultimately show False using n(3) j by metis
  qed
qed

lemma walk_back_bounds: "walk_back ps = Some t \<Longrightarrow> t \<noteq> [] \<and> length t \<le> 1000"
  by (induction ps)
     (auto simp: WALKBACK_TAIL_LIMIT_def TRANSCRIPT_FALLBACK_LIMIT_def py_head_def
       split: if_splits option.splits)

lemma truncate_classifier_text_eq_Nil [simp]: "truncate_classifier_text t = [] \<longleftrightarrow> t = []"
  by (auto simp: truncate_classifier_text_def head_tail_def Let_def TRUNCATION_MARKER_def TEXT_LIMIT_def)

lemma count_roles_le: "i < length ms \<Longrightarrow>
   count_roles ''user'' i ms + count_roles ''assistant'' i ms \<le> length ms - 1"
proof -
  assume i: "i < length ms"
  let ?U = "{j. j < length ms \<and> j \<noteq> i \<and> obj_field_is (ms ! j) ''role'' ''user''}"
  let ?A = "{j. j < length ms \<and> j \<noteq> i \<and> obj_field_is (ms ! j) ''role'' ''assistant''}"
  have card: "count_roles r i ms = card {j. j < length ms \<and> j \<noteq> i \<and> obj_field_is (ms ! j) ''role'' r}" for r
  proof -
    let ?f = "filter (\<lambda>j. j \<noteq> i \<and> obj_field_is (ms ! j) ''role'' r) [0..<length ms]"
    have "length ?f = card (set ?f)" by (rule distinct_card [symmetric]) simp
    also have "set ?f = {j. j < length ms \<and> j \<noteq> i \<and> obj_field_is (ms ! j) ''role'' r}" by simp
    finally show ?thesis by (simp only: count_roles_def)
  qed
  have "card ?U + card ?A = card (?U \<union> ?A)"
    by (rule card_Un_disjoint [symmetric]) (auto elim!: obj_field_isE)
  also have "\<dots> \<le> card ({..<length ms} - {i})"
    by (rule card_mono) auto
  also have "\<dots> = length ms - 1" using i by simp
  finally show ?thesis by (simp add: card)
qed

lemma summary_of_SomeD:
  assumes "summary_of sha payload ms i (own, raw, n, img) = Some s"
  obtains full where "full \<noteq> []" "final_user_text s = truncate_classifier_text full"
    "text_truncated s \<longleftrightarrow> int (length full) > TEXT_LIMIT"
    "total_messages s = length ms" "trailing_skipped s = length ms - 1 - i"
    "prior_user_messages s = count_roles ''user'' i ms"
    "prior_assistant_messages s = count_roles ''assistant'' i ms"
    "recovered_via_walkback s \<longrightarrow> recover_text own raw = [] \<and> length full \<le> 1000"
    "short_affirmation s \<longrightarrow> own \<noteq> [] \<and> \<not> recovered_via_walkback s \<and> is_short_affirmation (final_user_text s)"
    "has_images s = img" "final_non_text_blocks s = n"
proof -
  let ?rec = "if recover_text own raw = [] then walk_back (rev (take i ms)) else None"
  let ?full = "case ?rec of Some t \<Rightarrow> t | None \<Rightarrow> recover_text own raw"
  have len: "?rec \<noteq> None \<Longrightarrow> length ?full \<le> 1000"
    using walk_back_bounds by (auto split: option.splits if_splits)
  show ?thesis
    using assms
    by (intro that [of ?full])
       (use len in \<open>auto simp: summary_of_def Let_def recover_text_def [of own] split: if_splits option.splits\<close>)
qed

section \<open>The prior response and the system prompt preview\<close>

definition nonempty_texts :: "json list \<Rightarrow> string list" where
  "nonempty_texts bs = filter (\<lambda>t. t \<noteq> []) (List.map_filter text_of bs)"

definition extract_assistant_text :: "json \<Rightarrow> string" where
  "extract_assistant_text content =
     (case content of JStr s \<Rightarrow> s | JArr bs \<Rightarrow> py_join nl (nonempty_texts bs) | _ \<Rightarrow> [])"

fun last_assistant_text :: "json list \<Rightarrow> string option" where
  "last_assistant_text [] = None"
| "last_assistant_text (m # ms) =
     (if obj_field_is m ''role'' ''assistant'' \<and> extract_assistant_text (jget ''content'' (dict_of m)) \<noteq> []
      then Some (extract_assistant_text (jget ''content'' (dict_of m)))
      else last_assistant_text ms)"

definition extract_prior_response_summary :: "json list \<Rightarrow> int \<Rightarrow> string option" where
  "extract_prior_response_summary messages limit =
     map_option (\<lambda>t. truncate_prior_response t limit) (last_assistant_text (rev messages))"

definition extract_system_prompt_preview :: "jdict \<Rightarrow> int \<Rightarrow> string" where
  "extract_system_prompt_preview payload limit =
     (case jget ''system'' payload of
        JStr s \<Rightarrow> py_head s limit
      | JArr bs \<Rightarrow> py_head (py_join nl (nonempty_texts bs)) limit
      | _ \<Rightarrow> [])"

lemma system_preview_length:
  "0 \<le> limit \<Longrightarrow> int (length (extract_system_prompt_preview payload limit)) \<le> limit"
  by (auto simp: extract_system_prompt_preview_def length_py_head_nonneg split: json.splits)

section \<open>What the classifier is sent\<close>

text \<open>The dictionary \<open>to_classifier_json\<close> serializes.\<close>

definition to_classifier_dict :: "routing_summary \<Rightarrow> string option \<Rightarrow> jdict" where
  "to_classifier_dict s prior_response_summary =
     [(''final_user_text'', JStr (final_user_text s)),
      (''text_truncated'', JBool (text_truncated s)),
      (''total_messages'', JInt (int (total_messages s))),
      (''prior_user_messages'', JInt (int (prior_user_messages s))),
      (''prior_assistant_messages'', JInt (int (prior_assistant_messages s))),
      (''tool_use_count'', JInt (int (tool_use_count s))),
      (''tool_result_count'', JInt (int (tool_result_count s))),
      (''final_non_text_blocks'', JInt (int (final_non_text_blocks s))),
      (''has_images'', JBool (has_images s))] @
     (case prior_response_summary of None \<Rightarrow> [] | Some t \<Rightarrow> [(''prior_response_summary'', JStr t)])"

definition CLASSIFIER_MAX_TOKENS :: int where "CLASSIFIER_MAX_TOKENS = 256"
definition CLASSIFIER_MAX_TOKENS_JSON :: int where "CLASSIFIER_MAX_TOKENS_JSON = 256"

text \<open>The request shape shared by the three classifier calls; \<open>system\<close> is the fixed prompt text.\<close>

definition classifier_request :: "string \<Rightarrow> int \<Rightarrow> string \<Rightarrow> string \<Rightarrow> jdict" where
  "classifier_request model max_tokens system content =
     [(CLASSIFIER_SENTINEL_KEY, JBool True), (''model'', JStr model),
      (''max_tokens'', JInt max_tokens), (''temperature'', JFloat 0), (''system'', JStr system),
      (''messages'', JArr [JObj [(''role'', JStr ''user''), (''content'', JStr content)]])]"

section \<open>Parsing the classifier's answer\<close>

definition skip_block_types :: "json list" where
  "skip_block_types = [JStr ''thinking'', JStr ''redacted_thinking'']"

text \<open>The texts of a response's blocks: thinking blocks are skipped, anything else that is not text
  invalidates the response.\<close>

fun response_texts :: "json list \<Rightarrow> string list option" where
  "response_texts [] = Some []"
| "response_texts (JObj d # bs) =
     (if jget ''type'' d \<in> set skip_block_types then response_texts bs
      else if jget ''type'' d = JStr ''text''
      then (case jget ''text'' d of
              JStr t \<Rightarrow> map_option (\<lambda>ts. t # ts) (response_texts bs)
            | _ \<Rightarrow> None)
      else None)"
| "response_texts (_ # bs) = None"

text \<open>The content list of a response: None where it is missing, empty or not a list; a response that
  is not a dictionary has no \<open>get\<close>.\<close>

definition response_content :: "json \<Rightarrow> exn + json list option" where
  "response_content response =
     (case response of
        JObj d \<Rightarrow> Inr (case jget ''content'' d of JArr (b # bs) \<Rightarrow> Some (b # bs) | _ \<Rightarrow> None)
      | _ \<Rightarrow> Inl (PyError AttributeError))"

text \<open>\<open>re.findall('P+', s)\<close>: the maximal runs of characters in a class.\<close>

fun runs_aux :: "(char \<Rightarrow> bool) \<Rightarrow> string \<Rightarrow> string \<Rightarrow> string list" where
  "runs_aux P [] acc = (if acc = [] then [] else [rev acc])"
| "runs_aux P (c # s) acc =
     (if P c then runs_aux P s (c # acc)
      else if acc = [] then runs_aux P s [] else rev acc # runs_aux P s [])"

definition runs :: "(char \<Rightarrow> bool) \<Rightarrow> string \<Rightarrow> string list" where
  "runs P s = runs_aux P s []"

definition is_lower_az :: "char \<Rightarrow> bool" where
  "is_lower_az c \<longleftrightarrow> 97 \<le> ord c \<and> ord c \<le> 122"

fun has_negative :: "string \<Rightarrow> bool" where
  "has_negative (c # d # s) \<longleftrightarrow> c = CHR ''-'' \<and> py_isdigit d \<or> has_negative (d # s)"
| "has_negative _ \<longleftrightarrow> False"

definition digit_value :: "string \<Rightarrow> int" where
  "digit_value ds = foldl (\<lambda>n c. n * 10 + (int (ord c) - 48)) 0 ds"

text \<open>\<open>int(s)\<close> on a digit string: Python refuses more than 4300 digits.\<close>

definition py_int :: "string \<Rightarrow> exn + int" where
  "py_int ds = (if length ds > 4300 then Inl (PyError ValueError) else Inr (digit_value ds))"

definition VALID_LABELS :: "string list" where
  "VALID_LABELS = [''trivial'', ''standard'', ''deep'']"

definition label_of_text :: "string \<Rightarrow> string option" where
  "label_of_text combined =
     (if combined \<in> set VALID_LABELS then Some combined
      else case runs is_lower_az combined of
             [tok] \<Rightarrow> if tok \<in> set VALID_LABELS then Some tok else None
           | _ \<Rightarrow> None)"

definition parse_classifier_label :: "json \<Rightarrow> exn + string option" where
  "parse_classifier_label response =
     map_sum id (\<lambda>content. case content of
         None \<Rightarrow> None
       | Some blocks \<Rightarrow>
           (case response_texts blocks of
              None \<Rightarrow> None
            | Some ts \<Rightarrow> label_of_text (py_lower (py_strip (py_join '' '' ts)))))
       (response_content response)"

definition score_of_text :: "string \<Rightarrow> exn + int option" where
  "score_of_text stripped =
     (if stripped = [] \<or> has_negative stripped then Inr None
      else case runs py_isdigit stripped of
             [ds] \<Rightarrow> map_sum id (\<lambda>v. if 0 \<le> v \<and> v \<le> 100 then Some v else None) (py_int ds)
           | _ \<Rightarrow> Inr None)"

definition parse_classifier_score :: "json \<Rightarrow> exn + int option" where
  "parse_classifier_score response =
     (case response_content response of
        Inl e \<Rightarrow> Inl e
      | Inr None \<Rightarrow> Inr None
      | Inr (Some blocks) \<Rightarrow>
          (case response_texts blocks of
             None \<Rightarrow> Inr None
           | Some ts \<Rightarrow> if ts = [] then Inr None else score_of_text (py_strip (py_join '' '' ts))))"

definition score_of_json :: "json \<Rightarrow> int option" where
  "score_of_json parsed =
     (case parsed of
        JObj d \<Rightarrow> (case jget ''score'' d of JInt n \<Rightarrow> if 0 \<le> n \<and> n \<le> 100 then Some n else None | _ \<Rightarrow> None)
      | _ \<Rightarrow> None)"

definition parse_classifier_score_json :: "(string \<Rightarrow> json option) \<Rightarrow> json \<Rightarrow> exn + int option" where
  "parse_classifier_score_json loads response =
     map_sum id (\<lambda>content. case content of
         None \<Rightarrow> None
       | Some blocks \<Rightarrow>
           (case response_texts blocks of
              None \<Rightarrow> None
            | Some ts \<Rightarrow>
                (case py_strip (py_join '' '' ts) of
                   [] \<Rightarrow> None
                 | t \<Rightarrow> (case loads t of None \<Rightarrow> None | Some v \<Rightarrow> score_of_json v))))
       (response_content response)"

lemma label_of_text_valid: "label_of_text t = Some l \<Longrightarrow> l \<in> set VALID_LABELS"
  by (auto simp: label_of_text_def split: if_splits list.splits)

lemma score_of_text_bounds: "score_of_text t = Inr (Some n) \<Longrightarrow> 0 \<le> n \<and> n \<le> 100"
  by (auto simp: score_of_text_def py_int_def split: if_splits list.splits sum.splits)

lemma parse_classifier_score_bounds:
  "parse_classifier_score r = Inr (Some n) \<Longrightarrow> 0 \<le> n \<and> n \<le> 100"
  by (auto simp: parse_classifier_score_def dest: score_of_text_bounds
      split: sum.splits option.splits if_splits)

lemma score_of_json_bounds: "score_of_json v = Some n \<Longrightarrow> 0 \<le> n \<and> n \<le> 100"
  by (auto simp: score_of_json_def split: json.splits if_splits)

lemma parse_classifier_score_json_bounds:
  "parse_classifier_score_json loads r = Inr (Some n) \<Longrightarrow> 0 \<le> n \<and> n \<le> 100"
  by (cases "response_content r")
     (auto simp: parse_classifier_score_json_def dest: score_of_json_bounds
       split: option.splits list.splits)

section \<open>The keyword rules\<close>

definition RULES_TRIVIAL_PHRASES :: "string list" where
  "RULES_TRIVIAL_PHRASES =
     [''hi'', ''hello'', ''hey'', ''thanks'', ''thank you'', ''ty'', ''thx'',
      ''ok'', ''okay'', ''great'', ''good'', ''nice'', ''cool'', ''awesome'', ''got it'',
      ''understood'', ''noted'', ''ack'', ''acknowledged'',
      ''sounds good'', ''makes sense'', ''looks good'', ''lgtm'', ''done'',
      ''yes'', ''no'', ''correct'', ''sure'', ''right'']"

definition RULES_TRIVIAL_PREFIXES :: "string list" where
  "RULES_TRIVIAL_PREFIXES =
     [''read '', ''look at '', ''check '', ''open '', ''show '', ''list '', ''find '', ''search '',
      ''get '', ''fetch '', ''see '', ''view '', ''watch '', ''browse '', ''look '', ''what '',
      ''sure'', ''ok'', ''okay'', ''alright'', ''right'',
      ''sounds good'', ''makes sense'', ''looks good'']"

definition TRIVIAL_PREFIX_MAX_CHARS :: nat where "TRIVIAL_PREFIX_MAX_CHARS = 120"

definition RULES_DEEP_KEYWORDS :: "string list" where
  "RULES_DEEP_KEYWORDS =
     [''architecture'', ''multi-tenant'', ''multitenant'', ''sso'', ''saml'',
      ''csrf'', ''xss'', ''sql injection'', ''vulnerability'', ''exploit'',
      ''cryptograph'', ''distributed system'', ''microservice'', ''microservices'']"

definition RULES_STANDARD_KEYWORDS :: "string list" where
  "RULES_STANDARD_KEYWORDS =
     [''plan'', ''design'', ''outline'', ''implement'', ''build'', ''create'', ''fix'',
      ''add'', ''debug'', ''refactor'', ''write'', ''develop'', ''test'', ''deploy'',
      ''integrate'', ''migrate'', ''update'', ''explain'', ''analyze'', ''review'',
      ''optimize'', ''improve'', ''restructure'', ''rewrite'', ''generate'', ''parse'',
      ''format'', ''convert'', ''extract'', ''modify'', ''delete'', ''remove'',
      ''rename'', ''move'', ''search'', ''query'', ''fetch'', ''load'', ''render'',
      ''redesign'', ''auth'', ''security'', ''api'', ''database'', ''schema'',
      ''endpoint'', ''function'', ''class'', ''module'', ''service'', ''component'',
      ''feature'', ''bug'', ''error'', ''issue'', ''problem'', ''how'', ''what'', ''why'']"

definition has_keyword :: "string list \<Rightarrow> string \<Rightarrow> bool" where
  "has_keyword kws lower \<longleftrightarrow> list_ex (\<lambda>kw. py_in kw lower) kws"

text \<open>The prefix loop: True where it returns \<open>trivial\<close>, False where it breaks or runs out.\<close>

fun prefix_trivial :: "string \<Rightarrow> string list \<Rightarrow> bool" where
  "prefix_trivial lower [] = False"
| "prefix_trivial lower (p # ps) =
     (if startswith lower p
      then if length p < length lower \<and> py_isalpha (lower ! length p)
           then prefix_trivial lower ps
           else \<not> has_keyword RULES_STANDARD_KEYWORDS lower
      else prefix_trivial lower ps)"

definition classify_by_rules :: "routing_summary \<Rightarrow> label option" where
  "classify_by_rules s =
     (if has_images s \<or> final_non_text_blocks s > 0 then Some Standard
      else let t = py_strip (final_user_text s); lower = py_lower t in
        if t = [] then None
        else if lower \<in> set RULES_TRIVIAL_PHRASES then Some Trivial
        else if length t \<le> TRIVIAL_PREFIX_MAX_CHARS \<and> prefix_trivial lower RULES_TRIVIAL_PREFIXES
        then Some Trivial
        else if has_keyword RULES_DEEP_KEYWORDS lower then Some Deep
        else if has_keyword RULES_STANDARD_KEYWORDS lower then Some Standard
        else None)"

lemma prefix_trivial_no_keyword:
  "prefix_trivial lower ps \<Longrightarrow> \<not> has_keyword RULES_STANDARD_KEYWORDS lower"
  by (induction ps) (auto split: if_splits)

lemma phrases_no_keyword:
  "list_all (\<lambda>p. \<not> has_keyword RULES_STANDARD_KEYWORDS p \<and> \<not> has_keyword RULES_DEEP_KEYWORDS p)
     RULES_TRIVIAL_PHRASES"
  by code_simp

section \<open>Properties\<close>

text \<open>The cap on a replayed tier never upgrades: with a label map whose targets sit at the
  family rank of their labels (the default map, or none), the capped model's rank is at most the
  requested model's whenever both are known, and the cap changes nothing it need not change.\<close>

theorem cap_cached_tier_never_upgrades:
  assumes "case lm of Some m \<Rightarrow> aligned_label_map m | None \<Rightarrow> True"
    and "model_tier_rank requested = Some r"
    and "model_tier_rank (cap_cached_tier cached requested lm) = Some c"
  shows "c \<le> r \<and>
    (cap_cached_tier cached requested lm \<noteq> cached \<longrightarrow>
       cap_cached_tier cached requested lm = requested \<and> (\<exists>k. model_tier_rank cached = Some k \<and> r < k))"
  using assms
  by (auto simp: cap_cached_tier_def tier_rank_in_aligned Let_def split: option.splits if_splits)

definition DEFAULT_LABEL_MAP :: label_map where
  "DEFAULT_LABEL_MAP = [(''trivial'', ''haiku''), (''standard'', ''sonnet''), (''deep'', ''opus'')]"

lemma default_label_map_aligned: "aligned_label_map DEFAULT_LABEL_MAP"
  by code_simp

lemma cap_cached_tier_never_upgrades_witness:
  "cap_cached_tier ''opus'' ''claude-sonnet-5-5'' (Some DEFAULT_LABEL_MAP) = ''claude-sonnet-5-5'' \<and> (1::int) \<le> 1"
proof -
  have r: "model_tier_rank ''claude-sonnet-5-5'' = Some 1" by code_simp
  have c: "cap_cached_tier ''opus'' ''claude-sonnet-5-5'' (Some DEFAULT_LABEL_MAP) = ''claude-sonnet-5-5''"
    by code_simp
  from cap_cached_tier_never_upgrades [of "Some DEFAULT_LABEL_MAP" _ 1 "''opus''" 1, OF _ r] c r
  show ?thesis by (simp add: default_label_map_aligned)
qed

text \<open>With the deep slot mapped to Fable, the map of the docstring's own example, the cap does
  upgrade: a cached Fable tier is replayed onto a turn that asked for Opus, a family below it, because
  the label map ranks its targets 0 to 2 and the requested model is ranked 0 to 3.\<close>

theorem cap_upgrades_opus_to_fable:
  "cap_cached_tier ''fable'' ''opus''
     (Some [(''trivial'', ''haiku''), (''standard'', ''sonnet''), (''deep'', ''fable'')]) = ''fable'' \<and>
   model_tier_rank ''opus'' = Some 2 \<and> model_tier_rank ''fable'' = Some 3"
  by code_simp

text \<open>The summary the classifier sees is bounded and refers to a real user turn: its text is
  non-empty and at most 4000 characters, at most 7 trailing messages were skipped to reach the final
  user turn, prior-turn counts never exceed the other messages, and a bare affirmation is never
  recovered history.\<close>

theorem routing_summary_bounded:
  assumes "build_routing_summary sha payload = Some s"
  shows "final_user_text s \<noteq> [] \<and> length (final_user_text s) \<le> 4000 \<and>
    (text_truncated s \<longrightarrow> length (final_user_text s) = 4000) \<and>
    trailing_skipped s \<le> 7 \<and> trailing_skipped s < total_messages s \<and>
    prior_user_messages s + prior_assistant_messages s < total_messages s \<and>
    is_user_msg (the (as_list (jget ''messages'' payload)) ! (total_messages s - 1 - trailing_skipped s)) \<and>
    (recovered_via_walkback s \<longrightarrow> length (final_user_text s) \<le> 1000 \<and> \<not> short_affirmation s)"
proof -
  from assms obtain ms i own raw n img where ms: "jget ''messages'' payload = JArr ms"
    and i: "final_user_index ms = Some i" and s: "summary_of sha payload ms i (own, raw, n, img) = Some s"
    by (auto simp: build_routing_summary_def split: json.splits option.splits if_splits)
  note idx = final_user_index_SomeD [OF i]
  from s obtain full where full: "full \<noteq> []" "final_user_text s = truncate_classifier_text full"
    "text_truncated s \<longleftrightarrow> int (length full) > TEXT_LIMIT" "total_messages s = length ms"
    "trailing_skipped s = length ms - 1 - i"
    "prior_user_messages s = count_roles ''user'' i ms"
    "prior_assistant_messages s = count_roles ''assistant'' i ms"
    "recovered_via_walkback s \<longrightarrow> recover_text own raw = [] \<and> length full \<le> 1000"
    "short_affirmation s \<longrightarrow> own \<noteq> [] \<and> \<not> recovered_via_walkback s \<and> is_short_affirmation (final_user_text s)"
    by (rule summary_of_SomeD) auto
  have len: "int (length (final_user_text s)) = min (int (length full)) 4000"
    by (simp add: full(2) truncate_classifier_text_length)
  have pos: "length ms - 1 - (length ms - 1 - i) = i" using idx(1) by simp
  have "length (final_user_text s) \<le> 4000" using len by linarith
  moreover have "text_truncated s \<longrightarrow> length (final_user_text s) = 4000"
    using len full(3) by (auto simp: TEXT_LIMIT_def min_def split: if_splits)
  moreover have "trailing_skipped s \<le> 7 \<and> trailing_skipped s < total_messages s"
    using idx(1,3) full(4,5) by auto
  moreover have "prior_user_messages s + prior_assistant_messages s < total_messages s"
    using count_roles_le [OF idx(1)] idx(1) full(4,6,7) by linarith
  moreover have "recovered_via_walkback s \<longrightarrow> length (final_user_text s) \<le> 1000 \<and> \<not> short_affirmation s"
    using len full(8,9) by auto
  moreover have "is_user_msg (the (as_list (jget ''messages'' payload)) !
      (total_messages s - 1 - trailing_skipped s))"
    unfolding ms full(4,5) pos using idx(2) by simp
  ultimately show ?thesis using full(1,2) by simp
qed

definition sample_turn :: jdict where
  "sample_turn =
     [(''system'', JStr ''You are a helpful assistant.''),
      (''messages'', JArr
        [JObj [(''role'', JStr ''user''), (''content'', JStr ''fix the parser'')],
         JObj [(''role'', JStr ''assistant''), (''content'', JStr ''Shall I?'')],
         JObj [(''role'', JStr ''user''), (''content'', JArr [JObj [(''type'', JStr ''tool_result'')]])],
         JObj [(''role'', JStr ''system''), (''content'', JStr ''x'')]])]"

definition sample_summary :: routing_summary where
  "sample_summary =
     \<lparr>final_user_text = ''fix the parser'', text_truncated = False, total_messages = 4,
      prior_user_messages = 1, prior_assistant_messages = 1, tool_use_count = 0, tool_result_count = 1,
      final_non_text_blocks = 1, has_images = False, recovered_via_walkback = True,
      final_is_tool_result_only = True, short_affirmation = False,
      system_prompt_sha256 = Some ''abc'', trailing_skipped = 1\<rparr>"

lemma sample_turn_summary: "build_routing_summary (\<lambda>_. Some ''abc'') sample_turn = Some sample_summary"
  by code_simp

lemma routing_summary_bounded_witness:
  "length (final_user_text sample_summary) \<le> 4000 \<and> \<not> short_affirmation sample_summary"
  using routing_summary_bounded [OF sample_turn_summary] by (simp add: sample_summary_def)

text \<open>A score the router accepts lies in 0 to 100, whichever response format was asked for, and
  the tier it maps to is monotone in the score.\<close>

theorem parsed_score_in_range:
  assumes "parse_classifier_score r = Inr (Some n) \<or> parse_classifier_score_json loads r = Inr (Some n)"
  shows "0 \<le> n \<and> n \<le> 100 \<and>
    score_to_tier 0 t u \<le> score_to_tier (of_int n) t u \<and>
    score_to_tier (of_int n) t u \<le> score_to_tier 100 t u"
proof -
  from assms have n: "0 \<le> n" "n \<le> 100"
    using parse_classifier_score_bounds parse_classifier_score_json_bounds by blast+
  then have "(0::rat) \<le> of_int n" "of_int n \<le> (100::rat)"
    by (simp_all add: of_int_le_numeral_iff)
  with n show ?thesis by (simp add: score_to_tier_mono)
qed

lemma parsed_score_in_range_witness:
  "parse_classifier_score (JObj [(''content'', JArr [JObj [(''type'', JStr ''thinking'')], text_block '' 42. ''])])
     = Inr (Some 42) \<and> score_to_tier 0 38 75 \<le> score_to_tier (of_int 42) 38 75"
proof -
  have p: "parse_classifier_score
      (JObj [(''content'', JArr [JObj [(''type'', JStr ''thinking'')], text_block '' 42. ''])]) = Inr (Some 42)"
    by code_simp
  from parsed_score_in_range [OF disjI1, OF p] p show ?thesis by blast
qed

text \<open>The keyword rules never call a planning or implementation request trivial: a trivial
  verdict means no image, no non-text block and none of the standard keywords in the text.\<close>

theorem rules_trivial_is_safe:
  assumes "classify_by_rules s = Some Trivial"
  shows "\<not> has_images s \<and> final_non_text_blocks s = 0 \<and>
    \<not> has_keyword RULES_STANDARD_KEYWORDS (py_lower (py_strip (final_user_text s)))"
  using assms phrases_no_keyword
  by (auto simp: classify_by_rules_def Let_def list_all_iff dest: prefix_trivial_no_keyword split: if_splits)

definition text_summary :: "string \<Rightarrow> routing_summary" where
  "text_summary t =
     \<lparr>final_user_text = t, text_truncated = False, total_messages = 1, prior_user_messages = 0,
      prior_assistant_messages = 0, tool_use_count = 0, tool_result_count = 0,
      final_non_text_blocks = 0, has_images = False, recovered_via_walkback = False,
      final_is_tool_result_only = False, short_affirmation = False,
      system_prompt_sha256 = None, trailing_skipped = 0\<rparr>"

lemma rules_trivial_is_safe_witness:
  "\<not> has_keyword RULES_STANDARD_KEYWORDS (py_lower (py_strip (final_user_text (text_summary ''Thanks''))))"
proof -
  have "classify_by_rules (text_summary ''Thanks'') = Some Trivial" by code_simp
  from rules_trivial_is_safe [OF this] show ?thesis by blast
qed

definition spaced_prefix :: "string \<Rightarrow> bool" where
  "spaced_prefix p \<longleftrightarrow> p \<in> set RULES_TRIVIAL_PREFIXES \<and> last p = CHR '' ''"

lemma spaced_prefix_table:
  "list_all (\<lambda>p. spaced_prefix p \<and> p \<noteq> ''look '' \<longrightarrow>
     list_all (\<lambda>q. (prefix q p \<longrightarrow> q = p \<or> py_isalpha (p ! length q)) \<and> (prefix p q \<longrightarrow> q = p))
       RULES_TRIVIAL_PREFIXES) RULES_TRIVIAL_PREFIXES"
  by code_simp

lemma prefix_trivial_False:
  assumes "\<And>q. q \<in> set qs \<Longrightarrow> prefix q lower \<Longrightarrow>
    length q < length lower \<and> py_isalpha (lower ! length q)"
  shows "\<not> prefix_trivial lower qs"
  using assms by (induction qs) (auto simp: startswith_def)

lemma prefix_nth: "prefix p s \<Longrightarrow> i < length p \<Longrightarrow> s ! i = p ! i"
  by (auto simp: prefix_def nth_append)

text \<open>The prefix rule the docstring advertises (``read the file'' is trivial) never fires when a
  word follows: sixteen prefixes end in a space, and the word-boundary test then looks at the first
  letter of the next word and rejects the match.\<close>

theorem rules_prefix_rejects_next_word:
  assumes "spaced_prefix p" and "p \<noteq> ''look ''" and "prefix p lower"
    and "length p < length lower" and "py_isalpha (lower ! length p)"
  shows "\<not> prefix_trivial lower RULES_TRIVIAL_PREFIXES"
proof (rule prefix_trivial_False)
  fix q
  assume q: "q \<in> set RULES_TRIVIAL_PREFIXES" "prefix q lower"
  have table: "(prefix q p \<longrightarrow> q = p \<or> py_isalpha (p ! length q)) \<and> (prefix p q \<longrightarrow> q = p)"
    using spaced_prefix_table assms(1,2) q(1) by (auto simp: list_all_iff spaced_prefix_def)
  show "length q < length lower \<and> py_isalpha (lower ! length q)"
  proof (cases "q = p")
    case True
    with assms(4,5) show ?thesis by simp
  next
    case False
    have "prefix q p"
      using prefix_same_cases [OF q(2) assms(3)] table False by auto
    with False table have len: "length q < length p" and alpha: "py_isalpha (p ! length q)"
      using prefix_length_less [of q p] by (auto simp: strict_prefix_def)
    with prefix_nth [OF assms(3) len] assms(4) show ?thesis by simp
  qed
qed

lemma rules_prefix_rejects_next_word_witness:
  "\<not> prefix_trivial ''read the file'' RULES_TRIVIAL_PREFIXES \<and>
   classify_by_rules (text_summary ''read the file'') = None"
proof
  show "\<not> prefix_trivial ''read the file'' RULES_TRIVIAL_PREFIXES"
    by (rule rules_prefix_rejects_next_word [of "''read ''"]) code_simp+
  show "classify_by_rules (text_summary ''read the file'') = None" by code_simp
qed

end
