(* ===== verification/Routing_Decision.thy ===== *)
theory Routing_Decision
  imports Router_Core
begin

text \<open>
  The value \<open>route_model\<close> returns (\<open>ModelRoutingDecision\<close> of
  \<^verbatim>\<open>anthrouter/model_router.py\<close>) and the declared reason codes.  The three fields the code
  reserves and never sets (\<open>classifier_confidence\<close>, \<open>task_tag\<close>, \<open>tier_bumped\<close>) are left out.
\<close>

record decision =
  requested_model :: string
  routed_model :: string
  classification :: "label option"
  applied :: bool
  reason_code :: string
  estimated_tokens :: int
  predicted_tokens :: int
  session_tokens :: int
  session_ratio :: rat
  classifier_mode :: string
  clf_input_tokens :: int
  clf_output_tokens :: int
  clf_model :: "string option"
  clf_summary_json :: "string option"
  clf_raw_response :: "string option"
  clf_format :: "string option"
  clf_stop_reason :: "string option"
  cache_tier :: "string option"
  system_prompt_tier :: "label option"
  system_prompt_score :: "int option"
  user_prompt_score :: "int option"
  weighted_score :: "int option"
  system_prompt_failed :: bool
  user_prompt_tier :: "label option"

text \<open>The five required fields; every other field has its default.\<close>

definition decide :: "string \<Rightarrow> string \<Rightarrow> label option \<Rightarrow> string \<Rightarrow> decision" where
  "decide requested routed cls reason =
     \<lparr>requested_model = requested, routed_model = routed, classification = cls,
      applied = (routed \<noteq> requested), reason_code = reason,
      estimated_tokens = 0, predicted_tokens = 0, session_tokens = 0, session_ratio = 1,
      classifier_mode = ''classifier'', clf_input_tokens = 0, clf_output_tokens = 0,
      clf_model = None, clf_summary_json = None, clf_raw_response = None, clf_format = None,
      clf_stop_reason = None, cache_tier = None, system_prompt_tier = None,
      system_prompt_score = None, user_prompt_score = None, weighted_score = None,
      system_prompt_failed = False, user_prompt_tier = None\<rparr>"

definition REASON_CODES :: "string list" where
  "REASON_CODES =
     [''disabled'', ''model_not_eligible'', ''malformed_payload'', ''missing_final_user_text'',
      ''override_no_classifier'', ''security_monitor_passthrough'', ''thread_pinned'',
      ''thread_pin_unknown'', ''thread_reclassified'', ''thread_reclassified_replay'',
      ''thread_replay_pinned'', ''size_forced_long_context'', ''session_cached_tier'',
      ''session_cached_tier_capped'', ''session_cached_walkback'', ''session_cached_walkback_capped'',
      ''session_cached_walkback_tool_result'', ''affirmation_inherited'',
      ''affirmation_floored_standard'', ''affirmation_classified'', ''affirmation_classifier_failed'',
      ''affirmation_reclassified'', ''rule_title_generation'', ''classifier_trivial'',
      ''classifier_standard'', ''classifier_deep'', ''classifier_trivial_bumped'',
      ''classifier_standard_bumped'', ''classifier_trivial_blended_standard'',
      ''classifier_trivial_blended_deep'', ''classifier_standard_blended_trivial'',
      ''classifier_standard_blended_deep'', ''classifier_deep_blended_standard'',
      ''classifier_deep_blended_trivial'', ''classifier_failed'', ''classifier_rate_limited'',
      ''classifier_invalid'', ''classifier_rules_trivial'', ''classifier_rules_standard'',
      ''classifier_rules_deep'', ''rules_no_signal'']"

text \<open>A decision is consistent when \<open>applied\<close> says exactly that the model changed.\<close>

definition consistent :: "decision \<Rightarrow> bool" where
  "consistent d \<longleftrightarrow> applied d = (routed_model d \<noteq> requested_model d)"

lemma decide_simps [simp]:
  "requested_model (decide q r c s) = q" "routed_model (decide q r c s) = r"
  "classification (decide q r c s) = c" "reason_code (decide q r c s) = s"
  "applied (decide q r c s) \<longleftrightarrow> r \<noteq> q" "consistent (decide q r c s)"
  "cache_tier (decide q r c s) = None" "classifier_mode (decide q r c s) = ''classifier''"
  "clf_summary_json (decide q r c s) = None" "user_prompt_score (decide q r c s) = None"
  "weighted_score (decide q r c s) = None" "system_prompt_score (decide q r c s) = None"
  by (simp_all add: decide_def consistent_def)

end
