(* ===== verification/Bounded_Store.thy ===== *)
theory Bounded_Store
  imports Py_Prelude
begin

text \<open>
  The bounded ordered dictionaries of the program: the session stores
  (\<open>SessionState._put\<close>), the system-prompt score cache of the router and the session map of
  the volatility tracker.  A store is an association list, oldest entry first.

  The locale \<open>bounded_store\<close> is what their callers rely on: a write is read back, nothing is
  invented, the size never passes the capacity, and an entry is only evicted after enough newer
  writes.  Its lemmas hold for any sequence of writes.
\<close>

type_synonym ('k, 'v) store = "('k \<times> 'v) list"

definition store_pop :: "'k \<Rightarrow> ('k, 'v) store \<Rightarrow> ('k, 'v) store" where
  "store_pop k s = filter (\<lambda>p. fst p \<noteq> k) s"

text \<open>\<open>store[k] = v; store.move_to_end(k)\<close>.\<close>

definition store_set_last :: "'k \<Rightarrow> 'v \<Rightarrow> ('k, 'v) store \<Rightarrow> ('k, 'v) store" where
  "store_set_last k v s = store_pop k s @ [(k, v)]"

text \<open>\<open>_put\<close>: a new key in a full store first evicts the oldest entry.\<close>

definition store_put :: "nat \<Rightarrow> 'k \<Rightarrow> 'v \<Rightarrow> ('k, 'v) store \<Rightarrow> ('k, 'v) store" where
  "store_put cap k v s =
     store_set_last k v (if map_of s k = None \<and> length s \<ge> cap then tl s else s)"

text \<open>The cache write of the router: insert last, then evict oldest-first down to the capacity.\<close>

definition lru_put :: "nat \<Rightarrow> 'k \<Rightarrow> 'v \<Rightarrow> ('k, 'v) store \<Rightarrow> ('k, 'v) store" where
  "lru_put cap k v s =
     (let s' = store_set_last k v s in drop (length s' - cap) s')"

definition store_age :: "('k, 'v) store \<Rightarrow> 'k \<Rightarrow> nat" where
  "store_age s k = length (takeWhile (\<lambda>p. fst p \<noteq> k) (rev s))"

definition store_ok :: "nat \<Rightarrow> ('k, 'v) store \<Rightarrow> bool" where
  "store_ok cap s \<longleftrightarrow> distinct (map fst s) \<and> length s \<le> cap"

locale bounded_store =
  fixes put :: "'k \<Rightarrow> 'v \<Rightarrow> 's \<Rightarrow> 's"
    and look :: "'s \<Rightarrow> 'k \<Rightarrow> 'v option"
    and size_of :: "'s \<Rightarrow> nat"
    and age :: "'s \<Rightarrow> 'k \<Rightarrow> nat"
    and inv :: "'s \<Rightarrow> bool"
    and cap :: nat
  assumes put_inv: "inv s \<Longrightarrow> inv (put k v s)"
    and bounded: "inv s \<Longrightarrow> size_of s \<le> cap"
    and look_put_same: "inv s \<Longrightarrow> look (put k v s) k = Some v"
    and look_put_other: "inv s \<Longrightarrow> k' \<noteq> k \<Longrightarrow> look (put k v s) k' = Some w \<Longrightarrow> look s k' = Some w"
    and age_put_same: "inv s \<Longrightarrow> age (put k v s) k = 0"
    and age_put_other: "inv s \<Longrightarrow> k' \<noteq> k \<Longrightarrow> look s k' = Some w \<Longrightarrow> Suc (age s k') < cap \<Longrightarrow>
          look (put k v s) k' = Some w \<and> age (put k v s) k' \<le> Suc (age s k')"
begin

lemma puts_inv: "inv s \<Longrightarrow> inv (foldl (\<lambda>s p. put (fst p) (snd p) s) s kvs)"
  by (induction kvs arbitrary: s) (simp_all add: put_inv)

lemma puts_bounded: "inv s \<Longrightarrow> size_of (foldl (\<lambda>s p. put (fst p) (snd p) s) s kvs) \<le> cap"
  by (simp add: bounded puts_inv)

lemma puts_sound:
  "inv s \<Longrightarrow> look (foldl (\<lambda>s p. put (fst p) (snd p) s) s kvs) k = Some w \<Longrightarrow>
   look s k = Some w \<or> (k, w) \<in> set kvs"
proof (induction kvs arbitrary: s)
  case (Cons p kvs)
  from Cons.IH [OF put_inv [OF Cons.prems(1)]] Cons.prems(2)
  have "look (put (fst p) (snd p) s) k = Some w \<or> (k, w) \<in> set kvs" by simp
  then show ?case
    using look_put_same [OF Cons.prems(1)] look_put_other [OF Cons.prems(1)]
    by (cases "k = fst p") auto
qed simp

lemma puts_survive:
  "inv s \<Longrightarrow> look s k = Some w \<Longrightarrow> age s k + length kvs < cap \<Longrightarrow> k \<notin> fst ` set kvs \<Longrightarrow>
   look (foldl (\<lambda>s p. put (fst p) (snd p) s) s kvs) k = Some w"
proof (induction kvs arbitrary: s)
  case (Cons p kvs)
  have "look (put (fst p) (snd p) s) k = Some w \<and> age (put (fst p) (snd p) s) k \<le> Suc (age s k)"
    using Cons.prems by (intro age_put_other) auto
  with Cons.prems Cons.IH [OF put_inv [OF Cons.prems(1)]] show ?case by auto
qed simp

text \<open>An entry survives every sequence of fewer than \<open>cap\<close> later writes to other keys.\<close>

lemma recent_survives:
  assumes "inv s" "length kvs < cap" "k \<notin> fst ` set kvs"
  shows "look (foldl (\<lambda>s p. put (fst p) (snd p) s) (put k v s) kvs) k = Some v"
  using assms by (intro puts_survive put_inv look_put_same) (simp_all add: age_put_same)

end

lemma map_of_store_pop: "map_of (store_pop k s) k' = (if k' = k then None else map_of s k')"
  by (induction s) (auto simp: store_pop_def)

lemma store_pop_keys [simp]: "fst ` set (store_pop k s) = fst ` set s - {k}"
  by (auto simp: store_pop_def)

lemma store_pop_length: "length (store_pop k s) \<le> length s"
  by (simp add: store_pop_def)

lemma store_pop_distinct: "distinct (map fst s) \<Longrightarrow> distinct (map fst (store_pop k s))"
  by (simp add: store_pop_def distinct_map_filter)

lemma store_pop_length_key: "k \<in> fst ` set s \<Longrightarrow> length (store_pop k s) < length s"
  by (auto simp: store_pop_def intro!: length_filter_less)

lemma store_ok_pop: "store_ok cap s \<Longrightarrow> store_ok cap (store_pop k s)"
  using store_pop_length [of k s] by (auto simp: store_ok_def store_pop_distinct)

lemma map_of_set_last: "map_of (store_set_last k v s) k' = (if k' = k then Some v else map_of s k')"
  by (simp add: store_set_last_def map_of_store_pop map_add_def split: option.splits)

lemma set_last_distinct: "distinct (map fst s) \<Longrightarrow> distinct (map fst (store_set_last k v s))"
  by (simp add: store_set_last_def store_pop_distinct)

lemma map_of_tl: "distinct (map fst s) \<Longrightarrow> map_of (tl s) k = Some w \<Longrightarrow> map_of s k = Some w"
proof (cases s)
  case (Cons p t)
  assume d: "distinct (map fst s)" and w: "map_of (tl s) k = Some w"
  then have "k \<in> fst ` set t" using Cons by (force dest: map_of_SomeD)
  moreover have "fst p \<notin> fst ` set t" using d Cons by simp
  ultimately have "k \<noteq> fst p" by metis
  with w Cons show ?thesis by (cases p) simp
qed simp

lemma map_of_drop:
  "distinct (map fst s) \<Longrightarrow> map_of (drop n s) k = Some w \<Longrightarrow> map_of s k = Some w"
  by (metis map_of_SomeD map_of_is_SomeI in_set_dropD distinct_drop drop_map)

text \<open>The two-part picture of a store: what is older and what is newer than a key.\<close>

lemma store_split:
  assumes "map_of s k = Some w" "distinct (map fst s)"
  obtains older newer where "s = older @ (k, w) # newer" "k \<notin> fst ` set older" "k \<notin> fst ` set newer"
    "store_age s k = length newer"
proof -
  from assms(1) obtain older newer where s: "s = older @ (k, w) # newer"
    by (metis map_of_SomeD split_list)
  with assms(2) have n: "k \<notin> fst ` set older" "k \<notin> fst ` set newer" by auto
  have "takeWhile (\<lambda>p. fst p \<noteq> k) (rev newer @ (k, w) # rev older) = rev newer"
    using n(2) by (subst takeWhile_append2) auto
  then have "store_age s k = length newer" by (simp add: store_age_def s)
  with s n show ?thesis by (rule that)
qed

lemma store_age_of_split:
  "s = older @ (k, w) # newer \<Longrightarrow> k \<notin> fst ` set newer \<Longrightarrow> store_age s k = length newer"
  by (simp add: store_age_def) (subst takeWhile_append2, auto)

lemma store_pop_split:
  "k' \<noteq> k \<Longrightarrow> store_pop k (older @ (k', w) # newer) = store_pop k older @ (k', w) # store_pop k newer"
  by (simp add: store_pop_def)

lemma set_last_age:
  assumes "s = older @ (k', w) # newer" "k' \<notin> fst ` set newer" "k' \<noteq> k"
  shows "store_age (store_set_last k v s) k' \<le> Suc (length newer)"
proof -
  have "store_set_last k v s = store_pop k older @ (k', w) # (store_pop k newer @ [(k, v)])"
    using assms(1,3) by (simp add: store_set_last_def store_pop_split)
  then have "store_age (store_set_last k v s) k' = length (store_pop k newer @ [(k, v)])"
    by (rule store_age_of_split) (use assms(2,3) in auto)
  then show ?thesis using store_pop_length [of k newer] by simp
qed

lemma store_put_ok: "0 < cap \<Longrightarrow> store_ok cap s \<Longrightarrow> store_ok cap (store_put cap k v s)"
proof -
  assume cap: "0 < cap" and ok: "store_ok cap s"
  let ?s = "if map_of s k = None \<and> length s \<ge> cap then tl s else s"
  have d: "distinct (map fst ?s)" using ok by (auto simp: store_ok_def distinct_tl map_tl)
  have "length (store_pop k ?s) < cap"
  proof (cases "map_of s k = None")
    case True
    with cap ok store_pop_length [of k ?s] show ?thesis by (auto simp: store_ok_def)
  next
    case False
    then have "k \<in> fst ` set s" by (simp add: map_of_eq_None_iff)
    with False ok store_pop_length_key [of k s] show ?thesis by (auto simp: store_ok_def)
  qed
  with d show ?thesis
    by (simp add: store_ok_def store_put_def store_set_last_def store_pop_distinct)
qed

lemma store_put_other:
  assumes "store_ok cap s" "k' \<noteq> k" "map_of s k' = Some w" "Suc (store_age s k') < cap"
  shows "map_of (store_put cap k v s) k' = Some w \<and> store_age (store_put cap k v s) k' \<le> Suc (store_age s k')"
proof -
  from assms(1) have d: "distinct (map fst s)" by (simp add: store_ok_def)
  obtain older newer where s: "s = older @ (k', w) # newer" "k' \<notin> fst ` set older" "k' \<notin> fst ` set newer"
    "store_age s k' = length newer" by (rule store_split [OF assms(3) d])
  let ?s = "if map_of s k = None \<and> length s \<ge> cap then tl s else s"
  obtain older' where o: "?s = older' @ (k', w) # newer" "set older' \<subseteq> set older"
  proof (cases "map_of s k = None \<and> length s \<ge> cap")
    case True
    with s(1,4) assms(4) have "older \<noteq> []" by auto
    with s(1) have "tl s = tl older @ (k', w) # newer" by simp
    moreover have "?s = tl s" using True by (simp only: if_True simp_thms)
    moreover have "set (tl older) \<subseteq> set older" by (cases older) auto
    ultimately show ?thesis by (intro that [of "tl older"]) (simp_all only:)
  next
    case False
    then have "?s = s" by (simp only: if_False)
    then show ?thesis by (rule that [OF trans [OF _ s(1)] subset_refl])
  qed
  have "k' \<notin> fst ` set older'" using o(2) s(2) by auto
  then have "map_of older' k' = None" by (rule map_of_eq_None_iff [THEN iffD2])
  then have "map_of ?s k' = Some w" unfolding o(1) by (simp add: map_add_def)
  then have "map_of (store_put cap k v s) k' = Some w"
    using assms(2) by (simp add: store_put_def map_of_set_last)
  moreover have "store_age (store_put cap k v s) k' \<le> Suc (length newer)"
    unfolding store_put_def by (rule set_last_age [OF o(1) s(3) assms(2)])
  ultimately show ?thesis by (simp add: s(4))
qed

lemma store_age_set_last [simp]: "store_age (store_set_last k v s) k = 0"
  by (simp add: store_age_def store_set_last_def)

lemma store_put_same [simp]: "map_of (store_put cap k v s) k = Some v"
  by (simp add: store_put_def map_of_set_last)

lemma store_put_sound:
  "store_ok cap s \<Longrightarrow> k' \<noteq> k \<Longrightarrow> map_of (store_put cap k v s) k' = Some w \<Longrightarrow> map_of s k' = Some w"
  using map_of_tl [of s k' w]
  by (auto simp only: store_put_def map_of_set_last store_ok_def if_False split: if_splits)

text \<open>\<open>MAX_ENTRIES\<close> and the cache capacity are positive; the interpretations are for \<open>Suc n\<close>.\<close>

interpretation store: bounded_store "store_put (Suc n)" map_of length store_age "store_ok (Suc n)" "Suc n"
  for n
proof
  fix s k v k' w
  show "store_ok (Suc n) s \<Longrightarrow> store_age (store_put (Suc n) k v s) k = 0"
    by (simp add: store_put_def)
  show "store_ok (Suc n) s \<Longrightarrow> length s \<le> Suc n" by (simp add: store_ok_def)
  show "store_ok (Suc n) s \<Longrightarrow> store_ok (Suc n) (store_put (Suc n) k v s)" by (rule store_put_ok) simp_all
  show "map_of (store_put (Suc n) k v s) k = Some v" by simp
  show "store_ok (Suc n) s \<Longrightarrow> k' \<noteq> k \<Longrightarrow> map_of (store_put (Suc n) k v s) k' = Some w \<Longrightarrow> map_of s k' = Some w"
    by (rule store_put_sound)
  show "store_ok (Suc n) s \<Longrightarrow> k' \<noteq> k \<Longrightarrow> map_of s k' = Some w \<Longrightarrow> Suc (store_age s k') < Suc n \<Longrightarrow>
      map_of (store_put (Suc n) k v s) k' = Some w \<and> store_age (store_put (Suc n) k v s) k' \<le> Suc (store_age s k')"
    by (rule store_put_other)
qed

lemma lru_put_ok: "store_ok cap s \<Longrightarrow> store_ok cap (lru_put cap k v s)"
  by (auto simp: store_ok_def lru_put_def Let_def drop_map [symmetric] set_last_distinct)

lemma lru_put_same: "0 < cap \<Longrightarrow> distinct (map fst s) \<Longrightarrow> map_of (lru_put cap k v s) k = Some v"
proof -
  assume "0 < cap" and d: "distinct (map fst s)"
  let ?s = "store_set_last k v s"
  have "(k, v) \<in> set (drop (length ?s - cap) ?s)"
    using \<open>0 < cap\<close> by (simp add: store_set_last_def)
  moreover have "distinct (map fst (drop (length ?s - cap) ?s))"
    using d by (simp add: drop_map [symmetric] set_last_distinct)
  ultimately show ?thesis by (simp add: lru_put_def Let_def)
qed

lemma lru_put_sound:
  "distinct (map fst s) \<Longrightarrow> k' \<noteq> k \<Longrightarrow> map_of (lru_put cap k v s) k' = Some w \<Longrightarrow> map_of s k' = Some w"
  using map_of_drop [OF set_last_distinct, of s]
  by (fastforce simp: lru_put_def Let_def map_of_set_last)

lemma lru_put_other:
  assumes "store_ok cap s" "k' \<noteq> k" "map_of s k' = Some w" "Suc (store_age s k') < cap"
  shows "map_of (lru_put cap k v s) k' = Some w \<and> store_age (lru_put cap k v s) k' \<le> Suc (store_age s k')"
proof -
  from assms(1) have d: "distinct (map fst s)" by (simp add: store_ok_def)
  obtain older newer where s: "s = older @ (k', w) # newer" "k' \<notin> fst ` set older" "k' \<notin> fst ` set newer"
    "store_age s k' = length newer" by (rule store_split [OF assms(3) d])
  let ?s = "store_set_last k v s" and ?new = "store_pop k newer @ [(k, v)]"
  have t: "?s = store_pop k older @ (k', w) # ?new"
    using s(1) assms(2) by (simp add: store_set_last_def store_pop_split)
  have "length ?new < cap" using store_pop_length [of k newer] assms(4) s(4) by simp
  then have dr: "lru_put cap k v s = drop (length ?s - cap) (store_pop k older) @ (k', w) # ?new"
    unfolding lru_put_def Let_def by (subst (2) t) (simp add: t)
  have nk: "k' \<notin> fst ` set ?new" using s(3) assms(2) by auto
  have "k' \<notin> fst ` set (drop (length ?s - cap) (store_pop k older))"
    using s(2) by (auto simp: store_pop_def dest!: in_set_dropD)
  then have "map_of (drop (length ?s - cap) (store_pop k older)) k' = None"
    by (rule map_of_eq_None_iff [THEN iffD2])
  then have "map_of (lru_put cap k v s) k' = Some w"
    unfolding dr by (simp add: map_add_def)
  moreover have "store_age (lru_put cap k v s) k' = length ?new"
    by (rule store_age_of_split [OF dr nk])
  ultimately show ?thesis using store_pop_length [of k newer] s(4) by simp
qed

lemma lru_age_same: "0 < cap \<Longrightarrow> store_age (lru_put cap k v s) k = 0"
  by (simp add: store_age_def lru_put_def Let_def store_set_last_def)

interpretation lru: bounded_store "lru_put (Suc n)" map_of length store_age "store_ok (Suc n)" "Suc n"
  for n
proof
  fix s k v k' w
  show "store_ok (Suc n) s \<Longrightarrow> length s \<le> Suc n" by (simp add: store_ok_def)
  show "store_ok (Suc n) s \<Longrightarrow> map_of (lru_put (Suc n) k v s) k = Some v"
    by (rule lru_put_same) (simp_all add: store_ok_def)
  show "store_ok (Suc n) s \<Longrightarrow> k' \<noteq> k \<Longrightarrow> map_of (lru_put (Suc n) k v s) k' = Some w \<Longrightarrow> map_of s k' = Some w"
    by (rule lru_put_sound) (simp_all add: store_ok_def)
  show "store_ok (Suc n) s \<Longrightarrow> store_ok (Suc n) (lru_put (Suc n) k v s)" by (rule lru_put_ok)
  show "store_age (lru_put (Suc n) k v s) k = 0" by (rule lru_age_same) simp
  show "store_ok (Suc n) s \<Longrightarrow> k' \<noteq> k \<Longrightarrow> map_of s k' = Some w \<Longrightarrow> Suc (store_age s k') < Suc n \<Longrightarrow>
      map_of (lru_put (Suc n) k v s) k' = Some w \<and> store_age (lru_put (Suc n) k v s) k' \<le> Suc (store_age s k')"
    by (rule lru_put_other)
qed

end
