(* ===== verification/Router.thy ===== *)
theory Router
  imports Routing_Decision Bounded_Store Transform
begin

text \<open>
  \<^verbatim>\<open>anthrouter/model_router.py\<close>, the part with calls and shared state: the system-prompt
  score cache, the weighted blend, the classifier's retry loop, the size floor and
  \<open>route_model\<close>.

  The record \<open>env\<close> holds what the code gets from outside: the upstream classifier call
  (its answer may depend on the calls made before), hashing, JSON text, exception texts, the random
  jitter, the fixed prompt texts and the one-character ellipsis, which lie outside the modelled
  character range.  The record \<open>rstate\<close> is the shared state: calls made, the score cache, the
  context keys with an affirmation call in flight and the sleeps taken.
\<close>

record env =
  env_send :: "jdict list \<Rightarrow> jdict \<Rightarrow> exn + json"
  env_sha :: "json \<Rightarrow> string option"
  env_dumps :: "jdict \<Rightarrow> string"
  env_loads :: "string \<Rightarrow> json option"
  env_repr :: "json \<Rightarrow> string"
  env_exn_line :: "exn \<Rightarrow> string"
  env_jitter :: "nat \<Rightarrow> rat"
  env_prompt :: string
  env_prompt_json :: string
  env_prompt_tier :: string
  env_ellipsis :: string

record router_config =
  auto_model_routing :: bool
  long_context_threshold :: int
  long_target :: string
  labels :: label_map
  classifier_model :: string
  confidence_bump :: bool
  routing_mode :: string
  affirmation_inherit :: bool
  trivial_threshold :: rat
  standard_threshold :: rat
  sys_cache_size :: nat
  sys_preview_limit :: int
  sys_weight :: rat
  user_weight :: rat
  classifier_max_retries :: nat
  prior_summary_limit :: int

record rstate =
  calls :: "jdict list"
  sys_cache :: "(string, int) store"
  inflight :: "string list"
  sleeps :: "rat list"

definition label_model :: "router_config \<Rightarrow> label \<Rightarrow> exn + string" where
  "label_model cfg l =
     (case map_of (labels cfg) (label_name l) of
        Some m \<Rightarrow> Inr m
      | None \<Rightarrow> Inl (PyError KeyError))"

definition tier_of :: "router_config \<Rightarrow> int \<Rightarrow> label" where
  "tier_of cfg score = score_to_tier (of_int score) (trivial_threshold cfg) (standard_threshold cfg)"

definition send_classifier :: "env \<Rightarrow> jdict \<Rightarrow> rstate \<Rightarrow> (exn + json) \<times> rstate" where
  "send_classifier env payload st =
     (env_send env (calls st) payload, st\<lparr>calls := calls st @ [payload]\<rparr>)"

section \<open>Previews\<close>

definition one_line :: "string \<Rightarrow> string" where
  "one_line s = map (\<lambda>c. if c = CHR 0x0A \<or> c = CHR 0x0D then CHR '' '' else c) s"

definition RAW_LABEL_LOG_LIMIT :: int where "RAW_LABEL_LOG_LIMIT = 120"

definition cap_raw_preview :: "env \<Rightarrow> string \<Rightarrow> string" where
  "cap_raw_preview env t =
     (if int (length t) > RAW_LABEL_LOG_LIMIT then py_head t RAW_LABEL_LOG_LIMIT @ env_ellipsis env else t)"

definition classifier_raw_text_preview :: "env \<Rightarrow> json \<Rightarrow> string" where
  "classifier_raw_text_preview env response =
     (case jget ''content'' (dict_of response) of
        JArr bs \<Rightarrow>
          (case List.map_filter text_of bs of
             [] \<Rightarrow> ''<non-text>''
           | parts \<Rightarrow> cap_raw_preview env (py_strip (one_line (py_join '' '' parts))))
      | _ \<Rightarrow> ''<no-content>'')"

definition classifier_exception_preview :: "env \<Rightarrow> exn \<Rightarrow> string" where
  "classifier_exception_preview env exc =
     (let body = one_line (env_exn_line env exc) in
      cap_raw_preview env
        (case exc of
           RequestError a \<Rightarrow>
             if status_code a \<noteq> 0 \<and> \<not> connection_error a
             then ''HTTP '' @ show_int (status_code a) @ '' '' @ body else body
         | PyError _ \<Rightarrow> body))"

definition usage_count :: "json \<Rightarrow> string \<Rightarrow> int" where
  "usage_count response key =
     (case jget ''usage'' (dict_of response) of
        JObj u \<Rightarrow> (case as_int (jget key u) of Some n \<Rightarrow> n | None \<Rightarrow> 0)
      | _ \<Rightarrow> 0)"

definition response_stop_reason :: "json \<Rightarrow> string option" where
  "response_stop_reason response = as_str (jget ''stop_reason'' (dict_of response))"

section \<open>The system-prompt score\<close>

definition midpoint :: "router_config \<Rightarrow> int" where
  "midpoint cfg = py_round ((trivial_threshold cfg + standard_threshold cfg) / 2)"

definition classify_system_prompt ::
  "env \<Rightarrow> router_config \<Rightarrow> string \<Rightarrow> string option \<Rightarrow> rstate \<Rightarrow> (int \<times> bool) \<times> rstate" where
  "classify_system_prompt env cfg preview sha st =
     (let key = (case sha of Some k \<Rightarrow> k | None \<Rightarrow> []) in
      if preview = [] then ((midpoint cfg, False), st)
      else case (if key \<noteq> [] then map_of (sys_cache st) key else None) of
             Some score \<Rightarrow> ((score, False), st\<lparr>sys_cache := store_set_last key score (sys_cache st)\<rparr>)
           | None \<Rightarrow>
               let (answer, st') = send_classifier env
                     (classifier_request (classifier_model cfg) CLASSIFIER_MAX_TOKENS
                        (env_prompt_tier env) preview) st
               in case answer of
                    Inl e \<Rightarrow> ((midpoint cfg, True), st')
                  | Inr response \<Rightarrow>
                      (case parse_classifier_score response of
                         Inl e \<Rightarrow> ((midpoint cfg, True), st')
                       | Inr None \<Rightarrow> ((midpoint cfg, True), st')
                       | Inr (Some score) \<Rightarrow>
                           ((score, False),
                            if key \<noteq> [] then st'\<lparr>sys_cache := lru_put (sys_cache_size cfg) key score (sys_cache st')\<rparr>
                            else st')))"

record blend =
  bl_label :: label
  bl_sys_tier :: label
  bl_sys_score :: int
  bl_user_score :: int
  bl_weighted :: int
  bl_sys_failed :: bool

definition weighted_blend_score :: "router_config \<Rightarrow> int \<Rightarrow> int \<Rightarrow> int" where
  "weighted_blend_score cfg sys_score user_score =
     py_round (sys_weight cfg * of_int sys_score + user_weight cfg * of_int user_score)"

definition apply_weighted_blend ::
  "env \<Rightarrow> router_config \<Rightarrow> int \<Rightarrow> string option \<Rightarrow> jdict \<Rightarrow> rstate \<Rightarrow> blend \<times> rstate" where
  "apply_weighted_blend env cfg user_score sha payload st =
     (let ((sys_score, failed), st') = classify_system_prompt env cfg
            (extract_system_prompt_preview payload (sys_preview_limit cfg)) sha st;
          w = weighted_blend_score cfg sys_score user_score
      in (\<lparr>bl_label = tier_of cfg w, bl_sys_tier = tier_of cfg sys_score, bl_sys_score = sys_score,
           bl_user_score = user_score, bl_weighted = w, bl_sys_failed = failed\<rparr>, st'))"

section \<open>The classifier call and its retries\<close>

definition CLASSIFIER_MAX_RETRY_DELAY_SECONDS :: rat where
  "CLASSIFIER_MAX_RETRY_DELAY_SECONDS = 10"

definition build_classifier_payload ::
  "env \<Rightarrow> router_config \<Rightarrow> routing_summary \<Rightarrow> string option \<Rightarrow> jdict" where
  "build_classifier_payload env cfg summary prior =
     classifier_request (classifier_model cfg)
       (if confidence_bump cfg then CLASSIFIER_MAX_TOKENS_JSON else CLASSIFIER_MAX_TOKENS)
       (if confidence_bump cfg then env_prompt_json env else env_prompt env)
       (env_dumps env (to_classifier_dict summary prior))"

definition parse_score :: "env \<Rightarrow> router_config \<Rightarrow> json \<Rightarrow> exn + int option" where
  "parse_score env cfg response =
     (if confidence_bump cfg then parse_classifier_score_json (env_loads env) response
      else parse_classifier_score response)"

text \<open>The attributes of an exception the retry logic reads with \<open>getattr\<close>.\<close>

fun exn_status :: "exn \<Rightarrow> int option" where
  "exn_status (RequestError a) = Some (status_code a)"
| "exn_status (PyError _) = None"

fun exn_retry_after :: "exn \<Rightarrow> rat option" where
  "exn_retry_after (RequestError a) = err_retry_after a"
| "exn_retry_after (PyError _) = None"

fun exn_connection :: "exn \<Rightarrow> bool" where
  "exn_connection (RequestError a) = connection_error a"
| "exn_connection (PyError _) = False"

definition rate_limited :: "exn \<Rightarrow> bool" where
  "rate_limited exc \<longleftrightarrow> exn_status exc = Some 429"

definition transient :: "exn \<Rightarrow> bool" where
  "transient exc \<longleftrightarrow>
     exn_connection exc \<or>
     (case exn_status exc of None \<Rightarrow> True | Some s \<Rightarrow> s \<ge> 500) \<or>
     rate_limited exc \<and> exn_retry_after exc \<noteq> None"

definition failure_reason :: "exn \<Rightarrow> string" where
  "failure_reason exc = (if rate_limited exc then ''classifier_rate_limited'' else ''classifier_failed'')"

definition retry_floor :: "exn \<Rightarrow> nat \<Rightarrow> rat" where
  "retry_floor exc attempt =
     (let backoff = min (2 ^ attempt) 8;
          raised = (case exn_retry_after exc of None \<Rightarrow> backoff | Some r \<Rightarrow> max r backoff)
      in if rate_limited exc then raised else min raised CLASSIFIER_MAX_RETRY_DELAY_SECONDS)"

datatype clf_result = Answered json "int option" | Gave_up string exn

text \<open>The attempts left, the number of the next one and the state.\<close>

fun classifier_loop ::
  "env \<Rightarrow> router_config \<Rightarrow> jdict \<Rightarrow> nat \<Rightarrow> nat \<Rightarrow> rstate \<Rightarrow> clf_result \<times> rstate" where
  "classifier_loop env cfg payload 0 attempt st = (Gave_up ''classifier_failed'' (PyError OtherError), st)"
| "classifier_loop env cfg payload (Suc left) attempt st =
     (let (answer, st') = send_classifier env payload st;
          outcome = (case answer of
                       Inl e \<Rightarrow> Inl e
                     | Inr response \<Rightarrow> map_sum id (\<lambda>score. (response, score)) (parse_score env cfg response))
      in case outcome of
           Inr (response, score) \<Rightarrow> (Answered response score, st')
         | Inl exc \<Rightarrow>
             if \<not> transient exc \<or> left = 0 then (Gave_up (failure_reason exc) exc, st')
             else let wait = retry_floor exc attempt in
               if rate_limited exc \<and> wait > CLASSIFIER_MAX_RETRY_DELAY_SECONDS
               then (Gave_up ''classifier_rate_limited'' exc, st')
               else classifier_loop env cfg payload left (Suc attempt)
                      (st'\<lparr>sleeps := sleeps st' @ [wait * env_jitter env attempt]\<rparr>))"

declare classifier_loop.simps(2) [simp del]

text \<open>The value a mode produces: a raw score, a label of the rules, or nothing.\<close>

datatype clf_value = Score int | Tier label | No_value

record dispatch =
  dp_value :: clf_value
  dp_reason :: string
  dp_in :: int
  dp_out :: int
  dp_model :: "string option"
  dp_summary :: "string option"
  dp_raw :: "string option"
  dp_format :: "string option"
  dp_stop :: "string option"

definition no_call :: "clf_value \<Rightarrow> string \<Rightarrow> dispatch" where
  "no_call v reason =
     \<lparr>dp_value = v, dp_reason = reason, dp_in = 0, dp_out = 0, dp_model = None, dp_summary = None,
      dp_raw = None, dp_format = None, dp_stop = None\<rparr>"

definition raw_response_text :: "json \<Rightarrow> string option" where
  "raw_response_text response =
     (case jget ''content'' (dict_of response) of
        JArr bs \<Rightarrow>
          (case List.map_filter text_of bs of [] \<Rightarrow> None | parts \<Rightarrow> Some (py_join '' '' parts))
      | _ \<Rightarrow> None)"

definition dispatch_classifier_mode ::
  "env \<Rightarrow> router_config \<Rightarrow> string \<Rightarrow> routing_summary \<Rightarrow> string option \<Rightarrow> rstate \<Rightarrow> dispatch \<times> rstate" where
  "dispatch_classifier_mode env cfg mode summary prior st =
     (if mode = ''rules''
      then case classify_by_rules summary of
             None \<Rightarrow> (no_call No_value ''rules_no_signal'', st)
           | Some l \<Rightarrow> (no_call (Tier l) (''classifier_rules_'' @ label_name l), st)
      else
        let payload = build_classifier_payload env cfg summary prior;
            base = \<lparr>dp_value = No_value, dp_reason = ''classifier_failed'', dp_in = 0, dp_out = 0,
                    dp_model = Some (classifier_model cfg),
                    dp_summary = Some (env_dumps env (to_classifier_dict summary prior)),
                    dp_raw = None,
                    dp_format = Some (if confidence_bump cfg then ''json'' else ''standard''),
                    dp_stop = None\<rparr>;
            (result, st') = classifier_loop env cfg payload (Suc (classifier_max_retries cfg)) 0 st
        in case result of
             Gave_up reason exc \<Rightarrow>
               (base\<lparr>dp_reason := reason, dp_raw := Some (classifier_exception_preview env exc)\<rparr>, st')
           | Answered response None \<Rightarrow>
               (base\<lparr>dp_reason := ''classifier_invalid'',
                     dp_in := usage_count response ''input_tokens'',
                     dp_out := usage_count response ''output_tokens'',
                     dp_raw := Some (classifier_raw_text_preview env response),
                     dp_stop := response_stop_reason response\<rparr>, st')
           | Answered response (Some score) \<Rightarrow>
               (base\<lparr>dp_value := Score score, dp_reason := ''classifier_scored'',
                     dp_in := usage_count response ''input_tokens'',
                     dp_out := usage_count response ''output_tokens'',
                     dp_raw := raw_response_text response\<rparr>, st'))"

section \<open>The size floor\<close>

text \<open>The estimate, the decision when the floor fires, and the payload afterwards.\<close>

definition size_floor ::
  "router_config \<Rightarrow> string \<Rightarrow> int \<Rightarrow> rat \<Rightarrow> jdict \<Rightarrow> int \<times> decision option \<times> jdict" where
  "size_floor cfg requested context_tokens ratio payload =
     (let threshold = long_context_threshold cfg;
          est = (if threshold > 0
                 then (case estimate_input_tokens payload of Some n \<Rightarrow> n | None \<Rightarrow> 0) else 0);
          predicted = max (py_round (of_int est * ratio)) context_tokens
      in if threshold \<le> 0 \<or> long_target cfg = ''off'' \<or> predicted < threshold
         then (est, None, payload)
         else (est,
               Some ((decide requested (long_target cfg) None ''size_forced_long_context'')
                       \<lparr>estimated_tokens := est, predicted_tokens := predicted,
                        session_tokens := context_tokens, session_ratio := ratio\<rparr>),
               ensure_long_context_beta (jset ''model'' (JStr (long_target cfg)) payload)))"

section \<open>\<open>route_model\<close>\<close>

text \<open>The arguments of one call besides the payload; an empty string is Python's falsy value.\<close>

record route_args =
  cached_tier :: "string option"
  context_tokens :: int
  estimate_ratio :: rat
  override_mode :: string
  ctx_key :: "string option"
  baseline :: string
  prior_response :: "string option"

type_synonym outcome = "(exn + decision) \<times> jdict \<times> rstate"

text \<open>\<open>payload['model'] = d.routed_model; return d\<close>.\<close>

definition dispatch_to :: "decision \<Rightarrow> jdict \<Rightarrow> rstate \<Rightarrow> outcome" where
  "dispatch_to d payload st = (Inr d, jset ''model'' (JStr (routed_model d)) payload, st)"

definition capped :: "router_config \<Rightarrow> string \<Rightarrow> string \<Rightarrow> string" where
  "capped cfg tier requested = cap_cached_tier tier requested (Some (labels cfg))"

definition effective_mode :: "router_config \<Rightarrow> route_args \<Rightarrow> string" where
  "effective_mode cfg ra =
     (if override_mode ra \<noteq> [] then override_mode ra
      else if routing_mode cfg \<noteq> [] then routing_mode cfg else ''classifier'')"

subsection \<open>The walk-back cache\<close>

definition route_walkback ::
  "router_config \<Rightarrow> string \<Rightarrow> routing_summary \<Rightarrow> string \<Rightarrow> int \<Rightarrow> jdict \<Rightarrow> rstate \<Rightarrow> outcome" where
  "route_walkback cfg requested summary cached est payload st =
     (let (m, reason) =
            (if final_is_tool_result_only summary then (cached, ''session_cached_walkback_tool_result'')
             else let c = capped cfg cached requested in
               (c, if c \<noteq> cached then ''session_cached_walkback_capped'' else ''session_cached_walkback''))
      in dispatch_to ((decide requested m None reason)
             \<lparr>estimated_tokens := est, classifier_mode := ''walkback_cache''\<rparr>) payload st)"

subsection \<open>Affirmations\<close>

definition affirmation_inherit_decision :: "string \<Rightarrow> string \<Rightarrow> int \<Rightarrow> decision" where
  "affirmation_inherit_decision requested cached est =
     (decide requested cached None ''affirmation_inherited'')
       \<lparr>estimated_tokens := est, classifier_mode := ''affirmation''\<rparr>"

definition baseline_cap :: "router_config \<Rightarrow> route_args \<Rightarrow> string \<Rightarrow> string" where
  "baseline_cap cfg ra tier = (if baseline ra \<noteq> [] then capped cfg tier (baseline ra) else tier)"

text \<open>\<open>reclassify\<close> is the cached tier when the stale trivial score is being redone.\<close>

definition affirmation_floor ::
  "router_config \<Rightarrow> route_args \<Rightarrow> string \<Rightarrow> string option \<Rightarrow> int \<Rightarrow> jdict \<Rightarrow> rstate \<Rightarrow> outcome" where
  "affirmation_floor cfg ra requested reclassify est payload st =
     (case reclassify of
        Some cached \<Rightarrow> dispatch_to (affirmation_inherit_decision requested cached est) payload st
      | None \<Rightarrow>
          (case label_model cfg Standard of
             Inl e \<Rightarrow> (Inl e, payload, st)
           | Inr standard_tier \<Rightarrow>
               dispatch_to ((decide requested (baseline_cap cfg ra standard_tier) None
                    ''affirmation_classifier_failed'')
                 \<lparr>estimated_tokens := est, classifier_mode := ''affirmation''\<rparr>) payload st))"

record affirmed =
  aff_user_tier :: label
  aff_routed :: string
  aff_cache_tier :: string
  aff_blend :: "blend option"

text \<open>The guarded block: None where any exception or an invalid score leaves \<open>aff_label\<close> unset.\<close>

definition affirmation_call ::
  "env \<Rightarrow> router_config \<Rightarrow> route_args \<Rightarrow> routing_summary \<Rightarrow> string option \<Rightarrow> jdict \<Rightarrow> rstate \<Rightarrow>
   affirmed option \<times> rstate" where
  "affirmation_call env cfg ra summary prior payload st =
     (let (answer, st') = send_classifier env (build_classifier_payload env cfg summary prior) st in
      case answer of
        Inl e \<Rightarrow> (None, st')
      | Inr response \<Rightarrow>
          (case parse_score env cfg response of
             Inl e \<Rightarrow> (None, st')
           | Inr None \<Rightarrow> (None, st')
           | Inr (Some score) \<Rightarrow>
               let user_tier = tier_of cfg score;
                   (bl, st'') =
                     (if effective_mode cfg ra = ''classifier''
                      then (let (b, u) = apply_weighted_blend env cfg score
                                   (system_prompt_sha256 summary) payload st' in (Some b, u))
                      else (None, st'));
                   chosen = (case bl of Some b \<Rightarrow> bl_label b | None \<Rightarrow> user_tier)
               in case label_model cfg chosen of
                    Inl e \<Rightarrow> (None, st'')
                  | Inr uncapped \<Rightarrow>
                      (Some \<lparr>aff_user_tier = user_tier, aff_routed = baseline_cap cfg ra uncapped,
                             aff_cache_tier = uncapped, aff_blend = bl\<rparr>, st'')))"

text \<open>A reclassification never lowers the cached tier.\<close>

definition keep_higher_tier :: "router_config \<Rightarrow> string option \<Rightarrow> affirmed \<Rightarrow> affirmed" where
  "keep_higher_tier cfg reclassify a =
     (case reclassify of
        None \<Rightarrow> a
      | Some cached \<Rightarrow>
          (case (tier_rank_in (labels cfg) cached, tier_rank_in (labels cfg) (aff_cache_tier a)) of
             (Some c, Some n) \<Rightarrow>
               if c > n then a\<lparr>aff_routed := cached, aff_cache_tier := cached\<rparr> else a
           | _ \<Rightarrow> a))"

definition affirmed_decision ::
  "env \<Rightarrow> string \<Rightarrow> string option \<Rightarrow> routing_summary \<Rightarrow> string option \<Rightarrow> int \<Rightarrow> affirmed \<Rightarrow> decision" where
  "affirmed_decision env requested reclassify summary prior est a =
     (let base = (decide requested (aff_routed a) (Some (aff_user_tier a))
                    (if reclassify \<noteq> None then ''affirmation_reclassified'' else ''affirmation_classified''))
            \<lparr>cache_tier := Some (aff_cache_tier a), estimated_tokens := est,
             classifier_mode := ''affirmation'',
             clf_summary_json := Some (env_dumps env (to_classifier_dict summary prior)),
             user_prompt_tier := Some (aff_user_tier a)\<rparr>
      in case aff_blend a of
           None \<Rightarrow> base
         | Some b \<Rightarrow> base\<lparr>system_prompt_tier := Some (bl_sys_tier b),
                            system_prompt_score := Some (bl_sys_score b),
                            user_prompt_score := Some (bl_user_score b),
                            weighted_score := Some (bl_weighted b),
                            system_prompt_failed := bl_sys_failed b\<rparr>)"

definition route_affirmation ::
  "env \<Rightarrow> router_config \<Rightarrow> route_args \<Rightarrow> string \<Rightarrow> routing_summary \<Rightarrow> string option \<Rightarrow> int \<Rightarrow>
   jdict \<Rightarrow> rstate \<Rightarrow> outcome" where
  "route_affirmation env cfg ra requested summary prior est payload st =
     (let inherit_or = (case cached_tier ra of
            None \<Rightarrow> Inr None
          | Some cached \<Rightarrow>
              map_sum id (\<lambda>trivial_model.
                 if cached = trivial_model \<and> prior \<noteq> None \<and> prior \<noteq> Some [] then Some cached else None)
               (label_model cfg Trivial))
      in case inherit_or of
           Inl e \<Rightarrow> (Inl e, payload, st)
         | Inr reclassify \<Rightarrow>
             if cached_tier ra \<noteq> None \<and> reclassify = None
             then dispatch_to (affirmation_inherit_decision requested (the (cached_tier ra)) est) payload st
             else if prior = None then affirmation_floor cfg ra requested reclassify est payload st
             else if (case ctx_key ra of Some k \<Rightarrow> k \<in> set (inflight st) | None \<Rightarrow> False)
             then affirmation_floor cfg ra requested reclassify est payload st
             else
               let (got, st') = affirmation_call env cfg ra summary prior payload st in
               case got of
                 None \<Rightarrow> affirmation_floor cfg ra requested reclassify est payload st'
               | Some a \<Rightarrow>
                   dispatch_to (affirmed_decision env requested reclassify summary prior est
                     (keep_higher_tier cfg reclassify a)) payload st')"

subsection \<open>Title generation and the classifier\<close>

definition route_title ::
  "router_config \<Rightarrow> route_args \<Rightarrow> string \<Rightarrow> int \<Rightarrow> jdict \<Rightarrow> rstate \<Rightarrow> outcome" where
  "route_title cfg ra requested est payload st =
     (case label_model cfg Trivial of
        Inl e \<Rightarrow> (Inl e, payload, st)
      | Inr trivial_model \<Rightarrow>
          dispatch_to ((decide requested (baseline_cap cfg ra trivial_model) None ''rule_title_generation'')
            \<lparr>estimated_tokens := est, classifier_mode := ''rules''\<rparr>) payload st)"

definition blended_reason :: "label \<Rightarrow> label \<Rightarrow> string" where
  "blended_reason user_tier final_tier =
     (if final_tier = user_tier then ''classifier_'' @ label_name user_tier
      else ''classifier_'' @ label_name user_tier @ ''_blended_'' @ label_name final_tier)"

definition dispatch_fields :: "dispatch \<Rightarrow> string \<Rightarrow> int \<Rightarrow> decision \<Rightarrow> decision" where
  "dispatch_fields dp mode est d =
     d\<lparr>estimated_tokens := est, classifier_mode := mode, clf_input_tokens := dp_in dp,
       clf_output_tokens := dp_out dp, clf_model := dp_model dp, clf_summary_json := dp_summary dp,
       clf_raw_response := dp_raw dp, clf_format := dp_format dp\<rparr>"

definition blend_fields :: "blend \<Rightarrow> label \<Rightarrow> decision \<Rightarrow> decision" where
  "blend_fields b user_tier d =
     d\<lparr>system_prompt_tier := Some (bl_sys_tier b), system_prompt_score := Some (bl_sys_score b),
       user_prompt_score := Some (bl_user_score b), weighted_score := Some (bl_weighted b),
       system_prompt_failed := bl_sys_failed b, user_prompt_tier := Some user_tier\<rparr>"

text \<open>\<open>config.auto_model_routing_classification[label_str]\<close>: a raw score that was never blended is
  not a key.\<close>

definition route_classified ::
  "env \<Rightarrow> router_config \<Rightarrow> route_args \<Rightarrow> string \<Rightarrow> string \<Rightarrow> routing_summary \<Rightarrow> string option \<Rightarrow> int \<Rightarrow>
   jdict \<Rightarrow> rstate \<Rightarrow> outcome" where
  "route_classified env cfg ra requested routing_baseline summary prior est payload st =
     (let mode = effective_mode cfg ra;
          (dp, st') = dispatch_classifier_mode env cfg mode summary prior st
      in case dp_value dp of
           No_value \<Rightarrow>
             (Inr ((dispatch_fields dp mode est (decide requested routing_baseline None (dp_reason dp)))
                \<lparr>clf_stop_reason := dp_stop dp\<rparr>), payload, st')
         | Tier l \<Rightarrow>
             (case label_model cfg l of
                Inl e \<Rightarrow> (Inl e, payload, st')
              | Inr routed \<Rightarrow>
                  dispatch_to (dispatch_fields dp mode est
                    (decide requested routed (Some l) (dp_reason dp))) payload st')
         | Score score \<Rightarrow>
             if mode = ''classifier''
             then let user_tier = tier_of cfg score;
                      (b, st'') = apply_weighted_blend env cfg score
                        (system_prompt_sha256 summary) payload st'
                  in (case label_model cfg (bl_label b) of
                        Inl e \<Rightarrow> (Inl e, payload, st'')
                      | Inr routed \<Rightarrow>
                          dispatch_to (blend_fields b user_tier (dispatch_fields dp mode est
                            (decide requested routed (Some user_tier)
                               (blended_reason user_tier (bl_label b))))) payload st'')
             else (Inl (PyError KeyError), payload, st'))"

subsection \<open>The whole call\<close>

definition prior_for :: "router_config \<Rightarrow> route_args \<Rightarrow> jdict \<Rightarrow> string option" where
  "prior_for cfg ra payload =
     (case prior_response ra of
        Some (c # t) \<Rightarrow> Some (c # t)
      | _ \<Rightarrow> extract_prior_response_summary (body_messages payload) (prior_summary_limit cfg))"

definition route_eligible ::
  "env \<Rightarrow> router_config \<Rightarrow> route_args \<Rightarrow> string \<Rightarrow> string \<Rightarrow> jdict \<Rightarrow> rstate \<Rightarrow> outcome" where
  "route_eligible env cfg ra requested routing_baseline payload st =
     (let (est, fl, payload') =
            size_floor cfg requested (context_tokens ra) (estimate_ratio ra) payload
      in case fl of
           Some d \<Rightarrow> (Inr d, payload', st)
         | None \<Rightarrow>
             (case build_routing_summary (env_sha env) payload of
                None \<Rightarrow>
                  dispatch_to ((decide requested routing_baseline None ''missing_final_user_text'')
                     \<lparr>estimated_tokens := est\<rparr>) payload st
              | Some summary \<Rightarrow>
                  (case (recovered_via_walkback summary, cached_tier ra) of
                     (True, Some cached) \<Rightarrow> route_walkback cfg requested summary cached est payload st
                   | _ \<Rightarrow>
                       let prior = prior_for cfg ra payload in
                       if affirmation_inherit cfg \<and> short_affirmation summary
                       then route_affirmation env cfg ra requested summary prior est payload st
                       else if is_title_generation (final_user_text summary)
                       then route_title cfg ra requested est payload st
                       else route_classified env cfg ra requested routing_baseline summary prior est
                              payload st)))"

definition route_model ::
  "env \<Rightarrow> router_config \<Rightarrow> route_args \<Rightarrow> jdict \<Rightarrow> rstate \<Rightarrow> outcome" where
  "route_model env cfg ra payload st =
     (if truthy (jget CLASSIFIER_SENTINEL_KEY payload)
      then let raw = (if has_key ''model'' payload
                      then (case jget ''model'' payload of JStr s \<Rightarrow> s | v \<Rightarrow> env_repr env v) else [])
           in (Inr (decide raw raw None ''disabled''), payload, st)
      else
        let raw_model = jget ''model'' payload;
            raw_str = (case raw_model of JStr s \<Rightarrow> s | v \<Rightarrow> env_repr env v);
            payload' = (if baseline ra \<noteq> [] then jset ''model'' (JStr (baseline ra)) payload else payload);
            routing_baseline = (if baseline ra \<noteq> [] then baseline ra else raw_str)
        in if \<not> auto_model_routing cfg
           then (Inr (decide raw_str routing_baseline None ''disabled''), payload', st)
           else if \<not> is_model_auto_routable raw_model
           then (Inr (decide raw_str routing_baseline None ''model_not_eligible''), payload', st)
           else route_eligible env cfg ra raw_str routing_baseline payload' st)"

end
