(* ===== verification/Router_Props.thy ===== *)
theory Router_Props
  imports Router
begin

text \<open>
  What the router guarantees: a decision records what is dispatched, failures fall closed, only
  the model and the betas change, the classifier is called a bounded number of times and only with
  payloads the router itself ignores, and the blend stays between its inputs.
\<close>

section \<open>Decisions are sound\<close>

text \<open>
  \<open>sound m payload out\<close>: a returned decision reports the client's model \<open>m\<close>, says
  \<open>applied\<close> exactly when the model changed, carries a declared reason, and its routed model is the
  one the payload now holds, other fields untouched.
\<close>

definition others_kept :: "jdict \<Rightarrow> jdict \<Rightarrow> bool" where
  "others_kept payload payload' \<longleftrightarrow>
     (\<forall>k. k \<notin> {''model'', ''_anthropic_beta''} \<longrightarrow> map_of payload' k = map_of payload k)"

definition sound :: "string \<Rightarrow> jdict \<Rightarrow> outcome \<Rightarrow> bool" where
  "sound m payload out \<longleftrightarrow>
     (case out of
        (Inr d, payload', _) \<Rightarrow>
          requested_model d = m \<and> consistent d \<and> reason_code d \<in> set REASON_CODES \<and>
          jget ''model'' payload' = JStr (routed_model d) \<and> others_kept payload payload'
      | _ \<Rightarrow> True)"

lemma others_kept_simps [simp]:
  "others_kept p p" "others_kept p (jset ''model'' v p')  \<longleftrightarrow> others_kept p p'"
  "others_kept p (jset ''_anthropic_beta'' v p')  \<longleftrightarrow> others_kept p p'"
  by (auto simp: others_kept_def)

lemma others_kept_trans: "others_kept p q \<Longrightarrow> others_kept q r \<Longrightarrow> others_kept p r"
  by (simp add: others_kept_def)

lemma sound_Inl [simp]: "sound m payload (Inl e, p, st)"
  by (simp add: sound_def)

lemma sound_dispatch [intro]:
  "requested_model d = m \<Longrightarrow> consistent d \<Longrightarrow> reason_code d \<in> set REASON_CODES \<Longrightarrow>
   others_kept payload p \<Longrightarrow> sound m payload (dispatch_to d p st)"
  by (simp add: sound_def dispatch_to_def)

lemma sound_kept:
  "sound m q out \<Longrightarrow> others_kept p q \<Longrightarrow> sound m p out"
  by (auto simp: sound_def intro: others_kept_trans split: sum.splits)

lemmas reason_defs = REASON_CODES_def consistent_def

lemma blended_reason_declared: "blended_reason a b \<in> set REASON_CODES"
proof -
  have "list_all (\<lambda>a. list_all (\<lambda>b. blended_reason a b \<in> set REASON_CODES) [Trivial, Standard, Deep])
      [Trivial, Standard, Deep]" by code_simp
  then show ?thesis by (cases a; cases b) (simp_all add: list_all_def del: One_nat_def)
qed

lemma rules_reason_declared: "''classifier_rules_'' @ label_name l \<in> set REASON_CODES"
proof -
  have "list_all (\<lambda>l. ''classifier_rules_'' @ label_name l \<in> set REASON_CODES) [Trivial, Standard, Deep]"
    by code_simp
  then show ?thesis by (cases l) simp_all
qed

lemma sound_walkback: "sound m payload (route_walkback cfg m summary cached est payload st)"
  unfolding route_walkback_def Let_def split_beta
  by (rule sound_dispatch) (simp_all add: reason_defs)

lemma sound_affirmation_floor: "sound m payload (affirmation_floor cfg ra m rc est payload st)"
  by (auto simp: affirmation_floor_def affirmation_inherit_decision_def reason_defs
      split: option.splits sum.splits)

lemma affirmed_decision_sound:
  "requested_model (affirmed_decision env m rc summary prior est a) = m"
  "consistent (affirmed_decision env m rc summary prior est a)"
  "reason_code (affirmed_decision env m rc summary prior est a) \<in> set REASON_CODES"
  "routed_model (affirmed_decision env m rc summary prior est a) = aff_routed a"
  by (simp_all add: affirmed_decision_def Let_def reason_defs split: option.splits)

lemma sound_affirmed:
  "sound m payload (dispatch_to (affirmed_decision env m rc summary prior est a) payload st)"
  by (rule sound_dispatch) (simp_all only: affirmed_decision_sound others_kept_simps)

lemma sound_inherit: "sound m payload (dispatch_to (affirmation_inherit_decision m cached est) payload st)"
  by (rule sound_dispatch) (simp_all add: affirmation_inherit_decision_def reason_defs)

lemma sound_affirmation: "sound m payload (route_affirmation env cfg ra m summary prior est payload st)"
  by (auto simp: route_affirmation_def Let_def split_beta sound_affirmed sound_affirmation_floor
      sound_inherit split: sum.splits option.splits)

lemma sound_title: "sound m payload (route_title cfg ra m est payload st)"
  by (auto simp: route_title_def reason_defs split: sum.splits)

lemma dispatch_fields_simps [simp]:
  "requested_model (dispatch_fields dp mode est d) = requested_model d"
  "routed_model (dispatch_fields dp mode est d) = routed_model d"
  "reason_code (dispatch_fields dp mode est d) = reason_code d"
  "consistent (dispatch_fields dp mode est d) = consistent d"
  by (simp_all add: dispatch_fields_def consistent_def)

lemma blend_fields_simps [simp]:
  "requested_model (blend_fields b t d) = requested_model d"
  "routed_model (blend_fields b t d) = routed_model d"
  "reason_code (blend_fields b t d) = reason_code d"
  "consistent (blend_fields b t d) = consistent d"
  by (simp_all add: blend_fields_def consistent_def)

definition failure_reasons :: "string list" where
  "failure_reasons =
     [''classifier_failed'', ''classifier_rate_limited'', ''classifier_invalid'', ''rules_no_signal'']"

lemma classifier_loop_reason:
  "classifier_loop env cfg payload n a st = (Gave_up r e, st') \<Longrightarrow>
   r \<in> {''classifier_failed'', ''classifier_rate_limited''}"
proof (induction n arbitrary: a st)
  case (Suc n)
  then show ?case
    by (auto simp: classifier_loop.simps(2) Let_def split_beta failure_reason_def
        split: sum.splits if_splits prod.splits)
qed simp

lemma dispatch_reason:
  assumes "dispatch_classifier_mode env cfg mode summary prior st = (dp, st')"
  shows "dp_value dp = No_value \<Longrightarrow> dp_reason dp \<in> set failure_reasons"
    and "dp_value dp = Tier l \<Longrightarrow> dp_reason dp = ''classifier_rules_'' @ label_name l \<and> mode = ''rules''"
    and "dp_value dp = Score n \<Longrightarrow> mode \<noteq> ''rules''"
  using assms
  by (auto simp: dispatch_classifier_mode_def Let_def no_call_def failure_reasons_def
      dest: classifier_loop_reason split: option.splits if_splits clf_result.splits prod.splits)

lemma failure_reason_declared: "r \<in> set failure_reasons \<Longrightarrow> r \<in> set REASON_CODES"
  by (auto simp: failure_reasons_def REASON_CODES_def)

lemma sound_classified:
  assumes "jget ''model'' payload = JStr b"
  shows "sound m payload (route_classified env cfg ra m b summary prior est payload st)"
proof -
  obtain dp st' where dp: "dispatch_classifier_mode env cfg (effective_mode cfg ra) summary prior st = (dp, st')"
    by fastforce
  note facts = dispatch_reason [OF dp]
  show ?thesis
  proof (cases "dp_value dp")
    case (Score n)
    then show ?thesis
      by (auto simp: route_classified_def Let_def split_beta dp blended_reason_declared
          split: sum.splits)
  next
    case (Tier l)
    have r: "dp_reason dp \<in> set REASON_CODES"
      using facts(2) [OF Tier] rules_reason_declared [of l] by metis
    show ?thesis
      by (auto simp: route_classified_def Tier r Let_def dp rules_reason_declared split: sum.splits)
  next
    case No_value
    with facts(1) [OF No_value] assms show ?thesis
      by (simp add: route_classified_def Let_def dp sound_def consistent_def dispatch_fields_def
          failure_reason_declared)
  qed
qed

lemma ensure_beta_kept: "others_kept p (ensure_long_context_beta p)"
  by (simp add: ensure_long_context_beta_def)

lemma ensure_beta_model: "jget ''model'' (ensure_long_context_beta p) = jget ''model'' p"
  by (simp add: ensure_long_context_beta_def)

lemma size_floor_cases:
  assumes "size_floor cfg m ct ratio payload = (est, fl, payload')"
  shows "fl = None \<Longrightarrow> payload' = payload"
    and "fl = Some d \<Longrightarrow> requested_model d = m \<and> consistent d \<and>
      reason_code d = ''size_forced_long_context'' \<and> routed_model d = long_target cfg \<and>
      payload' = ensure_long_context_beta (jset ''model'' (JStr (long_target cfg)) payload)"
  using assms by (auto simp: size_floor_def Let_def consistent_def split: if_splits)

lemma sound_eligible:
  assumes "jget ''model'' payload = JStr b"
  shows "sound m payload (route_eligible env cfg ra m b payload st)"
proof -
  obtain est fl p where sf: "size_floor cfg m (context_tokens ra) (estimate_ratio ra) payload = (est, fl, p)"
    by (metis prod_cases3)
  show ?thesis
  proof (cases fl)
    case (Some d)
    have "others_kept payload (ensure_long_context_beta (jset ''model'' (JStr (long_target cfg)) payload))"
      by (rule others_kept_trans [OF _ ensure_beta_kept]) simp
    with size_floor_cases(2) [OF sf Some] show ?thesis
      by (simp add: route_eligible_def sf Some sound_def ensure_beta_model REASON_CODES_def)
  next
    case None
    have missing: "sound m payload (dispatch_to ((decide m b None ''missing_final_user_text'')
        \<lparr>estimated_tokens := est\<rparr>) payload st)"
      by (rule sound_dispatch) (simp_all add: reason_defs)
    from None show ?thesis
      by (auto simp: route_eligible_def sf Let_def missing sound_walkback sound_affirmation sound_title
          sound_classified [OF assms] split: option.splits bool.splits)
  qed
qed

lemma sound_route:
  assumes "jget ''model'' payload = JStr m"
  shows "sound m payload (route_model env cfg ra payload st)"
proof -
  have "has_key ''model'' payload" using assms by (auto simp: has_key_def jget_def split: option.splits)
  moreover have "sound m payload (route_eligible env cfg ra m (baseline ra)
      (jset ''model'' (JStr (baseline ra)) payload) st)"
    by (rule sound_kept [OF sound_eligible]) simp_all
  ultimately show ?thesis
    using assms sound_eligible [OF assms]
    by (simp add: route_model_def Let_def sound_def reason_defs)
qed

section \<open>Failures fall closed\<close>

definition FAIL_CLOSED_REASONS :: "string list" where
  "FAIL_CLOSED_REASONS =
     failure_reasons @ [''missing_final_user_text'', ''disabled'', ''model_not_eligible'']"

definition fails_closed :: "string \<Rightarrow> outcome \<Rightarrow> bool" where
  "fails_closed b out \<longleftrightarrow>
     (case out of
        (Inr d, _, _) \<Rightarrow> reason_code d \<in> set FAIL_CLOSED_REASONS \<longrightarrow> routed_model d = b
      | _ \<Rightarrow> True)"

lemma fails_closed_Inl [simp]: "fails_closed b (Inl e, p, st)"
  by (simp add: fails_closed_def)

lemma fails_closed_dispatch:
  "reason_code d \<notin> set FAIL_CLOSED_REASONS \<or> routed_model d = b \<Longrightarrow> fails_closed b (dispatch_to d p st)"
  by (auto simp: fails_closed_def dispatch_to_def)

lemmas fail_defs = FAIL_CLOSED_REASONS_def failure_reasons_def

lemma fails_closed_walkback: "fails_closed b (route_walkback cfg m summary cached est payload st)"
  unfolding route_walkback_def Let_def split_beta
  by (rule fails_closed_dispatch) (simp add: fail_defs)

lemma fails_closed_floor: "fails_closed b (affirmation_floor cfg ra m rc est payload st)"
  by (auto simp: affirmation_floor_def affirmation_inherit_decision_def fail_defs
      intro!: fails_closed_dispatch split: option.splits sum.splits)

lemma affirmed_reason:
  "reason_code (affirmed_decision env m rc summary prior est a) \<notin> set FAIL_CLOSED_REASONS"
  by (simp add: affirmed_decision_def Let_def fail_defs split: option.splits)

lemma inherit_reason:
  "reason_code (affirmation_inherit_decision m cached est) \<notin> set FAIL_CLOSED_REASONS"
  by (simp add: affirmation_inherit_decision_def fail_defs)

lemma fails_closed_affirmation:
  "fails_closed b (route_affirmation env cfg ra m summary prior est payload st)"
  by (auto simp: route_affirmation_def Let_def split_beta fails_closed_floor affirmed_reason inherit_reason
      intro!: fails_closed_dispatch split: sum.splits option.splits)

lemma fails_closed_title: "fails_closed b (route_title cfg ra m est payload st)"
  by (auto simp: route_title_def fail_defs intro!: fails_closed_dispatch split: sum.splits)

lemma label_reasons_not_fail:
  "list_all (\<lambda>a. ''classifier_rules_'' @ label_name a \<notin> set FAIL_CLOSED_REASONS \<and>
     list_all (\<lambda>b. blended_reason a b \<notin> set FAIL_CLOSED_REASONS) [Trivial, Standard, Deep])
   [Trivial, Standard, Deep]"
  by code_simp

lemma label_in_all: "l \<in> set [Trivial, Standard, Deep]"
  by (cases l) simp_all

lemma blended_not_fail: "blended_reason a b \<notin> set FAIL_CLOSED_REASONS"
  and rules_not_fail: "''classifier_rules_'' @ label_name a \<notin> set FAIL_CLOSED_REASONS"
  using label_reasons_not_fail label_in_all [of a] label_in_all [of b]
  unfolding list_all_iff by blast+

lemma fails_closed_classified:
  "fails_closed b (route_classified env cfg ra m b summary prior est payload st)"
proof -
  obtain dp st' where dp: "dispatch_classifier_mode env cfg (effective_mode cfg ra) summary prior st = (dp, st')"
    by fastforce
  note facts = dispatch_reason [OF dp]
  show ?thesis
  proof (cases "dp_value dp")
    case (Score n)
    then show ?thesis
      by (auto simp: route_classified_def Let_def split_beta dp blended_not_fail
          intro!: fails_closed_dispatch split: sum.splits)
  next
    case (Tier l)
    have r: "dp_reason dp \<notin> set FAIL_CLOSED_REASONS"
      using facts(2) [OF Tier] rules_not_fail [of l] by metis
    show ?thesis
      by (auto simp: route_classified_def Tier r Let_def dp intro!: fails_closed_dispatch split: sum.splits)
  next
    case No_value
    then show ?thesis by (simp add: route_classified_def Let_def dp fails_closed_def dispatch_fields_def)
  qed
qed

lemma fails_closed_route:
  assumes "jget ''model'' payload = JStr m"
  shows "fails_closed (if baseline ra \<noteq> [] then baseline ra else m) (route_model env cfg ra payload st) \<or>
    truthy (jget CLASSIFIER_SENTINEL_KEY payload)"
proof (cases "truthy (jget CLASSIFIER_SENTINEL_KEY payload)")
  case False
  have missing: "fails_closed b (dispatch_to ((decide m b None ''missing_final_user_text'')
      \<lparr>estimated_tokens := est\<rparr>) p st)" for b p est
    by (rule fails_closed_dispatch) simp
  have elig: "fails_closed b (route_eligible env cfg ra m b p st)" for b p
  proof -
    obtain est fl p' where sf: "size_floor cfg m (context_tokens ra) (estimate_ratio ra) p = (est, fl, p')"
      by (metis prod_cases3)
    show ?thesis
    proof (cases fl)
      case (Some d)
      from size_floor_cases(2) [OF sf Some] show ?thesis
        by (simp add: route_eligible_def sf Some fails_closed_def fail_defs)
    next
      case None
      then show ?thesis
        by (auto simp: route_eligible_def sf Let_def missing fails_closed_walkback fails_closed_affirmation
            fails_closed_title fails_closed_classified split: option.splits bool.splits)
    qed
  qed
  with False assms show ?thesis
    by (simp add: route_model_def Let_def) (simp add: fails_closed_def)
qed simp

section \<open>Calls are bounded\<close>

text \<open>\<open>called n payloads st st'\<close>: at most \<open>n\<close> classifier calls were made, each with a payload that
  carries the sentinel, and nothing else of the call history changed.\<close>

definition called :: "nat \<Rightarrow> rstate \<Rightarrow> rstate \<Rightarrow> bool" where
  "called n st st' \<longleftrightarrow>
     (\<exists>cs. calls st' = calls st @ cs \<and> length cs \<le> n \<and>
        (\<forall>c \<in> set cs. truthy (jget CLASSIFIER_SENTINEL_KEY c)))"

lemma called_refl [simp]: "called n st st"
  by (simp add: called_def)

lemma called_trans: "called a s t \<Longrightarrow> called b t u \<Longrightarrow> called (a + b) s u"
  by (fastforce simp: called_def)

lemma called_mono: "called a s t \<Longrightarrow> a \<le> b \<Longrightarrow> called b s t"
  by (fastforce simp: called_def)

lemma classifier_request_sentinel [simp]:
  "truthy (jget CLASSIFIER_SENTINEL_KEY (classifier_request m n s c))"
  by (simp add: classifier_request_def)

lemma send_called:
  "truthy (jget CLASSIFIER_SENTINEL_KEY p) \<Longrightarrow> called 1 st (snd (send_classifier env p st))"
  by (simp add: send_classifier_def called_def)

lemma called_update [simp]:
  "called n st (st'\<lparr>sys_cache := c\<rparr>) \<longleftrightarrow> called n st st'"
  "called n st (st'\<lparr>sleeps := w\<rparr>) \<longleftrightarrow> called n st st'"
  "called n (st\<lparr>sleeps := w\<rparr>) st' \<longleftrightarrow> called n st st'"
  by (simp_all add: called_def)

lemma system_prompt_called: "called 1 st (snd (classify_system_prompt env cfg pv sha st))"
  using send_called [OF classifier_request_sentinel, of st env]
  by (auto simp: classify_system_prompt_def Let_def split_beta
      split: option.splits sum.splits)

lemma blend_called: "called 1 st (snd (apply_weighted_blend env cfg n sha p st))"
  using system_prompt_called by (simp add: apply_weighted_blend_def Let_def split_beta)

lemma classifier_loop_called:
  "truthy (jget CLASSIFIER_SENTINEL_KEY p) \<Longrightarrow> called n st (snd (classifier_loop env cfg p n a st))"
proof (induction n arbitrary: a st)
  case (Suc n)
  let ?st = "snd (send_classifier env p st)"
  have one: "called 1 st ?st" by (rule send_called [OF Suc.prems])
  then have suc: "called (Suc n) st ?st" by (rule called_mono) simp
  have "called n ?st (snd (classifier_loop env cfg p n (Suc a) (?st\<lparr>sleeps := w\<rparr>)))" for w
    using Suc.IH [OF Suc.prems, of "?st\<lparr>sleeps := w\<rparr>"] by simp
  from called_trans [OF one this]
  have loop: "called (Suc n) st (snd (classifier_loop env cfg p n (Suc a) (?st\<lparr>sleeps := w\<rparr>)))" for w
    by simp
  show ?case
    using suc loop
    by (auto simp: classifier_loop.simps(2) Let_def split_beta split: sum.splits)
qed simp

lemma dispatch_called:
  "called (Suc (classifier_max_retries cfg)) st (snd (dispatch_classifier_mode env cfg mode summary prior st))"
proof -
  have "called (Suc (classifier_max_retries cfg)) st
      (snd (classifier_loop env cfg (build_classifier_payload env cfg summary prior)
        (Suc (classifier_max_retries cfg)) 0 st))"
    by (rule classifier_loop_called) (simp add: build_classifier_payload_def)
  then show ?thesis
    by (auto simp: dispatch_classifier_mode_def Let_def split_beta split: option.splits clf_result.splits)
qed

lemma affirmation_called: "called 2 st (snd (affirmation_call env cfg ra summary prior payload st))"
proof -
  let ?st = "snd (send_classifier env (build_classifier_payload env cfg summary prior) st)"
  have one: "called 1 st ?st" by (rule send_called) (simp add: build_classifier_payload_def)
  have two: "called 2 st ?st" by (rule called_mono [OF one]) simp
  have "called 2 st (snd (apply_weighted_blend env cfg n sha p ?st))" for n sha p
    using called_trans [OF one blend_called] by (simp add: numeral_2_eq_2)
  with two show ?thesis
    by (auto simp: affirmation_call_def Let_def split_beta split: sum.splits option.splits)
qed

definition outcome_state :: "outcome \<Rightarrow> rstate" where
  "outcome_state out = snd (snd out)"

lemma outcome_state_simps [simp]:
  "outcome_state (r, p, st) = st" "outcome_state (dispatch_to d p st) = st"
  by (simp_all add: outcome_state_def dispatch_to_def)

lemma floor_state [simp]: "outcome_state (affirmation_floor cfg ra m rc est p st) = st"
  by (simp add: affirmation_floor_def split: option.splits sum.splits)

lemma route_affirmation_called:
  "called 2 st (outcome_state (route_affirmation env cfg ra m summary prior est payload st))"
  using affirmation_called
  by (auto simp: route_affirmation_def Let_def split_beta split: sum.splits option.splits)

lemma route_classified_called:
  "called (classifier_max_retries cfg + 2) st
     (outcome_state (route_classified env cfg ra m b summary prior est payload st))"
proof -
  let ?D = "\<lambda>mode. snd (dispatch_classifier_mode env cfg mode summary prior st)"
  have one: "called (Suc (classifier_max_retries cfg)) st (?D mode)" for mode by (rule dispatch_called)
  have more: "called (Suc (Suc (classifier_max_retries cfg))) st (?D mode)" for mode
    by (rule called_mono [OF one]) simp
  have "called (Suc (Suc (classifier_max_retries cfg))) st (snd (apply_weighted_blend env cfg n sha p (?D mode)))"
    for n sha p mode
    using called_trans [OF one blend_called] by simp
  with more show ?thesis
    by (auto simp: route_classified_def Let_def split_beta split: clf_value.splits sum.splits)
qed

lemma route_model_called:
  "called (classifier_max_retries cfg + 2) st (outcome_state (route_model env cfg ra payload st))"
proof -
  have cl: "called (Suc (Suc (classifier_max_retries cfg))) st
      (outcome_state (route_classified env cfg ra m b summary prior est p st))" for m b summary prior est p
    using route_classified_called [of cfg st env ra m b summary prior est p] by simp
  have aff: "called (Suc (Suc (classifier_max_retries cfg))) st
      (outcome_state (route_affirmation env cfg ra m summary prior est p st))" for m summary prior est p
    by (rule called_mono [OF route_affirmation_called]) simp
  have "called (classifier_max_retries cfg + 2) st (outcome_state (route_eligible env cfg ra m b p st))" for m b p
    by (auto simp: route_eligible_def Let_def split_beta aff cl route_walkback_def
        route_title_def split: option.splits bool.splits sum.splits)
  then show ?thesis by (simp add: route_model_def Let_def)
qed

lemma route_model_sentinel:
  "truthy (jget CLASSIFIER_SENTINEL_KEY c) \<Longrightarrow> outcome_state (route_model env cfg ra c st) = st"
  by (simp add: route_model_def Let_def)

section \<open>Blend arithmetic\<close>

lemma weighted_between:
  assumes "0 \<le> sys_weight cfg" "0 \<le> user_weight cfg" "sys_weight cfg + user_weight cfg = 1"
  shows "min a b \<le> weighted_blend_score cfg a b \<and> weighted_blend_score cfg a b \<le> max a b"
proof -
  let ?x = "sys_weight cfg * of_int a + user_weight cfg * of_int b"
  have w: "sys_weight cfg = 1 - user_weight cfg" using assms(3) by simp
  have u: "user_weight cfg \<le> 1" using assms(1) w by simp
  have "?x = of_int a + user_weight cfg * (of_int b - of_int a)" by (simp add: w algebra_simps)
  moreover have "?x = of_int b + sys_weight cfg * (of_int a - of_int b)" by (simp add: w algebra_simps)
  ultimately have ab: "?x = of_int a + user_weight cfg * (of_int b - of_int a)"
    and ba: "?x = of_int b + sys_weight cfg * (of_int a - of_int b)" by blast+
  have "of_int (min a b) \<le> ?x \<and> ?x \<le> of_int (max a b)"
  proof (cases "a \<le> b")
    case True
    then have d: "(0::rat) \<le> of_int b - of_int a" by simp
    have "0 \<le> user_weight cfg * (of_int b - of_int a)" using assms(2) d by simp
    moreover have "sys_weight cfg * (of_int a - of_int b) \<le> 0"
      using assms(1) d by (simp add: mult_nonneg_nonpos)
    ultimately show ?thesis using True ab ba by (simp add: min_def max_def)
  next
    case False
    then have d: "(0::rat) \<le> of_int a - of_int b" by simp
    have "0 \<le> sys_weight cfg * (of_int a - of_int b)" using assms(1) d by simp
    moreover have "user_weight cfg * (of_int b - of_int a) \<le> 0"
      using assms(2) d by (simp add: mult_nonneg_nonpos)
    ultimately show ?thesis using False ab ba by (simp add: min_def max_def)
  qed
  then show ?thesis by (simp add: weighted_blend_score_def py_round_ge py_round_le)
qed

lemma tier_of_mono: "a \<le> b \<Longrightarrow> tier_of cfg a \<le> tier_of cfg b"
  unfolding tier_of_def by (rule score_to_tier_mono) simp

section \<open>Samples\<close>

definition answer :: "string \<Rightarrow> json" where
  "answer t = JObj [(''content'', JArr [text_block t]), (''usage'', JObj [(''input_tokens'', JInt 9)])]"

definition sample_env :: env where
  "sample_env =
     \<lparr>env_send = (\<lambda>before _. if length before < 1 then Inr (answer ''90'') else Inr (answer ''10'')),
      env_sha = (\<lambda>_. Some ''k''), env_dumps = (\<lambda>_. ''{}''), env_loads = (\<lambda>_. None),
      env_repr = (\<lambda>_. ''None''), env_exn_line = (\<lambda>_. ''E''), env_jitter = (\<lambda>_. 1),
      env_prompt = ''p'', env_prompt_json = ''j'', env_prompt_tier = ''t'', env_ellipsis = ''.''\<rparr>"

definition sample_config :: router_config where
  "sample_config =
     \<lparr>auto_model_routing = True, long_context_threshold = 180000, long_target = ''opus[1m]'',
      labels = DEFAULT_LABEL_MAP, classifier_model = ''haiku'', confidence_bump = False,
      routing_mode = ''classifier'', affirmation_inherit = True, trivial_threshold = 38,
      standard_threshold = 75, sys_cache_size = 256, sys_preview_limit = 500,
      sys_weight = 3 / 10, user_weight = 7 / 10, classifier_max_retries = 4,
      prior_summary_limit = 1000\<rparr>"

definition sample_args :: route_args where
  "sample_args =
     \<lparr>cached_tier = None, context_tokens = 0, estimate_ratio = 1, override_mode = [],
      ctx_key = Some ''c'', baseline = [], prior_response = None\<rparr>"

definition sample_request :: jdict where
  "sample_request =
     [(''model'', JStr ''sonnet''), (''system'', JStr ''You are a helpful assistant.''),
      (''messages'', JArr [JObj [(''role'', JStr ''user''), (''content'', JStr ''redesign the auth layer'')]])]"

definition empty_rstate :: rstate where
  "empty_rstate = \<lparr>calls = [], sys_cache = [], inflight = [], sleeps = []\<rparr>"

definition sample_outcome :: "env \<Rightarrow> outcome" where
  "sample_outcome env = route_model env sample_config sample_args sample_request empty_rstate"

lemma sample_route:
  "case sample_outcome sample_env of
     (Inr d, p, st) \<Rightarrow> routed_model d = ''sonnet'' \<and> reason_code d = ''classifier_deep_blended_standard'' \<and>
       weighted_score d = Some 66 \<and> length (calls st) = 2
   | _ \<Rightarrow> False"
  by code_simp

section \<open>Properties\<close>

text \<open>(C29) The decision records the dispatch: whatever path \<open>route_model\<close> takes for a request that
  names a model, the returned decision reports the client's model, its \<open>applied\<close> flag says exactly
  whether the model changed, its reason is a declared code, the payload is left holding the routed
  model, and no field other than the model and the betas changes.\<close>

theorem route_model_records_dispatch:
  assumes "jget ''model'' payload = JStr m"
    and "route_model env cfg ra payload st = (Inr d, payload', st')"
  shows "jget ''model'' payload' = JStr (routed_model d) \<and> requested_model d = m \<and>
    applied d = (routed_model d \<noteq> m) \<and> reason_code d \<in> set REASON_CODES \<and>
    (\<forall>k. k \<notin> {''model'', ''_anthropic_beta''} \<longrightarrow> map_of payload' k = map_of payload k)"
  using sound_route [OF assms(1), of env cfg ra st] assms(2)
  by (auto simp: sound_def others_kept_def consistent_def)

lemma sample_outcome_Inr:
  obtains d p st where "route_model sample_env sample_config sample_args sample_request empty_rstate = (Inr d, p, st)"
    "routed_model d = ''sonnet''" "length (calls st) = 2"
proof -
  obtain r p st where o: "sample_outcome sample_env = (r, p, st)" by (metis prod_cases3)
  show ?thesis
    using sample_route that unfolding o sample_outcome_def [symmetric]
    by (cases r) auto
qed

lemma sample_request_model: "jget ''model'' sample_request = JStr ''sonnet''"
  by code_simp

lemma route_model_records_dispatch_witness:
  "\<exists>d p st. route_model sample_env sample_config sample_args sample_request empty_rstate = (Inr d, p, st) \<and>
     jget ''model'' p = JStr ''sonnet'' \<and> \<not> applied d"
proof -
  obtain d p st where o:
    "route_model sample_env sample_config sample_args sample_request empty_rstate = (Inr d, p, st)"
    "routed_model d = ''sonnet''" by (rule sample_outcome_Inr)
  from route_model_records_dispatch [OF sample_request_model o(1)] o show ?thesis by auto
qed


definition failing_env :: env where
  "failing_env = sample_env\<lparr>env_send := \<lambda>_ _. Inl (RequestError (request_error ''no'' ''x'' 429))\<rparr>"

lemma failing_route:
  "case route_model failing_env sample_config (sample_args\<lparr>baseline := ''opus''\<rparr>) sample_request empty_rstate of
     (Inr d, p, st) \<Rightarrow> reason_code d = ''classifier_rate_limited'' | _ \<Rightarrow> False"
  by code_simp


text \<open>(C32) One routed request makes at most \<open>max_retries + 2\<close> classifier calls, and each call's own
  payload carries the sentinel, so routing it again makes no call at all: classification never
  recurses.\<close>

theorem route_model_calls_bounded:
  "\<exists>cs. calls (outcome_state (route_model env cfg ra payload st)) = calls st @ cs \<and>
     length cs \<le> classifier_max_retries cfg + 2 \<and>
     (\<forall>c \<in> set cs. outcome_state (route_model env' cfg' ra' c st'') = st'')"
proof -
  obtain cs where "calls (outcome_state (route_model env cfg ra payload st)) = calls st @ cs"
    "length cs \<le> classifier_max_retries cfg + 2" "\<forall>c \<in> set cs. truthy (jget CLASSIFIER_SENTINEL_KEY c)"
    using route_model_called [of cfg st env ra payload] unfolding called_def by blast
  with route_model_sentinel show ?thesis by blast
qed

lemma route_model_calls_bounded_witness:
  "\<exists>cs. calls (outcome_state (sample_outcome sample_env)) = cs \<and> length cs = 2 \<and>
     (\<forall>c \<in> set cs. outcome_state (route_model sample_env sample_config sample_args c empty_rstate) = empty_rstate)"
proof -
  obtain d p st where o:
    "route_model sample_env sample_config sample_args sample_request empty_rstate = (Inr d, p, st)"
    "length (calls st) = 2" by (rule sample_outcome_Inr)
  from route_model_calls_bounded [of sample_env sample_config sample_args sample_request empty_rstate
      sample_env sample_config sample_args empty_rstate] o
  show ?thesis by (auto simp: sample_outcome_def) (simp add: empty_rstate_def)
qed

text \<open>The blend stays between its inputs: with non-negative weights that sum to one, the weighted
  score lies between the system-prompt score and the user-prompt score, and so does the tier chosen
  from it.\<close>

theorem blend_between_scores:
  assumes "0 \<le> sys_weight cfg" and "0 \<le> user_weight cfg" and "sys_weight cfg + user_weight cfg = 1"
    and "apply_weighted_blend env cfg user_score sha payload st = (b, st')"
  shows "min (bl_sys_score b) user_score \<le> bl_weighted b \<and>
    bl_weighted b \<le> max (bl_sys_score b) user_score \<and>
    min (bl_sys_tier b) (tier_of cfg user_score) \<le> bl_label b \<and>
    bl_label b \<le> max (bl_sys_tier b) (tier_of cfg user_score)"
proof -
  have b: "bl_weighted b = weighted_blend_score cfg (bl_sys_score b) user_score"
    "bl_label b = tier_of cfg (bl_weighted b)" "bl_sys_tier b = tier_of cfg (bl_sys_score b)"
    using assms(4) by (auto simp: apply_weighted_blend_def Let_def split_beta)
  note between = weighted_between [OF assms(1-3), of "bl_sys_score b" user_score, folded b(1)]
  have "tier_of cfg (min (bl_sys_score b) user_score) \<le> bl_label b"
    "bl_label b \<le> tier_of cfg (max (bl_sys_score b) user_score)"
    using between by (auto simp: b(2) intro: tier_of_mono)
  then show ?thesis
    using between tier_of_mono [of _ _ cfg]
    by (auto simp: b(3) min_def max_def split: if_splits)
qed

lemma blend_between_scores_witness:
  "bl_weighted (fst (apply_weighted_blend sample_env sample_config 90 None sample_request empty_rstate))
   \<le> max 90 90"
proof -
  obtain b st where o: "apply_weighted_blend sample_env sample_config 90 None sample_request empty_rstate = (b, st)"
    by fastforce
  have "bl_sys_score (fst (apply_weighted_blend sample_env sample_config 90 None sample_request empty_rstate)) = 90"
    by code_simp
  with blend_between_scores [OF _ _ _ o] o show ?thesis by (simp add: sample_config_def)
qed

text \<open>The size floor fires exactly when it should: with a positive threshold and a long-context
  target, it forces that target when the corrected estimate or the measured session context reaches
  the threshold, and then the payload carries a long-context beta; otherwise the payload is untouched.\<close>

theorem size_floor_exact:
  assumes "size_floor cfg requested ct ratio payload = (est, fl, payload')"
    and "0 < long_context_threshold cfg"
  shows "(fl \<noteq> None \<longleftrightarrow> long_target cfg \<noteq> ''off'' \<and>
      (long_context_threshold cfg \<le> py_round (of_int est * ratio) \<or> long_context_threshold cfg \<le> ct)) \<and>
    (fl = None \<longrightarrow> payload' = payload) \<and>
    (fl \<noteq> None \<longrightarrow> jget ''model'' payload' = JStr (long_target cfg) \<and> carries_long_beta payload')"
  using assms
  by (auto simp: size_floor_def Let_def ensure_beta_model ensure_long_context_beta_carries
      split: if_splits)

lemma size_floor_exact_witness:
  "carries_long_beta (snd (snd (size_floor sample_config ''sonnet'' 180000 1 sample_request)))"
proof -
  obtain est fl p where o: "size_floor sample_config ''sonnet'' 180000 1 sample_request = (est, fl, p)"
    by (metis prod_cases3)
  have pos: "0 < long_context_threshold sample_config" by (simp add: sample_config_def)
  from size_floor_exact [OF o pos] o show ?thesis by (simp add: sample_config_def)
qed

text \<open>A classifier mode the code does not know does not fall back to \<open>classifier\<close>: the classifier is
  called, its score is not blended, and using the raw score as a label raises \<open>KeyError\<close>.\<close>

theorem unknown_mode_raises:
  assumes "effective_mode cfg ra \<noteq> ''classifier''" and "effective_mode cfg ra \<noteq> ''rules''"
    and "env_send env (calls st) (build_classifier_payload env cfg summary prior) = Inr response"
    and "parse_score env cfg response = Inr (Some score)"
  shows "fst (route_classified env cfg ra requested b summary prior est payload st) = Inl (PyError KeyError)"
  using assms
  by (simp add: route_classified_def dispatch_classifier_mode_def Let_def classifier_loop.simps(2)
      send_classifier_def split_beta)

lemma unknown_mode_raises_witness:
  "fst (route_classified sample_env sample_config (sample_args\<lparr>override_mode := ''tag''\<rparr>) ''sonnet'' ''sonnet''
     (text_summary ''redesign'') None 0 sample_request empty_rstate) = Inl (PyError KeyError)"
  by (rule unknown_mode_raises [where response = "answer ''90''" and score = 90]) code_simp+

text \<open>The midpoint score that stands in for a missing or failed system-prompt score lies in the
  standard band when the band is more than one point wide.\<close>

theorem midpoint_in_standard_band:
  assumes "trivial_threshold cfg + 1 < standard_threshold cfg"
  shows "tier_of cfg (midpoint cfg) = Standard"
proof -
  let ?x = "(trivial_threshold cfg + standard_threshold cfg) / 2"
  have "trivial_threshold cfg < ?x - 1 / 2" "?x + 1 / 2 < standard_threshold cfg"
    using assms by (simp_all add: field_simps)
  with py_round_near [of ?x] have "trivial_threshold cfg \<le> of_int (midpoint cfg)" "of_int (midpoint cfg) < standard_threshold cfg"
    unfolding midpoint_def by linarith+
  then show ?thesis by (simp add: tier_of_def score_to_tier_def)
qed

lemma midpoint_in_standard_band_witness: "tier_of sample_config (midpoint sample_config) = Standard"
  by (rule midpoint_in_standard_band) (simp add: sample_config_def)

text \<open>The docstring's guarantee ``regardless of operator config'' fails for a narrow band: with the
  thresholds 1 and 2 the midpoint rounds up to 2, and a missing system prompt counts as deep.\<close>

theorem midpoint_outside_standard_band:
  "tier_of (sample_config\<lparr>trivial_threshold := 1, standard_threshold := 2\<rparr>)
     (midpoint (sample_config\<lparr>trivial_threshold := 1, standard_threshold := 2\<rparr>)) = Deep"
  by code_simp

end
