(* ===== verification/Session_State.thy ===== *)
theory Session_State
  imports Routing_Decision Bounded_Store
begin

text \<open>
  \<^verbatim>\<open>anthrouter/session_state.py\<close>: the six bounded stores of \<open>SessionState\<close>, the global
  routing switch and the last rate-limit window.  Each method is one function of the state; the lock
  makes it atomic, so a run of the program is a sequence of these functions, the relation
  \<open>session_step\<close>.  The clock is an argument.
\<close>

definition MAX_ENTRIES :: nat where "MAX_ENTRIES = 10000"
definition HANDOFF_TTL_SECONDS :: rat where "HANDOFF_TTL_SECONDS = 60"
definition DEFAULT_RESPONSE_TEXT_LIMIT :: int where "DEFAULT_RESPONSE_TEXT_LIMIT = 1000"

record thread_pin =
  pin_model :: string
  pin_long_context :: bool
  pin_response_text :: "string option"

record handoff =
  ho_model :: string
  ho_decision :: decision
  expires_at :: rat

type_synonym tier_key = "string \<times> string"
type_synonym handoff_key = "string \<times> string"

record session_state =
  global_routing :: bool
  routing_overrides :: "(string, bool) store"
  routed_tiers :: "(tier_key, string) store"
  context_obs :: "(string, int \<times> rat) store"
  thread_models :: "(string, thread_pin) store"
  last_thread_models :: "(string, string) store"
  handoffs :: "(handoff_key, handoff) store"
  ratelimit_window :: jdict

definition initial_session :: "bool \<Rightarrow> session_state" where
  "initial_session auto_model_routing =
     \<lparr>global_routing = auto_model_routing, routing_overrides = [], routed_tiers = [],
      context_obs = [], thread_models = [], last_thread_models = [], handoffs = [],
      ratelimit_window = []\<rparr>"

definition session_put :: "'k \<Rightarrow> 'v \<Rightarrow> ('k, 'v) store \<Rightarrow> ('k, 'v) store" where
  "session_put = store_put MAX_ENTRIES"

section \<open>The routing switch\<close>

definition set_model_routing :: "bool \<Rightarrow> session_state \<Rightarrow> session_state" where
  "set_model_routing enabled s = s\<lparr>global_routing := enabled\<rparr>"

definition set_session_model_routing :: "string \<Rightarrow> bool option \<Rightarrow> session_state \<Rightarrow> session_state" where
  "set_session_model_routing session_key enabled s =
     (case enabled of
        None \<Rightarrow> s\<lparr>routing_overrides := store_pop session_key (routing_overrides s)\<rparr>
      | Some e \<Rightarrow> s\<lparr>routing_overrides := session_put session_key e (routing_overrides s)\<rparr>)"

definition session_model_routing :: "string \<Rightarrow> session_state \<Rightarrow> bool option" where
  "session_model_routing session_key s = map_of (routing_overrides s) session_key"

definition model_routing_enabled :: "string option \<Rightarrow> session_state \<Rightarrow> bool" where
  "model_routing_enabled session_key s =
     (case session_key of
        None \<Rightarrow> global_routing s
      | Some k \<Rightarrow> (case map_of (routing_overrides s) k of Some e \<Rightarrow> e | None \<Rightarrow> global_routing s))"

section \<open>The tier cache\<close>

definition set_routed_tier :: "tier_key \<Rightarrow> string \<Rightarrow> session_state \<Rightarrow> session_state" where
  "set_routed_tier key tier s = s\<lparr>routed_tiers := session_put key tier (routed_tiers s)\<rparr>"

definition routed_tier :: "tier_key \<Rightarrow> session_state \<Rightarrow> string option" where
  "routed_tier key s = map_of (routed_tiers s) key"

section \<open>The Thread map\<close>

definition thread_pin_of :: "string \<Rightarrow> bool \<Rightarrow> string option \<Rightarrow> int \<Rightarrow> thread_pin" where
  "thread_pin_of model long_context response_text limit =
     \<lparr>pin_model = model, pin_long_context = long_context,
      pin_response_text =
        (case response_text of
           None \<Rightarrow> None
         | Some t \<Rightarrow> if t = [] then None else Some (truncate_prior_response t limit))\<rparr>"

definition record_thread ::
  "string \<Rightarrow> string \<Rightarrow> bool \<Rightarrow> string option \<Rightarrow> string option \<Rightarrow> int \<Rightarrow> session_state \<Rightarrow> session_state" where
  "record_thread message_id model long_context session_key response_text limit s =
     (let s' = s\<lparr>thread_models := session_put message_id
                   (thread_pin_of model long_context response_text limit) (thread_models s)\<rparr>
      in case session_key of
           None \<Rightarrow> s'
         | Some k \<Rightarrow> s'\<lparr>last_thread_models := session_put k model (last_thread_models s')\<rparr>)"

definition thread_pin :: "string \<Rightarrow> session_state \<Rightarrow> thread_pin option" where
  "thread_pin message_id s = map_of (thread_models s) message_id"

definition last_thread_model :: "string option \<Rightarrow> session_state \<Rightarrow> string option" where
  "last_thread_model session_key s =
     (case session_key of None \<Rightarrow> None | Some k \<Rightarrow> map_of (last_thread_models s) k)"

section \<open>The handoff store\<close>

definition store_handoff ::
  "rat \<Rightarrow> string option \<times> string \<Rightarrow> string \<Rightarrow> decision \<Rightarrow> session_state \<Rightarrow> session_state" where
  "store_handoff now key model d s =
     (case fst key of
        None \<Rightarrow> s
      | Some k \<Rightarrow>
          s\<lparr>handoffs := session_put (k, snd key)
              \<lparr>ho_model = model, ho_decision = d, expires_at = now + HANDOFF_TTL_SECONDS\<rparr> (handoffs s)\<rparr>)"

definition live_handoff ::
  "rat \<Rightarrow> string option \<times> string \<Rightarrow> bool \<Rightarrow> session_state \<Rightarrow> handoff option \<times> session_state" where
  "live_handoff now key remove s =
     (case fst key of
        None \<Rightarrow> (None, s)
      | Some k \<Rightarrow>
          (case map_of (handoffs s) (k, snd key) of
             None \<Rightarrow> (None, s)
           | Some entry \<Rightarrow>
               let gone = s\<lparr>handoffs := store_pop (k, snd key) (handoffs s)\<rparr>
               in if now \<ge> expires_at entry then (None, gone)
                  else (Some entry, if remove then gone else s)))"

definition peek_handoff :: "rat \<Rightarrow> string option \<times> string \<Rightarrow> session_state \<Rightarrow> handoff option \<times> session_state" where
  "peek_handoff now key s = live_handoff now key False s"

definition take_handoff :: "rat \<Rightarrow> string option \<times> string \<Rightarrow> session_state \<Rightarrow> handoff option \<times> session_state" where
  "take_handoff now key s = live_handoff now key True s"

section \<open>Context observations and the rate-limit window\<close>

definition record_context :: "string \<Rightarrow> int \<Rightarrow> rat \<Rightarrow> session_state \<Rightarrow> session_state" where
  "record_context ctx_key measured_floor est_ratio s =
     s\<lparr>context_obs := session_put ctx_key (measured_floor, est_ratio) (context_obs s)\<rparr>"

definition context_of :: "string \<Rightarrow> session_state \<Rightarrow> int \<times> rat" where
  "context_of ctx_key s = (case map_of (context_obs s) ctx_key of None \<Rightarrow> (0, 1) | Some c \<Rightarrow> c)"

definition record_ratelimit :: "jdict \<Rightarrow> session_state \<Rightarrow> session_state" where
  "record_ratelimit window s = (if window = [] then s else s\<lparr>ratelimit_window := window\<rparr>)"

definition last_ratelimit :: "session_state \<Rightarrow> jdict" where
  "last_ratelimit s = ratelimit_window s"

section \<open>Runs\<close>

text \<open>One atomic method call, with the handoff clock among the arguments.\<close>

inductive session_step :: "session_state \<Rightarrow> session_state \<Rightarrow> bool" where
  step_routing: "session_step s (set_model_routing e s)"
| step_override: "session_step s (set_session_model_routing k oe s)"
| step_tier: "session_step s (set_routed_tier tk tier s)"
| step_thread: "session_step s (record_thread mid m lc sk txt limit s)"
| step_store: "session_step s (store_handoff now hk m d s)"
| step_peek: "session_step s (snd (peek_handoff now hk s))"
| step_take: "session_step s (snd (take_handoff now hk s))"
| step_context: "session_step s (record_context ck n r s)"
| step_ratelimit: "session_step s (record_ratelimit w s)"

inductive session_reachable :: "session_state \<Rightarrow> bool" where
  reach_init: "session_reachable (initial_session b)"
| reach_step: "session_reachable s \<Longrightarrow> session_step s s' \<Longrightarrow> session_reachable s'"

inductive_cases session_stepE: "session_step s s'"

definition session_ok :: "session_state \<Rightarrow> bool" where
  "session_ok s \<longleftrightarrow>
     store_ok MAX_ENTRIES (routing_overrides s) \<and> store_ok MAX_ENTRIES (routed_tiers s) \<and>
     store_ok MAX_ENTRIES (context_obs s) \<and> store_ok MAX_ENTRIES (thread_models s) \<and>
     store_ok MAX_ENTRIES (last_thread_models s) \<and> store_ok MAX_ENTRIES (handoffs s)"

lemma MAX_ENTRIES_Suc: "MAX_ENTRIES = Suc 9999"
  by (simp add: MAX_ENTRIES_def)

lemma session_put_ok: "store_ok MAX_ENTRIES st \<Longrightarrow> store_ok MAX_ENTRIES (session_put k v st)"
  unfolding session_put_def MAX_ENTRIES_Suc by (rule store.put_inv)

lemmas session_defs =
  set_model_routing_def set_session_model_routing_def set_routed_tier_def record_thread_def
  store_handoff_def live_handoff_def peek_handoff_def take_handoff_def record_context_def
  record_ratelimit_def

lemma session_step_ok: "session_step s s' \<Longrightarrow> session_ok s \<Longrightarrow> session_ok s'"
  by (elim session_stepE)
     (auto simp: session_defs session_ok_def session_put_ok store_ok_pop Let_def
       split: option.splits)

lemma session_put_lookup [simp]: "map_of (session_put k v st) k = Some v"
  by (simp add: session_put_def)

text \<open>Every store of a reachable state satisfies the law of \<open>bounded_store\<close>.\<close>

lemma reachable_ok: "session_reachable s \<Longrightarrow> session_ok s"
proof (induction rule: session_reachable.induct)
  case (reach_init b)
  show ?case by (simp add: session_ok_def initial_session_def store_ok_def)
next
  case (reach_step s s')
  then show ?case by (simp add: session_step_ok)
qed

section \<open>Properties\<close>



text \<open>(C30) A handoff is taken at most once and only while it lives: within 60 seconds a take returns
  exactly the stored routing and empties the slot, a peek returns it and keeps it, and from 60
  seconds on both return nothing and drop it.\<close>

theorem handoff_taken_once:
  assumes "key = (Some k, h)"
  shows "(case take_handoff now key (store_handoff t key model d s) of (got, s') \<Rightarrow>
      got = (if now < t + 60 then Some \<lparr>ho_model = model, ho_decision = d, expires_at = t + 60\<rparr> else None) \<and>
      fst (peek_handoff later key s') = None \<and> fst (take_handoff later key s') = None) \<and>
    fst (peek_handoff now key (store_handoff t key model d s)) =
      fst (take_handoff now key (store_handoff t key model d s)) \<and>
    (now < t + 60 \<longrightarrow>
      snd (peek_handoff now key (store_handoff t key model d s)) = store_handoff t key model d s)"
  by (auto simp: assms session_defs map_of_store_pop HANDOFF_TTL_SECONDS_def Let_def not_le)

lemma handoff_taken_once_witness:
  "fst (peek_handoff 59 (Some ''u'', ''h'')
     (store_handoff 0 (Some ''u'', ''h'') ''opus'' (decide ''a'' ''opus'' None ''disabled'') (initial_session True)))
   = fst (take_handoff 59 (Some ''u'', ''h'')
     (store_handoff 0 (Some ''u'', ''h'') ''opus'' (decide ''a'' ''opus'' None ''disabled'') (initial_session True)))"
  using handoff_taken_once [of "(Some ''u'', ''h'')" "''u''" "''h''"] by blast

text \<open>A cached tier is replayed only into turns of the same conversation that asked for the same
  tier, and survives fewer than 10000 later writes to other keys.\<close>

theorem routed_tier_survives:
  assumes "session_reachable s" and "length later < 10000" and "key \<notin> fst ` set later"
  shows "routed_tier key (foldl (\<lambda>s p. set_routed_tier (fst p) (snd p) s) (set_routed_tier key tier s) later)
         = Some tier \<and>
    (other \<noteq> key \<longrightarrow> routed_tier other (set_routed_tier key tier s) \<in> {None, routed_tier other s})"
proof -
  have ok: "store_ok (Suc 9999) (routed_tiers s)"
    using reachable_ok [OF assms(1)] by (simp add: session_ok_def MAX_ENTRIES_Suc)
  have fold: "routed_tiers (foldl (\<lambda>s p. set_routed_tier (fst p) (snd p) s) u later) =
      foldl (\<lambda>st p. store_put (Suc 9999) (fst p) (snd p) st) (routed_tiers u) later" for u
    by (induction later arbitrary: u)
       (simp_all add: set_routed_tier_def session_put_def MAX_ENTRIES_Suc del: One_nat_def)
  have "map_of (foldl (\<lambda>st p. store_put (Suc 9999) (fst p) (snd p) st)
      (store_put (Suc 9999) key tier (routed_tiers s)) later) key = Some tier"
    by (rule store.recent_survives [OF ok]) (use assms(2,3) in simp_all)
  moreover have "map_of (session_put key tier (routed_tiers s)) other \<in> {None, map_of (routed_tiers s) other}"
    if "other \<noteq> key"
    using store.look_put_other [OF ok that, of tier]
    by (cases "map_of (session_put key tier (routed_tiers s)) other")
       (auto simp: session_put_def MAX_ENTRIES_Suc)
  ultimately show ?thesis
    by (simp add: routed_tier_def fold) (simp add: set_routed_tier_def session_put_def MAX_ENTRIES_Suc)
qed

lemma routed_tier_survives_witness:
  "routed_tier (''c'', ''haiku'') (set_routed_tier (''c'', ''sonnet'') ''opus''
     (set_routed_tier (''c'', ''haiku'') ''haiku'' (initial_session True))) = Some ''haiku''"
  using routed_tier_survives [where later = "[((''c'', ''sonnet''), ''opus'')]" and key = "(''c'', ''haiku'')"
      and tier = "''haiku''" and other = "(''c'', ''haiku'')", OF reach_init [of True]]
  by simp

end
