(* ===== verification/Request_Inspection.thy ===== *)
theory Request_Inspection
  imports Router_Core
begin

text \<open>
  \<^verbatim>\<open>anthrouter/handlers.py\<close>, the functions that only read a request: the local
  \<open>proxy-*\<close> commands, the session, conversation and handoff keys, the security-monitor and Thread
  tests, and the texts kept for the request log.  SHA-256 in hex, \<open>repr\<close> and \<open>json.loads\<close> are
  arguments.
\<close>

section \<open>The final message\<close>

definition some_messages :: "jdict \<Rightarrow> json list option" where
  "some_messages payload =
     (case jget ''messages'' payload of
        JArr ms \<Rightarrow> if ms = [] then None else Some ms
      | _ \<Rightarrow> None)"

definition final_message_content :: "jdict \<Rightarrow> json" where
  "final_message_content payload =
     (case some_messages payload of
        None \<Rightarrow> JNull
      | Some ms \<Rightarrow> if is_user_msg (last ms) then jget ''content'' (dict_of (last ms)) else JNull)"

definition or_none :: "string \<Rightarrow> string option" where
  "or_none s = (if s = [] then None else Some s)"

text \<open>\<open>_final_user_text\<close>: None unless the message is text blocks with exactly one non-empty segment
  left after the reminders are stripped.\<close>

fun command_segments :: "json list \<Rightarrow> string list option" where
  "command_segments [] = Some []"
| "command_segments (b # bs) =
     (case text_of b of
        None \<Rightarrow> None
      | Some t \<Rightarrow>
          map_option (\<lambda>segs. if strip_reminders t = [] then segs else strip_reminders t # segs)
            (command_segments bs))"

definition command_text :: "jdict \<Rightarrow> string option" where
  "command_text payload =
     (case final_message_content payload of
        JStr s \<Rightarrow> or_none (strip_reminders s)
      | JArr bs \<Rightarrow> (case command_segments bs of Some [s] \<Rightarrow> Some s | _ \<Rightarrow> None)
      | _ \<Rightarrow> None)"

section \<open>Local commands\<close>

datatype setting = On | Off | Auto | Invalid

datatype local_command =
    Help
  | Status
  | Set_model_routing setting
  | Session_set_model_routing setting

definition SET_MODEL_ROUTING_PREFIX :: string where
  "SET_MODEL_ROUTING_PREFIX = ''proxy-set-model-routing:''"

definition SESSION_SUFFIX :: string where "SESSION_SUFFIX = '':session''"

text \<open>What precedes the first occurrence of \<open>p\<close>.\<close>

fun before_lit :: "string \<Rightarrow> string \<Rightarrow> string option" where
  "before_lit p [] = (if p = [] then Some [] else None)"
| "before_lit p (c # s) =
     (if prefix p (c # s) then Some [] else map_option (Cons c) (before_lit p s))"

text \<open>\<open>\s*<session>(.*?)</session>\<close> at the start of the text: the inner group.\<close>

definition session_wrapped :: "string \<Rightarrow> string option" where
  "session_wrapped t =
     (case lit ''<session>'' (dropWhile py_isspace t) of
        None \<Rightarrow> None
      | Some rest \<Rightarrow> before_lit ''</session>'' rest)"

definition mentions_wrapper :: "string \<Rightarrow> bool" where
  "mentions_wrapper before \<longleftrightarrow> list_ex (\<lambda>t. py_in (''<'' @ t @ ''>'') before) WRAPPER_TAGS"

text \<open>\<open>text.rsplit('\n', 1)\<close>.\<close>

definition before_last_line :: "string \<Rightarrow> string" where
  "before_last_line t = take (length t - Suc (length (last_line t))) t"

definition command_line :: "string \<Rightarrow> string" where
  "command_line t =
     (if CHR 0x0A \<in> set t
      then (if mentions_wrapper (before_last_line t) then t else last_line t)
      else t)"

definition parse_setting :: "bool \<Rightarrow> string \<Rightarrow> setting" where
  "parse_setting for_session v =
     (if v = ''on'' then On else if v = ''off'' then Off
      else if v = ''auto'' \<and> for_session then Auto else Invalid)"

definition parse_command :: "string \<Rightarrow> local_command option" where
  "parse_command cmd =
     (if cmd = ''proxy-help'' then Some Help
      else if cmd = ''proxy-status'' then Some Status
      else if startswith cmd SET_MODEL_ROUTING_PREFIX
      then let rest = drop (length SET_MODEL_ROUTING_PREFIX) cmd in
        if endswith rest SESSION_SUFFIX
        then Some (Session_set_model_routing
               (parse_setting True (take (length rest - length SESSION_SUFFIX) rest)))
        else Some (Set_model_routing (parse_setting False rest))
      else None)"

definition parse_local_command :: "jdict \<Rightarrow> local_command option" where
  "parse_local_command payload =
     (case command_text payload of
        None \<Rightarrow> None
      | Some t \<Rightarrow>
          parse_command (command_line
            (case session_wrapped t of Some inner \<Rightarrow> py_strip inner | None \<Rightarrow> t)))"

section \<open>Keys\<close>

definition session_key :: "jdict \<Rightarrow> string option" where
  "session_key payload =
     (case jget ''metadata'' payload of
        JObj m \<Rightarrow> (case jget ''user_id'' m of JStr u \<Rightarrow> or_none u | _ \<Rightarrow> None)
      | _ \<Rightarrow> None)"

definition str_texts :: "json list \<Rightarrow> string list" where
  "str_texts bs =
     List.map_filter (\<lambda>b. case b of
        JObj d \<Rightarrow> as_str (jget ''text'' d)
      | JStr s \<Rightarrow> Some s
      | _ \<Rightarrow> None) bs"

definition system_hash :: "(string \<Rightarrow> string) \<Rightarrow> jdict \<Rightarrow> string" where
  "system_hash sha payload =
     (let text = (case jget ''system'' payload of
            JStr s \<Rightarrow> s
          | JArr bs \<Rightarrow> py_join nl (str_texts bs)
          | _ \<Rightarrow> [])
      in if text = [] then ''--------'' else take 8 (sha text))"

definition ANCHOR_LIMIT :: int where "ANCHOR_LIMIT = 4000"

text \<open>The first user message whose content is readable decides.\<close>

fun anchor_text :: "json list \<Rightarrow> string" where
  "anchor_text [] = []"
| "anchor_text (m # ms) =
     (if \<not> is_user_msg m then anchor_text ms
      else case extract_user_text (jget ''content'' (dict_of m)) of
             None \<Rightarrow> anchor_text ms
           | Some (stripped, raw, _, _) \<Rightarrow>
               if stripped \<noteq> [] then stripped else last_transcript_user_turn raw)"

definition conversation_anchor :: "(string \<Rightarrow> string) \<Rightarrow> jdict \<Rightarrow> string" where
  "conversation_anchor sha payload =
     (case some_messages payload of
        None \<Rightarrow> ''--------''
      | Some ms \<Rightarrow>
          if anchor_text ms = [] then ''--------''
          else take 8 (sha (py_head (anchor_text ms) ANCHOR_LIMIT)))"

definition context_key :: "(string \<Rightarrow> string) \<Rightarrow> string option \<Rightarrow> jdict \<Rightarrow> string option" where
  "context_key sha sess_key payload =
     (case sess_key of
        None \<Rightarrow> None
      | Some k \<Rightarrow> if k = [] then None else Some (k @ [CHR 0x00] @ conversation_anchor sha payload))"

text \<open>\<open>str(v)\<close> of a JSON value, and \<open>_requested_tier\<close>.\<close>

definition py_str :: "(json \<Rightarrow> string) \<Rightarrow> json \<Rightarrow> string" where
  "py_str repr v = (case v of JStr s \<Rightarrow> s | _ \<Rightarrow> repr v)"

definition requested_tier :: "(json \<Rightarrow> string) \<Rightarrow> json \<Rightarrow> string" where
  "requested_tier repr baseline_model =
     (let tier = classify_model_tier baseline_model in
      if tier \<noteq> ''other'' then tier else CHR ''_'' # py_str repr baseline_model)"

text \<open>\<open>final_user_text\<close> of \<^verbatim>\<open>handlers.py\<close> and the handoff key made of it.\<close>

definition joined_user_text :: "jdict \<Rightarrow> string option" where
  "joined_user_text payload =
     (case final_message_content payload of
        JStr s \<Rightarrow> Some s
      | JArr bs \<Rightarrow>
          (case List.map_filter text_of bs of [] \<Rightarrow> None | ts \<Rightarrow> Some (py_join nl ts))
      | _ \<Rightarrow> None)"

definition handoff_key_of ::
  "(string \<Rightarrow> string) \<Rightarrow> string option \<Rightarrow> jdict \<Rightarrow> (string option \<times> string) option" where
  "handoff_key_of sha sess_key payload =
     (case (sess_key, joined_user_text payload) of
        (Some k, Some t) \<Rightarrow> Some (Some k, sha t)
      | _ \<Rightarrow> None)"

section \<open>Tests on a request\<close>

definition HAPPY_NEW_YEAR_PREFIX :: string where
  "HAPPY_NEW_YEAR_PREFIX = ''You are a security monitor for autonomous AI coding agents.''"

definition HAPPY_BIRTHDAY_REPLY :: string where "HAPPY_BIRTHDAY_REPLY = ''<severity>5''"

definition monitor_block :: "json \<Rightarrow> bool" where
  "monitor_block item \<longleftrightarrow>
     (case jget ''text'' (dict_of item) of
        JStr t \<Rightarrow> startswith t HAPPY_NEW_YEAR_PREFIX | _ \<Rightarrow> False)"

definition has_happy_new_year_system_prompt :: "jdict \<Rightarrow> bool" where
  "has_happy_new_year_system_prompt payload \<longleftrightarrow>
     (case jget ''system'' payload of
        JStr s \<Rightarrow> startswith s HAPPY_NEW_YEAR_PREFIX
      | JArr items \<Rightarrow> list_ex monitor_block items
      | _ \<Rightarrow> False)"

definition is_thread_continuation :: "jdict \<Rightarrow> bool" where
  "is_thread_continuation payload \<longleftrightarrow>
     (case jget ''thread'' payload of
        JObj thread \<Rightarrow>
          jget ''type'' thread \<noteq> JStr ''create'' \<and> as_str (jget ''previous_message_id'' thread) \<noteq> None
      | _ \<Rightarrow> False)"

definition previous_message_id :: "jdict \<Rightarrow> string" where
  "previous_message_id payload =
     (case as_str (jget ''previous_message_id'' (dict_of (jget ''thread'' payload))) of
        Some i \<Rightarrow> i | None \<Rightarrow> [])"

definition same_model :: "aliases \<Rightarrow> string \<Rightarrow> string \<Rightarrow> bool" where
  "same_model al a b \<longleftrightarrow>
     a = b \<or> a \<noteq> [] \<and> b \<noteq> [] \<and> resolve_str al a = resolve_str al b"

definition is_tool_result_only :: "jdict \<Rightarrow> bool" where
  "is_tool_result_only payload \<longleftrightarrow>
     (case final_message_content payload of
        JArr bs \<Rightarrow> bs \<noteq> [] \<and> list_all (\<lambda>b. obj_field_is b ''type'' ''tool_result'') bs
      | _ \<Rightarrow> False)"

definition is_thread_replay :: "jdict \<Rightarrow> bool" where
  "is_thread_replay payload \<longleftrightarrow>
     obj_field_is (jget ''thread'' payload) ''type'' ''create'' \<and>
     (case jget ''messages'' payload of
        JArr ms \<Rightarrow> list_ex (\<lambda>m. obj_field_is m ''role'' ''assistant'') ms
      | _ \<Rightarrow> False)"

text \<open>The last user turn among the trailing messages.\<close>

definition final_user_raw_text :: "jdict \<Rightarrow> string option" where
  "final_user_raw_text payload =
     (case some_messages payload of
        None \<Rightarrow> None
      | Some ms \<Rightarrow>
          (case find is_user_msg (take TRAILING_SCAN_LIMIT (rev ms)) of
             None \<Rightarrow> None
           | Some m \<Rightarrow>
               map_option (\<lambda>(_, raw, _, _). raw) (extract_user_text (jget ''content'' (dict_of m)))))"

definition is_activity_label_request :: "jdict \<Rightarrow> bool" where
  "is_activity_label_request payload \<longleftrightarrow>
     \<not> truthy (jget CLASSIFIER_SENTINEL_KEY payload) \<and>
     (case final_user_raw_text payload of Some t \<Rightarrow> is_activity_label_prompt t | None \<Rightarrow> False)"

section \<open>Commands are matched exactly\<close>

text \<open>The one spelling of each command that is acted on.\<close>

definition setting_word :: "setting \<Rightarrow> string option" where
  "setting_word v =
     (case v of On \<Rightarrow> Some ''on'' | Off \<Rightarrow> Some ''off'' | Auto \<Rightarrow> Some ''auto'' | Invalid \<Rightarrow> None)"

definition spelling :: "local_command \<Rightarrow> string option" where
  "spelling c =
     (case c of
        Help \<Rightarrow> Some ''proxy-help''
      | Status \<Rightarrow> Some ''proxy-status''
      | Set_model_routing v \<Rightarrow>
          if v = Auto then None else map_option (\<lambda>w. SET_MODEL_ROUTING_PREFIX @ w) (setting_word v)
      | Session_set_model_routing v \<Rightarrow>
          map_option (\<lambda>w. SET_MODEL_ROUTING_PREFIX @ w @ SESSION_SUFFIX) (setting_word v))"

definition effective :: "local_command \<Rightarrow> bool" where
  "effective c \<longleftrightarrow> c \<notin> {Set_model_routing Invalid, Session_set_model_routing Invalid}"

definition all_commands :: "local_command list" where
  "all_commands =
     [Help, Status] @ map Set_model_routing [On, Off, Auto, Invalid] @
     map Session_set_model_routing [On, Off, Auto, Invalid]"

lemma in_all_commands: "c \<in> set all_commands"
proof (cases c)
  case (Set_model_routing v)
  then show ?thesis by (cases v) (simp_all add: all_commands_def)
next
  case (Session_set_model_routing v)
  then show ?thesis by (cases v) (simp_all add: all_commands_def)
qed (simp_all add: all_commands_def)

lemma spelling_parses: "spelling c = Some t \<Longrightarrow> parse_command t = Some c \<and> effective c"
proof -
  have "list_all (\<lambda>c. case spelling c of None \<Rightarrow> True
      | Some t \<Rightarrow> parse_command t = Some c \<and> effective c) all_commands"
    by code_simp
  then show "spelling c = Some t \<Longrightarrow> parse_command t = Some c \<and> effective c"
    using in_all_commands [of c] by (auto simp: list_all_iff)
qed

lemma startswith_split: "startswith s p \<Longrightarrow> s = p @ drop (length p) s"
  by (auto simp: startswith_def prefix_def)

lemma endswith_split: "endswith s p \<Longrightarrow> s = take (length s - length p) s @ p"
  by (auto simp: endswith_suffix suffix_def)

lemma parse_setting_word:
  "parse_setting b v = w \<Longrightarrow> w \<noteq> Invalid \<Longrightarrow> setting_word w = Some v \<and> (w = Auto \<longrightarrow> b)"
  by (auto simp: parse_setting_def setting_word_def split: if_splits)

lemma parse_spelling:
  assumes "parse_command t = Some c" and "effective c"
  shows "spelling c = Some t"
proof (cases "t = ''proxy-help'' \<or> t = ''proxy-status''")
  case True
  then show ?thesis using assms by (auto simp: parse_command_def spelling_def)
next
  case False
  let ?rest = "drop (length SET_MODEL_ROUTING_PREFIX) t"
  from False assms(1) have p: "t = SET_MODEL_ROUTING_PREFIX @ ?rest"
    by (auto simp: parse_command_def intro: startswith_split split: if_splits)
  show ?thesis
  proof (cases "endswith ?rest SESSION_SUFFIX")
    case True
    let ?v = "take (length ?rest - length SESSION_SUFFIX) ?rest"
    from False True assms(1) have c: "c = Session_set_model_routing (parse_setting True ?v)"
      by (auto simp: parse_command_def Let_def split: if_splits)
    with assms(2) have "setting_word (parse_setting True ?v) = Some ?v"
      using parse_setting_word [OF refl] by (auto simp: effective_def)
    with c p endswith_split [OF True] show ?thesis by (simp add: spelling_def)
  next
    case No: False
    from False No assms(1) have c: "c = Set_model_routing (parse_setting False ?rest)"
      by (auto simp: parse_command_def Let_def split: if_splits)
    with assms(2) have "setting_word (parse_setting False ?rest) = Some ?rest"
        "parse_setting False ?rest \<noteq> Auto"
      using parse_setting_word [OF refl, of False ?rest] by (auto simp: effective_def)
    with c p show ?thesis by (simp add: spelling_def)
  qed
qed

text \<open>A local command is recognised exactly: a one-line final message, after its reminders are
  stripped, is acted on as a command if and only if it is that command's one spelling.\<close>

theorem local_command_exact:
  assumes "command_text payload = Some t" and "CHR 0x0A \<notin> set t" and "session_wrapped t = None"
  shows "(parse_local_command payload = Some c \<and> effective c) \<longleftrightarrow> spelling c = Some t"
  using parse_spelling [of t c] spelling_parses [of c t] assms
  by (auto simp: parse_local_command_def command_line_def)

definition text_turn :: "string \<Rightarrow> jdict" where
  "text_turn t =
     [(''messages'', JArr [JObj [(''role'', JStr ''user''), (''content'', JArr [text_block t])]])]"

lemma local_command_exact_witness:
  "parse_local_command (text_turn ''proxy-set-model-routing:auto:session'') =
   Some (Session_set_model_routing Auto)"
proof -
  let ?t = "''proxy-set-model-routing:auto:session''"
  have "command_text (text_turn ?t) = Some ?t" "session_wrapped ?t = None" by code_simp+
  moreover have "CHR 0x0A \<notin> set ?t" by code_simp
  moreover have "spelling (Session_set_model_routing Auto) = Some ?t" by code_simp
  ultimately show ?thesis
    using local_command_exact [of "text_turn ?t" ?t "Session_set_model_routing Auto"] by blast
qed

end
