(* ===== verification/Response_Shaping.thy ===== *)
theory Response_Shaping
  imports Request_Inspection
begin

text \<open>
  \<^verbatim>\<open>anthrouter/handlers.py\<close>, the functions that build or read responses: local answers, the
  token counts, Thread marks and text of a server-sent-event chunk, the model restored in
  \<open>message_start\<close>, and the texts kept for the request log.

  A chunk is read line by line: \<open>^data: (.+)$\<close> in multi-line mode matches exactly the lines that
  start with \<open>data: \<close> and have something after it.  \<open>loads\<close>, \<open>dumps\<close>, \<open>repr\<close> and the
  integer parser \<open>int(str)\<close> are arguments.
\<close>

section \<open>Local answers\<close>

definition sse_event :: "(json \<Rightarrow> string) \<Rightarrow> string \<times> json \<Rightarrow> string" where
  "sse_event dumps ev = ''event: '' @ fst ev @ nl @ ''data: '' @ dumps (snd ev) @ nl @ nl"

definition model_or_default :: "json \<Rightarrow> json" where
  "model_or_default model = (if truthy model then model else JStr ''anthrouter'')"

definition no_usage :: json where
  "no_usage = JObj [(''input_tokens'', JInt 0), (''output_tokens'', JInt 0)]"

definition local_message :: "string \<Rightarrow> string \<Rightarrow> json \<Rightarrow> json" where
  "local_message message_id markdown model =
     JObj [(''id'', JStr message_id), (''type'', JStr ''message''), (''role'', JStr ''assistant''),
           (''content'', JArr [text_block markdown]), (''model'', model_or_default model),
           (''stop_reason'', JStr ''end_turn''), (''stop_sequence'', JNull), (''usage'', no_usage)]"

definition local_message_sse :: "string \<Rightarrow> string \<Rightarrow> json \<Rightarrow> (string \<times> json) list" where
  "local_message_sse message_id markdown model =
     [(''message_start'', JObj
        [(''type'', JStr ''message_start''),
         (''message'', JObj
            [(''id'', JStr message_id), (''type'', JStr ''message''), (''role'', JStr ''assistant''),
             (''content'', JArr []), (''model'', model_or_default model), (''stop_reason'', JNull),
             (''stop_sequence'', JNull), (''usage'', no_usage)])]),
      (''content_block_start'', JObj
        [(''type'', JStr ''content_block_start''), (''index'', JInt 0),
         (''content_block'', text_block [])]),
      (''content_block_delta'', JObj
        [(''type'', JStr ''content_block_delta''), (''index'', JInt 0),
         (''delta'', JObj [(''type'', JStr ''text_delta''), (''text'', JStr markdown)])]),
      (''content_block_stop'', JObj [(''type'', JStr ''content_block_stop''), (''index'', JInt 0)]),
      (''message_delta'', JObj
        [(''type'', JStr ''message_delta''),
         (''delta'', JObj [(''stop_reason'', JStr ''end_turn''), (''stop_sequence'', JNull)]),
         (''usage'', JObj [(''output_tokens'', JInt 0)])]),
      (''message_stop'', JObj [(''type'', JStr ''message_stop'')])]"

section \<open>The events of a chunk\<close>

definition data_payload :: "string \<Rightarrow> string option" where
  "data_payload line =
     (if startswith line ''data: '' \<and> length line > 6 then Some (drop 6 line) else None)"

definition chunk_events :: "(string \<Rightarrow> json option) \<Rightarrow> string \<Rightarrow> json list" where
  "chunk_events loads chunk =
     List.map_filter loads (List.map_filter data_payload (split_char CHR 0x0A chunk))"

text \<open>The loop over the events: it stops at the first exception, keeping what was done.\<close>

fun absorb :: "(json \<Rightarrow> 's \<Rightarrow> exn option \<times> 's) \<Rightarrow> json list \<Rightarrow> 's \<Rightarrow> exn option \<times> 's" where
  "absorb f [] s = (None, s)"
| "absorb f (e # es) s =
     (case f e s of (Some x, s') \<Rightarrow> (Some x, s') | (None, s') \<Rightarrow> absorb f es s')"

definition event_type :: "json \<Rightarrow> json" where
  "event_type event = jget ''type'' (dict_of event)"

text \<open>\<open>(d.get(k) or {})\<close> used as a dictionary.\<close>

definition dict_or_empty :: "string \<Rightarrow> jdict \<Rightarrow> exn + jdict" where
  "dict_or_empty k d =
     (if \<not> truthy (jget k d) then Inr []
      else case jget k d of JObj m \<Rightarrow> Inr m | _ \<Rightarrow> Inl (PyError AttributeError))"

subsection \<open>Token counts\<close>

type_synonym stats = "(string \<times> int) list"

definition USAGE_FIELD_MAP :: "(string \<times> string) list" where
  "USAGE_FIELD_MAP =
     [(''input_tokens'', ''input_tokens''), (''output_tokens'', ''output_tokens''),
      (''cache_creation_input_tokens'', ''cache_creation_tokens''),
      (''cache_read_input_tokens'', ''cache_read_tokens'')]"

definition no_stats :: stats where
  "no_stats = [(''input_tokens'', 0), (''output_tokens'', 0), (''cache_creation_tokens'', 0),
               (''cache_read_tokens'', 0)]"

definition stat :: "stats \<Rightarrow> string \<Rightarrow> int" where
  "stat st k = (case map_of st k of Some n \<Rightarrow> n | None \<Rightarrow> 0)"

text \<open>\<open>int(v or 0)\<close>.\<close>

definition usage_int :: "(string \<Rightarrow> int option) \<Rightarrow> json \<Rightarrow> exn + int" where
  "usage_int int_of v =
     (case v of
        JInt n \<Rightarrow> Inr n
      | JBool b \<Rightarrow> Inr (if b then 1 else 0)
      | JFloat q \<Rightarrow> Inr (py_trunc q)
      | JStr s \<Rightarrow>
          if s = [] then Inr 0
          else (case int_of s of Some n \<Rightarrow> Inr n | None \<Rightarrow> Inl (PyError ValueError))
      | JNull \<Rightarrow> Inr 0
      | JArr xs \<Rightarrow> if xs = [] then Inr 0 else Inl (PyError TypeError)
      | JObj d \<Rightarrow> if d = [] then Inr 0 else Inl (PyError TypeError))"

definition event_usage :: "json \<Rightarrow> exn + jdict option" where
  "event_usage event =
     (case event of
        JObj d \<Rightarrow>
          if jget ''type'' d = JStr ''message_start''
          then (case if has_key ''message'' d then jget ''message'' d else JObj [] of
                  JObj m \<Rightarrow> map_sum id Some (dict_or_empty ''usage'' m)
                | _ \<Rightarrow> Inl (PyError AttributeError))
          else if jget ''type'' d = JStr ''message_delta''
          then map_sum id Some (dict_or_empty ''usage'' d)
          else Inr None
      | _ \<Rightarrow> Inl (PyError AttributeError))"

fun take_usage ::
  "(string \<Rightarrow> int option) \<Rightarrow> jdict \<Rightarrow> (string \<times> string) list \<Rightarrow> stats \<Rightarrow> exn option \<times> stats" where
  "take_usage int_of u [] st = (None, st)"
| "take_usage int_of u ((wire_key, stat_key) # fs) st =
     (if jget wire_key u = JNull then take_usage int_of u fs st
      else case usage_int int_of (jget wire_key u) of
             Inl x \<Rightarrow> (Some x, st)
           | Inr n \<Rightarrow>
               take_usage int_of u fs (AList.update stat_key (max (stat st stat_key) n) st))"

definition usage_event :: "(string \<Rightarrow> int option) \<Rightarrow> json \<Rightarrow> stats \<Rightarrow> exn option \<times> stats" where
  "usage_event int_of event st =
     (case event_usage event of
        Inl x \<Rightarrow> (Some x, st)
      | Inr None \<Rightarrow> (None, st)
      | Inr (Some u) \<Rightarrow> take_usage int_of u USAGE_FIELD_MAP st)"

definition extract_sse_stats ::
  "(string \<Rightarrow> json option) \<Rightarrow> (string \<Rightarrow> int option) \<Rightarrow> string \<Rightarrow> stats \<Rightarrow> exn option \<times> stats" where
  "extract_sse_stats loads int_of chunk st = absorb (usage_event int_of) (chunk_events loads chunk) st"

subsection \<open>Thread marks\<close>

record thread_marks =
  mark_id :: "string option"
  mark_stopped :: bool
  mark_error :: bool

definition no_marks :: thread_marks where
  "no_marks = \<lparr>mark_id = None, mark_stopped = False, mark_error = False\<rparr>"

definition mark_event :: "json \<Rightarrow> thread_marks \<Rightarrow> exn option \<times> thread_marks" where
  "mark_event event marks =
     (case event of
        JObj d \<Rightarrow>
          if jget ''type'' d = JStr ''message_start''
          then (case dict_or_empty ''message'' d of
                  Inl x \<Rightarrow> (Some x, marks)
                | Inr m \<Rightarrow>
                    (None, case jget ''id'' m of JStr i \<Rightarrow> marks\<lparr>mark_id := Some i\<rparr> | _ \<Rightarrow> marks))
          else if jget ''type'' d = JStr ''message_stop'' then (None, marks\<lparr>mark_stopped := True\<rparr>)
          else if jget ''type'' d = JStr ''error'' then (None, marks\<lparr>mark_error := True\<rparr>)
          else (None, marks)
      | _ \<Rightarrow> (Some (PyError AttributeError), marks))"

definition extract_sse_thread_marks ::
  "(string \<Rightarrow> json option) \<Rightarrow> string \<Rightarrow> thread_marks \<Rightarrow> exn option \<times> thread_marks" where
  "extract_sse_thread_marks loads chunk marks = absorb mark_event (chunk_events loads chunk) marks"

subsection \<open>Text\<close>

definition RESPONSE_TEXT_LIMIT :: nat where "RESPONSE_TEXT_LIMIT = 1024 * 1024"

definition text_delta :: "json \<Rightarrow> exn + string option" where
  "text_delta event =
     (case event of
        JObj d \<Rightarrow>
          if jget ''type'' d \<noteq> JStr ''content_block_delta'' then Inr None
          else map_sum id
                 (\<lambda>delta. if jget ''type'' delta = JStr ''text_delta''
                          then (case jget ''text'' delta of JStr t \<Rightarrow> or_none t | _ \<Rightarrow> None) else None)
                 (dict_or_empty ''delta'' d)
      | _ \<Rightarrow> Inl (PyError AttributeError))"

fun take_text :: "json list \<Rightarrow> string list \<Rightarrow> exn option \<times> string list" where
  "take_text [] parts = (None, parts)"
| "take_text (e # es) parts =
     (case text_delta e of
        Inl x \<Rightarrow> (Some x, parts)
      | Inr None \<Rightarrow> take_text es parts
      | Inr (Some t) \<Rightarrow>
          let current = length (concat parts) in
          if current + length t > RESPONSE_TEXT_LIMIT
          then (None, parts @ [take (RESPONSE_TEXT_LIMIT - current) t])
          else take_text es (parts @ [t]))"

definition extract_sse_text ::
  "(string \<Rightarrow> json option) \<Rightarrow> string \<Rightarrow> string list \<Rightarrow> exn option \<times> string list" where
  "extract_sse_text loads chunk parts =
     (if length (concat parts) \<ge> RESPONSE_TEXT_LIMIT then (None, parts)
      else take_text (chunk_events loads chunk) parts)"

text \<open>\<open>_extract_response_text\<close>: the text blocks of a whole response, capped; None for
  \<open>TypeError\<close> on content that cannot be iterated.\<close>

fun capped_texts :: "json list \<Rightarrow> nat \<Rightarrow> string list" where
  "capped_texts [] current = []"
| "capped_texts (b # bs) current =
     (case text_of b of
        None \<Rightarrow> capped_texts bs current
      | Some t \<Rightarrow>
          if t = [] then capped_texts bs current
          else if current \<ge> RESPONSE_TEXT_LIMIT then []
          else if length t > RESPONSE_TEXT_LIMIT - current then [take (RESPONSE_TEXT_LIMIT - current) t]
          else t # capped_texts bs (current + length t))"

definition extract_response_text :: "jdict \<Rightarrow> exn + string option" where
  "extract_response_text result =
     (case py_iter (jget ''content'' result) of
        None \<Rightarrow> Inl (PyError TypeError)
      | Some bs \<Rightarrow> Inr (or_none (concat (capped_texts bs 0))))"

section \<open>The requested model in \<open>message_start\<close>\<close>

text \<open>One line: itself, or the re-serialised event with the client's model.\<close>

definition rewrite_line ::
  "(string \<Rightarrow> json option) \<Rightarrow> (json \<Rightarrow> string) \<Rightarrow> string \<Rightarrow> string \<Rightarrow> exn + string" where
  "rewrite_line loads dumps requested line =
     (case Option.bind (data_payload line) loads of
        None \<Rightarrow> Inr line
      | Some (JObj event) \<Rightarrow>
          (case (jget ''type'' event = JStr ''message_start'', jget ''message'' event) of
             (True, JObj message) \<Rightarrow>
               if jget ''model'' message = JStr requested then Inr line
               else Inr (''data: '' @ dumps (JObj (jset ''message''
                      (JObj (jset ''model'' (JStr requested) message)) event)))
           | _ \<Rightarrow> Inr line)
      | Some _ \<Rightarrow> Inl (PyError AttributeError))"

fun rewrite_lines :: "(string \<Rightarrow> exn + string) \<Rightarrow> string list \<Rightarrow> exn + string list" where
  "rewrite_lines f [] = Inr []"
| "rewrite_lines f (l # ls) =
     (case f l of Inl x \<Rightarrow> Inl x | Inr l' \<Rightarrow> map_sum id (Cons l') (rewrite_lines f ls))"

definition rewrite_message_start_model ::
  "(string \<Rightarrow> json option) \<Rightarrow> (json \<Rightarrow> string) \<Rightarrow> string \<Rightarrow> string \<Rightarrow> exn + string" where
  "rewrite_message_start_model loads dumps chunk requested =
     (if \<not> py_in ''message_start'' chunk then Inr chunk
      else map_sum id (py_join nl)
             (rewrite_lines (rewrite_line loads dumps requested) (split_char CHR 0x0A chunk)))"

section \<open>The text of the request log\<close>

definition result_preview :: "json \<Rightarrow> string" where
  "result_preview content =
     (case content of
        JStr s \<Rightarrow> take 300 s
      | JArr bs \<Rightarrow> take 300 (py_join '' '' (List.map_filter text_of bs))
      | _ \<Rightarrow> [])"

definition tool_result_line :: "(json \<Rightarrow> string) \<Rightarrow> jdict \<Rightarrow> string" where
  "tool_result_line repr b =
     ''[tool_result '' @
     (if truthy (jget ''tool_use_id'' b) then py_str repr (jget ''tool_use_id'' b) else ''?'') @
     (if truthy (jget ''is_error'' b) then '' [error]'' else []) @ '': '' @
     repr (JStr (result_preview (jget ''content'' b))) @ '']''"

definition prompt_content_text :: "(json \<Rightarrow> string) \<Rightarrow> json \<Rightarrow> string option" where
  "prompt_content_text repr content =
     (case content of
        JStr s \<Rightarrow> or_none s
      | JArr bs \<Rightarrow>
          let texts = filter (\<lambda>t. t \<noteq> []) (List.map_filter text_of bs);
              tools = map (\<lambda>b. tool_result_line repr (dict_of b))
                        (filter (\<lambda>b. obj_field_is b ''type'' ''tool_result'') bs)
          in if texts \<noteq> [] then or_none (concat texts)
             else if tools \<noteq> [] then or_none (py_join nl tools) else None
      | _ \<Rightarrow> None)"

definition extract_user_prompt_text :: "(json \<Rightarrow> string) \<Rightarrow> jdict \<Rightarrow> string option" where
  "extract_user_prompt_text repr payload =
     (case some_messages payload of
        None \<Rightarrow> None
      | Some ms \<Rightarrow>
          (case find is_user_msg (rev ms) of
             None \<Rightarrow> None
           | Some m \<Rightarrow> prompt_content_text repr (jget ''content'' (dict_of m))))"

section \<open>Properties\<close>

subsection \<open>Token counts are running maxima\<close>

definition field_values ::
  "(string \<Rightarrow> int option) \<Rightarrow> jdict \<Rightarrow> (string \<times> string) list \<Rightarrow> string \<Rightarrow> int list" where
  "field_values int_of u fs k =
     List.map_filter (\<lambda>(w, s). if s = k \<and> jget w u \<noteq> JNull
       then (case usage_int int_of (jget w u) of Inr n \<Rightarrow> Some n | _ \<Rightarrow> None) else None) fs"

definition reported :: "(string \<Rightarrow> int option) \<Rightarrow> json list \<Rightarrow> string \<Rightarrow> int list" where
  "reported int_of es k =
     concat (map (\<lambda>e. case event_usage e of
        Inr (Some u) \<Rightarrow> field_values int_of u USAGE_FIELD_MAP k | _ \<Rightarrow> []) es)"

lemma stat_update [simp]: "stat (AList.update k v st) k' = (if k' = k then v else stat st k')"
  by (simp add: stat_def)

lemma take_usage_max:
  "take_usage int_of u fs st = (None, st') \<Longrightarrow>
   stat st' k = fold max (field_values int_of u fs k) (stat st k)"
proof (induction int_of u fs st rule: take_usage.induct)
  case (2 int_of u w s fs st)
  show ?case
  proof (cases "jget w u = JNull")
    case True
    with 2 show ?thesis by (simp add: field_values_def List.map_filter_simps)
  next
    case False
    with 2(3) obtain n where n: "usage_int int_of (jget w u) = Inr n"
      by (cases "usage_int int_of (jget w u)") simp_all
    from 2(2) [OF False n] 2(3) False n show ?thesis
      by (auto simp: field_values_def List.map_filter_simps max.commute)
  qed
qed (simp add: field_values_def List.map_filter_simps)

lemma take_usage_same: "fst (take_usage int_of u fs st) = fst (take_usage int_of u fs st2)"
proof (induction fs arbitrary: st st2)
  case (Cons p fs)
  obtain w s where p: "p = (w, s)" by fastforce
  show ?case
  proof (cases "usage_int int_of (jget w u)")
    case (Inr n)
    have "fst (take_usage int_of u fs (AList.update s (max (stat st s) n) st)) =
        fst (take_usage int_of u fs (AList.update s (max (stat st2 s) n) st2))"
      by (rule Cons.IH)
    moreover have "fst (take_usage int_of u fs st) = fst (take_usage int_of u fs st2)"
      by (rule Cons.IH)
    ultimately show ?thesis by (simp add: p Inr)
  next
    case (Inl x)
    have "fst (take_usage int_of u fs st) = fst (take_usage int_of u fs st2)"
      by (rule Cons.IH)
    then show ?thesis by (simp add: p Inl)
  qed
qed simp

lemma usage_event_max:
  "usage_event int_of e st = (None, st') \<Longrightarrow> stat st' k = fold max (reported int_of [e] k) (stat st k)"
  by (auto simp: usage_event_def reported_def take_usage_max split: sum.splits option.splits)

lemma usage_event_same: "fst (usage_event int_of e st) = fst (usage_event int_of e st2)"
  by (auto simp: usage_event_def intro: take_usage_same split: sum.split option.split)

lemma reported_Cons: "reported int_of (e # es) k = reported int_of [e] k @ reported int_of es k"
  by (simp add: reported_def)

lemma absorb_usage_max:
  "absorb (usage_event int_of) es st = (None, st') \<Longrightarrow>
   stat st' k = fold max (reported int_of es k) (stat st k)"
proof (induction es arbitrary: st)
  case (Cons e es)
  then obtain st1 where "usage_event int_of e st = (None, st1)"
      "absorb (usage_event int_of) es st1 = (None, st')"
    by (auto split: prod.splits option.splits)
  with Cons.IH usage_event_max show ?case by (metis reported_Cons fold_append comp_apply)
qed (simp add: reported_def)

lemma absorb_usage_same:
  "fst (absorb (usage_event int_of) es st) = fst (absorb (usage_event int_of) es st2)"
proof (induction es arbitrary: st st2)
  case (Cons e es)
  obtain a st1 where 1: "usage_event int_of e st = (a, st1)" by fastforce
  obtain st3 where 2: "usage_event int_of e st2 = (a, st3)"
    using usage_event_same [of int_of e st st2] 1 by (metis prod.collapse fst_conv)
  from 1 2 Cons show ?case by (auto split: option.splits)
qed simp

lemma fold_max: "fold max xs (a :: int) = Max (insert a (set xs))"
  using Max.set_eq_fold [of a xs] by simp

text \<open>Token counts are running maxima: after a chunk every counter is the largest of its old value
  and the values the chunk's \<open>message_start\<close> and \<open>message_delta\<close> events report, so an event that
  states a snapshot again adds nothing.\<close>

theorem sse_stats_running_max:
  assumes "extract_sse_stats loads int_of chunk st = (None, st')"
  shows "stat st' k = Max (insert (stat st k) (set (reported int_of (chunk_events loads chunk) k))) \<and>
    (\<exists>st''. extract_sse_stats loads int_of chunk st' = (None, st'') \<and> stat st'' k = stat st' k)"
proof -
  let ?es = "chunk_events loads chunk"
  let ?vs = "set (reported int_of ?es k)"
  have run: "absorb (usage_event int_of) ?es st = (None, st')"
    using assms by (simp add: extract_sse_stats_def)
  have 1: "stat st' k = Max (insert (stat st k) ?vs)"
    using absorb_usage_max [OF run, of k] by (simp only: fold_max)
  obtain st'' where again: "absorb (usage_event int_of) ?es st' = (None, st'')"
    using absorb_usage_same [of int_of ?es st' st] run by (metis prod.collapse fst_conv)
  have "stat st'' k = Max (insert (stat st' k) ?vs)"
    using absorb_usage_max [OF again, of k] by (simp only: fold_max)
  also have "\<dots> = stat st' k" unfolding 1 by (cases "?vs = {}") (simp_all add: max.left_idem)
  finally show ?thesis using 1 again by (auto simp: extract_sse_stats_def)
qed

text \<open>A stream whose second event restates a larger total.\<close>

definition sample_loads :: "string \<Rightarrow> json option" where
  "sample_loads s =
     (if s = ''start''
      then Some (JObj [(''type'', JStr ''message_start''),
             (''message'', JObj [(''id'', JStr ''m1''), (''usage'', JObj [(''input_tokens'', JInt 5)])])])
      else if s = ''stop'' then Some (JObj [(''type'', JStr ''message_stop'')])
      else if s = ''delta''
      then Some (JObj [(''type'', JStr ''message_delta''),
             (''usage'', JObj [(''input_tokens'', JInt 7), (''output_tokens'', JInt 2)])])
      else if s = ''text''
      then Some (JObj [(''type'', JStr ''content_block_delta''),
             (''delta'', JObj [(''type'', JStr ''text_delta''), (''text'', JStr ''hi'')])])
      else None)"

definition sample_chunk :: string where
  "sample_chunk = ''data: start'' @ nl @ ''data: text'' @ nl @ ''data: delta'' @ nl @ ''data: text'' @ nl"

lemma sse_stats_running_max_witness:
  "stat (snd (extract_sse_stats sample_loads (\<lambda>_. None) sample_chunk no_stats)) ''input_tokens'' =
   Max {0, 5, 7}"
proof -
  let ?r = "extract_sse_stats sample_loads (\<lambda>_. None) sample_chunk no_stats"
  have "fst ?r = None" by code_simp
  then have run: "?r = (None, snd ?r)" by (metis prod.collapse)
  have vals: "reported (\<lambda>_. None) (chunk_events sample_loads sample_chunk) ''input_tokens'' = [5, 7]"
      "stat no_stats ''input_tokens'' = 0"
    by code_simp+
  from conjunct1 [OF sse_stats_running_max [OF run, of "''input_tokens''"]] show ?thesis
    unfolding vals by simp
qed

subsection \<open>Captured text\<close>

definition deltas :: "json list \<Rightarrow> string list" where
  "deltas es = List.map_filter (\<lambda>e. case text_delta e of Inr t \<Rightarrow> t | _ \<Rightarrow> None) es"

lemma take_text_capped:
  "take_text es parts = (None, parts') \<Longrightarrow> length (concat parts) \<le> RESPONSE_TEXT_LIMIT \<Longrightarrow>
   concat parts' = take RESPONSE_TEXT_LIMIT (concat parts @ concat (deltas es))"
proof (induction es parts rule: take_text.induct)
  case (1 parts)
  then show ?case by (simp add: deltas_def List.map_filter_simps)
next
  case (2 e es parts)
  show ?case
  proof (cases "text_delta e")
    case (Inl x)
    with 2 show ?thesis by simp
  next
    case (Inr ot)
    then show ?thesis
      using 2 by (cases ot) (auto simp: deltas_def List.map_filter_simps Let_def split: if_splits)
  qed
qed

lemma take_text_ok: "list_all (\<lambda>e. \<not> isl (text_delta e)) es \<Longrightarrow> fst (take_text es parts) = None"
  by (induction es arbitrary: parts) (auto simp: Let_def split: sum.splits option.splits)

text \<open>The text captured from a stream is the concatenation of its text deltas cut at 1 MiB,
  whatever the chunk boundaries; no chunk makes it longer.\<close>

theorem sse_text_capped:
  assumes "extract_sse_text loads chunk parts = (None, parts')"
    and "length (concat parts) \<le> RESPONSE_TEXT_LIMIT"
  shows "concat parts' =
      take RESPONSE_TEXT_LIMIT (concat parts @ concat (deltas (chunk_events loads chunk))) \<and>
    length (concat parts') \<le> RESPONSE_TEXT_LIMIT"
proof -
  have "concat parts' =
      take RESPONSE_TEXT_LIMIT (concat parts @ concat (deltas (chunk_events loads chunk)))"
    using assms take_text_capped by (auto simp: extract_sse_text_def split: if_splits)
  then show ?thesis by simp
qed

lemma sse_text_capped_witness:
  "concat (snd (extract_sse_text sample_loads sample_chunk [''oh ''])) = take RESPONSE_TEXT_LIMIT ''oh hihi''"
proof -
  let ?r = "extract_sse_text sample_loads sample_chunk [''oh '']"
  have "list_all (\<lambda>e. \<not> isl (text_delta e)) (chunk_events sample_loads sample_chunk)" by code_simp
  then have "fst ?r = None" by (simp add: extract_sse_text_def take_text_ok)
  then have run: "?r = (None, snd ?r)" by (metis prod.collapse)
  have es: "deltas (chunk_events sample_loads sample_chunk) = [''hi'', ''hi'']" by code_simp
  have "length (concat [''oh '']) = 3" by simp
  then have "length (concat [''oh '']) \<le> RESPONSE_TEXT_LIMIT" by (simp only: RESPONSE_TEXT_LIMIT_def)
  from conjunct1 [OF sse_text_capped [OF run this]] show ?thesis
    unfolding es by simp
qed

subsection \<open>Local answers\<close>

lemma split_char_self [simp]: "split_char d (d # b) = [] # split_char d b"
  by (simp add: split_char_ne split: list.split)

lemma split_char_sep: "d \<notin> set a \<Longrightarrow> split_char d (a @ d # b) = a # split_char d b"
proof (induction a)
  case Nil
  show ?case by (simp only: append_Nil split_char_self)
qed auto

lemma chunk_events_event:
  assumes "CHR 0x0A \<notin> set name" and "CHR 0x0A \<notin> set (dumps j)" and "dumps j \<noteq> []"
    and "loads (dumps j) = Some j"
  shows "chunk_events loads (sse_event dumps (name, j) @ rest) = j # chunk_events loads rest"
proof -
  have "sse_event dumps (name, j) @ rest =
      (''event: '' @ name) @ CHR 0x0A # (''data: '' @ dumps j) @ CHR 0x0A # [] @ CHR 0x0A # rest"
    by (simp add: sse_event_def nl_def)
  moreover have "CHR 0x0A \<notin> set (''event: '' @ name)" "CHR 0x0A \<notin> set (''data: '' @ dumps j)"
    using assms(1,2) by simp_all
  ultimately have "split_char CHR 0x0A (sse_event dumps (name, j) @ rest) =
      (''event: '' @ name) # (''data: '' @ dumps j) # [] # split_char CHR 0x0A rest"
    by (simp only: split_char_sep split_char_self append_Nil not_False_eq_True)
  moreover have "data_payload (''event: '' @ name) = None" "data_payload [] = None"
    "data_payload (''data: '' @ dumps j) = Some (dumps j)"
    using assms(3) by (simp_all add: data_payload_def startswith_def)
  ultimately show ?thesis
    by (simp add: chunk_events_def List.map_filter_simps assms(4))
qed

definition serialised :: "(string \<Rightarrow> json option) \<Rightarrow> (json \<Rightarrow> string) \<Rightarrow> json \<Rightarrow> bool" where
  "serialised loads dumps j \<longleftrightarrow>
     loads (dumps j) = Some j \<and> CHR 0x0A \<notin> set (dumps j) \<and> dumps j \<noteq> []"

lemma chunk_events_events:
  "list_all (\<lambda>ev. CHR 0x0A \<notin> set (fst ev) \<and> serialised loads dumps (snd ev)) evs \<Longrightarrow>
   chunk_events loads (concat (map (sse_event dumps) evs)) = map snd evs"
proof (induction evs)
  case Nil
  show ?case by (simp add: chunk_events_def List.map_filter_simps data_payload_def startswith_def)
next
  case (Cons ev evs)
  then show ?case
    by (cases ev) (simp add: chunk_events_event serialised_def)
qed

text \<open>(C34) A local answer is the same streamed or not: the events of the streamed form, serialised and
  read back, carry exactly the text of the JSON form, one message id and a clean stop.\<close>

theorem local_answer_same_streamed:
  assumes "\<forall>ev \<in> set (local_message_sse i md model). serialised loads dumps (snd ev)"
    and "md \<noteq> []" and "length md \<le> RESPONSE_TEXT_LIMIT"
    and "chunk = concat (map (sse_event dumps) (local_message_sse i md model))"
  shows "extract_sse_text loads chunk [] = (None, [md]) \<and>
    extract_response_text (dict_of (local_message i md model)) = Inr (Some md) \<and>
    extract_sse_thread_marks loads chunk no_marks =
      (None, \<lparr>mark_id = Some i, mark_stopped = True, mark_error = False\<rparr>)"
proof -
  have "list_all (\<lambda>ev. CHR 0x0A \<notin> set (fst ev) \<and> serialised loads dumps (snd ev)) (local_message_sse i md model)"
    using assms(1) by (simp add: local_message_sse_def)
  note events = chunk_events_events [OF this, folded assms(4)]
  have "0 < RESPONSE_TEXT_LIMIT" by (simp add: RESPONSE_TEXT_LIMIT_def)
  with assms(2,3) have "extract_sse_text loads chunk [] = (None, [md])"
    by (simp add: extract_sse_text_def events local_message_sse_def text_delta_def dict_or_empty_def or_none_def)
  moreover have "extract_response_text (dict_of (local_message i md model)) = Inr (Some md)"
    using assms(2,3) \<open>0 < RESPONSE_TEXT_LIMIT\<close>
    by (simp add: extract_response_text_def local_message_def or_none_def)
  moreover have "extract_sse_thread_marks loads chunk no_marks =
      (None, \<lparr>mark_id = Some i, mark_stopped = True, mark_error = False\<rparr>)"
    by (simp add: extract_sse_thread_marks_def events local_message_sse_def mark_event_def
        dict_or_empty_def no_marks_def)
  ultimately show ?thesis by blast
qed

lemma local_answer_same_streamed_witness:
  "\<exists>loads dumps. extract_sse_text loads
     (concat (map (sse_event dumps) (local_message_sse ''m'' ''hi'' JNull))) [] = (None, [''hi''])"
proof -
  define dumps where "dumps = (\<lambda>j. case event_type j of JStr t \<Rightarrow> t | _ \<Rightarrow> [])"
  define loads where "loads = (\<lambda>s. map_of (local_message_sse ''m'' ''hi'' JNull) s)"
  have "\<forall>ev \<in> set (local_message_sse ''m'' ''hi'' JNull). serialised loads dumps (snd ev)"
    by (simp add: serialised_def loads_def dumps_def local_message_sse_def event_type_def)
  from local_answer_same_streamed [OF this _ _ refl] show ?thesis
    by (auto simp: RESPONSE_TEXT_LIMIT_def)
qed

end
