(* ===== verification/Thread_Routing.thy ===== *)
theory Thread_Routing
  imports Router_Props Session_State Response_Shaping
begin

text \<open>
  \<^verbatim>\<open>anthrouter/handlers.py\<close>, \<open>_route\<close> and the functions it calls: the routing of a
  Thread continuation, of a Thread replay and of every other request, the tier cache, and the
  context observation recorded when the response has been measured.

  \<open>request\<close> holds what one request reads and writes: its payload, the shared session and router
  states, and the per-request fields of the handler.  The clock is read twice at most: \<open>now\<close> when a
  handoff is looked up and \<open>later\<close> when one is stored.
\<close>

record handler_config =
  routing_config :: router_config
  lock_requested_model :: string
  model_aliases :: aliases

record request =
  rq_payload :: jdict
  rq_sessions :: session_state
  rq_router :: rstate
  reclassified_from :: "string option"
  rq_ctx_key :: "string option"
  rq_estimate :: int

type_synonym routed = "(exn + decision) \<times> request"

definition raw_model :: "request \<Rightarrow> json" where
  "raw_model rq = jget ''model'' (rq_payload rq)"

definition requested_text :: "env \<Rightarrow> request \<Rightarrow> string" where
  "requested_text env rq = py_str (env_repr env) (raw_model rq)"

text \<open>\<open>lock if lock != 'off' else None\<close>; the empty string is Python's falsy value.\<close>

definition baseline_lock :: "handler_config \<Rightarrow> string" where
  "baseline_lock hc = (if lock_requested_model hc \<noteq> ''off'' then lock_requested_model hc else [])"

definition set_model :: "string \<Rightarrow> request \<Rightarrow> request" where
  "set_model m rq = rq\<lparr>rq_payload := jset ''model'' (JStr m) (rq_payload rq)\<rparr>"

definition routing_on :: "string option \<Rightarrow> session_state \<Rightarrow> bool" where
  "routing_on sess_key s \<longleftrightarrow> sess_key \<noteq> None \<and> model_routing_enabled sess_key s"

text \<open>\<open>dataclasses.replace\<close> of the four fields every handler decision sets.\<close>

definition redecide :: "string \<Rightarrow> string \<Rightarrow> string \<Rightarrow> decision \<Rightarrow> decision" where
  "redecide requested routed reason d =
     d\<lparr>requested_model := requested, routed_model := routed, applied := (routed \<noteq> requested),
       reason_code := reason\<rparr>"

definition run_router :: "env \<Rightarrow> router_config \<Rightarrow> route_args \<Rightarrow> request \<Rightarrow> routed" where
  "run_router env cfg ra rq =
     (case route_model env cfg ra (rq_payload rq) (rq_router rq) of
        (r, payload, st) \<Rightarrow> (r, rq\<lparr>rq_payload := payload, rq_router := st\<rparr>))"

section \<open>Continuations\<close>

definition unknown_pin :: "env \<Rightarrow> handler_config \<Rightarrow> request \<Rightarrow> routed" where
  "unknown_pin env hc rq =
     (let requested = requested_text env rq; lock = lock_requested_model hc in
      if lock \<noteq> ''off''
      then (Inr (decide requested lock None ''thread_pin_unknown''), set_model lock rq)
      else (Inr (decide requested requested None ''thread_pin_unknown''), rq))"

definition pin_to :: "string \<Rightarrow> string \<Rightarrow> decision \<Rightarrow> request \<Rightarrow> routed" where
  "pin_to requested pinned d rq =
     (Inr (redecide requested pinned ''thread_pinned'' d), set_model pinned rq)"

definition bare_pin :: "string \<Rightarrow> string \<Rightarrow> request \<Rightarrow> routed" where
  "bare_pin requested pinned = pin_to requested pinned (decide requested pinned None ''thread_pinned'')"

definition peek_for ::
  "rat \<Rightarrow> (string option \<times> string) option \<Rightarrow> session_state \<Rightarrow> handoff option \<times> session_state" where
  "peek_for now key s = (case key of None \<Rightarrow> (None, s) | Some k \<Rightarrow> peek_handoff now k s)"

definition take_for ::
  "rat \<Rightarrow> (string option \<times> string) option \<Rightarrow> session_state \<Rightarrow> handoff option \<times> session_state" where
  "take_for now key s = (case key of None \<Rightarrow> (None, s) | Some k \<Rightarrow> take_handoff now k s)"

text \<open>The handoff's decision with the classifier's usage removed: no call is made for it.\<close>

definition replay_handoff :: "string \<Rightarrow> string \<Rightarrow> handoff \<Rightarrow> decision" where
  "replay_handoff requested reason h =
     (redecide requested (ho_model h) reason (ho_decision h))
       \<lparr>clf_model := None, clf_input_tokens := 0, clf_output_tokens := 0\<rparr>"

definition continuation_args :: "handler_config \<Rightarrow> thread_pin \<Rightarrow> route_args" where
  "continuation_args hc pin =
     \<lparr>cached_tier = None, context_tokens = 0, estimate_ratio = 1, override_mode = [], ctx_key = None,
      baseline = baseline_lock hc, prior_response = Option.bind (pin_response_text pin) or_none\<rparr>"

definition store_for ::
  "rat \<Rightarrow> (string option \<times> string) option \<Rightarrow> decision \<Rightarrow> session_state \<Rightarrow> session_state" where
  "store_for later key d s =
     (case key of None \<Rightarrow> s | Some k \<Rightarrow> store_handoff later k (routed_model d) d s)"

definition continuation_classified ::
  "env \<Rightarrow> handler_config \<Rightarrow> rat \<Rightarrow> string option \<Rightarrow> (string option \<times> string) option \<Rightarrow> thread_pin \<Rightarrow>
   request \<Rightarrow> routed" where
  "continuation_classified env hc later sess_key key pin rq =
     (let requested = requested_text env rq;
          cfg = (routing_config hc)\<lparr>auto_model_routing := routing_on sess_key (rq_sessions rq)\<rparr>
      in case run_router env cfg (continuation_args hc pin) rq of
           (Inl e, rq') \<Rightarrow> (Inl e, rq')
         | (Inr d, rq') \<Rightarrow>
             if classification d = None \<and> reason_code d \<noteq> ''size_forced_long_context''
             then pin_to requested (pin_model pin) d rq'
             else if same_model (model_aliases hc) (routed_model d) (pin_model pin)
             then pin_to requested (pin_model pin) d rq'
             else (Inr (d\<lparr>reason_code := ''thread_reclassified''\<rparr>),
                   rq'\<lparr>reclassified_from := Some (pin_model pin),
                       rq_sessions := store_for later key d (rq_sessions rq')\<rparr>))"

definition route_continuation ::
  "env \<Rightarrow> handler_config \<Rightarrow> rat \<Rightarrow> rat \<Rightarrow> string option \<Rightarrow> (string option \<times> string) option \<Rightarrow>
   request \<Rightarrow> routed" where
  "route_continuation env hc now later sess_key key rq =
     (case thread_pin (previous_message_id (rq_payload rq)) (rq_sessions rq) of
        None \<Rightarrow> unknown_pin env hc rq
      | Some pin \<Rightarrow>
          let requested = requested_text env rq in
          if pin_long_context pin
          then bare_pin requested (pin_model pin)
                 (rq\<lparr>rq_payload := ensure_long_context_beta (rq_payload rq)\<rparr>)
          else if is_tool_result_only (rq_payload rq) then bare_pin requested (pin_model pin) rq
          else case peek_for now key (rq_sessions rq) of
                 (Some h, s) \<Rightarrow>
                   (Inr (replay_handoff requested ''thread_reclassified'' h),
                    rq\<lparr>rq_sessions := s, reclassified_from := Some (pin_model pin)\<rparr>)
               | (None, s) \<Rightarrow>
                   continuation_classified env hc later sess_key key pin (rq\<lparr>rq_sessions := s\<rparr>))"

section \<open>Replays\<close>

text \<open>\<open>last_thread_model(sess_key) or baseline_model or requested\<close>.\<close>

definition replay_model :: "handler_config \<Rightarrow> string option \<Rightarrow> string \<Rightarrow> session_state \<Rightarrow> string" where
  "replay_model hc sess_key requested s =
     (case Option.bind (last_thread_model sess_key s) or_none of
        Some m \<Rightarrow> m
      | None \<Rightarrow> if baseline_lock hc \<noteq> [] then baseline_lock hc else requested)"

definition replay_handoff_decision ::
  "string \<Rightarrow> route_args \<Rightarrow> int \<Rightarrow> handoff \<Rightarrow> decision" where
  "replay_handoff_decision requested ra est h =
     (replay_handoff requested ''thread_reclassified_replay'' h)
       \<lparr>estimated_tokens := est,
        predicted_tokens := max (py_round (of_int est * estimate_ratio ra)) (context_tokens ra),
        session_tokens := context_tokens ra, session_ratio := estimate_ratio ra\<rparr>"

definition replay_floor :: "env \<Rightarrow> router_config \<Rightarrow> route_args \<Rightarrow> request \<Rightarrow> int \<times> decision option \<times> jdict" where
  "replay_floor env cfg ra rq =
     (if auto_model_routing cfg \<and> is_model_auto_routable (raw_model rq)
      then size_floor cfg (requested_text env rq) (context_tokens ra) (estimate_ratio ra) (rq_payload rq)
      else (0, None, rq_payload rq))"

definition route_replay ::
  "env \<Rightarrow> handler_config \<Rightarrow> router_config \<Rightarrow> rat \<Rightarrow> string option \<Rightarrow> (string option \<times> string) option \<Rightarrow>
   route_args \<Rightarrow> request \<Rightarrow> routed" where
  "route_replay env hc cfg now sess_key key ra rq =
     (let requested = requested_text env rq;
          (est, floor_decision, payload) = replay_floor env cfg ra rq;
          (taken, s) = take_for now key (rq_sessions rq);
          rq' = rq\<lparr>rq_payload := payload, rq_sessions := s\<rparr>
      in case floor_decision of
           Some d \<Rightarrow>
             (Inr (if taken = None then d else d\<lparr>reason_code := ''thread_reclassified_replay''\<rparr>), rq')
         | None \<Rightarrow>
             (case taken of
                Some h \<Rightarrow>
                  (Inr (replay_handoff_decision requested ra est h), set_model (ho_model h) rq')
              | None \<Rightarrow>
                  if is_tool_result_only (rq_payload rq)
                  then let m = replay_model hc sess_key requested s in
                    (Inr (decide requested m None ''thread_replay_pinned''),
                     if m \<noteq> requested then set_model m rq' else rq')
                  else run_router env cfg (ra\<lparr>cached_tier := None\<rparr>) rq'))"

section \<open>The tier cache\<close>

definition cache_value :: "decision \<Rightarrow> string" where
  "cache_value d =
     (if reason_code d \<in> {''affirmation_classified'', ''affirmation_reclassified''}
      then (case Option.bind (cache_tier d) or_none of Some t \<Rightarrow> t | None \<Rightarrow> routed_model d)
      else routed_model d)"

definition cached_reason :: "string \<Rightarrow> string \<Rightarrow> string" where
  "cached_reason m cached =
     (if m \<noteq> cached then ''session_cached_tier_capped'' else ''session_cached_tier'')"

definition apply_tier_cache ::
  "router_config \<Rightarrow> tier_key option \<Rightarrow> decision \<Rightarrow> request \<Rightarrow> decision \<times> request" where
  "apply_tier_cache cfg tk d rq =
     (case tk of
        None \<Rightarrow> (d, rq)
      | Some k \<Rightarrow>
          if classification d \<noteq> None
          then (d, rq\<lparr>rq_sessions := set_routed_tier k (cache_value d) (rq_sessions rq)\<rparr>)
          else if reason_code d \<noteq> ''missing_final_user_text'' then (d, rq)
          else (case routed_tier k (rq_sessions rq) of
                  None \<Rightarrow> (d, rq)
                | Some cached \<Rightarrow>
                    let m = capped cfg cached (requested_model d) in
                    (d\<lparr>routed_model := m, applied := (m \<noteq> requested_model d),
                        reason_code := cached_reason m cached\<rparr>, set_model m rq)))"

section \<open>One request\<close>

definition key_model :: "handler_config \<Rightarrow> request \<Rightarrow> json" where
  "key_model hc rq =
     (if baseline_lock hc \<noteq> [] then JStr (baseline_lock hc)
      else if truthy (raw_model rq) then raw_model rq else JStr [])"

definition request_ctx_key ::
  "(string \<Rightarrow> string) \<Rightarrow> string option \<Rightarrow> request \<Rightarrow> string option" where
  "request_ctx_key sha sess_key rq =
     (if routing_on sess_key (rq_sessions rq) then context_key sha sess_key (rq_payload rq) else None)"

definition request_tier_key ::
  "env \<Rightarrow> (string \<Rightarrow> string) \<Rightarrow> handler_config \<Rightarrow> string option \<Rightarrow> request \<Rightarrow> tier_key option" where
  "request_tier_key env sha hc sess_key rq =
     map_option (\<lambda>k. (k, requested_tier (env_repr env) (key_model hc rq)))
       (request_ctx_key sha sess_key rq)"

text \<open>A per-session override reaches the router only when the request has a session key.\<close>

definition request_config :: "handler_config \<Rightarrow> string option \<Rightarrow> request \<Rightarrow> router_config" where
  "request_config hc sess_key rq =
     (if sess_key \<noteq> None
      then (routing_config hc)\<lparr>auto_model_routing := routing_on sess_key (rq_sessions rq)\<rparr>
      else routing_config hc)"

definition floor_key ::
  "(string \<Rightarrow> string) \<Rightarrow> handler_config \<Rightarrow> string option \<Rightarrow> request \<Rightarrow> string option" where
  "floor_key sha hc sess_key rq =
     (if 0 < long_context_threshold (routing_config hc) then request_ctx_key sha sess_key rq else None)"

definition request_args ::
  "env \<Rightarrow> (string \<Rightarrow> string) \<Rightarrow> handler_config \<Rightarrow> string option \<Rightarrow> request \<Rightarrow> route_args" where
  "request_args env sha hc sess_key rq =
     (let (context_floor, ratio) =
            (case floor_key sha hc sess_key rq of
               Some k \<Rightarrow> context_of k (rq_sessions rq) | None \<Rightarrow> (0, 1))
      in \<lparr>cached_tier =
            Option.bind (request_tier_key env sha hc sess_key rq) (\<lambda>k. routed_tier k (rq_sessions rq)),
          context_tokens = context_floor, estimate_ratio = ratio, override_mode = [],
          ctx_key = request_ctx_key sha sess_key rq, baseline = baseline_lock hc,
          prior_response = None\<rparr>)"

definition route_fresh ::
  "env \<Rightarrow> (string \<Rightarrow> string) \<Rightarrow> handler_config \<Rightarrow> string option \<Rightarrow> request \<Rightarrow> routed" where
  "route_fresh env sha hc sess_key rq =
     (let cfg = request_config hc sess_key rq in
      case run_router env cfg (request_args env sha hc sess_key rq) rq of
        (Inl e, rq') \<Rightarrow> (Inl e, rq')
      | (Inr d, rq') \<Rightarrow>
          (case apply_tier_cache cfg (request_tier_key env sha hc sess_key rq) d rq' of
             (d', rq'') \<Rightarrow> (Inr d', rq'')))"

definition route_request ::
  "env \<Rightarrow> (string \<Rightarrow> string) \<Rightarrow> handler_config \<Rightarrow> rat \<Rightarrow> rat \<Rightarrow> string option \<Rightarrow>
   (string option \<times> string) option \<Rightarrow> request \<Rightarrow> routed" where
  "route_request env sha hc now later sess_key key rq =
     (if is_thread_continuation (rq_payload rq)
      then route_continuation env hc now later sess_key key rq
      else case (if is_thread_replay (rq_payload rq)
                 then route_replay env hc (request_config hc sess_key rq) now sess_key key
                        (request_args env sha hc sess_key rq) rq
                 else route_fresh env sha hc sess_key rq) of
             (Inl e, rq') \<Rightarrow> (Inl e, rq')
           | (Inr d, rq') \<Rightarrow>
               (Inr d, rq'\<lparr>rq_ctx_key := floor_key sha hc sess_key rq,
                          rq_estimate := estimated_tokens d\<rparr>))"

section \<open>After the response\<close>

definition measured_input :: "stats \<Rightarrow> int" where
  "measured_input st =
     stat st ''input_tokens'' + stat st ''cache_creation_tokens'' + stat st ''cache_read_tokens''"

definition record_session_context :: "stats \<Rightarrow> request \<Rightarrow> request" where
  "record_session_context st rq =
     (case Option.bind (rq_ctx_key rq) or_none of
        None \<Rightarrow> rq
      | Some k \<Rightarrow>
          let measured = measured_input st;
              context_floor = measured + stat st ''output_tokens''
          in if context_floor \<le> 0 then rq
             else rq\<lparr>rq_sessions := record_context k context_floor
                      (calibrated_ratio measured (rq_estimate rq) (snd (context_of k (rq_sessions rq))))
                      (rq_sessions rq)\<rparr>)"

definition security_monitor_passthrough :: "env \<Rightarrow> request \<Rightarrow> decision" where
  "security_monitor_passthrough env rq =
     decide (requested_text env rq) (requested_text env rq) None ''security_monitor_passthrough''"

definition stats_usage :: "stats \<Rightarrow> usage" where
  "stats_usage st =
     \<lparr>u_input = stat st ''input_tokens'', u_output = stat st ''output_tokens'',
      u_cache_creation = stat st ''cache_creation_tokens'', u_cache_read = stat st ''cache_read_tokens''\<rparr>"

text \<open>\<open>_compute_savings\<close>: net savings and classifier overhead.\<close>

definition classifier_overhead :: "decision \<Rightarrow> rat option" where
  "classifier_overhead d =
     (case clf_model d of
        None \<Rightarrow> Some 0
      | Some m \<Rightarrow>
          compute_cost m \<lparr>u_input = clf_input_tokens d, u_output = clf_output_tokens d,
                          u_cache_creation = 0, u_cache_read = 0\<rparr>)"

definition compute_savings :: "decision \<Rightarrow> stats \<Rightarrow> rat option \<times> rat option" where
  "compute_savings d st =
     (case classifier_overhead d of
        None \<Rightarrow> (None, None)
      | Some overhead \<Rightarrow>
          if st = [] then (None, Some overhead)
          else (case (compute_cost (requested_model d) (stats_usage st),
                      compute_cost (routed_model d) (stats_usage st)) of
                  (Some a, Some b) \<Rightarrow> (Some (a - b - overhead), Some overhead)
                | _ \<Rightarrow> (None, Some overhead)))"

end
