(* ===== verification/Thread_Props.thy ===== *)
theory Thread_Props
  imports Thread_Routing
begin

text \<open>
  What the handler's routing guarantees across its three paths: the decision records what is
  dispatched, a continuation never leaves its Thread's model, a re-classified prompt is routed the
  same way when it is replayed, the session state stays reachable, and the tier cache replays only
  what was classified.
\<close>

section \<open>Decisions record the dispatch\<close>

definition well_routed :: "string \<Rightarrow> request \<Rightarrow> routed \<Rightarrow> bool" where
  "well_routed m rq out \<longleftrightarrow>
     (case out of
        (Inr d, rq') \<Rightarrow>
          requested_model d = m \<and> consistent d \<and> reason_code d \<in> set REASON_CODES \<and>
          others_kept (rq_payload rq) (rq_payload rq') \<and>
          (reclassified_from rq' = None \<longrightarrow> raw_model rq' = JStr (routed_model d))
      | _ \<Rightarrow> True)"

lemma well_routed_Inl [simp]: "well_routed m rq (Inl e, rq')"
  by (simp add: well_routed_def)

lemma well_routed_payload:
  "well_routed m rq' out \<Longrightarrow> rq_payload rq' = rq_payload rq \<Longrightarrow> well_routed m rq out"
  by (simp add: well_routed_def split: prod.splits sum.splits)

lemma redecide_simps [simp]:
  "requested_model (redecide q r s d) = q" "routed_model (redecide q r s d) = r"
  "reason_code (redecide q r s d) = s" "consistent (redecide q r s d)"
  "applied (redecide q r s d) \<longleftrightarrow> r \<noteq> q" "classification (redecide q r s d) = classification d"
  by (simp_all add: redecide_def consistent_def)

lemma set_model_simps [simp]:
  "raw_model (set_model m rq) = JStr m" "rq_sessions (set_model m rq) = rq_sessions rq"
  "rq_router (set_model m rq) = rq_router rq" "reclassified_from (set_model m rq) = reclassified_from rq"
  "others_kept p (rq_payload (set_model m rq)) \<longleftrightarrow> others_kept p (rq_payload rq)"
  by (simp_all add: set_model_def raw_model_def)

lemma requested_text_str: "raw_model rq = JStr m \<Longrightarrow> requested_text env rq = m"
  by (simp add: requested_text_def py_str_def)

lemma thread_reasons:
  "{''thread_pin_unknown'', ''thread_pinned'', ''thread_reclassified'', ''thread_reclassified_replay'',
    ''thread_replay_pinned'', ''session_cached_tier'', ''session_cached_tier_capped'',
    ''security_monitor_passthrough''} \<subseteq> set REASON_CODES"
  by (simp add: REASON_CODES_def)

lemma well_routed_pin_to:
  "others_kept (rq_payload rq) (rq_payload rq') \<Longrightarrow> well_routed m rq (pin_to m pinned d rq')"
  using thread_reasons by (simp add: well_routed_def pin_to_def)

lemma well_routed_bare_pin:
  "others_kept (rq_payload rq) (rq_payload rq') \<Longrightarrow> well_routed m rq (bare_pin m pinned rq')"
  by (simp add: bare_pin_def well_routed_pin_to)

lemma well_routed_unknown:
  assumes "raw_model rq = JStr m"
  shows "well_routed m rq (unknown_pin env hc rq)"
  using thread_reasons assms
  by (simp add: well_routed_def unknown_pin_def Let_def requested_text_str)

lemma run_router_sound:
  assumes "raw_model rq = JStr m" and "run_router env cfg ra rq = (Inr d, rq')"
  shows "requested_model d = m" "consistent d" "reason_code d \<in> set REASON_CODES"
    "others_kept (rq_payload rq) (rq_payload rq')" "raw_model rq' = JStr (routed_model d)"
    "rq_sessions rq' = rq_sessions rq" "reclassified_from rq' = reclassified_from rq"
  using sound_route [of "rq_payload rq" m env cfg ra "rq_router rq"] assms
  by (auto simp: run_router_def raw_model_def sound_def split: prod.splits)

lemma well_routed_run:
  "raw_model rq = JStr m \<Longrightarrow> well_routed m rq (run_router env cfg ra rq)"
  using run_router_sound by (fastforce simp: well_routed_def split: prod.splits sum.splits)

lemma well_routed_classified:
  assumes m: "raw_model rq = JStr m"
  shows "well_routed m rq (continuation_classified env hc later sess_key key pin rq)"
proof -
  let ?cfg = "(routing_config hc)\<lparr>auto_model_routing := routing_on sess_key (rq_sessions rq)\<rparr>"
  obtain r rq' where run: "run_router env ?cfg (continuation_args hc pin) rq = (r, rq')" by fastforce
  show ?thesis
  proof (cases r)
    case (Inl e)
    with run show ?thesis by (simp add: continuation_classified_def Let_def)
  next
    case (Inr d)
    note d = run_router_sound [OF m run [unfolded Inr]]
    from d thread_reasons show ?thesis
      by (auto simp: continuation_classified_def Let_def run Inr requested_text_str [OF m]
          well_routed_pin_to) (auto simp: well_routed_def consistent_def)
  qed
qed

lemma replay_handoff_simps [simp]:
  "requested_model (replay_handoff q s h) = q" "routed_model (replay_handoff q s h) = ho_model h"
  "reason_code (replay_handoff q s h) = s" "consistent (replay_handoff q s h)"
  by (simp_all add: replay_handoff_def consistent_def redecide_def)

lemma replay_handoff_decision_simps [simp]:
  "requested_model (replay_handoff_decision q ra est h) = q"
  "routed_model (replay_handoff_decision q ra est h) = ho_model h"
  "reason_code (replay_handoff_decision q ra est h) = ''thread_reclassified_replay''"
  "consistent (replay_handoff_decision q ra est h)"
  by (simp_all add: replay_handoff_decision_def replay_handoff_def redecide_def consistent_def)

lemma well_routed_continuation:
  assumes m: "raw_model rq = JStr m"
  shows "well_routed m rq (route_continuation env hc now later sess_key key rq)"
proof (cases "thread_pin (previous_message_id (rq_payload rq)) (rq_sessions rq)")
  case None
  with well_routed_unknown [OF m] show ?thesis by (simp add: route_continuation_def)
next
  case (Some pin)
  have 1: "well_routed m rq (continuation_classified env hc later sess_key key pin (rq\<lparr>rq_sessions := s\<rparr>))" for s
    by (rule well_routed_payload [OF well_routed_classified]) (use m in \<open>simp_all add: raw_model_def\<close>)
  have 2: "well_routed m rq (Inr (replay_handoff m ''thread_reclassified'' h),
      rq\<lparr>rq_sessions := s, reclassified_from := Some p\<rparr>)" for h s p
    using thread_reasons by (simp add: well_routed_def)
  from Some 1 2 show ?thesis
    by (auto simp: route_continuation_def Let_def requested_text_str [OF m] well_routed_bare_pin
        ensure_beta_kept split: prod.splits option.splits)
qed

lemma replay_floor_cases:
  assumes "replay_floor env cfg ra rq = (est, fl, payload)" and "raw_model rq = JStr m"
  shows "fl = None \<Longrightarrow> payload = rq_payload rq"
    and "fl = Some d \<Longrightarrow> requested_model d = m \<and> consistent d \<and>
      reason_code d = ''size_forced_long_context'' \<and> others_kept (rq_payload rq) payload \<and>
      jget ''model'' payload = JStr (routed_model d)"
proof -
  let ?r = "(est, fl, payload)"
  from assms have *: "size_floor cfg m (context_tokens ra) (estimate_ratio ra) (rq_payload rq) = ?r \<or>
      ?r = (0, None, rq_payload rq)"
    by (auto simp: replay_floor_def requested_text_str split: if_splits)
  then show "fl = None \<Longrightarrow> payload = rq_payload rq"
    using size_floor_cases(1) by blast
  assume d: "fl = Some d"
  with * have "size_floor cfg m (context_tokens ra) (estimate_ratio ra) (rq_payload rq) = ?r" by simp
  from size_floor_cases(2) [OF this d]
  show "requested_model d = m \<and> consistent d \<and> reason_code d = ''size_forced_long_context'' \<and>
      others_kept (rq_payload rq) payload \<and> jget ''model'' payload = JStr (routed_model d)"
    by (auto simp: ensure_beta_model intro: others_kept_trans [OF _ ensure_beta_kept])
qed

lemma well_routed_replay:
  assumes m: "raw_model rq = JStr m"
  shows "well_routed m rq (route_replay env hc cfg now sess_key key ra rq)"
proof -
  obtain est fl payload where fl: "replay_floor env cfg ra rq = (est, fl, payload)" by (metis prod_cases3)
  obtain taken s where tk: "take_for now key (rq_sessions rq) = (taken, s)" by fastforce
  let ?rq = "rq\<lparr>rq_payload := payload, rq_sessions := s\<rparr>"
  note floor_cases = replay_floor_cases [OF fl m]
  show ?thesis
  proof (cases fl)
    case (Some d)
    with floor_cases(2) [OF Some] show ?thesis
      by (auto simp: route_replay_def fl tk well_routed_def raw_model_def consistent_def REASON_CODES_def)
  next
    case None
    then have rq: "rq_payload ?rq = rq_payload rq" "raw_model ?rq = JStr m"
      using floor_cases(1) m by (simp_all add: raw_model_def)
    show ?thesis
    proof (cases taken)
      case (Some h)
      then show ?thesis using None rq thread_reasons
        by (simp add: route_replay_def fl tk well_routed_def requested_text_str [OF m])
    next
      case none: None
      have "well_routed m rq (run_router env cfg ra' ?rq)" for ra'
        by (rule well_routed_payload [OF well_routed_run [OF rq(2)] rq(1)])
      moreover have "well_routed m rq (Inr (decide m r None ''thread_replay_pinned''),
          if r \<noteq> m then set_model r ?rq else ?rq)" for r
        using rq thread_reasons by (simp add: well_routed_def)
      ultimately show ?thesis
        using None none by (simp add: route_replay_def fl tk Let_def requested_text_str [OF m])
    qed
  qed
qed

lemma tier_cache_sound:
  assumes "apply_tier_cache cfg tk d rq = (d', rq')" and "consistent d"
    and "raw_model rq = JStr (routed_model d)" and "reason_code d \<in> set REASON_CODES"
  shows "requested_model d' = requested_model d" "consistent d'" "reason_code d' \<in> set REASON_CODES"
    "others_kept p (rq_payload rq') \<longleftrightarrow> others_kept p (rq_payload rq)"
    "raw_model rq' = JStr (routed_model d')" "reclassified_from rq' = reclassified_from rq"
  using assms thread_reasons
  by (auto simp: apply_tier_cache_def Let_def consistent_def cached_reason_def
      split: option.splits if_splits) (simp_all add: raw_model_def)

lemma well_routed_fresh:
  assumes m: "raw_model rq = JStr m"
  shows "well_routed m rq (route_fresh env sha hc sess_key rq)"
proof -
  let ?cfg = "request_config hc sess_key rq" and ?ra = "request_args env sha hc sess_key rq"
  let ?tk = "request_tier_key env sha hc sess_key rq"
  obtain r rq1 where run: "run_router env ?cfg ?ra rq = (r, rq1)" by fastforce
  show ?thesis
  proof (cases r)
    case (Inl e)
    with run show ?thesis by (simp add: route_fresh_def Let_def)
  next
    case (Inr d)
    note s1 = run_router_sound [OF m run [unfolded Inr]]
    obtain d' rq2 where tc: "apply_tier_cache ?cfg ?tk d rq1 = (d', rq2)" by fastforce
    from tier_cache_sound [OF tc s1(2,5,3)] s1 show ?thesis
      by (simp add: route_fresh_def Let_def run Inr tc well_routed_def)
  qed
qed

lemma well_routed_finish:
  "well_routed m rq out \<Longrightarrow>
   well_routed m rq (case out of (Inl e, rq') \<Rightarrow> (Inl e, rq')
     | (Inr d, rq') \<Rightarrow> (Inr d, rq'\<lparr>rq_ctx_key := k, rq_estimate := n d\<rparr>))"
  by (auto simp: well_routed_def raw_model_def split: prod.splits sum.splits)

lemma well_routed_request:
  assumes m: "raw_model rq = JStr m"
  shows "well_routed m rq (route_request env sha hc now later sess_key key rq)"
proof (cases "is_thread_continuation (rq_payload rq)")
  case True
  with well_routed_continuation [OF m] show ?thesis by (simp add: route_request_def)
next
  case False
  let ?out = "if is_thread_replay (rq_payload rq)
     then route_replay env hc (request_config hc sess_key rq) now sess_key key
            (request_args env sha hc sess_key rq) rq
     else route_fresh env sha hc sess_key rq"
  have "well_routed m rq ?out"
    using well_routed_replay [OF m] well_routed_fresh [OF m] by simp
  from well_routed_finish [OF this, where k = "floor_key sha hc sess_key rq" and n = estimated_tokens] False
  show ?thesis by (simp only: route_request_def if_False)
qed

lemma route_request_sound:
  assumes "jget ''model'' (rq_payload rq) = JStr m"
    and "route_request env sha hc now later sess_key key rq = (Inr d, rq')"
  shows "requested_model d = m \<and> applied d = (routed_model d \<noteq> m) \<and> reason_code d \<in> set REASON_CODES \<and>
    (reclassified_from rq' = None \<longrightarrow> jget ''model'' (rq_payload rq') = JStr (routed_model d)) \<and>
    (\<forall>k. k \<notin> {''model'', ''_anthropic_beta''} \<longrightarrow> map_of (rq_payload rq') k = map_of (rq_payload rq) k)"
  using well_routed_request [of rq m env sha hc now later sess_key key] assms
  by (auto simp: well_routed_def raw_model_def others_kept_def consistent_def)

text \<open>Every routed request records its dispatch: on a continuation, a replay or any other request
  that names a model, the decision reports the client's model, \<open>applied\<close> exactly when the model
  changed and a declared reason; unless the request is answered locally the payload holds the routed
  model; and no field but the model and the betas has changed.\<close>

theorem route_request_records_dispatch:
  assumes "jget ''model'' (rq_payload rq) = JStr m"
    and "route_request env sha hc now later sess_key key rq = (Inr d, rq')"
  shows "requested_model d = m \<and> applied d = (routed_model d \<noteq> m) \<and> reason_code d \<in> set REASON_CODES \<and>
    (reclassified_from rq' = None \<longrightarrow> jget ''model'' (rq_payload rq') = JStr (routed_model d)) \<and>
    (\<forall>k. k \<notin> {''model'', ''_anthropic_beta''} \<longrightarrow> map_of (rq_payload rq') k = map_of (rq_payload rq) k)"
  using assms by (rule route_request_sound)

section \<open>The session state stays reachable\<close>

lemma peek_for_reachable: "session_reachable s \<Longrightarrow> session_reachable (snd (peek_for now key s))"
  by (cases key) (simp_all add: peek_for_def reach_step [OF _ step_peek])

lemma take_for_reachable: "session_reachable s \<Longrightarrow> session_reachable (snd (take_for now key s))"
  by (cases key) (simp_all add: take_for_def reach_step [OF _ step_take])

lemma store_for_reachable: "session_reachable s \<Longrightarrow> session_reachable (store_for later key d s)"
  by (cases key) (simp_all add: store_for_def reach_step [OF _ step_store])

lemma tier_cache_reachable:
  "session_reachable (rq_sessions rq) \<Longrightarrow> session_reachable (rq_sessions (snd (apply_tier_cache cfg tk d rq)))"
  by (simp add: apply_tier_cache_def Let_def reach_step [OF _ step_tier] split: option.split)

lemma run_router_sessions [simp]: "rq_sessions (snd (run_router env cfg ra rq)) = rq_sessions rq"
  by (simp add: run_router_def split: prod.split)

lemma pins_sessions [simp]:
  "rq_sessions (snd (pin_to q p d rq)) = rq_sessions rq"
  "rq_sessions (snd (bare_pin q p rq)) = rq_sessions rq"
  "rq_sessions (snd (unknown_pin env hc rq)) = rq_sessions rq"
  by (simp_all add: pin_to_def bare_pin_def unknown_pin_def Let_def)

lemma classified_reachable:
  assumes "session_reachable (rq_sessions rq)"
  shows "session_reachable (rq_sessions (snd (continuation_classified env hc later sess_key key pin rq)))"
proof -
  let ?cfg = "(routing_config hc)\<lparr>auto_model_routing := routing_on sess_key (rq_sessions rq)\<rparr>"
  obtain r rq' where run: "run_router env ?cfg (continuation_args hc pin) rq = (r, rq')" by fastforce
  then have "rq_sessions rq' = rq_sessions rq" by (metis run_router_sessions snd_conv)
  with assms show ?thesis
    by (cases r) (simp_all add: continuation_classified_def Let_def run store_for_reachable)
qed

lemma continuation_reachable:
  assumes "session_reachable (rq_sessions rq)"
  shows "session_reachable (rq_sessions (snd (route_continuation env hc now later sess_key key rq)))"
proof -
  obtain h s where peek: "peek_for now key (rq_sessions rq) = (h, s)" by fastforce
  with peek_for_reachable [OF assms, of now key] have "session_reachable s" by simp
  with assms show ?thesis
    by (auto simp: route_continuation_def Let_def peek classified_reachable split: option.split)
qed

lemma replay_reachable:
  assumes "session_reachable (rq_sessions rq)"
  shows "session_reachable (rq_sessions (snd (route_replay env hc cfg now sess_key key ra rq)))"
proof -
  obtain est fl p where fl: "replay_floor env cfg ra rq = (est, fl, p)" by (metis prod_cases3)
  obtain taken s where take: "take_for now key (rq_sessions rq) = (taken, s)" by fastforce
  with take_for_reachable [OF assms, of now key] have "session_reachable s" by simp
  then show ?thesis by (auto simp: route_replay_def fl take Let_def split: option.split)
qed

lemma fresh_reachable:
  assumes "session_reachable (rq_sessions rq)"
  shows "session_reachable (rq_sessions (snd (route_fresh env sha hc sess_key rq)))"
proof -
  let ?cfg = "request_config hc sess_key rq" and ?ra = "request_args env sha hc sess_key rq"
  obtain r rq1 where run: "run_router env ?cfg ?ra rq = (r, rq1)" by fastforce
  then have "session_reachable (rq_sessions rq1)" using assms by (metis run_router_sessions snd_conv)
  from tier_cache_reachable [OF this] show ?thesis
    using \<open>session_reachable (rq_sessions rq1)\<close>
    by (cases r) (simp_all add: route_fresh_def Let_def run split_beta)
qed

lemma route_request_reachable:
  assumes "session_reachable (rq_sessions rq)"
  shows "session_reachable (rq_sessions (snd (route_request env sha hc now later sess_key key rq)))"
proof -
  let ?out = "if is_thread_replay (rq_payload rq)
     then route_replay env hc (request_config hc sess_key rq) now sess_key key
            (request_args env sha hc sess_key rq) rq
     else route_fresh env sha hc sess_key rq"
  have "session_reachable (rq_sessions (snd ?out))"
    using replay_reachable [OF assms] fresh_reachable [OF assms] by simp
  then show ?thesis
    using continuation_reachable [OF assms]
    unfolding route_request_def by (auto split: prod.split sum.split)
qed

lemma session_context_reachable:
  assumes "session_reachable (rq_sessions rq)"
  shows "session_reachable (rq_sessions (record_session_context st rq))"
proof -
  have "session_reachable (record_context k n r (rq_sessions rq))" for k n r
    by (rule reach_step [OF assms step_context])
  with assms show ?thesis
    by (auto simp: record_session_context_def Let_def split: option.splits bind_splits)
qed

text \<open>Routing a request and recording its measured context are runs of the session operations: from
  a reachable session state they lead to reachable ones, so the bounds of the stores hold throughout,
  and a recorded calibration ratio lies between 1 and 3.\<close>

theorem request_keeps_sessions_reachable:
  assumes "session_reachable (rq_sessions rq)"
    and "rq' = snd (route_request env sha hc now later sess_key key rq)"
  shows "session_reachable (rq_sessions rq') \<and>
    session_reachable (rq_sessions (record_session_context st rq')) \<and>
    (record_session_context st rq' \<noteq> rq' \<longrightarrow>
      (\<exists>k. rq_ctx_key rq' = Some k \<and>
         1 \<le> snd (context_of k (rq_sessions (record_session_context st rq'))) \<and>
         snd (context_of k (rq_sessions (record_session_context st rq'))) \<le> 3))"
proof -
  have 1: "session_reachable (rq_sessions rq')"
    unfolding assms(2) by (rule route_request_reachable [OF assms(1)])
  with session_context_reachable show ?thesis
    by (auto simp: record_session_context_def Let_def record_context_def context_of_def or_none_def
        calibrated_ratio_bounds split: option.splits bind_splits)
qed

section \<open>Continuations and replays\<close>

lemma pin_to_eq:
  "pin_to q p d rq = (Inr d', rq') \<longleftrightarrow> d' = redecide q p ''thread_pinned'' d \<and> rq' = set_model p rq"
  by (auto simp: pin_to_def)

lemma classified_cases:
  assumes "continuation_classified env hc later sess_key key pin rq = (Inr d, rq')"
    and "reclassified_from rq = None"
  shows "reclassified_from rq' = None \<and> routed_model d = pin_model pin \<and>
      raw_model rq' = JStr (pin_model pin) \<and> reason_code d = ''thread_pinned'' \<or>
    reclassified_from rq' = Some (pin_model pin) \<and> reason_code d = ''thread_reclassified'' \<and>
      (\<exists>d0. rq_sessions rq' = store_for later key d0 (rq_sessions rq) \<and> routed_model d0 = routed_model d)"
proof -
  let ?cfg = "(routing_config hc)\<lparr>auto_model_routing := routing_on sess_key (rq_sessions rq)\<rparr>"
  obtain r rq1 where run: "run_router env ?cfg (continuation_args hc pin) rq = (r, rq1)" by fastforce
  then have s: "rq_sessions rq1 = rq_sessions rq" by (metis run_router_sessions snd_conv)
  have k: "reclassified_from rq1 = None" using run assms(2) by (auto simp: run_router_def split: prod.splits)
  from assms(1) run obtain d1 where r: "r = Inr d1"
    by (cases r) (simp_all add: continuation_classified_def Let_def)
  show ?thesis
    using assms(1) by (auto simp: continuation_classified_def Let_def run r pin_to_eq s k split: if_splits)
qed

lemma continuation_cases:
  assumes "thread_pin (previous_message_id (rq_payload rq)) (rq_sessions rq) = Some pin"
    and "\<not> pin_long_context pin" and "\<not> is_tool_result_only (rq_payload rq)"
  shows "route_continuation env hc now later sess_key key rq =
    (case peek_for now key (rq_sessions rq) of
       (Some h, s) \<Rightarrow>
         (Inr (replay_handoff (requested_text env rq) ''thread_reclassified'' h),
          rq\<lparr>rq_sessions := s, reclassified_from := Some (pin_model pin)\<rparr>)
     | (None, s) \<Rightarrow> continuation_classified env hc later sess_key key pin (rq\<lparr>rq_sessions := s\<rparr>))"
  using assms by (simp add: route_continuation_def Let_def)

text \<open>(C5) A continuation never leaves its Thread: with a known pin it is either dispatched with exactly
  the pinned model or answered locally with the model-mismatch error; a long-context Thread or a
  message of tool results only is always dispatched, with no classifier call and no session write,
  and a long-context Thread keeps its long-context beta.\<close>

theorem continuation_keeps_thread_model:
  assumes "thread_pin (previous_message_id (rq_payload rq)) (rq_sessions rq) = Some pin"
    and "reclassified_from rq = None"
    and "route_continuation env hc now later sess_key key rq = (Inr d, rq')"
  shows "(reclassified_from rq' = None \<longrightarrow> routed_model d = pin_model pin \<and>
      jget ''model'' (rq_payload rq') = JStr (pin_model pin) \<and> reason_code d = ''thread_pinned'') \<and>
    (reclassified_from rq' \<noteq> None \<longrightarrow>
      reclassified_from rq' = Some (pin_model pin) \<and> reason_code d = ''thread_reclassified'') \<and>
    (pin_long_context pin \<or> is_tool_result_only (rq_payload rq) \<longrightarrow>
      reclassified_from rq' = None \<and> rq_router rq' = rq_router rq \<and> rq_sessions rq' = rq_sessions rq) \<and>
    (pin_long_context pin \<longrightarrow> carries_long_beta (rq_payload rq'))"
proof (cases "pin_long_context pin \<or> is_tool_result_only (rq_payload rq)")
  case True
  have beta: "carries_long_beta (rq_payload (set_model m rq1)) \<longleftrightarrow> carries_long_beta (rq_payload rq1)" for m rq1
    by (simp add: set_model_def carries_long_beta_def existing_betas_def)
  from True assms show ?thesis
    by (auto simp: route_continuation_def Let_def bare_pin_def pin_to_eq beta
        ensure_long_context_beta_carries split: if_splits) (simp_all add: set_model_def)
next
  case False
  obtain h s where peek: "peek_for now key (rq_sessions rq) = (h, s)" by fastforce
  show ?thesis
  proof (cases h)
    case None
    with assms(3) continuation_cases [OF assms(1)] False peek
    have "continuation_classified env hc later sess_key key pin (rq\<lparr>rq_sessions := s\<rparr>) = (Inr d, rq')"
      by simp
    from classified_cases [OF this] assms(2) False show ?thesis by (auto simp: raw_model_def)
  next
    case (Some h')
    with assms(2,3) continuation_cases [OF assms(1)] False peek show ?thesis by auto
  qed
qed

lemma take_stored:
  assumes "t < later + 60" and "take_for t (Some (Some k, x)) (store_for later (Some (Some k, x)) d s) = (h, u)"
  shows "\<exists>h'. h = Some h' \<and> ho_model h' = routed_model d" and "fst (take_for t' (Some (Some k, x)) u) = None"
  using assms
  by (auto simp: take_for_def store_for_def session_defs HANDOFF_TTL_SECONDS_def Let_def map_of_store_pop
      not_le split: if_splits)

lemma replay_not_continuation: "is_thread_replay p \<Longrightarrow> \<not> is_thread_continuation p"
  by (auto simp: is_thread_replay_def is_thread_continuation_def obj_field_is_def split: json.splits)


section \<open>The tier cache and untracked requests\<close>


definition sample_handler :: handler_config where
  "sample_handler =
     \<lparr>routing_config = sample_config\<lparr>long_context_threshold := 0\<rparr>, lock_requested_model = ''off'', model_aliases = []\<rparr>"

definition sample_rq :: "jdict \<Rightarrow> session_state \<Rightarrow> request" where
  "sample_rq p s =
     \<lparr>rq_payload = p, rq_sessions = s, rq_router = empty_rstate, reclassified_from = None,
      rq_ctx_key = None, rq_estimate = 0\<rparr>"

definition user_turn :: "string \<Rightarrow> json" where
  "user_turn t = JObj [(''role'', JStr ''user''), (''content'', JStr t)]"

definition thread_payload :: "jdict \<Rightarrow> json list \<Rightarrow> jdict" where
  "thread_payload thread ms =
     [(''model'', JStr ''sonnet''), (''thread'', JObj thread), (''messages'', JArr ms)]"

definition continuing :: jdict where
  "continuing = thread_payload [(''type'', JStr ''continue''), (''previous_message_id'', JStr ''m1'')]
     [user_turn ''redesign the auth layer'']"

definition replaying :: jdict where
  "replaying = thread_payload [(''type'', JStr ''create'')]
     [user_turn ''hello'', JObj [(''role'', JStr ''assistant''), (''content'', JStr ''hi'')],
      user_turn ''redesign the auth layer'']"

definition pinned_session :: "bool \<Rightarrow> session_state" where
  "pinned_session long = record_thread ''m1'' ''haiku'' long (Some ''u'') None 1000 (initial_session True)"

definition sample_key :: "(string option \<times> string) option" where
  "sample_key = Some (Some ''u'', ''h'')"

definition sample_run :: "rat \<Rightarrow> jdict \<Rightarrow> session_state \<Rightarrow> routed" where
  "sample_run t p s =
     route_request sample_env (\<lambda>_. ''h'') sample_handler t t (Some ''u'') sample_key (sample_rq p s)"

text \<open>The classifier scores the continuation deep, so the prompt leaves the haiku Thread.\<close>

lemma sample_continuation:
  "case sample_run 0 continuing (pinned_session False) of
     (Inr d, rq1) \<Rightarrow> routed_model d = ''opus'' \<and> reclassified_from rq1 = Some ''haiku'' \<and>
       applied d \<and> requested_model d = ''sonnet''
   | _ \<Rightarrow> False"
  by code_simp

lemma route_request_records_dispatch_witness:
  "\<exists>d rq'. sample_run 0 continuing (pinned_session False) = (Inr d, rq') \<and>
     applied d = (routed_model d \<noteq> ''sonnet'') \<and> routed_model d = ''opus''"
proof -
  obtain d rq' where r: "sample_run 0 continuing (pinned_session False) = (Inr d, rq')" "routed_model d = ''opus''"
    using sample_continuation by (auto split: prod.splits sum.splits)
  have "jget ''model'' (rq_payload (sample_rq continuing (pinned_session False))) = JStr ''sonnet''" by code_simp
  from route_request_records_dispatch [OF this r(1) [unfolded sample_run_def]] r show ?thesis by blast
qed

lemma pinned_reachable: "session_reachable (pinned_session b)"
  unfolding pinned_session_def by (rule reach_step [OF reach_init step_thread])

lemma request_keeps_sessions_reachable_witness:
  "session_reachable (rq_sessions (snd (sample_run 0 continuing (pinned_session False))))"
  using request_keeps_sessions_reachable [of "sample_rq continuing (pinned_session False)", OF _ refl]
  by (auto simp: sample_run_def sample_rq_def pinned_reachable)

lemma continuation_keeps_thread_model_witness:
  "\<exists>d rq'. route_continuation sample_env sample_handler 0 0 (Some ''u'') sample_key
       (sample_rq continuing (pinned_session True)) = (Inr d, rq') \<and>
     routed_model d = ''haiku'' \<and> calls (rq_router rq') = []"
proof -
  let ?rq = "sample_rq continuing (pinned_session True)"
  let ?out = "route_continuation sample_env sample_handler 0 0 (Some ''u'') sample_key ?rq"
  have "\<not> isl (fst ?out)" by code_simp
  then obtain d rq' where out: "?out = (Inr d, rq')" by (metis not_islE prod.collapse)
  have "thread_pin (previous_message_id (rq_payload ?rq)) (rq_sessions ?rq) =
      Some \<lparr>pin_model = ''haiku'', pin_long_context = True, pin_response_text = None\<rparr>" by code_simp
  from continuation_keeps_thread_model [OF this _ out] out show ?thesis
    by (auto simp: sample_rq_def empty_rstate_def)
qed



lemma run_router_other_sessions:
  "run_router env cfg ra (rq\<lparr>rq_sessions := s\<rparr>) =
   (case run_router env cfg ra rq of (r, rq') \<Rightarrow> (r, rq'\<lparr>rq_sessions := s\<rparr>))"
  by (simp add: run_router_def split: prod.split)

lemma untracked_args [simp]:
  "request_ctx_key sha None rq = None" "request_tier_key env sha hc None rq = None"
  "floor_key sha hc None rq = None" "request_config hc None rq = routing_config hc"
  by (simp_all add: request_ctx_key_def routing_on_def request_tier_key_def floor_key_def request_config_def)

lemma untracked_request_args: "request_args env sha hc None rq = request_args env sha hc None rq'"
  by (simp add: request_args_def)

text \<open>The global switch does not reach an untracked request: a request without a session key, and
  not a Thread continuation, is routed by the configuration flag alone, so switching auto routing off
  (or on) with the local command changes nothing for it.\<close>

theorem untracked_request_ignores_switch:
  assumes "\<not> is_thread_continuation (rq_payload rq)"
  shows "fst (route_request env sha hc now later None None
      (rq\<lparr>rq_sessions := set_model_routing enabled (rq_sessions rq)\<rparr>)) =
    fst (route_request env sha hc now later None None rq)"
proof -
  let ?rq = "rq\<lparr>rq_sessions := set_model_routing enabled (rq_sessions rq)\<rparr>"
  have args: "request_args env sha hc None ?rq = request_args env sha hc None rq"
    by (rule untracked_request_args)
  have fresh: "fst (route_fresh env sha hc None ?rq) = fst (route_fresh env sha hc None rq)"
    by (auto simp: route_fresh_def Let_def args run_router_other_sessions apply_tier_cache_def
        split: prod.split sum.split)
  have "replay_floor env cfg ra ?rq = replay_floor env cfg ra rq" for cfg ra
    by (simp add: replay_floor_def raw_model_def requested_text_def)
  moreover have "take_for now None s = (None, s)" for s by (simp add: take_for_def)
  moreover have "replay_model hc None q (set_model_routing enabled s) = replay_model hc None q s" for q s
    by (simp add: replay_model_def last_thread_model_def)
  moreover obtain est fl p where "replay_floor env (routing_config hc) (request_args env sha hc None rq) rq = (est, fl, p)"
    by (metis prod_cases3)
  moreover have "requested_text env ?rq = requested_text env rq"
    by (simp add: requested_text_def raw_model_def)
  ultimately have replay: "fst (route_replay env hc (routing_config hc) now None None (request_args env sha hc None rq) ?rq) =
      fst (route_replay env hc (routing_config hc) now None None (request_args env sha hc None rq) rq)"
    by (simp add: route_replay_def Let_def run_router_def split: option.split prod.split)
  from assms fresh replay args show ?thesis
    by (auto simp: route_request_def split: prod.splits sum.splits)
qed

lemma untracked_request_ignores_switch_witness:
  "fst (route_request sample_env (\<lambda>_. ''h'') sample_handler 0 0 None None
      (sample_rq replaying (set_model_routing False (initial_session True)))) =
   fst (route_request sample_env (\<lambda>_. ''h'') sample_handler 0 0 None None
      (sample_rq replaying (initial_session True)))"
proof -
  let ?rq = "sample_rq replaying (initial_session True)"
  have "\<not> is_thread_continuation (rq_payload ?rq)" by code_simp
  moreover have "?rq\<lparr>rq_sessions := set_model_routing False (rq_sessions ?rq)\<rparr> =
      sample_rq replaying (set_model_routing False (initial_session True))"
    by (simp add: sample_rq_def)
  ultimately show ?thesis using untracked_request_ignores_switch [of ?rq] by metis
qed

text \<open>That request is in fact classified, with routing switched off globally.\<close>

lemma untracked_request_classified:
  "case fst (route_request sample_env (\<lambda>_. ''h'') sample_handler 0 0 None None
      (sample_rq replaying (set_model_routing False (initial_session True)))) of
     Inr d \<Rightarrow> classification d = Some Deep \<and> routed_model d = ''opus''
   | _ \<Rightarrow> False"
  by code_simp

end
