(* ===== verification/Sse_Delivery.thy ===== *)
theory Sse_Delivery
  imports Thread_Routing
begin

text \<open>
  \<^verbatim>\<open>anthrouter/handlers.py\<close>, the streaming path: the wrapper that reads usage, text and Thread
  marks while it forwards the chunks and writes the request row at the end
  (\<open>_usage_sse_wrapper\<close>), and the delivery to the client with its two commit modes, keepalives and
  disconnects (\<open>_send_sse\<close>, \<open>_prime_sse_with_keepalive\<close>).

  An upstream stream is the list of its chunks and how it ends.  The client's socket is the list of
  what was written and the number of writes it still accepts.  The em dash of the row's error texts
  lies outside the modelled characters and is the argument \<open>dash\<close>.
\<close>

section \<open>The wrapper\<close>

record stream_config =
  sc_loads :: "string \<Rightarrow> json option"
  sc_int :: "string \<Rightarrow> int option"
  sc_thread_model :: "string option"
  sc_long_context :: bool
  sc_session_key :: "string option"
  sc_text_limit :: int
  sc_capture_text :: bool

record stream_state =
  ws_stats :: stats
  ws_text :: "string list"
  ws_marks :: thread_marks
  ws_recorded :: bool
  ws_errored :: bool
  ws_tail :: string
  ws_sessions :: session_state

definition start_stream :: "session_state \<Rightarrow> stream_state" where
  "start_stream s =
     \<lparr>ws_stats = no_stats, ws_text = [], ws_marks = no_marks, ws_recorded = False,
      ws_errored = False, ws_tail = [], ws_sessions = s\<rparr>"

definition clean_stop :: "thread_marks \<Rightarrow> bool" where
  "clean_stop m \<longleftrightarrow> mark_stopped m \<and> \<not> mark_error m \<and> mark_id m \<noteq> None"

definition pin_thread :: "stream_config \<Rightarrow> string \<Rightarrow> stream_state \<Rightarrow> stream_state" where
  "pin_thread sc model ws =
     (if clean_stop (ws_marks ws)
      then ws\<lparr>ws_sessions := record_thread (the (mark_id (ws_marks ws))) model (sc_long_context sc)
                (sc_session_key sc) (or_none (concat (ws_text ws))) (sc_text_limit sc) (ws_sessions ws),
              ws_recorded := True\<rparr>
      else ws)"

definition note_text :: "stream_config \<Rightarrow> string \<Rightarrow> stream_state \<Rightarrow> exn option \<times> stream_state" where
  "note_text sc chunk ws =
     (if sc_capture_text sc
      then (case extract_sse_text (sc_loads sc) chunk (ws_text ws) of
              (x, parts) \<Rightarrow> (x, ws\<lparr>ws_text := parts\<rparr>))
      else (None, ws))"

definition note_thread :: "stream_config \<Rightarrow> string \<Rightarrow> stream_state \<Rightarrow> exn option \<times> stream_state" where
  "note_thread sc chunk ws =
     (case sc_thread_model sc of
        None \<Rightarrow> (None, ws)
      | Some model \<Rightarrow>
          if ws_recorded ws then (None, ws)
          else (case extract_sse_thread_marks (sc_loads sc) chunk (ws_marks ws) of
                  (Some x, m) \<Rightarrow> (Some x, ws\<lparr>ws_marks := m\<rparr>)
                | (None, m) \<Rightarrow> (None, pin_thread sc model (ws\<lparr>ws_marks := m\<rparr>))))"

definition note_error :: "string \<Rightarrow> stream_state \<Rightarrow> stream_state" where
  "note_error chunk ws =
     ws\<lparr>ws_errored := (ws_errored ws \<or> py_in ''event: error'' (ws_tail ws @ chunk)),
        ws_tail := py_tail chunk 20\<rparr>"

text \<open>What happens to one chunk before it is yielded: the statistics, then the text, then the Thread.\<close>

definition take_chunk :: "stream_config \<Rightarrow> string \<Rightarrow> stream_state \<Rightarrow> exn option \<times> stream_state" where
  "take_chunk sc chunk ws =
     (case extract_sse_stats (sc_loads sc) (sc_int sc) chunk (ws_stats ws) of
        (Some x, st) \<Rightarrow> (Some x, ws\<lparr>ws_stats := st\<rparr>)
      | (None, st) \<Rightarrow>
          (case note_text sc chunk (ws\<lparr>ws_stats := st\<rparr>) of
             (Some x, ws1) \<Rightarrow> (Some x, ws1)
           | (None, ws1) \<Rightarrow>
               (case note_thread sc chunk ws1 of
                  (Some x, ws2) \<Rightarrow> (Some x, ws2)
                | (None, ws2) \<Rightarrow> (None, note_error chunk ws2))))"

text \<open>The chunks yielded, the exception a chunk raised, and the state.\<close>

fun take_chunks ::
  "stream_config \<Rightarrow> string list \<Rightarrow> stream_state \<Rightarrow> string list \<times> exn option \<times> stream_state" where
  "take_chunks sc [] ws = ([], None, ws)"
| "take_chunks sc (c # cs) ws =
     (case take_chunk sc c ws of
        (Some x, ws') \<Rightarrow> ([], Some x, ws')
      | (None, ws') \<Rightarrow>
          (case take_chunks sc cs ws' of (out, x, ws'') \<Rightarrow> (c # out, x, ws'')))"

text \<open>How the loop was left: at the end of the stream, by an exception, or closed by the consumer.\<close>

datatype ending = Finished | Raised exn | Closed

definition db_error :: "string \<Rightarrow> api_error \<Rightarrow> string" where
  "db_error dash a =
     (case upstream_status a of
        None \<Rightarrow> show_int (status_code a) @ dash @ err_type a
      | Some st \<Rightarrow>
          show_int st @ dash @ (case upstream_error_type a of Some t \<Rightarrow> t | None \<Rightarrow> ''None'') @
          '' (sent to client as '' @ show_int (status_code a) @ '')'')"

record request_row =
  row_status :: string
  row_stats :: stats
  row_error :: "string option"
  row_text :: "string option"

definition stream_row :: "string \<Rightarrow> ending \<Rightarrow> stream_state \<Rightarrow> request_row" where
  "stream_row dash e ws =
     (case e of
        Raised (RequestError a) \<Rightarrow>
          \<lparr>row_status = (if status_code a = 429 then ''rate_limited'' else ''error''), row_stats = [],
           row_error = Some (db_error dash a), row_text = or_none (concat (ws_text ws))\<rparr>
      | Raised (PyError _) \<Rightarrow>
          \<lparr>row_status = ''error'', row_stats = [],
           row_error = Some (''502'' @ dash @ ''upstream_failure''),
           row_text = or_none (concat (ws_text ws))\<rparr>
      | _ \<Rightarrow>
          \<lparr>row_status = (if ws_errored ws then ''error'' else ''success''), row_stats = ws_stats ws,
           row_error = (if ws_errored ws then Some ''sse_error'' else None),
           row_text = or_none (concat (ws_text ws))\<rparr>)"

text \<open>The whole wrapper over the chunks that were pulled from upstream: what it yielded, how it ended,
  the row, and the request afterwards.\<close>

definition usage_sse_wrapper ::
  "string \<Rightarrow> stream_config \<Rightarrow> jdict \<Rightarrow> string list \<Rightarrow> ending \<Rightarrow> request \<Rightarrow>
   string list \<times> ending \<times> request_row \<times> request" where
  "usage_sse_wrapper dash sc ratelimit chunks e rq =
     (case take_chunks sc chunks (start_stream (rq_sessions rq)) of
        (out, x, ws) \<Rightarrow>
          let e' = (case x of Some exc \<Rightarrow> Raised exc | None \<Rightarrow> e);
              rq' = record_session_context (ws_stats ws)
                      (rq\<lparr>rq_sessions := record_ratelimit ratelimit (ws_sessions ws)\<rparr>)
          in (out, e', stream_row dash e' ws, rq'))"

section \<open>Delivery\<close>

datatype wire =
    Status_200
  | Keepalive
  | Chunk string
  | Error_frame api_error
  | Http_error api_error
  | Http_502

text \<open>\<open>room\<close> is the number of writes the client still takes; None when it never goes away.\<close>

record conn =
  written :: "wire list"
  room :: "nat option"

definition open_conn :: "nat option \<Rightarrow> conn" where
  "open_conn r = \<lparr>written = [], room = r\<rparr>"

definition put :: "wire \<Rightarrow> conn \<Rightarrow> bool \<times> conn" where
  "put w c =
     (case room c of
        Some 0 \<Rightarrow> (False, c)
      | r \<Rightarrow> (True, c\<lparr>written := written c @ [w], room := map_option (\<lambda>n. n - 1) r\<rparr>))"

text \<open>A failed write of an error answer is swallowed.\<close>

definition put_quiet :: "wire \<Rightarrow> conn \<Rightarrow> conn" where
  "put_quiet w c = snd (put w c)"

text \<open>The keepalive loop while the first chunk is awaited: committed, still connected, connection.\<close>

fun keepalives :: "nat \<Rightarrow> bool \<Rightarrow> conn \<Rightarrow> bool \<times> bool \<times> conn" where
  "keepalives 0 committed c = (committed, True, c)"
| "keepalives (Suc n) committed c =
     (case (if committed then (True, c) else put Status_200 c) of
        (False, c1) \<Rightarrow> (True, False, c1)
      | (True, c1) \<Rightarrow>
          (case put Keepalive c1 of
             (False, c2) \<Rightarrow> (True, False, c2)
           | (True, c2) \<Rightarrow> keepalives n True c2))"

text \<open>The chunks after the commit, the number that was pulled, and whether the stream was exhausted.\<close>

fun forward :: "string list \<Rightarrow> ending \<Rightarrow> conn \<Rightarrow> nat \<times> bool \<times> conn" where
  "forward [] e c = (0, True, case e of Raised (RequestError a) \<Rightarrow> put_quiet (Error_frame a) c | _ \<Rightarrow> c)"
| "forward (s # ss) e c =
     (case put (Chunk s) c of
        (False, c1) \<Rightarrow> (1, False, c1)
      | (True, c1) \<Rightarrow> (case forward ss e c1 of (n, done, c2) \<Rightarrow> (Suc n, done, c2)))"

definition send_held_error :: "exn \<Rightarrow> conn \<Rightarrow> conn" where
  "send_held_error x c =
     (case x of RequestError a \<Rightarrow> put_quiet (Http_error a) c | PyError _ \<Rightarrow> put_quiet Http_502 c)"

definition send_primed :: "bool \<Rightarrow> string list \<Rightarrow> ending \<Rightarrow> conn \<Rightarrow> nat \<times> bool \<times> conn" where
  "send_primed committed chunks e c =
     (case (chunks, e) of
        ([], Raised x) \<Rightarrow>
          (0, True,
           if \<not> committed then send_held_error x c
           else (case x of RequestError a \<Rightarrow> put_quiet (Error_frame a) c | PyError _ \<Rightarrow> c))
      | _ \<Rightarrow>
          (case (if committed then (True, c) else put Status_200 c) of
             (False, c1) \<Rightarrow> (min 1 (length chunks), chunks = [], c1)
           | (True, c1) \<Rightarrow> forward chunks e c1))"

text \<open>\<open>ticks\<close> keepalive intervals pass before the first chunk arrives.\<close>

definition send_sse :: "bool \<Rightarrow> nat \<Rightarrow> string list \<Rightarrow> ending \<Rightarrow> conn \<Rightarrow> nat \<times> bool \<times> conn" where
  "send_sse hold ticks chunks e c =
     (case (if hold then (True, c) else put Status_200 c) of
        (False, c1) \<Rightarrow> (0, False, c1)
      | (True, c1) \<Rightarrow>
          (case keepalives ticks (\<not> hold) c1 of
             (committed, False, c2) \<Rightarrow> (min 1 (length chunks), chunks = [], c2)
           | (committed, True, c2) \<Rightarrow> send_primed committed chunks e c2))"

section \<open>One streamed response\<close>

text \<open>The wrapper feeds the delivery; a generator that was never started writes no row.\<close>

definition stream_response ::
  "string \<Rightarrow> stream_config \<Rightarrow> jdict \<Rightarrow> bool \<Rightarrow> nat \<Rightarrow> string list \<Rightarrow> ending \<Rightarrow> conn \<Rightarrow> request \<Rightarrow>
   conn \<times> request_row option \<times> request" where
  "stream_response dash sc ratelimit hold ticks chunks e c rq =
     (case usage_sse_wrapper dash sc ratelimit chunks e rq of
        (out, e', row, rq') \<Rightarrow>
          (case send_sse hold ticks out e' c of
             (n, done, c') \<Rightarrow>
               if done then (c', Some row, rq')
               else if n = 0 then (c', None, rq)
               else (case usage_sse_wrapper dash sc ratelimit (take n chunks) Closed rq of
                       (_, _, row', rq'') \<Rightarrow> (c', Some row', rq''))))"

section \<open>What the client receives\<close>

definition lim :: "nat option \<Rightarrow> 'a list \<Rightarrow> 'a list" where
  "lim r xs = (case r of None \<Rightarrow> xs | Some n \<Rightarrow> take n xs)"

definition fits :: "nat option \<Rightarrow> nat \<Rightarrow> bool" where
  "fits r k \<longleftrightarrow> (case r of None \<Rightarrow> True | Some n \<Rightarrow> k \<le> n)"

definition advance :: "conn \<Rightarrow> wire list \<Rightarrow> conn" where
  "advance c xs = c\<lparr>written := written c @ xs, room := map_option (\<lambda>n. n - length xs) (room c)\<rparr>"

lemma lim_Nil [simp]: "lim r [] = []"
  by (simp add: lim_def split: option.split)

lemma advance_Nil [simp]: "advance c [] = c"
  by (cases "room c") (simp_all add: advance_def)

lemma lim_append:
  "lim r (xs @ ys) =
   (if fits r (length xs) then xs @ lim (map_option (\<lambda>n. n - length xs) r) ys else lim r xs)"
  by (auto simp: lim_def fits_def split: option.split)

lemma put_cases:
  "put w c = (if fits (room c) 1 then (True, advance c [w]) else (False, c))"
  by (auto simp: put_def fits_def advance_def split: option.split nat.split)

lemma put_quiet_written: "written (put_quiet w c) = written c @ lim (room c) [w]"
  by (auto simp: put_quiet_def put_cases advance_def lim_def fits_def split: option.splits)

lemma written_advance [simp]: "written (advance c xs) = written c @ xs"
  by (simp add: advance_def)

lemma lim_Cons: "lim r (x # xs) = (if fits r 1 then x # lim (map_option (\<lambda>n. n - 1) r) xs else [])"
  using lim_append [of r "[x]" xs] by (auto simp: lim_def fits_def split: option.splits)

lemma room_advance [simp]: "room (advance c xs) = map_option (\<lambda>n. n - length xs) (room c)"
  by (simp add: advance_def)

definition trailer :: "ending \<Rightarrow> wire list" where
  "trailer e = (case e of Raised (RequestError a) \<Rightarrow> [Error_frame a] | _ \<Rightarrow> [])"

lemma forward_written:
  "written (snd (snd (forward ss e c))) = written c @ lim (room c) (map Chunk ss @ trailer e)"
proof (induction ss arbitrary: c)
  case Nil
  show ?case by (auto simp: trailer_def put_quiet_written split: ending.split exn.split)
next
  case (Cons s ss)
  from Cons [of "advance c [Chunk s]"] show ?case
    by (simp add: put_cases lim_Cons split_beta)
qed

definition keepalive_script :: "nat \<Rightarrow> bool \<Rightarrow> wire list" where
  "keepalive_script n committed =
     (if committed \<or> n = 0 then [] else [Status_200]) @ replicate n Keepalive"

lemma advance_advance [simp]: "advance (advance c xs) ys = advance c (xs @ ys)"
  by (cases "room c") (simp_all add: advance_def)

lemma fits_shift [simp]: "fits r a \<Longrightarrow> fits (map_option (\<lambda>n. n - a) r) k \<longleftrightarrow> fits r (a + k)"
  by (auto simp: fits_def split: option.splits)

lemma fits_mono: "fits r b \<Longrightarrow> a \<le> b \<Longrightarrow> fits r a"
  by (auto simp: fits_def split: option.splits)

lemma fits_0 [simp]: "fits r 0"
  by (simp add: fits_def split: option.split)

lemma room_minus [simp]:
  "map_option (\<lambda>n::nat. n - a) (map_option (\<lambda>n. n - b) r) = map_option (\<lambda>n. n - (b + a)) r"
  "map_option (\<lambda>n::nat. n) r = r"
  by (cases r; simp)+

lemma keepalives_run:
  assumes "keepalives n b c = (b', ok, c')"
  shows "ok = fits (room c) (length (keepalive_script n b)) \<and>
    (ok \<longrightarrow> c' = advance c (keepalive_script n b) \<and> b' = (b \<or> 0 < n)) \<and>
    written c' = written c @ lim (room c) (keepalive_script n b)"
  using assms
proof (induction n arbitrary: b c)
  case 0
  then show ?case by (auto simp: keepalive_script_def)
next
  case (Suc n)
  let ?pre = "if b then [] else [Status_200]"
  have script: "keepalive_script (Suc n) b = ?pre @ Keepalive # keepalive_script n True"
    by (simp add: keepalive_script_def)
  show ?case
  proof (cases "fits (room c) (length (?pre @ [Keepalive]))")
    case True
    have "fits (room c) (length ?pre)" "fits (room c) 1" by (rule fits_mono [OF True], simp)+
    with True Suc.prems have "keepalives n True (advance c (?pre @ [Keepalive])) = (b', ok, c')"
      by (auto simp: put_cases split: if_splits)
    from Suc.IH [OF this] True show ?thesis
      unfolding script using lim_append [of "room c" "?pre @ [Keepalive]" "keepalive_script n True"]
      by auto
  next
    case False
    with Suc.prems have "ok = False" "written c' = written c @ lim (room c) (?pre @ [Keepalive])"
      by (auto simp: put_cases lim_Cons split: if_splits)
    moreover have "\<not> fits (room c) (length (keepalive_script (Suc n) b))"
      using False fits_mono [of "room c" "length (keepalive_script (Suc n) b)" "length (?pre @ [Keepalive])"]
      unfolding script by auto
    ultimately show ?thesis
      unfolding script using False
        lim_append [of "room c" "?pre @ [Keepalive]" "keepalive_script n True"] by auto
  qed
qed

definition held_answer :: "exn \<Rightarrow> wire" where
  "held_answer x = (case x of RequestError a \<Rightarrow> Http_error a | PyError _ \<Rightarrow> Http_502)"

text \<open>What follows the keepalives, given whether the status line is out.\<close>

definition rest_script :: "bool \<Rightarrow> string list \<Rightarrow> ending \<Rightarrow> wire list" where
  "rest_script committed chunks e =
     (case (committed \<or> chunks \<noteq> [], e) of
        (False, Raised x) \<Rightarrow> [held_answer x]
      | _ \<Rightarrow> (if committed then [] else [Status_200]) @ map Chunk chunks @ trailer e)"

lemma send_primed_written:
  "written (snd (snd (send_primed b chunks e c))) = written c @ lim (room c) (rest_script b chunks e)"
proof (cases "\<exists>x. chunks = [] \<and> e = Raised x")
  case True
  then show ?thesis
    by (auto simp: send_primed_def rest_script_def put_quiet_written send_held_error_def held_answer_def
        trailer_def split: exn.split)
next
  case False
  then have "send_primed b chunks e c =
      (case (if b then (True, c) else put Status_200 c) of
         (False, c1) \<Rightarrow> (min 1 (length chunks), chunks = [], c1) | (True, c1) \<Rightarrow> forward chunks e c1)"
    by (cases chunks; cases e; auto simp: send_primed_def)
  moreover have "rest_script b chunks e = (if b then [] else [Status_200]) @ map Chunk chunks @ trailer e"
    using False by (cases chunks; cases e; simp add: rest_script_def)
  ultimately show ?thesis
    by (simp add: put_cases forward_written lim_Cons)
qed

text \<open>Everything a client that stays connected receives.\<close>

definition stream_script :: "bool \<Rightarrow> nat \<Rightarrow> string list \<Rightarrow> ending \<Rightarrow> wire list" where
  "stream_script hold ticks chunks e =
     (if hold \<and> ticks = 0 \<and> chunks = [] \<and> (\<exists>x. e = Raised x)
      then [held_answer (case e of Raised x \<Rightarrow> x)]
      else Status_200 # replicate ticks Keepalive @ map Chunk chunks @ trailer e)"

lemma stream_script_split:
  "stream_script hold ticks chunks e =
   (if hold then [] else [Status_200]) @ keepalive_script ticks (\<not> hold) @
   rest_script (\<not> hold \<or> 0 < ticks) chunks e"
  by (cases "chunks = []"; cases e)
     (auto simp: stream_script_def keepalive_script_def rest_script_def split: bool.splits)

lemma send_sse_written:
  "written (snd (snd (send_sse hold ticks chunks e c))) = written c @ lim (room c) (stream_script hold ticks chunks e)"
proof -
  let ?pre = "if hold then [] else [Status_200]"
  let ?c = "advance c ?pre"
  obtain b ok c2 where ka: "keepalives ticks (\<not> hold) ?c = (b, ok, c2)" by (metis prod_cases3)
  note run = keepalives_run [OF ka]
  show ?thesis
  proof (cases "fits (room c) (length ?pre)")
    case False
    then show ?thesis
      by (simp add: send_sse_def put_cases stream_script_split lim_Cons split: if_splits)
  next
    case True
    then have "send_sse hold ticks chunks e c =
        (if ok then send_primed b chunks e c2 else (min 1 (length chunks), chunks = [], c2))"
      using ka by (auto simp: send_sse_def put_cases split: if_splits)
    moreover have "lim (room c) (stream_script hold ticks chunks e) =
        ?pre @ lim (room ?c) (keepalive_script ticks (\<not> hold) @ rest_script (\<not> hold \<or> 0 < ticks) chunks e)"
      unfolding stream_script_split using True lim_append [of "room c" ?pre] by simp
    ultimately show ?thesis
      using run by (auto simp: send_primed_written lim_append)
  qed
qed

text \<open>(C4) What a streaming client receives is fixed by the stream: the 200 status line, the keepalives,
  the chunks in order and the error frame, except that a held stream that fails before anything was
  sent is answered with the real HTTP error alone; a client that goes away after \<open>n\<close> writes has
  received exactly the first \<open>n\<close> of these.\<close>

theorem sse_delivery_script:
  "written (snd (snd (send_sse hold ticks chunks e (open_conn None)))) = stream_script hold ticks chunks e \<and>
   written (snd (snd (send_sse hold ticks chunks e (open_conn (Some n))))) =
     take n (stream_script hold ticks chunks e)"
  by (simp add: send_sse_written open_conn_def lim_def)

section \<open>Thread pins\<close>

definition pin_inv :: "stream_config \<Rightarrow> string \<Rightarrow> session_state \<Rightarrow> stream_state \<Rightarrow> bool" where
  "pin_inv sc m s ws \<longleftrightarrow>
     (if ws_recorded ws
      then clean_stop (ws_marks ws) \<and>
        (\<exists>txt. ws_sessions ws = record_thread (the (mark_id (ws_marks ws))) m (sc_long_context sc)
                  (sc_session_key sc) txt (sc_text_limit sc) s)
      else ws_sessions ws = s)"

definition settled :: "stream_state \<Rightarrow> bool" where
  "settled ws \<longleftrightarrow> ws_recorded ws = clean_stop (ws_marks ws)"

lemma note_text_kept:
  assumes "note_text sc c ws = (x, ws')"
  shows "pin_inv sc m s ws' = pin_inv sc m s ws" "settled ws' = settled ws"
  using assms by (auto simp: note_text_def pin_inv_def settled_def split: prod.splits if_splits)

lemma note_error_kept:
  "pin_inv sc m s (note_error c ws) = pin_inv sc m s ws" "settled (note_error c ws) = settled ws"
  by (simp_all add: note_error_def pin_inv_def settled_def)

lemma note_thread_kept:
  assumes "sc_thread_model sc = Some m" and "note_thread sc c ws = (x, ws')" and "pin_inv sc m s ws"
  shows "pin_inv sc m s ws'" and "x = None \<Longrightarrow> settled ws \<Longrightarrow> settled ws'"
  using assms
  by (auto simp: note_thread_def pin_thread_def pin_inv_def settled_def split: prod.splits if_splits option.splits)

lemma take_chunk_kept:
  assumes "sc_thread_model sc = Some m" and "take_chunk sc c ws = (x, ws')" and "pin_inv sc m s ws"
  shows "pin_inv sc m s ws'" and "x = None \<Longrightarrow> settled ws \<Longrightarrow> settled ws'"
proof -
  obtain x1 st where 1: "extract_sse_stats (sc_loads sc) (sc_int sc) c (ws_stats ws) = (x1, st)" by fastforce
  let ?ws = "ws\<lparr>ws_stats := st\<rparr>"
  have k1: "pin_inv sc m s ?ws" "settled ?ws = settled ws"
    using assms(3) by (simp_all add: pin_inv_def settled_def)
  obtain x2 ws2 where 2: "note_text sc c ?ws = (x2, ws2)" by fastforce
  note k2 = note_text_kept [OF 2]
  obtain x3 ws3 where 3: "note_thread sc c ws2 = (x3, ws3)" by fastforce
  have "pin_inv sc m s ws2" using k1 k2 by simp
  note k3 = note_thread_kept [OF assms(1) 3 this]
  show "pin_inv sc m s ws'"
    using assms(2) 1 2 3 k1 k2 k3(1) by (auto simp: take_chunk_def note_error_kept split: option.splits)
  show "x = None \<Longrightarrow> settled ws \<Longrightarrow> settled ws'"
    using assms(2) 1 2 3 k1 k2 k3(2) by (auto simp: take_chunk_def note_error_kept split: option.splits)
qed

lemma take_chunks_kept:
  assumes "sc_thread_model sc = Some m" and "take_chunks sc cs ws = (out, x, ws')" and "pin_inv sc m s ws"
  shows "pin_inv sc m s ws' \<and> (x = None \<longrightarrow> settled ws \<longrightarrow> settled ws') \<and>
    out = take (length out) cs \<and> (x = None \<longrightarrow> out = cs)"
  using assms(2,3)
proof (induction cs arbitrary: ws out)
  case (Cons c cs)
  obtain y ws1 where c: "take_chunk sc c ws = (y, ws1)" by fastforce
  note k = take_chunk_kept [OF assms(1) c Cons.prems(2)]
  show ?case
  proof (cases y)
    case (Some e)
    with Cons.prems c k show ?thesis by auto
  next
    case None
    with Cons.prems(1) c obtain out' where out: "take_chunks sc cs ws1 = (out', x, ws')" "out = c # out'"
      by (auto split: prod.splits)
    from Cons.IH [OF out(1) k(1)] None k(2) out(2) show ?thesis by auto
  qed
qed simp


definition sample_stream :: stream_config where
  "sample_stream =
     \<lparr>sc_loads = sample_loads, sc_int = (\<lambda>_. None), sc_thread_model = Some ''opus'',
      sc_long_context = False, sc_session_key = Some ''u'', sc_text_limit = 1000, sc_capture_text = False\<rparr>"


end
