(* ===== verification/Volatility.thy ===== *)
theory Volatility
  imports Payload_Common Bounded_Store
begin

text \<open>
  \<^verbatim>\<open>anthrouter/prompt_volatility.py\<close> and \<^verbatim>\<open>anthrouter/sanitizer.py\<close>: per-session
  observation of system blocks that vary inside the cached prefix, and the pass that drops the
  allowlisted ones.  The block digest, the SHA-256 and the canonical serialization are arguments; the
  tracker's lock makes \<open>observe\<close> atomic.  \<open>max_sessions\<close> is positive, as in the process-wide tracker.
\<close>

section \<open>The tracker\<close>

definition DEFAULT_MIN_SAMPLES :: nat where "DEFAULT_MIN_SAMPLES = 8"
definition DEFAULT_RATIO_THRESHOLD :: rat where "DEFAULT_RATIO_THRESHOLD = 1 / 2"
definition MAX_SESSIONS :: nat where "MAX_SESSIONS = 512"
definition MAX_DISTINCT_PER_BLOCK :: nat where "MAX_DISTINCT_PER_BLOCK = 256"

text \<open>The digests seen at one index, or \<open>_SATURATED\<close>.\<close>

datatype seen = Saturated | Digests "string list"

record vol_session =
  vol_requests :: nat
  vol_blocks :: "(nat \<times> seen) list"

record vol_config =
  min_samples :: nat
  ratio_threshold :: rat
  max_sessions :: nat

definition default_vol_config :: vol_config where
  "default_vol_config =
     \<lparr>min_samples = DEFAULT_MIN_SAMPLES, ratio_threshold = DEFAULT_RATIO_THRESHOLD,
      max_sessions = MAX_SESSIONS\<rparr>"

type_synonym tracker = "(string, vol_session) store"

record flagged =
  flag_index :: nat
  flag_ratio :: rat
  flag_distinct :: nat
  flag_requests :: nat

fun last_breakpoint :: "nat \<Rightarrow> int \<Rightarrow> json list \<Rightarrow> int" where
  "last_breakpoint i found [] = found"
| "last_breakpoint i found (b # bs) =
     last_breakpoint (Suc i)
       (case b of JObj d \<Rightarrow> if truthy (jget ''cache_control'' d) then int i else found | _ \<Rightarrow> found) bs"

definition last_cache_control_index :: "json list \<Rightarrow> int" where
  "last_cache_control_index system = last_breakpoint 0 (- 1) system"

text \<open>One digest recorded at one index.\<close>

definition see :: "(nat \<times> seen) list \<Rightarrow> nat \<times> string \<Rightarrow> (nat \<times> seen) list" where
  "see blocks ih =
     (let (index, digest) = ih in
      case map_of blocks index of
        Some Saturated \<Rightarrow> blocks
      | old \<Rightarrow>
          let ds = (case old of Some (Digests ds) \<Rightarrow> ds | _ \<Rightarrow> []);
              ds' = (if digest \<in> set ds then ds else ds @ [digest])
          in AList.update index
               (if length ds' \<ge> MAX_DISTINCT_PER_BLOCK then Saturated else Digests ds') blocks)"

definition seen_count :: "seen \<Rightarrow> nat" where
  "seen_count sn = (case sn of Saturated \<Rightarrow> MAX_DISTINCT_PER_BLOCK | Digests ds \<Rightarrow> length ds)"

text \<open>\<open>round(x, 4)\<close>.\<close>

definition round4 :: "rat \<Rightarrow> rat" where
  "round4 x = of_int (py_round (x * 10000)) / 10000"

definition flag_block :: "vol_config \<Rightarrow> vol_session \<Rightarrow> int \<Rightarrow> nat \<Rightarrow> flagged option" where
  "flag_block cfg st cutoff index =
     (if int index > cutoff then None
      else case map_of (vol_blocks st) index of
             None \<Rightarrow> None
           | Some sn \<Rightarrow>
               let ratio = of_nat (seen_count sn) / of_nat (vol_requests st)
               in if ratio > ratio_threshold cfg
                  then Some \<lparr>flag_index = index, flag_ratio = round4 ratio,
                             flag_distinct = seen_count sn, flag_requests = vol_requests st\<rparr>
                  else None)"

definition observe_session :: "(json \<Rightarrow> string) \<Rightarrow> json list \<Rightarrow> vol_session \<Rightarrow> vol_session" where
  "observe_session digest system st =
     st\<lparr>vol_requests := Suc (vol_requests st),
        vol_blocks := foldl see (vol_blocks st) (zip [0..<length system] (map digest system))\<rparr>"

definition session_of :: "tracker \<Rightarrow> string \<Rightarrow> vol_session" where
  "session_of tr sid =
     (case map_of tr sid of Some st \<Rightarrow> st | None \<Rightarrow> \<lparr>vol_requests = 0, vol_blocks = []\<rparr>)"

definition observe ::
  "vol_config \<Rightarrow> (json \<Rightarrow> string) \<Rightarrow> string \<Rightarrow> json \<Rightarrow> tracker \<Rightarrow> flagged list \<times> tracker" where
  "observe cfg digest session_id system tr =
     (case system of
        JArr blocks \<Rightarrow>
          if session_id = [] \<or> blocks = [] then ([], tr)
          else let st = observe_session digest blocks (session_of tr session_id);
                   tr' = lru_put (max_sessions cfg) session_id st tr
               in if vol_requests st < min_samples cfg then ([], tr')
                  else (List.map_filter (flag_block cfg st (last_cache_control_index blocks))
                          [0..<length blocks], tr')
      | _ \<Rightarrow> ([], tr))"

definition session_report :: "tracker \<Rightarrow> string \<Rightarrow> (nat \<times> (nat \<times> nat \<times> rat) list) option" where
  "session_report tr sid =
     map_option (\<lambda>st. (vol_requests st,
        map (\<lambda>p. (fst p, seen_count (snd p),
                  if vol_requests st \<noteq> 0
                  then round4 (of_nat (seen_count (snd p)) / of_nat (vol_requests st)) else 0))
          (vol_blocks st))) (map_of tr sid)"

definition forget :: "string \<Rightarrow> tracker \<Rightarrow> tracker" where
  "forget sid tr = store_pop sid tr"

section \<open>What a session has seen\<close>

definition seen_ok :: "nat \<Rightarrow> seen \<Rightarrow> bool" where
  "seen_ok n sn \<longleftrightarrow>
     (case sn of
        Saturated \<Rightarrow> MAX_DISTINCT_PER_BLOCK \<le> n
      | Digests ds \<Rightarrow> distinct ds \<and> ds \<noteq> [] \<and> length ds \<le> n \<and> length ds < MAX_DISTINCT_PER_BLOCK)"

definition vol_ok :: "vol_session \<Rightarrow> bool" where
  "vol_ok st \<longleftrightarrow> (\<forall>i sn. map_of (vol_blocks st) i = Some sn \<longrightarrow> seen_ok (vol_requests st) sn)"

lemma seen_ok_mono: "seen_ok n sn \<Longrightarrow> seen_ok (Suc n) sn"
  by (auto simp: seen_ok_def split: seen.splits)

lemma seen_ok_count: "seen_ok n sn \<Longrightarrow> seen_count sn \<le> n \<and> 1 \<le> seen_count sn"
  by (auto simp: seen_ok_def seen_count_def MAX_DISTINCT_PER_BLOCK_def Suc_le_eq split: seen.splits)

lemma see_other: "i \<noteq> fst ih \<Longrightarrow> map_of (see blocks ih) i = map_of blocks i"
  by (auto simp: see_def Let_def split: option.splits seen.splits prod.splits)

lemma see_same:
  assumes "\<And>sn. map_of blocks i = Some sn \<Longrightarrow> seen_ok n sn"
  shows "\<exists>sn. map_of (see blocks (i, h)) i = Some sn \<and> seen_ok (Suc n) sn"
proof (cases "map_of blocks i")
  case None
  then show ?thesis by (simp add: see_def Let_def seen_ok_def MAX_DISTINCT_PER_BLOCK_def)
next
  case (Some sn)
  with assms [OF Some] show ?thesis
    by (cases sn) (auto simp: see_def Let_def seen_ok_def MAX_DISTINCT_PER_BLOCK_def)
qed

lemma foldl_see_other:
  "i \<notin> fst ` set ihs \<Longrightarrow> map_of (foldl see blocks ihs) i = map_of blocks i"
  by (induction ihs arbitrary: blocks) (auto simp: see_other)

lemma foldl_see_split:
  assumes "distinct (map fst ihs)" "(i, h) \<in> set ihs"
  shows "map_of (foldl see blocks ihs) i = map_of (see blocks (i, h)) i"
  using assms
proof (induction ihs arbitrary: blocks)
  case (Cons ih ihs)
  show ?case
  proof (cases "fst ih = i")
    case True
    with Cons.prems(1) have i: "i \<notin> fst ` set ihs" by simp
    then have "(i, h) \<notin> set ihs" by force
    with Cons.prems(2) have "ih = (i, h)" by simp
    with i show ?thesis by (simp add: foldl_see_other)
  next
    case False
    with Cons.prems have "(i, h) \<in> set ihs" "distinct (map fst ihs)" by auto
    from Cons.IH [OF this(2,1), of "see blocks ih"]
    have "map_of (foldl see (see blocks ih) ihs) i = map_of (see (see blocks ih) (i, h)) i" .
    also have "\<dots> = map_of (see blocks (i, h)) i"
      using see_other [of i ih blocks] False
      by (simp add: see_def [of _ "(i, h)"] Let_def split: option.splits seen.splits)
    finally show ?thesis by simp
  qed
qed simp

lemma observe_session_block:
  assumes "i < length system"
  shows "map_of (vol_blocks (observe_session digest system st)) i =
    map_of (see (vol_blocks st) (i, digest (system ! i))) i"
  unfolding observe_session_def
  by (simp, rule foldl_see_split) (use assms in \<open>auto simp: set_zip intro!: exI [of _ i]\<close>)

lemma observe_session_beyond:
  assumes "length system \<le> i"
  shows "map_of (vol_blocks (observe_session digest system st)) i = map_of (vol_blocks st) i"
  unfolding observe_session_def
  by (simp, rule foldl_see_other) (use assms in \<open>auto dest: set_zip_leftD\<close>)

lemma observe_session_ok: "vol_ok st \<Longrightarrow> vol_ok (observe_session digest system st)"
proof -
  assume ok: "vol_ok st"
  have "seen_ok (Suc (vol_requests st)) sn"
    if "map_of (vol_blocks (observe_session digest system st)) i = Some sn" for i sn
  proof (cases "i < length system")
    case True
    have "\<exists>sn. map_of (see (vol_blocks st) (i, digest (system ! i))) i = Some sn \<and>
        seen_ok (Suc (vol_requests st)) sn"
      using ok by (intro see_same) (simp add: vol_ok_def)
    with that True show ?thesis by (auto simp: observe_session_block)
  next
    case False
    with that ok show ?thesis by (auto simp: observe_session_beyond vol_ok_def intro: seen_ok_mono)
  qed
  then show ?thesis by (simp add: vol_ok_def observe_session_def)
qed

definition tracker_ok :: "tracker \<Rightarrow> bool" where
  "tracker_ok tr \<longleftrightarrow> distinct (map fst tr) \<and> (\<forall>sid st. map_of tr sid = Some st \<longrightarrow> vol_ok st)"

lemma session_of_ok: "tracker_ok tr \<Longrightarrow> vol_ok (session_of tr sid)"
  by (auto simp: tracker_ok_def session_of_def vol_ok_def split: option.splits)

lemma lru_put_distinct: "distinct (map fst s) \<Longrightarrow> distinct (map fst (lru_put cap k v s))"
  by (simp add: lru_put_def Let_def drop_map [symmetric] set_last_distinct)

lemma lru_put_lookup:
  assumes "distinct (map fst tr)" "map_of (lru_put cap k v tr) k' = Some w"
  shows "k' = k \<and> w = v \<or> k' \<noteq> k \<and> map_of tr k' = Some w"
proof -
  have "map_of (store_set_last k v tr) k' = Some w"
    using assms map_of_drop [OF set_last_distinct [OF assms(1)]] by (simp add: lru_put_def Let_def)
  then show ?thesis by (auto simp: map_of_set_last split: if_splits)
qed

lemma observe_tracker_ok: "tracker_ok tr \<Longrightarrow> tracker_ok (snd (observe cfg digest sid system tr))"
proof -
  assume ok: "tracker_ok tr"
  have new: "vol_ok (observe_session digest blocks (session_of tr sid))" for blocks
    by (rule observe_session_ok [OF session_of_ok [OF ok]])
  have "tracker_ok (lru_put n sid (observe_session digest blocks (session_of tr sid)) tr)" for n blocks
    unfolding tracker_ok_def
  proof (intro conjI allI impI)
    show "distinct (map fst (lru_put n sid (observe_session digest blocks (session_of tr sid)) tr))"
      using ok by (simp add: tracker_ok_def lru_put_distinct)
    fix k st
    assume "map_of (lru_put n sid (observe_session digest blocks (session_of tr sid)) tr) k = Some st"
    then show "vol_ok st"
      using lru_put_lookup [of tr] new ok unfolding tracker_ok_def by metis
  qed
  with ok show ?thesis by (auto simp: observe_def Let_def split: json.splits)
qed

section \<open>The sanitizer\<close>

record stripped_block =
  block_type :: string
  block_preview :: string
  block_full :: string

record sanitize_result =
  ran :: bool
  dropped :: nat
  sanitized_sha256 :: "string option"
  sanitized_content :: "string option"
  flagged_blocks :: "flagged list"
  stripped_blocks :: "stripped_block list"

definition no_result :: sanitize_result where
  "no_result =
     \<lparr>ran = False, dropped = 0, sanitized_sha256 = None, sanitized_content = None,
      flagged_blocks = [], stripped_blocks = []\<rparr>"

definition PREVIEW_LIMIT :: int where "PREVIEW_LIMIT = 200"

definition describe_block :: "json \<Rightarrow> stripped_block option" where
  "describe_block block =
     (case block of
        JObj d \<Rightarrow>
          (case jget ''text'' d of
             JStr t \<Rightarrow>
               map_option (\<lambda>p. \<lparr>block_type = p, block_preview = py_head t PREVIEW_LIMIT, block_full = t\<rparr>)
                 (find (\<lambda>p. startswith (py_lstrip t) p) VOLATILE_SYSTEM_BLOCK_PREFIXES)
           | _ \<Rightarrow> None)
      | _ \<Rightarrow> None)"

definition describe_stripped :: "json list \<Rightarrow> stripped_block list" where
  "describe_stripped system = List.map_filter describe_block system"

definition system_content_str :: "(json \<Rightarrow> string) \<Rightarrow> json \<Rightarrow> string option" where
  "system_content_str dumps system =
     (case system of JStr s \<Rightarrow> Some s | JArr bs \<Rightarrow> Some (dumps system) | _ \<Rightarrow> None)"

definition json_list :: "json \<Rightarrow> json list" where
  "json_list v = (case v of JArr xs \<Rightarrow> xs | _ \<Rightarrow> [])"

text \<open>\<open>sanitize_system_prompt\<close>: the result, the payload and the tracker afterwards.\<close>

definition sanitize_system_prompt ::
  "(json \<Rightarrow> string) \<Rightarrow> (string \<Rightarrow> string) \<Rightarrow> vol_config \<Rightarrow> (json \<Rightarrow> string) \<Rightarrow>
   jdict \<Rightarrow> string \<Rightarrow> string option \<Rightarrow> tracker \<Rightarrow> sanitize_result \<times> jdict \<times> tracker" where
  "sanitize_system_prompt dumps sha cfg digest payload mode session_id tr =
     (if mode \<notin> {''warn'', ''strip''} \<or> \<not> truthy (jget ''system'' payload)
      then (no_result, payload, tr)
      else
        let system = jget ''system'' payload;
            (sanitized, stripped) =
              (if mode = ''strip'' then strip_volatile_system_blocks system else (system, False));
            payload' = (if stripped then jset ''system'' sanitized payload else payload);
            kept_billing = (mode = ''strip'' \<and> \<not> stripped \<and>
                            list_ex is_volatile_system_block (json_list system));
            content = (if mode = ''strip'' then system_content_str dumps (jget ''system'' payload') else None);
            key = (case session_id of None \<Rightarrow> [] | Some k \<Rightarrow> k);
            tracker_key = (if kept_billing \<and> key \<noteq> [] then key @ ''#no-identity'' else key);
            (flags, tr') = observe cfg digest tracker_key (jget ''system'' payload') tr
        in (\<lparr>ran = True,
             dropped = (if stripped then length (json_list system) - length (json_list sanitized) else 0),
             sanitized_sha256 = map_option sha content, sanitized_content = content,
             flagged_blocks = flags,
             stripped_blocks = (if stripped then describe_stripped (json_list system) else [])\<rparr>,
            payload', tr'))"

section \<open>Runs of the tracker\<close>

inductive tracker_reachable :: "vol_config \<Rightarrow> (json \<Rightarrow> string) \<Rightarrow> tracker \<Rightarrow> bool"
  for cfg digest where
  tracker_init: "tracker_reachable cfg digest []"
| tracker_observe: "tracker_reachable cfg digest tr \<Longrightarrow>
    tracker_reachable cfg digest (snd (observe cfg digest sid system tr))"
| tracker_forget: "tracker_reachable cfg digest tr \<Longrightarrow> tracker_reachable cfg digest (forget sid tr)"

lemma forget_ok: "tracker_ok tr \<Longrightarrow> tracker_ok (forget sid tr)"
  by (auto simp: tracker_ok_def forget_def store_pop_distinct map_of_store_pop
      simp del: map_of_eq_Some_iff split: if_splits)

lemma tracker_reachable_ok: "tracker_reachable cfg digest tr \<Longrightarrow> tracker_ok tr"
  by (induction rule: tracker_reachable.induct)
     (simp_all add: observe_tracker_ok forget_ok, simp add: tracker_ok_def)

lemma last_breakpoint_spec:
  "last_breakpoint i found bs = found \<or>
   (\<exists>j < length bs. last_breakpoint i found bs = int (i + j) \<and>
      truthy (jget ''cache_control'' (dict_of (bs ! j))))"
proof (induction bs arbitrary: i found)
  case (Cons b bs)
  let ?f = "case b of JObj d \<Rightarrow> if truthy (jget ''cache_control'' d) then int i else found | _ \<Rightarrow> found"
  from Cons.IH [of "Suc i" ?f] show ?case
  proof
    assume eq: "last_breakpoint (Suc i) ?f bs = ?f"
    show ?thesis
      using eq by (cases b) (auto intro: exI [of _ 0])
  next
    assume "\<exists>j < length bs. last_breakpoint (Suc i) ?f bs = int (Suc i + j) \<and>
      truthy (jget ''cache_control'' (dict_of (bs ! j)))"
    then obtain j where "j < length bs" "last_breakpoint (Suc i) ?f bs = int (Suc i + j)"
      "truthy (jget ''cache_control'' (dict_of (bs ! j)))" by blast
    then show ?thesis by (intro disjI2 exI [of _ "Suc j"]) simp
  qed
qed simp

lemma flag_blockD:
  assumes "flag_block cfg st cutoff i = Some f"
  obtains sn where "int i \<le> cutoff" "map_of (vol_blocks st) i = Some sn"
    "ratio_threshold cfg < of_nat (seen_count sn) / of_nat (vol_requests st)"
    "flag_index f = i" "flag_distinct f = seen_count sn" "flag_requests f = vol_requests st"
  using assms by (auto simp: flag_block_def Let_def split: if_splits option.splits)

lemma observe_flagsD:
  assumes "f \<in> set (fst (observe cfg digest sid (JArr blocks) tr))"
  defines "st \<equiv> observe_session digest blocks (session_of tr sid)"
  obtains i where "i < length blocks" "min_samples cfg \<le> vol_requests st"
    "flag_block cfg st (last_cache_control_index blocks) i = Some f"
  using assms
  by (auto simp: observe_def Let_def map_filter_def split: if_splits)

section \<open>Blocks that never change\<close>

definition run_tracker :: "vol_config \<Rightarrow> (json \<Rightarrow> string) \<Rightarrow> (string \<times> json) list \<Rightarrow> tracker" where
  "run_tracker cfg digest obs = foldl (\<lambda>tr ob. snd (observe cfg digest (fst ob) (snd ob) tr)) [] obs"

text \<open>At index \<open>i\<close> the session has seen nothing or only the digest \<open>h\<close>.\<close>

definition only_seen :: "string \<Rightarrow> nat \<Rightarrow> string \<Rightarrow> tracker \<Rightarrow> bool" where
  "only_seen sid i h tr \<longleftrightarrow>
     distinct (map fst tr) \<and> map_of (vol_blocks (session_of tr sid)) i \<in> {None, Some (Digests [h])}"

definition agrees :: "(json \<Rightarrow> string) \<Rightarrow> nat \<Rightarrow> string \<Rightarrow> json \<Rightarrow> bool" where
  "agrees digest i h system \<longleftrightarrow>
     (i < length (json_list system) \<longrightarrow> digest (json_list system ! i) = h)"

lemma observe_session_only:
  assumes "map_of (vol_blocks st) i \<in> {None, Some (Digests [h])}" "agrees digest i h (JArr blocks)"
  shows "map_of (vol_blocks (observe_session digest blocks st)) i \<in> {None, Some (Digests [h])}"
proof (cases "i < length blocks")
  case True
  with assms show ?thesis
    by (auto simp: observe_session_block see_def Let_def agrees_def json_list_def MAX_DISTINCT_PER_BLOCK_def)
next
  case False
  with assms show ?thesis by (simp add: observe_session_beyond)
qed

lemma session_of_lru_put:
  assumes "distinct (map fst tr)"
  shows "session_of (lru_put n k st tr) sid \<in>
    {if sid = k then st else session_of tr sid, \<lparr>vol_requests = 0, vol_blocks = []\<rparr>}"
  using lru_put_lookup [OF assms, of n k st sid]
  by (cases "map_of (lru_put n k st tr) sid")
     (auto simp: session_of_def simp del: map_of_eq_Some_iff)

lemma observe_only:
  assumes "only_seen sid i h tr" and "s = sid \<longrightarrow> agrees digest i h system"
  shows "only_seen sid i h (snd (observe cfg digest s system tr))"
proof -
  have "only_seen sid i h (lru_put n s (observe_session digest blocks (session_of tr s)) tr)"
    if "system = JArr blocks" for n blocks
  proof -
    have "map_of (vol_blocks (if sid = s then observe_session digest blocks (session_of tr s)
        else session_of tr sid)) i \<in> {None, Some (Digests [h])}"
      using assms that observe_session_only [of "session_of tr s" i h digest blocks]
      by (auto simp: only_seen_def)
    then show ?thesis
      using session_of_lru_put [of tr n s "observe_session digest blocks (session_of tr s)" sid] assms(1)
      by (auto simp: only_seen_def lru_put_distinct)
  qed
  with assms(1) show ?thesis by (auto simp: observe_def Let_def split: json.splits)
qed

lemma run_only:
  "\<forall>ob \<in> set obs. fst ob = sid \<longrightarrow> agrees digest i h (snd ob) \<Longrightarrow> only_seen sid i h tr \<Longrightarrow>
   only_seen sid i h (foldl (\<lambda>tr ob. snd (observe cfg digest (fst ob) (snd ob) tr)) tr obs)"
  by (induction obs arbitrary: tr) (auto intro: observe_only)

section \<open>Properties\<close>

text \<open>A flagged block lies inside the cached prefix of the array it was observed in, at or before a
  block that carries a cache breakpoint, with enough samples, and its counts are real: at most one
  distinct value per request, above the configured ratio.\<close>

theorem flagged_in_cached_prefix:
  assumes "tracker_reachable cfg digest tr"
    and "f \<in> set (fst (observe cfg digest sid (JArr blocks) tr))"
  shows "flag_index f < length blocks \<and> min_samples cfg \<le> flag_requests f \<and>
    (\<exists>j < length blocks. flag_index f \<le> j \<and> truthy (jget ''cache_control'' (dict_of (blocks ! j)))) \<and>
    1 \<le> flag_distinct f \<and> flag_distinct f \<le> flag_requests f \<and>
    ratio_threshold cfg < of_nat (flag_distinct f) / of_nat (flag_requests f)"
proof -
  let ?st = "observe_session digest blocks (session_of tr sid)"
  from assms(2) obtain i where i: "i < length blocks" "min_samples cfg \<le> vol_requests ?st"
    and fl: "flag_block cfg ?st (last_cache_control_index blocks) i = Some f"
    by (rule observe_flagsD)
  from fl obtain sn where f: "int i \<le> last_cache_control_index blocks"
    "map_of (vol_blocks ?st) i = Some sn"
    "ratio_threshold cfg < of_nat (seen_count sn) / of_nat (vol_requests ?st)"
    "flag_index f = i" "flag_distinct f = seen_count sn" "flag_requests f = vol_requests ?st"
    by (rule flag_blockD)
  have "vol_ok ?st"
    by (rule observe_session_ok [OF session_of_ok [OF tracker_reachable_ok [OF assms(1)]]])
  then have "seen_ok (vol_requests ?st) sn" using f(2) by (simp add: vol_ok_def)
  from seen_ok_count [OF this] have count: "seen_count sn \<le> vol_requests ?st" "1 \<le> seen_count sn" by auto
  have "\<exists>j < length blocks. i \<le> j \<and> truthy (jget ''cache_control'' (dict_of (blocks ! j)))"
    using last_breakpoint_spec [of 0 "- 1" blocks] f(1)
    by (auto simp: last_cache_control_index_def)
  with i f count show ?thesis by auto
qed

definition sample_system :: "nat \<Rightarrow> json list" where
  "sample_system n =
     [JObj [(''text'', JStr (replicate n CHR ''x''))],
      JObj [(''text'', JStr ''stable''), (''cache_control'', JObj [(''type'', JStr ''ephemeral'')])]]"

definition sample_digest :: "json \<Rightarrow> string" where
  "sample_digest b = (case text_of (JObj ((''type'', JStr ''text'') # dict_of b)) of Some t \<Rightarrow> t | None \<Rightarrow> [])"

definition sample_tracker :: tracker where
  "sample_tracker = run_tracker default_vol_config sample_digest
     (map (\<lambda>n. (''u'', JArr (sample_system n))) [0..<7])"

lemma sample_tracker_reachable: "tracker_reachable default_vol_config sample_digest sample_tracker"
proof -
  have "tracker_reachable cfg digest tr \<Longrightarrow>
      tracker_reachable cfg digest (foldl (\<lambda>tr ob. snd (observe cfg digest (fst ob) (snd ob) tr)) tr obs)"
    for cfg digest tr and obs :: "(string \<times> json) list"
    by (induction obs arbitrary: tr) (auto intro: tracker_observe)
  then show ?thesis by (simp add: sample_tracker_def run_tracker_def tracker_init)
qed

lemma sample_flags:
  "fst (observe default_vol_config sample_digest ''u'' (JArr (sample_system 7)) sample_tracker) =
   [\<lparr>flag_index = 0, flag_ratio = 1, flag_distinct = 8, flag_requests = 8\<rparr>]"
  by code_simp

lemma flagged_in_cached_prefix_witness:
  "\<exists>j < length (sample_system 7). truthy (jget ''cache_control'' (dict_of (sample_system 7 ! j)))"
  using flagged_in_cached_prefix [OF sample_tracker_reachable,
      of "\<lparr>flag_index = 0, flag_ratio = 1, flag_distinct = 8, flag_requests = 8\<rparr>" "''u''" "sample_system 7"]
  unfolding sample_flags by auto

text \<open>A block that never changes within a session is never flagged, whatever other sessions do in
  between and however often the session is evicted.\<close>

theorem stable_block_never_flagged:
  assumes "\<forall>ob \<in> set obs. fst ob = sid \<longrightarrow> agrees digest i h (snd ob)"
    and "agrees digest i h (JArr blocks)"
    and "f \<in> set (fst (observe default_vol_config digest sid (JArr blocks)
           (run_tracker default_vol_config digest obs)))"
  shows "flag_index f \<noteq> i"
proof
  let ?tr = "run_tracker default_vol_config digest obs"
  let ?st = "observe_session digest blocks (session_of ?tr sid)"
  assume i: "flag_index f = i"
  have "only_seen sid i h ?tr"
    unfolding run_tracker_def by (rule run_only [OF assms(1)]) (simp add: only_seen_def session_of_def)
  then have only: "map_of (vol_blocks ?st) i \<in> {None, Some (Digests [h])}"
    using observe_session_only assms(2) by (simp add: only_seen_def)
  from assms(3) obtain k where k: "min_samples default_vol_config \<le> vol_requests ?st"
    "flag_block default_vol_config ?st (last_cache_control_index blocks) k = Some f"
    by (rule observe_flagsD)
  from k(2) obtain sn where sn: "map_of (vol_blocks ?st) k = Some sn" "flag_index f = k"
    "ratio_threshold default_vol_config < of_nat (seen_count sn) / of_nat (vol_requests ?st)"
    by (rule flag_blockD)
  with i only have "seen_count sn = 1" by (auto simp: seen_count_def)
  moreover have "(8::rat) \<le> of_nat (vol_requests ?st)"
    using k(1) of_nat_mono [of 8 "vol_requests ?st", where ?'a = rat]
    by (simp add: default_vol_config_def DEFAULT_MIN_SAMPLES_def)
  ultimately show False
    using sn(3) by (simp add: default_vol_config_def DEFAULT_RATIO_THRESHOLD_def field_simps)
qed

lemma stable_block_never_flagged_witness:
  "(1::nat) \<noteq> flag_index \<lparr>flag_index = 0, flag_ratio = 1, flag_distinct = 8, flag_requests = 8\<rparr>"
proof -
  have "flag_index \<lparr>flag_index = 0, flag_ratio = 1, flag_distinct = 8, flag_requests = 8\<rparr> \<noteq> (1::nat)"
  proof (rule stable_block_never_flagged [where h = "''stable''" and digest = sample_digest
        and sid = "''u''" and blocks = "sample_system 7"
        and obs = "map (\<lambda>n. (''u'', JArr (sample_system n))) [0..<7]"])
    have "sample_digest (sample_system n ! 1) = ''stable''" for n
      by (simp add: sample_digest_def sample_system_def text_of_def)
    then show "\<forall>ob \<in> set (map (\<lambda>n. (''u'', JArr (sample_system n))) [0..<7]).
        fst ob = ''u'' \<longrightarrow> agrees sample_digest 1 ''stable'' (snd ob)"
      and "agrees sample_digest 1 ''stable'' (JArr (sample_system 7))"
      by (simp_all add: agrees_def json_list_def)
    show "\<lparr>flag_index = 0, flag_ratio = 1, flag_distinct = 8, flag_requests = 8\<rparr>
        \<in> set (fst (observe default_vol_config sample_digest ''u'' (JArr (sample_system 7))
             (run_tracker default_vol_config sample_digest
               (map (\<lambda>n. (''u'', JArr (sample_system n))) [0..<7]))))"
      using sample_flags by (simp add: sample_tracker_def)
  qed
  then show ?thesis by simp
qed

text \<open>Nothing is flagged once a session has made 512 requests, not even a block proven volatile by
  256 distinct values: recorded counts stop at 256 while the request count keeps growing, so every
  ratio is at most the threshold.\<close>

theorem nothing_flagged_after_512_requests:
  assumes "tracker_reachable default_vol_config digest tr"
    and "511 \<le> vol_requests (session_of tr sid)"
  shows "fst (observe default_vol_config digest sid (JArr blocks) tr) = []"
proof (rule ccontr)
  let ?st = "observe_session digest blocks (session_of tr sid)"
  assume "fst (observe default_vol_config digest sid (JArr blocks) tr) \<noteq> []"
  then obtain f where "f \<in> set (fst (observe default_vol_config digest sid (JArr blocks) tr))"
    using list.set_sel(1) by blast
  then obtain k where "flag_block default_vol_config ?st (last_cache_control_index blocks) k = Some f"
    by (rule observe_flagsD)
  then obtain sn where sn: "map_of (vol_blocks ?st) k = Some sn"
    "ratio_threshold default_vol_config < of_nat (seen_count sn) / of_nat (vol_requests ?st)"
    by (rule flag_blockD)
  have "vol_ok ?st"
    by (rule observe_session_ok [OF session_of_ok [OF tracker_reachable_ok [OF assms(1)]]])
  then have "seen_ok (vol_requests ?st) sn" using sn(1) by (simp add: vol_ok_def)
  then have "seen_count sn \<le> 256"
    by (auto simp: seen_ok_def seen_count_def MAX_DISTINCT_PER_BLOCK_def split: seen.splits)
  then have "(of_nat (seen_count sn) :: rat) \<le> 256"
    using of_nat_mono [of "seen_count sn" 256, where ?'a = rat] by simp
  moreover have "(512::rat) \<le> of_nat (vol_requests ?st)"
    using assms(2) of_nat_mono [of 512 "vol_requests ?st", where ?'a = rat]
    by (simp add: observe_session_def)
  ultimately show False
    using sn(2) by (simp add: default_vol_config_def DEFAULT_RATIO_THRESHOLD_def field_simps)
qed

lemma repeat_requests:
  "tracker_reachable default_vol_config sample_digest
     (run_tracker default_vol_config sample_digest (replicate n (''u'', JArr (sample_system 0)))) \<and>
   vol_requests (session_of (run_tracker default_vol_config sample_digest
     (replicate n (''u'', JArr (sample_system 0)))) ''u'') = n"
proof (induction n)
  case 0
  show ?case by (simp add: run_tracker_def tracker_init session_of_def)
next
  case (Suc n)
  let ?tr = "run_tracker default_vol_config sample_digest (replicate n (''u'', JArr (sample_system 0)))"
  let ?st = "observe_session sample_digest (sample_system 0) (session_of ?tr ''u'')"
  have step: "run_tracker default_vol_config sample_digest (replicate (Suc n) (''u'', JArr (sample_system 0)))
      = snd (observe default_vol_config sample_digest ''u'' (JArr (sample_system 0)) ?tr)"
    by (simp add: run_tracker_def replicate_append_same [symmetric] del: replicate_Suc)
       (simp add: replicate_append_same [symmetric])
  have obs: "snd (observe default_vol_config sample_digest ''u'' (JArr (sample_system 0)) ?tr)
      = lru_put MAX_SESSIONS ''u'' ?st ?tr"
    by (simp add: observe_def Let_def default_vol_config_def sample_system_def)
  have "distinct (map fst ?tr)" using Suc.IH tracker_reachable_ok by (auto simp: tracker_ok_def)
  then have "map_of (lru_put MAX_SESSIONS ''u'' ?st ?tr) ''u'' = Some ?st"
    by (intro lru_put_same) (simp_all add: MAX_SESSIONS_def)
  then have "session_of (lru_put MAX_SESSIONS ''u'' ?st ?tr) ''u'' = ?st" by (simp add: session_of_def)
  then have "vol_requests (session_of (snd (observe default_vol_config sample_digest ''u''
      (JArr (sample_system 0)) ?tr)) ''u'') = Suc n"
    using Suc.IH by (simp only: obs) (simp add: observe_session_def)
  moreover have "tracker_reachable default_vol_config sample_digest
      (snd (observe default_vol_config sample_digest ''u'' (JArr (sample_system 0)) ?tr))"
    using Suc.IH by (blast intro: tracker_observe)
  ultimately show ?case by (simp only: step)
qed

lemma nothing_flagged_after_512_requests_witness:
  "fst (observe default_vol_config sample_digest ''u'' (JArr (sample_system 3))
     (run_tracker default_vol_config sample_digest (replicate 600 (''u'', JArr (sample_system 0))))) = []"
  using repeat_requests [of 600] by (intro nothing_flagged_after_512_requests) simp_all

lemma describe_block_iff: "describe_block b \<noteq> None \<longleftrightarrow> is_volatile_system_block b"
  by (auto simp: describe_block_def is_volatile_system_block_def text_starts_with_def
      VOLATILE_SYSTEM_BLOCK_PREFIXES_def split: json.splits)

lemma describe_stripped_length:
  "length (describe_stripped bs) = length (filter is_volatile_system_block bs)"
  unfolding describe_stripped_def
  by (induction bs) (auto simp: List.map_filter_simps describe_block_iff [symmetric] split: option.splits)

lemma filter_complement_length: "length (filter P xs) + length (filter (\<lambda>x. \<not> P x) xs) = length xs"
  by (induction xs) auto

text \<open>The sanitizer drops telemetry blocks and nothing else: only \<open>system\<close> can change, only in
  \<open>strip\<close> mode, only by removing allowlisted blocks, only when an identity block remains, and
  every removed block is counted and described.\<close>

theorem sanitize_drops_only_telemetry:
  assumes "sanitize_system_prompt dumps sha cfg digest payload mode sid tr = (r, payload', tr')"
  shows "(\<forall>k. k \<noteq> ''system'' \<longrightarrow> map_of payload' k = map_of payload k) \<and>
    length (stripped_blocks r) = dropped r \<and>
    (dropped r = 0 \<longrightarrow> payload' = payload) \<and>
    (0 < dropped r \<longrightarrow> mode = ''strip'' \<and>
      (\<exists>blocks. jget ''system'' payload = JArr blocks \<and>
        jget ''system'' payload' = JArr (filter (\<lambda>b. \<not> is_volatile_system_block b) blocks) \<and>
        list_ex is_identity_system_block (filter (\<lambda>b. \<not> is_volatile_system_block b) blocks) \<and>
        dropped r = length (filter is_volatile_system_block blocks)))"
proof (cases "mode = ''strip'' \<and> truthy (jget ''system'' payload) \<and>
    snd (strip_volatile_system_blocks (jget ''system'' payload))")
  case True
  then obtain s' where s': "strip_volatile_system_blocks (jget ''system'' payload) = (s', True)"
    by (metis prod.collapse)
  then obtain blocks where b: "jget ''system'' payload = JArr blocks"
    "s' = JArr (filter (\<lambda>b. \<not> is_volatile_system_block b) blocks)"
    "list_ex is_identity_system_block (filter (\<lambda>b. \<not> is_volatile_system_block b) blocks)"
    "list_ex is_volatile_system_block blocks" by (rule strip_volatile_stripped)
  have pos: "0 < length (filter is_volatile_system_block blocks)"
    using b(4) by (auto simp: list_ex_iff filter_empty_conv)
  have cnt: "length blocks - length (filter (\<lambda>b. \<not> is_volatile_system_block b) blocks) =
      length (filter is_volatile_system_block blocks)"
    using filter_complement_length [of is_volatile_system_block blocks] by linarith
  have "payload' = jset ''system'' s' payload"
    "dropped r = length (filter is_volatile_system_block blocks)"
    "length (stripped_blocks r) = length (filter is_volatile_system_block blocks)"
    using assms True s' b(1,2) cnt
    by (auto simp: sanitize_system_prompt_def Let_def split_beta json_list_def describe_stripped_length)
  with True b pos show ?thesis by auto
next
  case False
  then have "payload' = payload \<and> dropped r = 0 \<and> stripped_blocks r = []"
    using assms
    by (auto simp: sanitize_system_prompt_def no_result_def Let_def split_beta split: if_splits)
  then show ?thesis by simp
qed

definition telemetry_payload :: jdict where
  "telemetry_payload =
     [(''model'', JStr ''opus''),
      (''system'', JArr [text_block ''x-anthropic-billing-header: cc_version=1'',
         text_block (hd IDENTITY_SYSTEM_BLOCK_PREFIXES)])]"

lemma sanitize_drops_only_telemetry_witness:
  "jget ''model'' (fst (snd (sanitize_system_prompt (\<lambda>_. []) id default_vol_config sample_digest
     telemetry_payload ''strip'' (Some ''u'') []))) = JStr ''opus'' \<and>
   dropped (fst (sanitize_system_prompt (\<lambda>_. []) id default_vol_config sample_digest
     telemetry_payload ''strip'' (Some ''u'') [])) = 1"
proof -
  obtain r p t where e: "sanitize_system_prompt (\<lambda>_. []) id default_vol_config sample_digest
      telemetry_payload ''strip'' (Some ''u'') [] = (r, p, t)" by (metis prod.collapse)
  have "dropped (fst (sanitize_system_prompt (\<lambda>_. []) id default_vol_config sample_digest
      telemetry_payload ''strip'' (Some ''u'') [])) = 1" by code_simp
  moreover have "map_of p ''model'' = map_of telemetry_payload ''model''"
    using sanitize_drops_only_telemetry [OF e] by simp
  moreover have "map_of telemetry_payload ''model'' = Some (JStr ''opus'')"
    by (simp add: telemetry_payload_def)
  ultimately show ?thesis by (simp add: e jget_def)
qed

end
