(* ===== verification/Caveman.thy ===== *)
theory Caveman
  imports Payload_Common "HOL-Library.Sublist"
begin

text \<open>
  \<^verbatim>\<open>anthrouter/caveman_rewrite.py\<close>: the rewrite of communication guidance for a
  caveman-mode request.  Markdown headings and the sections they open, the edit operations and where
  they may fall, the reply parser, the rewrite cache, and the rewriter's decision.

  The header line holds an em dash and is the argument \<open>header\<close>; SHA-256, \<open>json.dumps\<close>,
  \<open>json.loads\<close> and the editor version are arguments too, as is the model's reply.  The file
  system is assumed to work: a cache directory is a list of files with a value and a time of last use.
\<close>

section \<open>The opening turn\<close>

definition opening_turn :: "jdict \<Rightarrow> (nat \<times> json) list" where
  "opening_turn payload =
     (case jget ''messages'' payload of
        JArr ms \<Rightarrow>
          takeWhile (\<lambda>p. \<not> obj_field_is (snd p) ''role'' ''assistant'') (enumerate 0 ms)
      | _ \<Rightarrow> [])"

definition message_text :: "json \<Rightarrow> string" where
  "message_text content =
     (case content of
        JStr s \<Rightarrow> s
      | JArr bs \<Rightarrow> py_join nl (List.map_filter text_of bs)
      | _ \<Rightarrow> [])"

text \<open>\<open>header(\w+)\<close> at its first match.\<close>

fun header_level :: "string \<Rightarrow> string \<Rightarrow> string option" where
  "header_level header [] = None"
| "header_level header (c # s) =
     (let word = takeWhile py_isword (drop (length header) (c # s)) in
      if prefix header (c # s) \<and> word \<noteq> [] then Some word else header_level header s)"

fun first_some :: "('a \<Rightarrow> 'b option) \<Rightarrow> 'a list \<Rightarrow> 'b option" where
  "first_some f [] = None"
| "first_some f (x # xs) = (case f x of None \<Rightarrow> first_some f xs | r \<Rightarrow> r)"

definition detect_mode :: "string \<Rightarrow> jdict \<Rightarrow> string option" where
  "detect_mode header payload =
     first_some (\<lambda>p. if obj_field_is (snd p) ''role'' ''user'' \<or> obj_field_is (snd p) ''role'' ''system''
                     then header_level header (message_text (jget ''content'' (dict_of (snd p)))) else None)
       (opening_turn payload)"

type_synonym place = "nat \<times> nat option"

definition system_texts :: "nat \<times> json \<Rightarrow> (place \<times> string) list" where
  "system_texts p =
     (if obj_field_is (snd p) ''role'' ''system''
      then (case jget ''content'' (dict_of (snd p)) of
              JStr s \<Rightarrow> [((fst p, None), s)]
            | JArr bs \<Rightarrow>
                List.map_filter (\<lambda>(ci, b). map_option (\<lambda>t. ((fst p, Some ci), t)) (text_of b))
                  (enumerate 0 bs)
            | _ \<Rightarrow> [])
      else [])"

definition opening_texts :: "jdict \<Rightarrow> (place \<times> string) list" where
  "opening_texts payload = concat (map system_texts (opening_turn payload))"

definition opening_system_blocks :: "jdict \<Rightarrow> json list \<times> place list" where
  "opening_system_blocks payload =
     (map (\<lambda>p. text_block (snd p)) (opening_texts payload), map fst (opening_texts payload))"

definition set_block_text :: "json \<Rightarrow> json \<Rightarrow> json" where
  "set_block_text t b = JObj (jset ''text'' t (dict_of b))"

definition write_place :: "place \<Rightarrow> json \<Rightarrow> json list \<Rightarrow> json list" where
  "write_place pl block ms =
     (let m = dict_of (ms ! fst pl); t = jget ''text'' (dict_of block) in
      ms[fst pl := JObj (jset ''content''
           (case snd pl of
              None \<Rightarrow> t
            | Some ci \<Rightarrow>
                (case jget ''content'' m of
                   JArr bs \<Rightarrow> JArr (bs[ci := set_block_text t (bs ! ci)])
                 | c \<Rightarrow> c)) m)])"

definition write_opening_system_blocks :: "jdict \<Rightarrow> place list \<Rightarrow> json list \<Rightarrow> py_error + jdict" where
  "write_opening_system_blocks payload places blocks =
     (if length places \<noteq> length blocks then Inl ValueError
      else if \<not> has_key ''messages'' payload then Inl KeyError
      else if places = [] then Inr payload
      else (case jget ''messages'' payload of
              JArr ms \<Rightarrow>
                Inr (jset ''messages'' (JArr (fold (\<lambda>(pl, b). write_place pl b) (zip places blocks) ms)) payload)
            | _ \<Rightarrow> Inl TypeError))"

section \<open>Headings and sections\<close>

definition blank_char :: "char \<Rightarrow> bool" where
  "blank_char c \<longleftrightarrow> c = CHR '' '' \<or> c = CHR 0x09"

text \<open>\<open>^(#{1,6})[ \t]+(.+?)[ \t]*$\<close> on one line: the level and the title.  When only blanks follow the
  marks, the expression gives back one of them as the title.\<close>

definition heading_line :: "string \<Rightarrow> (nat \<times> string) option" where
  "heading_line l =
     (let marks = takeWhile (\<lambda>c. c = CHR ''#'') l;
          rest = drop (length marks) l;
          body = dropWhile blank_char rest
      in if marks = [] \<or> 6 < length marks \<or> rest = [] \<or> \<not> blank_char (hd rest) then None
         else if body \<noteq> []
         then Some (length marks, rev (dropWhile blank_char (rev body)))
         else if 2 \<le> length rest then Some (length marks, [last rest]) else None)"

text \<open>Every heading as (start, end of line, level, title).\<close>

type_synonym heading = "nat \<times> nat \<times> nat \<times> string"

fun headings_at :: "nat \<Rightarrow> string list \<Rightarrow> heading list" where
  "headings_at pos [] = []"
| "headings_at pos (l # ls) =
     (case heading_line l of
        None \<Rightarrow> headings_at (pos + Suc (length l)) ls
      | Some (level, title) \<Rightarrow>
          (pos, pos + length l, level, title) # headings_at (pos + Suc (length l)) ls)"

definition headings :: "string \<Rightarrow> heading list" where
  "headings t = headings_at 0 (split_char CHR 0x0A t)"

definition level_of :: "heading \<Rightarrow> nat" where "level_of h = fst (snd (snd h))"
definition title_of :: "heading \<Rightarrow> string" where "title_of h = snd (snd (snd h))"

text \<open>The start of the next heading of the same or a higher level, else the end of the text.\<close>

definition section_end :: "string \<Rightarrow> nat \<Rightarrow> heading list \<Rightarrow> nat" where
  "section_end t level later =
     (case find (\<lambda>h. level_of h \<le> level) later of Some h \<Rightarrow> fst h | None \<Rightarrow> length t)"

fun sections_of :: "string \<Rightarrow> (string \<Rightarrow> bool) \<Rightarrow> heading list \<Rightarrow> (nat \<times> nat) list" where
  "sections_of t P [] = []"
| "sections_of t P (h # hs) =
     (if P (title_of h) then (fst h, section_end t (level_of h) hs) # sections_of t P hs
      else sections_of t P hs)"

definition COMM_WORDS :: "string list" where
  "COMM_WORDS =
     [''tone'', ''style'', ''communicat'', ''concise'', ''brevity'', ''verbos'', ''output'', ''format'',
      ''writing'', ''voice'', ''prose'']"

definition RULESET_WORDS :: "string list" where
  "RULESET_WORDS = [''caveman'', ''ultracave'', ''wenyan'']"

definition mentions :: "string list \<Rightarrow> string \<Rightarrow> bool" where
  "mentions ws title \<longleftrightarrow> list_ex (\<lambda>w. py_in w (py_lower title)) ws"

definition ruleset_sections :: "string \<Rightarrow> (nat \<times> nat) list" where
  "ruleset_sections t = sections_of t (mentions RULESET_WORDS) (headings t)"

definition comm_sections :: "string \<Rightarrow> (nat \<times> nat) list" where
  "comm_sections t =
     filter (\<lambda>sp. \<not> list_ex (\<lambda>r. fst r \<le> fst sp \<and> fst sp < snd r) (ruleset_sections t))
       (sections_of t (mentions COMM_WORDS) (headings t))"

section \<open>Edit operations\<close>

type_synonym span = "nat \<times> nat \<times> string"

definition occurrences :: "string \<Rightarrow> string \<Rightarrow> nat list" where
  "occurrences p t = filter (\<lambda>i. prefix p (drop i t)) [0..<Suc (length t)]"

definition overlaps :: "nat \<Rightarrow> nat \<Rightarrow> nat \<times> nat \<Rightarrow> bool" where
  "overlaps s e r \<longleftrightarrow> s < snd r \<and> fst r < e"

definition op_span :: "string \<Rightarrow> json \<Rightarrow> span option" where
  "op_span t op =
     (case op of
        JObj d \<Rightarrow>
          (case (jget ''find'' d, jget ''replace'' d) of
             (JStr needle, JStr repl) \<Rightarrow>
               (case occurrences needle t of
                  [s] \<Rightarrow>
                    let e = s + length needle in
                    if needle \<noteq> [] \<and> list_ex (\<lambda>c. fst c \<le> s \<and> e \<le> snd c) (comm_sections t) \<and>
                       \<not> list_ex (overlaps s e) (ruleset_sections t) \<and>
                       \<not> list_ex (\<lambda>h. overlaps s e (fst h, fst (snd h))) (headings t)
                    then Some (s, e, repl) else None
                | _ \<Rightarrow> None)
           | _ \<Rightarrow> None)
      | _ \<Rightarrow> None)"

fun all_some :: "'a option list \<Rightarrow> 'a list option" where
  "all_some [] = Some []"
| "all_some (None # xs) = None"
| "all_some (Some x # xs) = map_option (Cons x) (all_some xs)"

fun disjoint_spans :: "span list \<Rightarrow> bool" where
  "disjoint_spans (a # b # xs) \<longleftrightarrow> fst (snd a) \<le> fst b \<and> disjoint_spans (b # xs)"
| "disjoint_spans _ \<longleftrightarrow> True"

fun splice :: "string \<Rightarrow> nat \<Rightarrow> span list \<Rightarrow> string" where
  "splice t pos [] = drop pos t"
| "splice t pos ((s, e, r) # xs) = take (s - pos) (drop pos t) @ r @ splice t e xs"

definition apply_edits :: "string \<Rightarrow> json \<Rightarrow> (string \<times> nat) option" where
  "apply_edits t ops =
     (case ops of
        JArr os \<Rightarrow>
          (case all_some (map (op_span t) os) of
             None \<Rightarrow> None
           | Some spans \<Rightarrow>
               let sorted = sort_key fst spans in
               if disjoint_spans sorted then Some (splice t 0 sorted, length sorted) else None)
      | _ \<Rightarrow> None)"

section \<open>The model's reply\<close>

definition fence :: string where "fence = ''```''"

definition drop_opening_fence :: "string \<Rightarrow> string" where
  "drop_opening_fence s =
     (let rest = dropWhile py_isword (drop 3 s) in
      case rest of c # r \<Rightarrow> if c = CHR 0x0A then r else rest | [] \<Rightarrow> [])"

definition drop_closing_fence :: "string \<Rightarrow> string" where
  "drop_closing_fence s =
     (if endswith s (nl @ fence) then take (length s - 4) s
      else if endswith s fence then take (length s - 3) s else s)"

definition parse_ops :: "(string \<Rightarrow> json option) \<Rightarrow> string \<Rightarrow> json option" where
  "parse_ops loads reply =
     (let r = py_strip reply in
      loads (if startswith r fence
             then py_strip (drop_closing_fence (drop_opening_fence r)) else r))"

section \<open>The rewriter\<close>

definition text_slots :: "json \<Rightarrow> (nat option \<times> string) list" where
  "text_slots system =
     (case system of
        JStr s \<Rightarrow> [(None, s)]
      | JArr bs \<Rightarrow>
          List.map_filter (\<lambda>(i, b). map_option (\<lambda>t. (Some i, t)) (text_of b)) (enumerate 0 bs)
      | _ \<Rightarrow> [])"

record editor =
  ed_sha :: "string \<Rightarrow> string"
  ed_dumps :: "json \<Rightarrow> string"
  ed_loads :: "string \<Rightarrow> json option"
  ed_version :: string

definition system_key :: "editor \<Rightarrow> json \<Rightarrow> string \<Rightarrow> string" where
  "system_key ed system mode =
     ed_sha ed ((case system of JStr s \<Rightarrow> s | _ \<Rightarrow> ed_dumps ed system) @ [CHR 0x00] @ mode @ [CHR 0x00] @
                ed_version ed)"

record rewriter =
  rw_mem :: "(string \<times> json) list"
  rw_disk :: "(string \<times> json \<times> rat) list option"
  rw_rejects :: "(string \<times> rat) list"

definition CACHE_MAX_AGE_SECS :: rat where "CACHE_MAX_AGE_SECS = 30 * 86400"
definition REJECT_TTL_SECS :: rat where "REJECT_TTL_SECS = 600"
definition MAX_REJECTS :: nat where "MAX_REJECTS = 4096"

text \<open>A new rewriter deletes the files unused for the maximal age.\<close>

definition new_rewriter :: "(string \<times> json \<times> rat) list option \<Rightarrow> rat \<Rightarrow> rewriter" where
  "new_rewriter files now =
     \<lparr>rw_mem = [],
      rw_disk = map_option (filter (\<lambda>f. now - CACHE_MAX_AGE_SECS \<le> snd (snd f))) files,
      rw_rejects = []\<rparr>"

definition cache_get :: "rat \<Rightarrow> string \<Rightarrow> rewriter \<Rightarrow> json option \<times> rewriter" where
  "cache_get now key rw =
     (case map_of (rw_mem rw) key of
        Some v \<Rightarrow> (Some v, rw)
      | None \<Rightarrow>
          (case Option.bind (rw_disk rw) (\<lambda>files. map_of files key) of
             None \<Rightarrow> (None, rw)
           | Some (v, used) \<Rightarrow>
               (Some v, rw\<lparr>rw_disk := map_option (AList.update key (v, now)) (rw_disk rw),
                           rw_mem := AList.update key v (rw_mem rw)\<rparr>)))"

definition cache_put :: "rat \<Rightarrow> string \<Rightarrow> json \<Rightarrow> rewriter \<Rightarrow> rewriter" where
  "cache_put now key v rw =
     rw\<lparr>rw_mem := AList.update key v (rw_mem rw),
        rw_disk := map_option (AList.update key (v, now)) (rw_disk rw)\<rparr>"

definition rejected_recently :: "rat \<Rightarrow> string \<Rightarrow> rewriter \<Rightarrow> bool \<times> rewriter" where
  "rejected_recently now key rw =
     (case map_of (rw_rejects rw) key of
        None \<Rightarrow> (False, rw)
      | Some expiry \<Rightarrow>
          if now < expiry then (True, rw)
          else (False, rw\<lparr>rw_rejects := AList.delete key (rw_rejects rw)\<rparr>))"

definition note_reject :: "rat \<Rightarrow> string \<Rightarrow> rewriter \<Rightarrow> rewriter" where
  "note_reject now key rw =
     (let rs = AList.update key (now + REJECT_TTL_SECS) (rw_rejects rw) in
      rw\<lparr>rw_rejects := (if length rs > MAX_REJECTS then tl rs else rs)\<rparr>)"

datatype outcome_kind =
    Cache_hit | Rewritten | Unchanged | No_guidance | Rejected | Rejected_cached | Busy | Failed | Timed_out

datatype model_reply = Reply_text string | Reply_error | Reply_timeout

text \<open>The prompt for the editing model.\<close>

definition section_excerpt :: "nat option \<times> string \<Rightarrow> string list" where
  "section_excerpt slot =
     map (\<lambda>(s, e). ''<section block='' @ [CHR 0x22] @
            show_int (case fst slot of Some i \<Rightarrow> int i | None \<Rightarrow> 0) @ [CHR 0x22] @ ''>'' @ nl @
            take (e - s) (drop s (snd slot)) @ nl @ ''</section>'') (comm_sections (snd slot))"

definition editor_prompt :: "string \<Rightarrow> (nat option \<times> string) list \<Rightarrow> string" where
  "editor_prompt mode slots =
     ''Caveman mode level: '' @ mode @ ''.'' @ nl @ nl @
     ''Communication sections of the system prompt (edit only text inside these):'' @ nl @ nl @
     py_join (nl @ nl) (concat (map section_excerpt slots)) @ nl @ nl @
     ''Return the JSON array of edit ops. Each '' @ [CHR 0x22] @ ''find'' @ [CHR 0x22] @
     '' must be unique within its whole block.''"

definition guided_slots :: "json \<Rightarrow> (nat option \<times> string) list" where
  "guided_slots system = filter (\<lambda>s. comm_sections (snd s) \<noteq> []) (text_slots system)"

text \<open>The one block an operation belongs to.\<close>

definition op_owner :: "json \<Rightarrow> json \<Rightarrow> nat option option" where
  "op_owner system op =
     (case jget ''find'' (dict_of op) of
        JStr needle \<Rightarrow>
          if needle = [] then None
          else (case (filter (\<lambda>s. py_in needle (snd s)) (guided_slots system),
                      filter (\<lambda>s. py_in needle (snd s)) (text_slots system)) of
                  ([own], [_]) \<Rightarrow> Some (fst own)
                | _ \<Rightarrow> None)
      | _ \<Rightarrow> None)"

definition put_text :: "nat option \<Rightarrow> string \<Rightarrow> json \<Rightarrow> json" where
  "put_text i t system =
     (case (i, system) of
        (None, _) \<Rightarrow> JStr t
      | (Some k, JArr bs) \<Rightarrow> JArr (bs[k := set_block_text (JStr t) (bs ! k)])
      | _ \<Rightarrow> system)"

text \<open>The blocks in order; each receives its own operations.\<close>

fun apply_blocks ::
  "(nat option \<times> string) list \<Rightarrow> (nat option \<times> json) list \<Rightarrow> json \<Rightarrow> nat \<Rightarrow> (json \<times> nat) option" where
  "apply_blocks [] owned system n = Some (system, n)"
| "apply_blocks ((i, t) # slots) owned system n =
     (let ops = map snd (filter (\<lambda>p. fst p = i) owned) in
      if ops = [] then apply_blocks slots owned system n
      else (case apply_edits t (JArr ops) of
              None \<Rightarrow> None
            | Some (t', k) \<Rightarrow> apply_blocks slots owned (put_text i t' system) (n + k)))"

definition edit_system :: "json \<Rightarrow> json \<Rightarrow> (json \<times> nat) option" where
  "edit_system system reply =
     (case reply of
        JArr ops \<Rightarrow>
          (case all_some (map (op_owner system) ops) of
             None \<Rightarrow> None
           | Some owners \<Rightarrow> apply_blocks (guided_slots system) (zip owners ops) system 0)
      | _ \<Rightarrow> None)"

text \<open>The wall clock and the monotonic clock.\<close>

type_synonym clocks = "rat \<times> rat"

definition accept_edits ::
  "editor \<Rightarrow> clocks \<Rightarrow> string \<Rightarrow> json \<Rightarrow> string \<Rightarrow> string \<Rightarrow> rewriter \<Rightarrow> (json \<times> outcome_kind \<times> nat) \<times> rewriter" where
  "accept_edits ed now key system mode reply rw =
     (case Option.bind (parse_ops (ed_loads ed) reply) (edit_system system) of
        None \<Rightarrow> ((system, Rejected, 0), note_reject (snd now) key rw)
      | Some (system', n) \<Rightarrow>
          let rw' = cache_put (fst now) key system' rw in
          if n = 0 then ((system', Unchanged, 0), rw')
          else ((system', Rewritten, n),
                cache_put (fst now) (system_key ed system' mode) system' rw'))"

text \<open>\<open>_compute\<close> and the reject it leaves.  \<open>slot_free\<close> tells whether a worker slot is free; the editing
  model is a function of its prompt.\<close>

definition compute_rewrite ::
  "editor \<Rightarrow> clocks \<Rightarrow> bool \<Rightarrow> (string \<Rightarrow> model_reply) \<Rightarrow> string \<Rightarrow> json \<Rightarrow> string \<Rightarrow> rewriter \<Rightarrow>
   (json \<times> outcome_kind \<times> nat) \<times> rewriter" where
  "compute_rewrite ed now slot_free model key system mode rw =
     (if guided_slots system = []
      then ((system, No_guidance, 0), cache_put (fst now) key system rw)
      else if \<not> slot_free then ((system, Busy, 0), rw)
      else (case model (editor_prompt mode (guided_slots system)) of
              Reply_timeout \<Rightarrow> ((system, Timed_out, 0), rw)
            | Reply_error \<Rightarrow> ((system, Failed, 0), rw)
            | Reply_text reply \<Rightarrow> accept_edits ed now key system mode reply rw))"

text \<open>The look at the cache and the recent rejects, made before and again after the wait for the lock.\<close>

definition known_answer ::
  "clocks \<Rightarrow> string \<Rightarrow> json \<Rightarrow> rewriter \<Rightarrow> (json \<times> outcome_kind \<times> nat) option \<times> rewriter" where
  "known_answer now key system rw =
     (case cache_get (fst now) key rw of
        (Some v, rw') \<Rightarrow> (Some (v, Cache_hit, 0), rw')
      | (None, rw') \<Rightarrow>
          (case rejected_recently (snd now) key rw' of
             (True, rw'') \<Rightarrow> (Some (system, Rejected_cached, 0), rw'')
           | (False, rw'') \<Rightarrow> (None, rw'')))"

text \<open>\<open>rewrite\<close>.  The lock of the key is not taken within the timeout (None), or is, after the other
  threads have acted on the rewriter by \<open>others\<close>.\<close>

definition rewrite ::
  "editor \<Rightarrow> clocks \<Rightarrow> (rewriter \<Rightarrow> rewriter) option \<Rightarrow> bool \<Rightarrow> (string \<Rightarrow> model_reply) \<Rightarrow> json \<Rightarrow> string \<Rightarrow> rewriter \<Rightarrow>
   (json \<times> outcome_kind \<times> nat) \<times> rewriter" where
  "rewrite ed now lock slot_free model system mode rw =
     (let key = system_key ed system mode in
      case known_answer now key system rw of
        (Some r, rw1) \<Rightarrow> (r, rw1)
      | (None, rw1) \<Rightarrow>
          (case lock of
             None \<Rightarrow> ((system, Busy, 0), rw1)
           | Some others \<Rightarrow>
               (case known_answer now key system (others rw1) of
                  (Some r, rw2) \<Rightarrow> (r, rw2)
                | (None, rw2) \<Rightarrow> compute_rewrite ed now slot_free model key system mode rw2)))"

section \<open>Running figures per session and rewrite state\<close>

definition MAX_TRACKED :: nat where "MAX_TRACKED = 4096"

definition other_state :: "string \<Rightarrow> string" where
  "other_state state = (if state = ''rewritten'' then ''original'' else ''rewritten'')"

type_synonym ratio_totals = "((string \<times> string) \<times> int \<times> int) list"

definition evict_first :: "('k \<times> 'v) list \<Rightarrow> ('k \<times> 'v) list" where
  "evict_first al = (if MAX_TRACKED < length al then tl al else al)"

definition record_cache_ratio ::
  "string \<Rightarrow> string \<Rightarrow> int option \<Rightarrow> int option \<Rightarrow> int option \<Rightarrow> ratio_totals \<Rightarrow> (rat \<times> rat option) \<times> ratio_totals" where
  "record_cache_ratio sess state input creation rd totals =
     (let z = (\<lambda>v. case v of Some (n :: int) \<Rightarrow> n | None \<Rightarrow> 0);
          total' = z input + z creation + z rd;
          ratio = (if total' \<noteq> 0 then of_int (z rd) / of_int total' else 0);
          agg = (case map_of totals (sess, state) of Some a \<Rightarrow> a | None \<Rightarrow> (0, 0));
          totals' = evict_first (AList.update (sess, state) (fst agg + z rd, snd agg + total') totals)
      in ((ratio, case map_of totals' (sess, other_state state) of
                    Some (r, n) \<Rightarrow> if n \<noteq> 0 then Some (of_int r / of_int n) else None
                  | None \<Rightarrow> None), totals'))"

definition PROSE_WORDS :: "string list" where
  "PROSE_WORDS = [''a'', ''an'', ''the'', ''is'', ''are'', ''was'', ''were'', ''be'']"

text \<open>The text with each fenced or inline code span replaced by a blank; \<open>after_fence\<close> is the text after the
  next three backquotes.\<close>

fun after_fence :: "string \<Rightarrow> string" where
  "after_fence [] = []"
| "after_fence (c # s) = (if prefix fence (c # s) then drop 2 s else after_fence s)"

lemma after_fence_le [termination_simp]: "length (after_fence s) \<le> length s"
  by (induction s) (auto simp: le_Suc_eq intro: order_trans)

definition inline_code_end :: "string \<Rightarrow> string option" where
  "inline_code_end s =
     (case dropWhile (\<lambda>c. c \<noteq> CHR 0x60 \<and> c \<noteq> CHR 0x0A) s of
        c # r \<Rightarrow> if c = CHR 0x60 then Some r else None
      | [] \<Rightarrow> None)"

lemma inline_code_end_less [termination_simp]: "inline_code_end s = Some r \<Longrightarrow> length r < length s"
  using length_dropWhile_le [of "\<lambda>c. c \<noteq> CHR 0x60 \<and> c \<noteq> CHR 0x0A" s]
  by (auto simp: inline_code_end_def split: list.splits if_splits)

function drop_code :: "string \<Rightarrow> string" where
  "drop_code [] = []"
| "drop_code (c # s) =
     (if prefix fence (c # s) then CHR '' '' # drop_code (after_fence (drop 2 s))
      else if c = CHR 0x60
      then (case inline_code_end s of
              Some r \<Rightarrow> CHR '' '' # drop_code r
            | None \<Rightarrow> c # drop_code s)
      else c # drop_code s)"
  by pat_completeness auto
termination
  by (relation "measure length")
    (auto dest: inline_code_end_less intro!: le_imp_less_Suc order_trans [OF after_fence_le])

definition ascii_letter :: "char \<Rightarrow> bool" where
  "ascii_letter c \<longleftrightarrow> (65 \<le> ord c \<and> ord c \<le> 90) \<or> (97 \<le> ord c \<and> ord c \<le> 122)"

function words_of :: "string \<Rightarrow> string list" where
  "words_of [] = []"
| "words_of (c # s) =
     (if ascii_letter c
      then (c # takeWhile (\<lambda>d. ascii_letter d \<or> d = CHR 0x27) s) #
           words_of (dropWhile (\<lambda>d. ascii_letter d \<or> d = CHR 0x27) s)
      else words_of s)"
  by pat_completeness auto
termination
  by (relation "measure length") (auto intro: le_imp_less_Suc length_dropWhile_le)

definition prose_rate :: "string \<Rightarrow> (rat \<times> nat) option" where
  "prose_rate t =
     (let ws = words_of (drop_code t); hits = length (filter (\<lambda>w. py_lower w \<in> set PROSE_WORDS) ws) in
      if ws = [] then None else Some (100 * of_nat hits / of_nat (length ws), length ws))"

type_synonym prose_totals = "((string \<times> string) \<times> rat \<times> nat) list"

definition record_prose_rate ::
  "string \<Rightarrow> string \<Rightarrow> rat \<Rightarrow> prose_totals \<Rightarrow> (rat \<times> rat option) \<times> prose_totals" where
  "record_prose_rate sess state rate totals =
     (let agg = (case map_of totals (sess, state) of Some a \<Rightarrow> a | None \<Rightarrow> (0, 0));
          agg' = (fst agg + rate, Suc (snd agg));
          totals' = evict_first (AList.update (sess, state) agg' totals)
      in ((fst agg' / of_nat (snd agg'),
           case map_of totals' (sess, other_state state) of
             Some (r, n) \<Rightarrow> if n \<noteq> 0 then Some (r / of_nat n) else None
           | None \<Rightarrow> None), totals'))"

end
