(* ===== verification/Caveman_Props.thy ===== *)
theory Caveman_Props
  imports Caveman
begin

text \<open>
  What the caveman rewrite guarantees: edits stay inside communication sections, a failure changes neither
  the request nor the cache, and a rewritten prompt maps to itself.
\<close>

section \<open>Where edits fall\<close>

lemma sublist_slice:
  assumes "pos \<le> a" "b \<le> s"
  shows "sublist (take (b - a) (drop a t)) (take (s - pos) (drop pos t))"
proof (cases "a < b")
  case True
  with assms have "take (b - a) (drop a t) = take (b - a) (drop (a - pos) (take (s - pos) (drop pos t)))"
    by (simp add: drop_take min_def)
  then show ?thesis
    by (metis sublist_drop sublist_take sublist_order.order_trans)
qed simp

lemma sublist_slice_rest:
  assumes "pos \<le> a"
  shows "sublist (take n (drop a t)) (drop pos t)"
proof -
  from assms have "take n (drop a t) = take n (drop (a - pos) (drop pos t))" by simp
  then show ?thesis
    by (metis sublist_drop sublist_take sublist_order.order_trans)
qed

lemma splice_keeps:
  assumes "\<forall>sp \<in> set spans. \<not> overlaps (fst sp) (fst (snd sp)) (a, b)" "pos \<le> a"
  shows "sublist (take (b - a) (drop a t)) (splice t pos spans)"
  using assms
proof (induction t pos spans rule: splice.induct)
  case (1 t pos)
  then show ?case by (simp add: sublist_slice_rest)
next
  case (2 t pos s e r xs)
  from 2(2) consider (before) "b \<le> s" | (after) "e \<le> a" by (auto simp: overlaps_def)
  then show ?case
  proof cases
    case before
    with 2(3) have "sublist (take (b - a) (drop a t)) (take (s - pos) (drop pos t))" by (rule sublist_slice)
    then show ?thesis by (simp add: sublist_append)
  next
    case after
    with 2(1,2) show ?thesis by (simp add: sublist_append)
  qed
qed

lemma all_some_iff: "all_some xs = Some ys \<longleftrightarrow> xs = map Some ys"
  by (induction xs arbitrary: ys rule: all_some.induct) auto

lemma op_span_confined:
  assumes "op_span t op = Some (s, e, r)"
  shows "(\<exists>c \<in> set (comm_sections t). fst c \<le> s \<and> e \<le> snd c)"
    and "\<forall>p \<in> set (ruleset_sections t). \<not> overlaps s e p"
    and "\<forall>h \<in> set (headings t). \<not> overlaps s e (fst h, fst (snd h))"
  using assms by (auto simp: op_span_def Let_def list_ex_iff split: json.splits list.splits if_splits)

lemma overlap_within:
  assumes "fst c \<le> s" "e \<le> snd c" "\<not> overlaps a b c"
  shows "\<not> overlaps s e (a, b)"
  using assms by (auto simp: overlaps_def)

text \<open>(C24) When the edits are accepted, one edit is applied for each operation, and every ruleset
  section, every heading line and every stretch of text that meets no communication section is in the new
  text word for word.\<close>

theorem edits_confined:
  assumes "apply_edits t ops = Some (t', n)"
  shows "(\<exists>os. ops = JArr os \<and> n = length os) \<and>
         (\<forall>(a, b) \<in> set (ruleset_sections t). sublist (take (b - a) (drop a t)) t') \<and>
         (\<forall>h \<in> set (headings t). sublist (take (fst (snd h) - fst h) (drop (fst h) t)) t') \<and>
         (\<forall>a b. (\<forall>c \<in> set (comm_sections t). \<not> overlaps a b c) \<longrightarrow>
            sublist (take (b - a) (drop a t)) t')"
proof -
  from assms obtain os spans where ops: "ops = JArr os" and spans: "map (op_span t) os = map Some spans"
    and t': "t' = splice t 0 (sort_key fst spans)" and n: "n = length spans"
    by (auto simp: apply_edits_def Let_def all_some_iff split: json.splits option.splits if_splits)
  have conf: "\<exists>op. op_span t op = Some (s, e, r)" if "(s, e, r) \<in> set spans" for s e r
    using that spans by (metis image_iff list.set_map)
  have keep: "sublist (take (b - a) (drop a t)) t'"
    if "\<And>s e r. (s, e, r) \<in> set spans \<Longrightarrow> \<not> overlaps s e (a, b)" for a b
    unfolding t' by (rule splice_keeps) (use that in auto)
  from spans have "length os = length spans" by (metis length_map)
  moreover have "sublist (take (b - a) (drop a t)) t'" if "(a, b) \<in> set (ruleset_sections t)" for a b
    using that conf op_span_confined(2) by (blast intro: keep)
  moreover have "sublist (take (fst (snd h) - fst h) (drop (fst h) t)) t'" if "h \<in> set (headings t)" for h
    using that conf op_span_confined(3) by (blast intro: keep)
  moreover have "sublist (take (b - a) (drop a t)) t'"
    if "\<forall>c \<in> set (comm_sections t). \<not> overlaps a b c" for a b
  proof (rule keep)
    fix s e r assume "(s, e, r) \<in> set spans"
    with conf obtain c where "c \<in> set (comm_sections t)" "fst c \<le> s" "e \<le> snd c"
      using op_span_confined(1) by blast
    with that show "\<not> overlaps s e (a, b)" by (metis overlap_within)
  qed
  ultimately show ?thesis using ops n by auto
qed

definition sample_guidance :: string where
  "sample_guidance = ''# Tone'' @ nl @ ''Be kind.'' @ nl @ ''# caveman'' @ nl @ ''Grunt.''"

definition sample_op :: json where
  "sample_op = JArr [JObj [(''find'', JStr ''kind''), (''replace'', JStr ''terse'')]]"

lemma edits_confined_witness:
  "sublist (''# caveman'' @ nl @ ''Grunt.'') (''# Tone'' @ nl @ ''Be terse.'' @ nl @ ''# caveman'' @ nl @ ''Grunt.'')"
proof -
  have "apply_edits sample_guidance sample_op =
      Some (''# Tone'' @ nl @ ''Be terse.'' @ nl @ ''# caveman'' @ nl @ ''Grunt.'', 1)"
    by code_simp
  from edits_confined [OF this]
  have "\<forall>(a, b) \<in> set (ruleset_sections sample_guidance).
      sublist (take (b - a) (drop a sample_guidance))
        (''# Tone'' @ nl @ ''Be terse.'' @ nl @ ''# caveman'' @ nl @ ''Grunt.'')"
    by blast
  moreover have "ruleset_sections sample_guidance = [(16, 32)]" by code_simp
  moreover have "take (32 - 16) (drop 16 sample_guidance) = ''# caveman'' @ nl @ ''Grunt.''" by code_simp
  ultimately show ?thesis by simp
qed

section \<open>Failures and retries\<close>

definition rewrite_failures :: "outcome_kind set" where
  "rewrite_failures = {Rejected, Rejected_cached, Busy, Failed, Timed_out}"

definition caches :: "rewriter \<Rightarrow> (string \<times> json) list \<times> (string \<times> json \<times> rat) list option" where
  "caches rw = (rw_mem rw, rw_disk rw)"

lemma cache_get_None:
  "cache_get now key rw = (None, rw') \<Longrightarrow> rw' = rw \<and> map_of (rw_mem rw) key = None \<and>
     Option.bind (rw_disk rw) (\<lambda>files. map_of files key) = None"
  by (auto simp: cache_get_def split: option.splits)

lemma rejected_recently_caches: "caches (snd (rejected_recently now key rw)) = caches rw"
  by (auto simp: rejected_recently_def caches_def split: option.splits)

lemma note_reject_caches [simp]: "caches (note_reject now key rw) = caches rw"
  by (simp add: note_reject_def caches_def Let_def)

lemma known_answer_None:
  assumes "known_answer now key system rw = (None, rw')"
  shows "caches rw' = caches rw" "map_of (rw_mem rw') key = None"
    "Option.bind (rw_disk rw') (\<lambda>files. map_of files key) = None" "map_of (rw_rejects rw') key = None"
proof -
  from assms obtain rw1 where get: "cache_get (fst now) key rw = (None, rw1)"
    and rej: "rejected_recently (snd now) key rw1 = (False, rw')"
    by (auto simp: known_answer_def split: prod.splits option.splits bool.splits)
  from cache_get_None [OF get] have *: "rw1 = rw" "map_of (rw_mem rw) key = None"
    "Option.bind (rw_disk rw) (\<lambda>files. map_of files key) = None" by auto
  from rejected_recently_caches [of "snd now" key rw] rej *(1) show same: "caches rw' = caches rw" by simp
  from same *(2,3) show "map_of (rw_mem rw') key = None"
    "Option.bind (rw_disk rw') (\<lambda>files. map_of files key) = None" by (simp_all add: caches_def)
  from rej show "map_of (rw_rejects rw') key = None"
    by (auto simp: rejected_recently_def delete_conv split: option.splits if_splits)
qed

lemma known_answer_Some:
  assumes "known_answer now key system rw = (Some (v, kind, n), rw')"
  shows "kind = Cache_hit \<or> (v = system \<and> kind = Rejected_cached \<and> n = 0 \<and> caches rw' = caches rw)"
proof -
  have "caches rw2 = caches rw1" if "rejected_recently m key rw1 = (b, rw2)" for m b rw1 rw2
    using rejected_recently_caches [of m key rw1] that by simp
  with assms show ?thesis
    by (fastforce simp: known_answer_def dest: cache_get_None split: prod.splits option.splits bool.splits)
qed

lemma accept_edits_failure:
  assumes "accept_edits ed now key system mode reply rw = ((v, kind, n), rw')" "kind \<in> rewrite_failures"
  shows "v = system \<and> kind = Rejected \<and> n = 0 \<and> rw' = note_reject (snd now) key rw"
  using assms by (auto simp: accept_edits_def Let_def rewrite_failures_def split: option.splits prod.splits if_splits)

lemma compute_rewrite_failure:
  assumes "compute_rewrite ed now slot_free model key system mode rw = ((v, kind, n), rw')"
    "kind \<in> rewrite_failures"
  shows "v = system \<and> n = 0 \<and> (rw' = rw \<or> rw' = note_reject (snd now) key rw)"
    and "kind \<noteq> Rejected_cached"
    and "kind = Rejected \<Longrightarrow> rw' = note_reject (snd now) key rw"
  using assms
  by (auto simp: compute_rewrite_def dest!: accept_edits_failure split: if_splits model_reply.splits)
    (auto simp: rewrite_failures_def)

lemma rewrite_cases:
  assumes "rewrite ed now lock slot_free model system mode rw = (r, rw')"
  obtains (first) "known_answer now (system_key ed system mode) system rw = (Some r, rw')"
  | (no_lock) rw1 where "known_answer now (system_key ed system mode) system rw = (None, rw1)"
      "lock = None" "r = (system, Busy, 0)" "rw' = rw1"
  | (second) rw1 others where "known_answer now (system_key ed system mode) system rw = (None, rw1)"
      "lock = Some others" "known_answer now (system_key ed system mode) system (others rw1) = (Some r, rw')"
  | (computed) rw1 others rw2 where "known_answer now (system_key ed system mode) system rw = (None, rw1)"
      "lock = Some others" "known_answer now (system_key ed system mode) system (others rw1) = (None, rw2)"
      "compute_rewrite ed now slot_free model (system_key ed system mode) system mode rw2 = (r, rw')"
  using assms by (auto simp: rewrite_def Let_def split: prod.splits option.splits)

text \<open>(C28) A failed rewrite (model error, timeout, rejected operations, no free lock or worker)
  answers with the system it was given and no edit, and leaves the cache in memory and on disk as it found
  it, or as the threads that ran while it waited for the lock left it.\<close>

theorem rewrite_failure_clean:
  assumes run: "rewrite ed now lock slot_free model system mode rw = ((v, kind, n), rw')"
    and failed: "kind \<in> rewrite_failures"
  shows "v = system \<and> n = 0 \<and>
         (\<exists>r. caches r = caches rw \<and>
            (caches rw' = caches r \<or> (\<exists>others. lock = Some others \<and> caches rw' = caches (others r))))"
  using run
proof (cases rule: rewrite_cases)
  case first
  from known_answer_Some [OF first] failed show ?thesis by (auto simp: rewrite_failures_def)
next
  case no_lock
  from known_answer_None(1) [OF no_lock(1)] no_lock show ?thesis by auto
next
  case second
  from known_answer_None(1) [OF second(1)] known_answer_Some [OF second(3)] second(2) failed
  show ?thesis by (auto simp: rewrite_failures_def)
next
  case (computed rw1 others rw2)
  from compute_rewrite_failure(1) [OF computed(4) failed]
  have "v = system" "n = 0" "caches rw' = caches rw2" by auto
  with known_answer_None(1) [OF computed(1)] known_answer_None(1) [OF computed(3)] computed(2)
  show ?thesis by auto
qed

definition sample_editor :: editor where
  "sample_editor = \<lparr>ed_sha = id, ed_dumps = (\<lambda>_. []), ed_loads = (\<lambda>s. if s = ''[]'' then Some (JArr []) else
     if s = ''edit'' then Some sample_op else None), ed_version = ''v1''\<rparr>"

definition fresh_rewriter :: rewriter where
  "fresh_rewriter = new_rewriter (Some []) 0"

lemma rewrite_failure_clean_witness:
  "caches (snd (rewrite sample_editor (0, 0) (Some id) True (\<lambda>_. Reply_text ''no'') (JStr sample_guidance) ''full''
      fresh_rewriter)) = caches fresh_rewriter"
proof -
  let ?run = "rewrite sample_editor (0, 0) (Some id) True (\<lambda>_. Reply_text ''no'') (JStr sample_guidance) ''full''
      fresh_rewriter"
  have "fst ?run = (JStr sample_guidance, Rejected, 0)" by code_simp
  then have run: "?run = ((JStr sample_guidance, Rejected, 0), snd ?run)" by (metis prod.collapse)
  have "Rejected \<in> rewrite_failures" by (simp add: rewrite_failures_def)
  from rewrite_failure_clean [OF run this] show ?thesis by auto
qed

section \<open>A rewritten prompt is its own rewrite\<close>

lemma cache_get_hit:
  "map_of (rw_mem rw) key = Some v \<Longrightarrow> cache_get now key rw = (Some v, rw)"
  by (simp add: cache_get_def)

lemma rewrite_hit:
  "map_of (rw_mem rw) (system_key ed system mode) = Some v \<Longrightarrow>
     rewrite ed now lock slot_free model system mode rw = ((v, Cache_hit, 0), rw)"
  by (simp add: rewrite_def known_answer_def cache_get_hit)

lemma cache_put_mem: "rw_mem (cache_put now key v rw) = AList.update key v (rw_mem rw)"
  by (simp add: cache_put_def)

lemma known_answer_kind:
  "known_answer now key system rw = (Some (v, kind, n), rw') \<Longrightarrow> kind = Cache_hit \<or> kind = Rejected_cached"
  using known_answer_Some by blast

text \<open>(C25) After a successful rewrite, a request with the old prompt and a retry that already
  carries the new prompt are both answered from the cache with the new prompt, whatever the model, the
  locks and the clocks do.\<close>

theorem rewritten_retry_hits:
  assumes run: "rewrite ed now lock slot_free model system mode rw = ((system', Rewritten, n), rw')"
    and again: "s = system \<or> s = system'"
  shows "0 < n \<and> rewrite ed later lock' slot' model' s mode rw' = ((system', Cache_hit, 0), rw')"
  using run
proof (cases rule: rewrite_cases)
  case first
  then show ?thesis by (auto dest: known_answer_kind)
next
  case no_lock
  then show ?thesis by simp
next
  case second
  then show ?thesis by (auto dest: known_answer_kind)
next
  case (computed rw1 others rw2)
  let ?key = "system_key ed system mode"
  from computed(4) have "0 < n" and rw': "rw' = cache_put (fst now) (system_key ed system' mode) system'
      (cache_put (fst now) ?key system' rw2)"
    by (auto simp: compute_rewrite_def accept_edits_def Let_def split: if_splits model_reply.splits option.splits)
  from rw' have "map_of (rw_mem rw') ?key = Some system'"
    "map_of (rw_mem rw') (system_key ed system' mode) = Some system'"
    by (auto simp: cache_put_mem update_conv')
  with again \<open>0 < n\<close> show ?thesis by (auto intro: rewrite_hit)
qed

lemma rewritten_retry_hits_witness:
  "fst (rewrite sample_editor (9, 9) None False (\<lambda>_. Reply_error)
     (JStr (''# Tone'' @ nl @ ''Be terse.'' @ nl @ ''# caveman'' @ nl @ ''Grunt.'')) ''full''
     (snd (rewrite sample_editor (0, 0) (Some id) True (\<lambda>_. Reply_text ''edit'') (JStr sample_guidance) ''full''
        fresh_rewriter)))
   = (JStr (''# Tone'' @ nl @ ''Be terse.'' @ nl @ ''# caveman'' @ nl @ ''Grunt.''), Cache_hit, 0)"
proof -
  let ?first = "rewrite sample_editor (0, 0) (Some id) True (\<lambda>_. Reply_text ''edit'') (JStr sample_guidance) ''full''
        fresh_rewriter"
  have "fst ?first =
      (JStr (''# Tone'' @ nl @ ''Be terse.'' @ nl @ ''# caveman'' @ nl @ ''Grunt.''), Rewritten, 1)"
    by code_simp
  then have "?first =
      ((JStr (''# Tone'' @ nl @ ''Be terse.'' @ nl @ ''# caveman'' @ nl @ ''Grunt.''), Rewritten, 1), snd ?first)"
    by (metis prod.collapse)
  from rewritten_retry_hits [OF this disjI2 [OF refl]] show ?thesis by simp
qed

section \<open>Reading and writing the opening turn\<close>

fun texts_from :: "nat \<Rightarrow> json list \<Rightarrow> (place \<times> string) list" where
  "texts_from k [] = []"
| "texts_from k (m # ms) =
     (if obj_field_is m ''role'' ''assistant'' then [] else system_texts (k, m) @ texts_from (Suc k) ms)"

lemma opening_texts_from:
  "concat (map system_texts (takeWhile (\<lambda>p. \<not> obj_field_is (snd p) ''role'' ''assistant'') (enumerate k ms)))
     = texts_from k ms"
  by (induction ms arbitrary: k) auto

lemma opening_texts_JArr:
  "jget ''messages'' payload = JArr ms \<Longrightarrow> opening_texts payload = texts_from 0 ms"
  by (simp add: opening_texts_def opening_turn_def opening_texts_from)

definition upd :: "place \<Rightarrow> string \<Rightarrow> (place \<times> string) list \<Rightarrow> (place \<times> string) list" where
  "upd pl t = map (\<lambda>x. if fst x = pl then (pl, t) else x)"

fun block_texts :: "nat \<Rightarrow> nat \<Rightarrow> json list \<Rightarrow> (place \<times> string) list" where
  "block_texts mi k [] = []"
| "block_texts mi k (b # bs) =
     (case text_of b of Some t \<Rightarrow> [((mi, Some k), t)] | None \<Rightarrow> []) @ block_texts mi (Suc k) bs"

lemma block_texts_eq:
  "List.map_filter (\<lambda>(ci, b). map_option (\<lambda>t. ((mi, Some ci), t)) (text_of b)) (enumerate k bs) = block_texts mi k bs"
  by (induction bs arbitrary: k) (auto simp: map_filter_simps split: option.splits)

lemma block_texts_places:
  "x \<in> set (block_texts mi k bs) \<Longrightarrow> \<exists>ci. fst x = (mi, Some ci) \<and> k \<le> ci \<and> ci < k + length bs \<and> text_of (bs ! (ci - k)) = Some (snd x)"
  by (induction bs arbitrary: k) (fastforce split: option.splits simp: nth_Cons' Suc_diff_le)+

lemma system_texts_places: "x \<in> set (system_texts (k, m)) \<Longrightarrow> fst (fst x) = k"
  by (auto simp: system_texts_def block_texts_eq split: json.splits if_splits dest: block_texts_places)

lemma texts_from_places: "x \<in> set (texts_from k ms) \<Longrightarrow> k \<le> fst (fst x) \<and> fst (fst x) < k + length ms"
  by (induction ms arbitrary: k) (fastforce split: if_splits dest: system_texts_places)+

lemma upd_id: "\<forall>x \<in> set xs. fst x \<noteq> pl \<Longrightarrow> upd pl t xs = xs"
  by (induction xs) (auto simp: upd_def)

lemma upd_append [simp]: "upd pl t (xs @ ys) = upd pl t xs @ upd pl t ys"
  by (simp add: upd_def)

lemma text_of_set_block: "text_of b = Some s \<Longrightarrow> text_of (set_block_text (JStr t) b) = Some t"
  by (cases b) (auto simp: text_of_def set_block_text_def split: if_splits)

lemma block_texts_update:
  "i < length bs \<Longrightarrow> text_of (bs ! i) = Some s \<Longrightarrow>
     block_texts mi k (bs[i := set_block_text (JStr t) (bs ! i)]) = upd (mi, Some (k + i)) t (block_texts mi k bs)"
proof (induction bs arbitrary: i k)
  case (Cons b bs)
  show ?case
  proof (cases i)
    case 0
    have "upd (mi, Some k) t (block_texts mi (Suc k) bs) = block_texts mi (Suc k) bs"
      by (rule upd_id) (fastforce dest: block_texts_places)
    with 0 Cons.prems show ?thesis by (simp add: text_of_set_block upd_def)
  next
    case (Suc j)
    with Cons show ?thesis by (simp add: upd_def split: option.splits)
  qed
qed simp
definition write_msg :: "nat option \<Rightarrow> string \<Rightarrow> json \<Rightarrow> json" where
  "write_msg ci t m = JObj (jset ''content''
     (case ci of
        None \<Rightarrow> JStr t
      | Some i \<Rightarrow>
          (case jget ''content'' (dict_of m) of
             JArr bs \<Rightarrow> JArr (bs[i := set_block_text (JStr t) (bs ! i)])
           | c \<Rightarrow> c)) (dict_of m))"

lemma write_place_text_block:
  "write_place (k, ci) (text_block t) ms = ms[k := write_msg ci t (ms ! k)]"
  by (simp add: write_place_def write_msg_def Let_def text_block_def)

lemma write_msg_role: "obj_field_is m ''role'' r \<Longrightarrow> obj_field_is (write_msg ci t m) ''role'' s \<longleftrightarrow> obj_field_is m ''role'' s"
  by (cases m) (auto simp: write_msg_def obj_field_is_def)

lemma system_texts_write:
  assumes "((k, ci), s) \<in> set (system_texts (k, m))"
  shows "system_texts (k, write_msg ci t m) = upd (k, ci) t (system_texts (k, m))"
proof -
  from assms obtain d where m: "m = JObj d" and role: "jget ''role'' d = JStr ''system''"
    by (auto simp: system_texts_def elim!: obj_field_isE split: if_splits)
  show ?thesis
  proof (cases "jget ''content'' d")
    case (JStr u)
    with assms m role show ?thesis by (auto simp: system_texts_def write_msg_def upd_def)
  next
    case (JArr bs)
    with assms m role have "((k, ci), s) \<in> set (block_texts k 0 bs)"
      by (simp add: system_texts_def block_texts_eq)
    then obtain i where "ci = Some i" "i < length bs" "text_of (bs ! i) = Some s"
      by (fastforce dest: block_texts_places)
    with JArr m role block_texts_update [of i bs s k 0 t] show ?thesis
      by (simp add: system_texts_def write_msg_def block_texts_eq)
  qed (use assms m role in \<open>auto simp: system_texts_def\<close>)
qed

lemma system_texts_role: "x \<in> set (system_texts (k, m)) \<Longrightarrow> obj_field_is m ''role'' ''system''"
  by (auto simp: system_texts_def split: if_splits)

lemma texts_from_write:
  assumes "((k + i, ci), s) \<in> set (texts_from k ms)"
  shows "texts_from k (ms[i := write_msg ci t (ms ! i)]) = upd (k + i, ci) t (texts_from k ms)"
  using assms
proof (induction ms arbitrary: i k)
  case (Cons m ms)
  then have na: "\<not> obj_field_is m ''role'' ''assistant''" by (auto split: if_splits)
  show ?case
  proof (cases i)
    case 0
    from 0 Cons.prems na have mem: "((k, ci), s) \<in> set (system_texts (k, m))"
      by (auto dest: texts_from_places)
    have "upd (k, ci) t (texts_from (Suc k) ms) = texts_from (Suc k) ms"
      by (rule upd_id) (fastforce dest: texts_from_places)
    with 0 na system_texts_write [OF mem] write_msg_role [OF system_texts_role [OF mem]]
    show ?thesis by simp
  next
    case (Suc j)
    with Cons.prems na have "((Suc k + j, ci), s) \<in> set (texts_from (Suc k) ms)"
      by (auto dest: system_texts_places)
    moreover have "upd (k + i, ci) t (system_texts (k, m)) = system_texts (k, m)"
      by (rule upd_id) (use Suc in \<open>fastforce dest: system_texts_places\<close>)
    ultimately show ?thesis using Cons.IH [where i=j and k="Suc k"] Suc na by simp
  qed
qed simp

lemma upd_places: "map fst (upd pl t xs) = map fst xs"
  by (auto simp: upd_def)

lemma write_all:
  assumes "distinct (map fst pts)" "set (map fst pts) \<subseteq> set (map fst (texts_from 0 ms))"
  shows "texts_from 0 (fold (\<lambda>(pl, b). write_place pl b) (map (\<lambda>(pl, t). (pl, text_block t)) pts) ms)
     = fold (\<lambda>(pl, t). upd pl t) pts (texts_from 0 ms)"
  using assms(2)
proof (induction pts arbitrary: ms)
  case (Cons x pts)
  obtain i ci t where x: "x = ((i, ci), t)" by (cases x) auto
  with Cons.prems obtain s where "((0 + i, ci), s) \<in> set (texts_from 0 ms)" by auto
  from texts_from_write [OF this] have step:
    "texts_from 0 (write_place (i, ci) (text_block t) ms) = upd (i, ci) t (texts_from 0 ms)"
    by (simp add: write_place_text_block)
  have "set (map fst pts) \<subseteq> set (map fst (texts_from 0 (write_place (i, ci) (text_block t) ms)))"
    using Cons.prems step by (simp add: upd_places)
  from Cons.IH [OF this] show ?case by (simp add: x step)
qed simp

lemma fold_upd_notin: "pl \<notin> set (map fst pts) \<Longrightarrow> fold (\<lambda>(pl, t). upd pl t) pts ((pl, s) # xs)
    = (pl, s) # fold (\<lambda>(pl, t). upd pl t) pts xs"
  by (induction pts arbitrary: xs) (auto simp: upd_def)

lemma fold_upd_zip:
  "distinct (map fst xs) \<Longrightarrow> length ts = length xs \<Longrightarrow>
     fold (\<lambda>(pl, t). upd pl t) (zip (map fst xs) ts) xs = zip (map fst xs) ts"
proof (induction xs arbitrary: ts)
  case (Cons x xs)
  then obtain t ts' where ts: "ts = t # ts'" by (cases ts) auto
  from Cons.prems have "fst x \<notin> fst ` set xs" by simp
  then have "\<forall>y \<in> set xs. fst y \<noteq> fst x" by (metis image_eqI)
  from upd_id [OF this, of t] have "upd (fst x) t (x # xs) = (fst x, t) # xs" by (simp add: upd_def)
  with Cons ts show ?case by (simp add: fold_upd_notin)
qed simp

lemma distinct_block_texts: "distinct (map fst (block_texts mi k bs))"
  by (induction bs arbitrary: k) (fastforce split: option.splits dest: block_texts_places)+

lemma distinct_system_texts: "distinct (map fst (system_texts p))"
  by (cases p) (auto simp: system_texts_def block_texts_eq distinct_block_texts split: json.splits)

lemma distinct_texts_from: "distinct (map fst (texts_from k ms))"
proof (induction ms arbitrary: k)
  case (Cons m ms)
  have "fst ` set (system_texts (k, m)) \<inter> fst ` set (texts_from (Suc k) ms) = {}"
    by (fastforce dest: system_texts_places texts_from_places)
  with Cons show ?case by (simp add: distinct_system_texts)
qed simp

lemma zip_text_blocks:
  "zip places (map text_block ts) = map (\<lambda>(pl, t). (pl, text_block t)) (zip places ts)"
  by (simp add: zip_map2)

lemma opening_texts_messages:
  assumes "opening_texts payload \<noteq> []"
  obtains ms where "jget ''messages'' payload = JArr ms" "has_key ''messages'' payload"
  using assms that
  by (cases "jget ''messages'' payload") (auto simp: opening_texts_def opening_turn_def has_key_def jget_def split: option.splits)

text \<open>(C36) Texts written to the places of the opening system blocks are read back from the same
  places, and no other field of the request changes.\<close>

theorem opening_blocks_roundtrip:
  assumes read: "opening_system_blocks payload = (blocks, places)" and some: "places \<noteq> []"
    and len: "length ts = length places"
  shows "\<exists>payload'. write_opening_system_blocks payload places (map text_block ts) = Inr payload' \<and>
           opening_system_blocks payload' = (map text_block ts, places) \<and>
           (\<forall>k. k \<noteq> ''messages'' \<longrightarrow> jget k payload' = jget k payload)"
proof -
  let ?xs = "opening_texts payload"
  from read have places: "places = map fst ?xs" by (simp add: opening_system_blocks_def)
  with some obtain ms where ms: "jget ''messages'' payload = JArr ms" "has_key ''messages'' payload"
    by (metis list.map_disc_iff opening_texts_messages)
  let ?ms' = "fold (\<lambda>(pl, b). write_place pl b) (zip places (map text_block ts)) ms"
  let ?payload' = "jset ''messages'' (JArr ?ms') payload"
  have xs: "?xs = texts_from 0 ms" by (rule opening_texts_JArr [OF ms(1)])
  have dist: "distinct (map fst ?xs)" by (simp add: xs distinct_texts_from)
  then have "distinct places" "set places \<subseteq> set (map fst (texts_from 0 ms))"
    by (simp_all add: places xs)
  from len places have fst_zip: "map fst (zip places ts) = places" by (simp add: map_fst_zip)
  have "opening_texts ?payload' = texts_from 0 ?ms'" by (rule opening_texts_JArr) simp
  also have "\<dots> = fold (\<lambda>(pl, t). upd pl t) (zip places ts) ?xs"
    unfolding zip_text_blocks xs by (rule write_all) (simp_all only: fst_zip \<open>distinct places\<close> \<open>set places \<subseteq> _\<close>)
  also have "\<dots> = zip places ts"
    using fold_upd_zip [OF dist, of ts] len by (simp add: places)
  finally have "opening_system_blocks ?payload' = (map text_block ts, places)"
    using fst_zip len map_map [of text_block snd "zip places ts"]
    by (simp add: opening_system_blocks_def o_def)
  moreover have "write_opening_system_blocks payload places (map text_block ts) = Inr ?payload'"
    using ms some len by (simp add: write_opening_system_blocks_def)
  ultimately show ?thesis by auto
qed

definition sample_opening :: jdict where
  "sample_opening = [(''messages'', JArr [
     JObj [(''role'', JStr ''user''), (''content'', JStr ''hi'')],
     JObj [(''role'', JStr ''system''), (''content'', JArr [JNull, text_block ''a''])],
     JObj [(''role'', JStr ''system''), (''content'', JStr ''b'')],
     JObj [(''role'', JStr ''assistant''), (''content'', JStr ''c'')],
     JObj [(''role'', JStr ''system''), (''content'', JStr ''d'')]])]"

lemma opening_blocks_roundtrip_witness:
  "\<exists>payload'. write_opening_system_blocks sample_opening [(1, Some 1), (2, None)] [text_block ''x'', text_block ''y'']
     = Inr payload' \<and>
   opening_system_blocks payload' = ([text_block ''x'', text_block ''y''], [(1, Some 1), (2, None)])"
proof -
  have "opening_system_blocks sample_opening = ([text_block ''a'', text_block ''b''], [(1, Some 1), (2, None)])"
    by code_simp
  from opening_blocks_roundtrip [OF this, of "[''x'', ''y'']"] show ?thesis by auto
qed

end
