(* ===== verification/Local_Answers.thy ===== *)
theory Local_Answers
  imports Thread_Routing
begin

text \<open>
  The answers \<^verbatim>\<open>anthrouter/handlers.py\<close> gives by itself: the \<open>proxy-*\<close> commands with their effect on
  the routing switch, the security-monitor reply and the activity label.

  The em dash and the arrow of the texts are the arguments in \<open>glyphs\<close>; \<open>repr\<close>, \<open>loads\<close> and the hash are
  arguments as in the other theories.
\<close>

record glyphs =
  g_dash :: string
  g_arrow :: string

definition tick :: "string \<Rightarrow> string" where
  "tick s = ''`'' @ s @ ''`''"

definition on_off :: "bool \<Rightarrow> string" where
  "on_off b = (if b then ''on'' else ''off'')"

section \<open>Help and status\<close>

definition help_markdown :: "glyphs \<Rightarrow> string" where
  "help_markdown g =
     ''## anthrouter'' @ nl @ nl @
     ''Single-backend Anthropic proxy: model-tier routing plus '' @
     ''system-prompt sanitization. Your own credential is forwarded '' @
     ''untouched.'' @ nl @ nl @
     ''**Commands**'' @ nl @ nl @
     ''- `proxy-help` '' @ g_dash g @ '' this message'' @ nl @
     ''- `proxy-status` '' @ g_dash g @ '' routing mode and the last observed rate-limit window'' @ nl @
     ''- `proxy-set-model-routing:on|off` '' @ g_dash g @ '' toggle auto model routing globally'' @ nl @
     ''- `proxy-set-model-routing:on|off|auto:session` '' @ g_dash g @ '' override for this '' @
     ''session; `auto` clears the override and follows the global setting'' @ nl"

definition WINDOW_LABELS :: "(string \<times> string) list" where
  "WINDOW_LABELS =
     [(''requests_remaining'', ''Requests remaining''), (''tokens_remaining'', ''Tokens remaining''),
      (''input_tokens_remaining'', ''Input tokens remaining''),
      (''output_tokens_remaining'', ''Output tokens remaining''), (''reset_at'', ''Resets at'')]"

definition window_lines :: "(json \<Rightarrow> string) \<Rightarrow> jdict \<Rightarrow> string list" where
  "window_lines repr window =
     (if window = [] then [''**Rate-limit window:** no upstream response observed yet.'']
      else (''**Rate-limit window (last upstream response)**'' @ nl) #
        List.map_filter
          (\<lambda>(k, label). if has_key k window
             then Some (''- '' @ label @ '': '' @ tick (py_str repr (jget k window))) else None)
          WINDOW_LABELS)"

definition routing_lines :: "glyphs \<Rightarrow> router_config \<Rightarrow> string list" where
  "routing_lines g cfg =
     (let mode = (if routing_mode cfg \<noteq> [] then routing_mode cfg else ''classifier'') in
      [''**Routing mode:** '' @ tick mode] @
      (if mode = ''classifier'' then [''**Classifier model:** '' @ tick (classifier_model cfg)] else []) @
      [''**Tier targets:** '' @
       py_join '', '' (map (\<lambda>(label, model). label @ '' '' @ g_arrow g @ '' '' @ tick model) (labels cfg))])"

definition override_lines :: "string option \<Rightarrow> session_state \<Rightarrow> string list" where
  "override_lines sess_key s =
     (case Option.bind sess_key (\<lambda>k. session_model_routing k s) of
        None \<Rightarrow> []
      | Some e \<Rightarrow> [''**Auto model routing (this session):** '' @ on_off e])"

definition status_markdown ::
  "glyphs \<Rightarrow> (json \<Rightarrow> string) \<Rightarrow> router_config \<Rightarrow> string option \<Rightarrow> session_state \<Rightarrow> string" where
  "status_markdown g repr cfg sess_key s =
     py_join nl
       ([''## anthrouter status'' @ nl,
         ''**Auto model routing (global):** '' @ on_off (global_routing s)] @
        (if global_routing s then routing_lines g cfg else []) @
        override_lines sess_key s @ [[]] @
        window_lines repr (last_ratelimit s))"

section \<open>The switch\<close>

definition ROUTING_HEADER :: string where
  "ROUTING_HEADER = ''## anthrouter model routing'' @ nl @ nl"

definition setting_on :: "setting \<Rightarrow> bool option" where
  "setting_on v = (case v of On \<Rightarrow> Some True | Off \<Rightarrow> Some False | _ \<Rightarrow> None)"

text \<open>The global command is parsed without \<open>Auto\<close>; were it given one, Python would store its None, a
  false value.\<close>

definition set_model_routing_markdown :: "setting \<Rightarrow> session_state \<Rightarrow> string \<times> session_state" where
  "set_model_routing_markdown v s =
     (if v = Invalid
      then (ROUTING_HEADER @ ''**Error:** unrecognised value. '' @
            ''Use `proxy-set-model-routing:on` or `proxy-set-model-routing:off`.'', s)
      else (ROUTING_HEADER @ ''**Auto model routing:** '' @ on_off (v = On) @ '' (global)'',
            set_model_routing (v = On) s))"

definition session_set_model_routing_markdown ::
  "glyphs \<Rightarrow> setting \<Rightarrow> string option \<Rightarrow> session_state \<Rightarrow> string \<times> session_state" where
  "session_set_model_routing_markdown g v sess_key s =
     (if v = Invalid
      then (ROUTING_HEADER @ ''**Error:** unrecognised value. '' @
            ''Use `proxy-set-model-routing:on:session`, '' @
            ''`proxy-set-model-routing:off:session`, or '' @
            ''`proxy-set-model-routing:auto:session` to clear.'', s)
      else (case sess_key of
              None \<Rightarrow>
                (ROUTING_HEADER @ ''**Error:** session key not available '' @ g_dash g @ '' '' @
                 ''`metadata.user_id` is required for session-scoped commands.'', s)
            | Some k \<Rightarrow>
                (if v = Auto
                 then ROUTING_HEADER @ ''**Auto model routing (this session):** following global setting''
                 else ROUTING_HEADER @ ''**Auto model routing (this session):** '' @ on_off (v = On) @
                   nl @ nl @
                   ''_Use `proxy-set-model-routing:auto:session` to follow the global setting._'',
                 set_session_model_routing k (setting_on v) s)))"

definition command_markdown ::
  "glyphs \<Rightarrow> (json \<Rightarrow> string) \<Rightarrow> router_config \<Rightarrow> local_command \<Rightarrow> string option \<Rightarrow> session_state \<Rightarrow>
   string \<times> session_state" where
  "command_markdown g repr cfg command sess_key s =
     (case command of
        Help \<Rightarrow> (help_markdown g, s)
      | Status \<Rightarrow> (status_markdown g repr cfg sess_key s, s)
      | Set_model_routing v \<Rightarrow> set_model_routing_markdown v s
      | Session_set_model_routing v \<Rightarrow> session_set_model_routing_markdown g v sess_key s)"

section \<open>The session's display token\<close>

definition is_hex :: "char \<Rightarrow> bool" where
  "is_hex c \<longleftrightarrow> py_isdigit c \<or> (97 \<le> ord c \<and> ord c \<le> 102) \<or> (65 \<le> ord c \<and> ord c \<le> 70)"

fun uuid_groups :: "nat list \<Rightarrow> string \<Rightarrow> bool" where
  "uuid_groups [] s \<longleftrightarrow> True"
| "uuid_groups [n] s \<longleftrightarrow> n \<le> length s \<and> list_all is_hex (take n s)"
| "uuid_groups (n # ns) s \<longleftrightarrow>
     n \<le> length s \<and> list_all is_hex (take n s) \<and>
     (case drop n s of c # r \<Rightarrow> c = CHR ''-'' \<and> uuid_groups ns r | [] \<Rightarrow> False)"

fun uuid_head :: "string \<Rightarrow> string option" where
  "uuid_head [] = None"
| "uuid_head (c # s) =
     (if uuid_groups [8, 4, 4, 4, 12] (c # s) then Some (take 8 (c # s)) else uuid_head s)"

definition session_short_id ::
  "(string \<Rightarrow> json option) \<Rightarrow> (string \<Rightarrow> string) \<Rightarrow> string \<Rightarrow> string" where
  "session_short_id loads sha sess_key =
     (let named =
        (if startswith sess_key ''{''
         then (case loads sess_key of
                 Some (JObj d) \<Rightarrow>
                   (case jget ''session_id'' d of JStr sid \<Rightarrow> or_none sid | _ \<Rightarrow> None)
               | _ \<Rightarrow> None)
         else None)
      in case named of
           Some sid \<Rightarrow> (case uuid_head sid of Some h \<Rightarrow> h | None \<Rightarrow> take 8 sid)
         | None \<Rightarrow> (case uuid_head sess_key of Some h \<Rightarrow> h | None \<Rightarrow> take 8 (sha sess_key)))"

section \<open>Activity labels\<close>

definition ACTIVITY_LABEL_FALLBACKS :: "string list" where
  "ACTIVITY_LABEL_FALLBACKS =
     [''Discombobulating'', ''Recombobulating'', ''Cooking'', ''Pondering'', ''Tinkering'',
      ''Noodling'', ''Puzzling'', ''Brewing'', ''Wrangling'', ''Untangling'']"

section \<open>Effects\<close>

lemma command_markdown_frame:
  "command_markdown g repr cfg command sess_key s = (t, s') \<Longrightarrow>
     \<exists>b ov. s' = s\<lparr>global_routing := b, routing_overrides := ov\<rparr>"
  by (auto simp: command_markdown_def set_model_routing_markdown_def session_set_model_routing_markdown_def
      set_model_routing_def set_session_model_routing_def
      split: local_command.splits if_splits option.splits)
    (metis session_state.surjective session_state.update_convs(1,2))+

end
