(* ===== verification/Message_Handling.thy ===== *)
theory Message_Handling
  imports Local_Answers Sse_Delivery Transport Volatility Caveman
begin

text \<open>
  \<open>_handle_messages\<close> of \<^verbatim>\<open>anthrouter/handlers.py\<close>: one \<open>POST /v1/messages\<close> from the HTTP request to
  the answer.  A request is answered locally, or prepared (routed, sanitized, stripped, rewritten) and
  dispatched.

  The record \<open>world\<close> holds what one request gets from outside: upstream and classifier, the editing
  model, clocks, hashing, JSON text and the fate of the sockets.  The record \<open>work\<close> is the state of
  the handler instance with the server's shared state in it.  Header names are lower-case.
\<close>

section \<open>State\<close>

record world =
  w_env :: env
  w_http :: http_env
  w_upstream :: upstream
  w_dumps :: "json \<Rightarrow> string"
  w_sha :: "string \<Rightarrow> string"
  w_block_digest :: "json \<Rightarrow> string"
  w_editor :: editor
  w_caveman_header :: string
  w_edit_send :: "jdict \<Rightarrow> (exn + json) option"
  w_editor_system :: string
  w_clocks :: "nat \<Rightarrow> clocks"
  w_locks :: "nat \<Rightarrow> (rewriter \<Rightarrow> rewriter) option"
  w_slots :: "nat \<Rightarrow> bool"
  w_now :: rat
  w_later :: rat
  w_glyphs :: glyphs
  w_message_id :: string
  w_label :: string
  w_cut :: "(nat \<times> exn) option"
  w_ticks :: nat
  w_room :: "nat option"

record settings =
  st_handler :: handler_config
  st_monitor_local :: bool
  st_activity_local :: bool
  st_sanitize :: string
  st_strip_attribution :: string
  st_caveman :: string
  st_caveman_model :: string
  st_volatility :: vol_config

record prompt_capture =
  pc_user_text :: "string option"
  pc_system_sha :: "string option"
  pc_tools_sha :: "string option"
  pc_entries :: "(string \<times> string \<times> string) list"
  pc_sanitized_sha :: "string option"
  pc_attribution :: "nat option"
  pc_caveman_sha :: "string option"
  pc_opening_sha :: "string option"
  pc_opening_dispatched_sha :: "string option"
  pc_dispatched_text :: "string option"

type_synonym sanitizer_event = "string \<times> bool \<times> string"

text \<open>The arguments of \<open>record_request\<close>.\<close>

record db_row =
  dr_session :: string
  dr_decision :: decision
  dr_stats :: stats
  dr_status :: string
  dr_error :: "string option"
  dr_text :: "string option"
  dr_events :: "sanitizer_event list"
  dr_ratelimit :: jdict
  dr_attempt :: nat
  dr_request_id :: "string option"
  dr_savings :: "rat option"
  dr_overhead :: "rat option"
  dr_thread_model :: "string option"
  dr_capture :: prompt_capture

record server =
  srv_sessions :: session_state
  srv_router :: rstate
  srv_tracker :: tracker
  srv_rewriter :: rewriter
  srv_ratio :: ratio_totals
  srv_prose :: prose_totals
  srv_rows :: "db_row list option"

record work =
  wk_rq :: request
  wk_routing :: "decision option"
  wk_capture :: prompt_capture
  wk_events :: "sanitizer_event list"
  wk_caveman :: "string option"
  wk_tracker :: tracker
  wk_rewriter :: rewriter
  wk_ratio :: ratio_totals
  wk_prose :: prose_totals
  wk_rows :: "db_row list option"

definition no_capture :: prompt_capture where
  "no_capture =
     \<lparr>pc_user_text = None, pc_system_sha = None, pc_tools_sha = None, pc_entries = [],
      pc_sanitized_sha = None, pc_attribution = None, pc_caveman_sha = None, pc_opening_sha = None,
      pc_opening_dispatched_sha = None, pc_dispatched_text = None\<rparr>"

text \<open>\<open>_reset_request_state\<close>: a request starts with no trace of the one before.\<close>

definition start_work :: "jdict \<Rightarrow> server \<Rightarrow> work" where
  "start_work payload srv =
     \<lparr>wk_rq = \<lparr>rq_payload = payload, rq_sessions = srv_sessions srv, rq_router = srv_router srv,
               reclassified_from = None, rq_ctx_key = None, rq_estimate = 0\<rparr>,
      wk_routing = None, wk_capture = no_capture, wk_events = [], wk_caveman = None,
      wk_tracker = srv_tracker srv, wk_rewriter = srv_rewriter srv, wk_ratio = srv_ratio srv,
      wk_prose = srv_prose srv, wk_rows = srv_rows srv\<rparr>"

definition end_work :: "work \<Rightarrow> server" where
  "end_work wk =
     \<lparr>srv_sessions = rq_sessions (wk_rq wk), srv_router = rq_router (wk_rq wk),
      srv_tracker = wk_tracker wk, srv_rewriter = wk_rewriter wk, srv_ratio = wk_ratio wk,
      srv_prose = wk_prose wk, srv_rows = wk_rows wk\<rparr>"

definition wk_payload :: "work \<Rightarrow> jdict" where
  "wk_payload wk = rq_payload (wk_rq wk)"

definition set_payload :: "jdict \<Rightarrow> work \<Rightarrow> work" where
  "set_payload p wk = wk\<lparr>wk_rq := (wk_rq wk)\<lparr>rq_payload := p\<rparr>\<rparr>"

section \<open>Reading the request\<close>

definition header_value :: "header_map \<Rightarrow> string \<Rightarrow> string" where
  "header_value headers name = (case map_of headers name of Some v \<Rightarrow> v | None \<Rightarrow> [])"

definition read_payload :: "(string \<Rightarrow> json option) \<Rightarrow> header_map \<Rightarrow> string \<Rightarrow> exn + jdict" where
  "read_payload loads headers body =
     (if \<not> py_in ''application/json'' (header_value headers ''content-type'')
      then Inl (RequestError (request_error ''content-type must be application/json''
             ''invalid_request_error'' 400))
      else case loads (if body = [] then ''{}'' else body) of
             None \<Rightarrow> Inl (RequestError (request_error ''Malformed JSON body'' ''invalid_request_error'' 400))
           | Some (JObj d) \<Rightarrow> Inr d
           | Some _ \<Rightarrow> Inl (PyError AttributeError))"

definition with_client_betas :: "header_map \<Rightarrow> jdict \<Rightarrow> jdict" where
  "with_client_betas headers payload =
     (let h = header_value headers ''anthropic-beta'' in
      if h = [] then payload
      else jset ''_anthropic_beta''
             (JArr (map JStr (filter (\<lambda>s. s \<noteq> []) (map py_strip (split_char CHR '','' h))))) payload)"

section \<open>Prompt capture\<close>

definition put_entry :: "string \<Rightarrow> string \<times> string \<Rightarrow> prompt_capture \<Rightarrow> prompt_capture" where
  "put_entry sha entry pc = pc\<lparr>pc_entries := AList.update sha entry (pc_entries pc)\<rparr>"

definition extract_prompt_capture :: "world \<Rightarrow> jdict \<Rightarrow> prompt_capture" where
  "extract_prompt_capture w payload =
     (let system = jget ''system'' payload; tools = jget ''tools'' payload;
          sys = (if truthy system then system_content_str (w_dumps w) system else None);
          tls = (if truthy tools then Some (w_dumps w tools) else None);
          pc = no_capture\<lparr>pc_user_text := extract_user_prompt_text (env_repr (w_env w)) payload,
                 pc_system_sha := map_option (w_sha w) sys, pc_tools_sha := map_option (w_sha w) tls\<rparr>;
          pc1 = (case sys of Some c \<Rightarrow> put_entry (w_sha w c) (''system'', c) pc | None \<Rightarrow> pc)
      in case tls of Some c \<Rightarrow> put_entry (w_sha w c) (''tools'', c) pc1 | None \<Rightarrow> pc1)"

definition capture_sanitized :: "sanitize_result \<Rightarrow> prompt_capture \<Rightarrow> prompt_capture" where
  "capture_sanitized r pc =
     (case sanitized_sha256 r of
        None \<Rightarrow> pc
      | Some sha \<Rightarrow>
          let pc' = pc\<lparr>pc_sanitized_sha := Some sha\<rparr> in
          (case sanitized_content r of
             Some c \<Rightarrow> put_entry sha (''system_sanitized'', c) pc' | None \<Rightarrow> pc'))"

definition sanitizer_events :: "world \<Rightarrow> sanitize_result \<Rightarrow> sanitizer_event list" where
  "sanitizer_events w r =
     map (\<lambda>b. (block_type b, True, block_preview b)) (stripped_blocks r) @
     map (\<lambda>f. (''index:'' @ show_int (int (flag_index f)), False,
            ''volatile: '' @ show_int (int (flag_distinct f)) @ '' distinct values over '' @
            show_int (int (flag_requests f)) @ '' requests (ratio '' @
            env_repr (w_env w) (JFloat (flag_ratio f)) @ '')'')) (flagged_blocks r)"

definition joined_blocks :: "json list \<Rightarrow> string" where
  "joined_blocks bs = py_join (nl @ nl) (map (\<lambda>b. case text_of b of Some t \<Rightarrow> t | None \<Rightarrow> []) bs)"

definition capture_opening :: "world \<Rightarrow> jdict \<Rightarrow> json list \<Rightarrow> prompt_capture \<Rightarrow> prompt_capture" where
  "capture_opening w payload original pc =
     (let a = joined_blocks original; b = joined_blocks (fst (opening_system_blocks payload)) in
      put_entry (w_sha w b) (''system'', b)
        (put_entry (w_sha w a) (''system'', a)
          (pc\<lparr>pc_opening_sha := Some (w_sha w a), pc_opening_dispatched_sha := Some (w_sha w b)\<rparr>)))"

definition capture_dispatched_text :: "world \<Rightarrow> work \<Rightarrow> work" where
  "capture_dispatched_text w wk =
     (let t = extract_user_prompt_text (env_repr (w_env w)) (wk_payload wk) in
      if t = pc_user_text (wk_capture wk) then wk
      else wk\<lparr>wk_capture := (wk_capture wk)\<lparr>pc_dispatched_text := Some (case t of Some s \<Rightarrow> s | None \<Rightarrow> [])\<rparr>\<rparr>)"

section \<open>Content stages\<close>

definition sanitize_step :: "world \<Rightarrow> settings \<Rightarrow> string option \<Rightarrow> work \<Rightarrow> work" where
  "sanitize_step w st sess_key wk =
     (case sanitize_system_prompt (w_dumps w) (w_sha w) (st_volatility st) (w_block_digest w)
             (wk_payload wk) (st_sanitize st) sess_key (wk_tracker wk) of
        (r, payload, tr) \<Rightarrow>
          (set_payload payload wk)\<lparr>wk_tracker := tr, wk_capture := capture_sanitized r (wk_capture wk),
             wk_events := sanitizer_events w r\<rparr>)"

definition strip_attribution_step :: "settings \<Rightarrow> work \<Rightarrow> work" where
  "strip_attribution_step st wk =
     (if st_strip_attribution st \<noteq> ''on'' \<or> has_happy_new_year_system_prompt (wk_payload wk) then wk
      else case strip_attribution_reminders (jget ''messages'' (wk_payload wk)) of
             (messages, removed) \<Rightarrow>
               if removed = 0 then wk
               else (set_payload (jset ''messages'' messages (wk_payload wk)) wk)
                      \<lparr>wk_capture := (wk_capture wk)\<lparr>pc_attribution := Some removed\<rparr>\<rparr>)"

text \<open>The editing model's call: the texts of its answer, an error, or no answer in time.\<close>

definition EDITOR_MAX_TOKENS :: int where "EDITOR_MAX_TOKENS = 4096"

definition editor_payload :: "world \<Rightarrow> settings \<Rightarrow> string \<Rightarrow> jdict" where
  "editor_payload w st prompt =
     [(''model'', JStr (st_caveman_model st)), (''max_tokens'', JInt EDITOR_MAX_TOKENS),
      (''system'', JStr (w_editor_system w)),
      (''messages'', JArr [JObj [(''role'', JStr ''user''), (''content'', JStr prompt)]]),
      (CLASSIFIER_SENTINEL_KEY, JBool True)]"

definition reply_text :: "json \<Rightarrow> string option" where
  "reply_text b =
     (case b of
        JObj d \<Rightarrow>
          if jget ''type'' d \<noteq> JStr ''text'' then Some []
          else if has_key ''text'' d then as_str (jget ''text'' d) else Some []
      | _ \<Rightarrow> Some [])"

definition reply_of :: "(exn + json) option \<Rightarrow> model_reply" where
  "reply_of r =
     (case r of
        None \<Rightarrow> Reply_timeout
      | Some (Inl e) \<Rightarrow> Reply_error
      | Some (Inr response) \<Rightarrow>
          (case py_iter (if truthy (jget ''content'' (dict_of response))
                         then jget ''content'' (dict_of response) else JArr []) of
             None \<Rightarrow> Reply_error
           | Some bs \<Rightarrow>
               (case all_some (map reply_text bs) of
                  None \<Rightarrow> Reply_error | Some ts \<Rightarrow> Reply_text (concat ts))))"

text \<open>One \<open>run\<close> of the rewriter, the \<open>i\<close>-th of the request: the new value when it changed.\<close>

definition run_rewrite :: "world \<Rightarrow> settings \<Rightarrow> string \<Rightarrow> nat \<Rightarrow> json \<Rightarrow> rewriter \<Rightarrow> json option \<times> rewriter" where
  "run_rewrite w st mode i v rw =
     (case rewrite (w_editor w) (w_clocks w i) (w_locks w i) (w_slots w i)
             (\<lambda>prompt. reply_of (w_edit_send w (editor_payload w st prompt))) v mode rw of
        ((v', _, _), rw') \<Rightarrow> (if v' \<noteq> v then Some v' else None, rw'))"

definition rewrite_messages :: "world \<Rightarrow> settings \<Rightarrow> string \<Rightarrow> work \<Rightarrow> bool \<times> work" where
  "rewrite_messages w st mode wk =
     (case opening_system_blocks (wk_payload wk) of
        (blocks, places) \<Rightarrow>
          let (new, rw) = (if blocks = [] then (None, wk_rewriter wk)
                           else run_rewrite w st mode 0 (JArr blocks) (wk_rewriter wk));
              wk1 = wk\<lparr>wk_rewriter := rw, wk_caveman := Some ''original''\<rparr>
          in case new of
               None \<Rightarrow> (True, wk1)
             | Some v \<Rightarrow>
                 (case write_opening_system_blocks (wk_payload wk) places (json_list v) of
                    Inl _ \<Rightarrow> (False, wk1)
                  | Inr payload \<Rightarrow>
                      (True, (set_payload payload wk1)
                         \<lparr>wk_caveman := Some ''rewritten'',
                          wk_capture := capture_opening w payload blocks (wk_capture wk)\<rparr>)))"

definition rewrite_system :: "world \<Rightarrow> settings \<Rightarrow> string \<Rightarrow> work \<Rightarrow> work" where
  "rewrite_system w st mode wk =
     (let system = jget ''system'' (wk_payload wk) in
      if \<not> truthy system then wk
      else (case run_rewrite w st mode 1 system (wk_rewriter wk) of
              (None, rw) \<Rightarrow> wk\<lparr>wk_rewriter := rw\<rparr>
            | (Some v, rw) \<Rightarrow>
                let wk1 = (set_payload (jset ''system'' v (wk_payload wk)) wk)
                            \<lparr>wk_rewriter := rw, wk_caveman := Some ''rewritten''\<rparr>
                in (case system_content_str (w_dumps w) v of
                      None \<Rightarrow> wk1
                    | Some c \<Rightarrow>
                        wk1\<lparr>wk_capture := put_entry (w_sha w c) (''system'', c)
                               ((wk_capture wk1)\<lparr>pc_caveman_sha := Some (w_sha w c)\<rparr>)\<rparr>)))"

definition caveman_step :: "world \<Rightarrow> settings \<Rightarrow> work \<Rightarrow> work" where
  "caveman_step w st wk =
     (if st_caveman st \<noteq> ''on'' \<or> has_happy_new_year_system_prompt (wk_payload wk)
      then wk\<lparr>wk_caveman := None\<rparr>
      else case detect_mode (w_caveman_header w) (wk_payload wk) of
             None \<Rightarrow> wk\<lparr>wk_caveman := None\<rparr>
           | Some mode \<Rightarrow>
               (case rewrite_messages w st mode (wk\<lparr>wk_caveman := None\<rparr>) of
                  (True, wk1) \<Rightarrow> rewrite_system w st mode wk1
                | (False, wk1) \<Rightarrow> wk1))"

section \<open>Preparation\<close>

definition route_step :: "world \<Rightarrow> settings \<Rightarrow> string option \<Rightarrow> work \<Rightarrow> exn option \<times> work" where
  "route_step w st sess_key wk =
     (if has_happy_new_year_system_prompt (wk_payload wk)
      then (None, wk\<lparr>wk_routing := Some (security_monitor_passthrough (w_env w) (wk_rq wk))\<rparr>)
      else (case route_request (w_env w) (w_sha w) (st_handler st) (w_now w) (w_later w) sess_key
                   (handoff_key_of (w_sha w) sess_key (wk_payload wk)) (wk_rq wk) of
              (Inl e, rq) \<Rightarrow> (Some e, wk\<lparr>wk_rq := rq\<rparr>)
            | (Inr d, rq) \<Rightarrow> (None, wk\<lparr>wk_rq := rq, wk_routing := Some d\<rparr>)))"

definition prepare :: "world \<Rightarrow> settings \<Rightarrow> string option \<Rightarrow> work \<Rightarrow> exn option \<times> work" where
  "prepare w st sess_key wk =
     (let monitor = has_happy_new_year_system_prompt (wk_payload wk) in
      case route_step w st sess_key wk of
        (Some e, wk1) \<Rightarrow> (Some e, wk1)
      | (None, wk1) \<Rightarrow>
          let wk2 = wk1\<lparr>wk_capture := extract_prompt_capture w (wk_payload wk1)\<rparr> in
          if reclassified_from (wk_rq wk2) \<noteq> None then (None, wk2)
          else if monitor then (None, wk2\<lparr>wk_events := []\<rparr>)
          else (None, capture_dispatched_text w
                  (caveman_step w st (strip_attribution_step st (sanitize_step w st sess_key wk2)))))"

section \<open>Dispatch\<close>

datatype http_answer = Json_answer int json "int option" | Sse_answer "wire list"

definition UNTRACKED_SESSION_ID :: string where "UNTRACKED_SESSION_ID = ''(untracked)''"

definition THREAD_MODEL_MISMATCH_TYPE :: string where
  "THREAD_MODEL_MISMATCH_TYPE = ''invalid_request_error''"

definition session_or_untracked :: "string option \<Rightarrow> string" where
  "session_or_untracked sess_key = (case sess_key of Some k \<Rightarrow> k | None \<Rightarrow> UNTRACKED_SESSION_ID)"

text \<open>What the transport leaves in \<open>ratelimit_out\<close> and \<open>attempt_out\<close>.\<close>

definition captured_ratelimit :: "http_env \<Rightarrow> upstream \<Rightarrow> jdict list \<Rightarrow> jdict" where
  "captured_ratelimit he up bodies =
     fold (\<lambda>i window.
       case up (take i bodies) (bodies ! i) of
         Network_failure \<Rightarrow> window
       | Reply resp \<Rightarrow>
           if resp_status resp \<noteq> 200 \<and> should_retry he (resp_status resp) resp \<and> i < MAX_RETRIES
           then window
           else fold (\<lambda>(k, v). jset k v) (parse_ratelimit_headers he resp) window)
       [0..<length bodies] []"

record attempt_info =
  at_ratelimit :: jdict
  at_number :: nat
  at_request_id :: "string option"

definition attempt_of :: "world \<Rightarrow> settings \<Rightarrow> jdict \<Rightarrow> attempt_info" where
  "attempt_of w st payload =
     (let he = w_http w; up = w_upstream w;
          bodies = sent (snd (send_with_retries he up (model_aliases (st_handler st)) payload))
      in \<lparr>at_ratelimit = captured_ratelimit he up bodies, at_number = max 1 (length bodies),
          at_request_id =
            (if bodies = [] then None
             else case up (butlast bodies) (last bodies) of
                    Network_failure \<Rightarrow> None
                  | Reply resp \<Rightarrow> getheader resp ''request-id'')\<rparr>)"

definition no_attempt :: attempt_info where
  "no_attempt = \<lparr>at_ratelimit = [], at_number = 1, at_request_id = None\<rparr>"

text \<open>\<open>_record_db\<close>: nothing without a database or a routing decision.\<close>

definition record_db ::
  "string \<Rightarrow> stats \<Rightarrow> string \<Rightarrow> string option \<Rightarrow> string option \<Rightarrow> string option \<Rightarrow> attempt_info \<Rightarrow>
   work \<Rightarrow> work" where
  "record_db sid st status err txt thread_model att wk =
     (case (wk_rows wk, wk_routing wk) of
        (Some rows, Some d) \<Rightarrow>
          wk\<lparr>wk_rows := Some (rows @
            [\<lparr>dr_session = sid, dr_decision = d, dr_stats = st, dr_status = status, dr_error = err,
              dr_text = txt, dr_events = wk_events wk, dr_ratelimit = at_ratelimit att,
              dr_attempt = at_number att, dr_request_id = at_request_id att,
              dr_savings = fst (compute_savings d st), dr_overhead = snd (compute_savings d st),
              dr_thread_model = thread_model, dr_capture = wk_capture wk\<rparr>])\<rparr>
      | _ \<Rightarrow> wk)"

definition log_session :: "world \<Rightarrow> string option \<Rightarrow> string" where
  "log_session w sess_key =
     (case sess_key of
        Some k \<Rightarrow> session_short_id (env_loads (w_env w)) (w_sha w) k
      | None \<Rightarrow> [])"

definition record_caveman_prose :: "string \<Rightarrow> string option \<Rightarrow> work \<Rightarrow> work" where
  "record_caveman_prose sess txt wk =
     (case (wk_caveman wk, Option.bind txt or_none) of
        (Some state, Some t) \<Rightarrow>
          (case prose_rate t of
             None \<Rightarrow> wk
           | Some (rate, n) \<Rightarrow>
               wk\<lparr>wk_prose := snd (record_prose_rate sess state rate (wk_prose wk))\<rparr>)
      | _ \<Rightarrow> wk)"

definition record_caveman_ratio :: "string \<Rightarrow> stats \<Rightarrow> work \<Rightarrow> work" where
  "record_caveman_ratio sess st wk =
     (case wk_caveman wk of
        None \<Rightarrow> wk
      | Some state \<Rightarrow>
          wk\<lparr>wk_ratio := snd (record_cache_ratio sess state (Some (stat st ''input_tokens''))
                (Some (stat st ''cache_creation_tokens'')) (Some (stat st ''cache_read_tokens''))
                (wk_ratio wk))\<rparr>)"

definition thread_model_of :: "jdict \<Rightarrow> string option" where
  "thread_model_of payload =
     (case jget ''thread'' payload of
        JObj _ \<Rightarrow> (if has_key ''model'' payload then as_str (jget ''model'' payload) else Some [])
      | _ \<Rightarrow> None)"

text \<open>The usage of a JSON response.  A count is a number or null, as the API documents; \<open>int()\<close> reads it.\<close>

definition result_stats :: "http_env \<Rightarrow> jdict \<Rightarrow> exn + stats" where
  "result_stats he d =
     (case dict_or_empty ''usage'' d of
        Inl e \<Rightarrow> Inl e
      | Inr u \<Rightarrow>
          (case (usage_int (he_int he) (jget ''input_tokens'' u),
                 usage_int (he_int he) (jget ''output_tokens'' u),
                 usage_int (he_int he) (jget ''cache_creation_input_tokens'' u),
                 usage_int (he_int he) (jget ''cache_read_input_tokens'' u)) of
             (Inr a, Inr b, Inr c, Inr r) \<Rightarrow>
               Inr [(''input_tokens'', a), (''output_tokens'', b), (''cache_creation_tokens'', c),
                    (''cache_read_tokens'', r)]
           | _ \<Rightarrow> Inl (PyError ValueError)))"

definition pin_response ::
  "settings \<Rightarrow> string option \<Rightarrow> jdict \<Rightarrow> jdict \<Rightarrow> string option \<Rightarrow> session_state \<Rightarrow> session_state" where
  "pin_response st sess_key payload result txt s =
     (case (thread_model_of payload, jget ''id'' result) of
        (Some model, JStr message_id) \<Rightarrow>
          record_thread message_id model (carries_long_beta payload) sess_key txt
            (prior_summary_limit (routing_config (st_handler st))) s
      | _ \<Rightarrow> s)"

definition upd_sessions :: "(session_state \<Rightarrow> session_state) \<Rightarrow> work \<Rightarrow> work" where
  "upd_sessions f wk = wk\<lparr>wk_rq := (wk_rq wk)\<lparr>rq_sessions := f (rq_sessions (wk_rq wk))\<rparr>\<rparr>"

definition echo_model :: "work \<Rightarrow> jdict \<Rightarrow> jdict" where
  "echo_model wk result =
     (case wk_routing wk of
        Some d \<Rightarrow>
          if applied d \<and> has_key ''model'' result
          then jset ''model'' (JStr (requested_model d)) result else result
      | None \<Rightarrow> result)"

definition finish_json ::
  "world \<Rightarrow> string option \<Rightarrow> attempt_info \<Rightarrow> stats \<Rightarrow> string option \<Rightarrow> work \<Rightarrow> work" where
  "finish_json w sess_key att st txt wk =
     record_db (session_or_untracked sess_key) st ''success'' None txt None att
       (record_caveman_prose (log_session w sess_key) txt
         ((record_caveman_ratio (log_session w sess_key) st wk)
            \<lparr>wk_rq := record_session_context st (wk_rq wk)\<rparr>))"

definition dispatch_json ::
  "world \<Rightarrow> settings \<Rightarrow> string option \<Rightarrow> work \<Rightarrow> (exn + json) \<times> work" where
  "dispatch_json w st sess_key wk =
     (let payload = wk_payload wk; att = attempt_of w st payload in
      case send_message (w_http w) (w_upstream w) (model_aliases (st_handler st)) payload of
        Inl e \<Rightarrow> (Inl e, wk)
      | Inr (JObj result) \<Rightarrow>
          (let wk1 = upd_sessions (record_ratelimit (at_ratelimit att)) wk in
           case extract_response_text result of
             Inl e \<Rightarrow> (Inl e, wk1)
           | Inr txt \<Rightarrow>
               (let wk2 = upd_sessions (pin_response st sess_key payload result txt) wk1 in
                case result_stats (w_http w) result of
                  Inl e \<Rightarrow> (Inl e, wk2)
                | Inr stats \<Rightarrow>
                    (Inr (JObj (echo_model wk2 result)), finish_json w sess_key att stats txt wk2)))
      | Inr _ \<Rightarrow>
          (Inl (PyError AttributeError), upd_sessions (record_ratelimit (at_ratelimit att)) wk))"

subsection \<open>Streams\<close>

text \<open>The chunks upstream yields and how they end: the request may fail at once, or the connection
  breaks after some chunks (\<open>w_cut\<close>).\<close>

definition upstream_stream :: "world \<Rightarrow> settings \<Rightarrow> jdict \<Rightarrow> string list \<times> ending" where
  "upstream_stream w st payload =
     (case send_message_stream (w_http w) (w_upstream w) (model_aliases (st_handler st)) payload of
        Inl e \<Rightarrow> ([], Raised e)
      | Inr chunks \<Rightarrow>
          (case w_cut w of
             None \<Rightarrow> (chunks, Finished)
           | Some (n, e) \<Rightarrow> if n < length chunks then (take n chunks, Raised e) else (chunks, Finished)))"

definition stream_config_of :: "world \<Rightarrow> settings \<Rightarrow> string option \<Rightarrow> work \<Rightarrow> stream_config" where
  "stream_config_of w st sess_key wk =
     \<lparr>sc_loads = env_loads (w_env w), sc_int = he_int (w_http w),
      sc_thread_model = thread_model_of (wk_payload wk),
      sc_long_context = carries_long_beta (wk_payload wk), sc_session_key = sess_key,
      sc_text_limit = prior_summary_limit (routing_config (st_handler st)),
      sc_capture_text = (thread_model_of (wk_payload wk) \<noteq> None \<or> wk_rows wk \<noteq> None \<or>
                         wk_caveman wk \<noteq> None)\<rparr>"

text \<open>\<open>_rewrite_response_model_sse\<close>: the chunks with the client's model, up to the first that raises.\<close>

fun map_stream :: "(string \<Rightarrow> exn + string) \<Rightarrow> string list \<Rightarrow> string list \<times> exn option" where
  "map_stream f [] = ([], None)"
| "map_stream f (c # cs) =
     (case f c of
        Inl e \<Rightarrow> ([], Some e)
      | Inr c' \<Rightarrow> (case map_stream f cs of (out, x) \<Rightarrow> (c' # out, x)))"

definition echo_chunk :: "world \<Rightarrow> work \<Rightarrow> string \<Rightarrow> exn + string" where
  "echo_chunk w wk chunk =
     (case wk_routing wk of
        Some d \<Rightarrow>
          if applied d
          then rewrite_message_start_model (env_loads (w_env w)) (w_dumps w) chunk (requested_model d)
          else Inr chunk
      | None \<Rightarrow> Inr chunk)"

text \<open>The chunks the wrapper sees, how its loop ends, and whether it ever starts: a consumer that stops
  early, or a rewrite that raises, closes it after the chunks pulled so far.\<close>

definition pulled ::
  "string list \<Rightarrow> ending \<Rightarrow> string list \<Rightarrow> exn option \<Rightarrow> nat \<Rightarrow> bool \<Rightarrow> (string list \<times> ending) option" where
  "pulled chunks e shown x n done =
     (if done \<and> x = None then Some (chunks, e)
      else if done then Some (take (Suc (length shown)) chunks, Closed)
      else if n = 0 then None
      else Some (take n chunks, Closed))"

definition finish_stream ::
  "world \<Rightarrow> string option \<Rightarrow> attempt_info \<Rightarrow> stream_config \<Rightarrow> string list \<times> ending \<Rightarrow> work \<Rightarrow> work" where
  "finish_stream w sess_key att sc seen wk =
     (case usage_sse_wrapper (g_dash (w_glyphs w)) sc (at_ratelimit att) (fst seen) (snd seen) (wk_rq wk) of
        (_, _, row, rq) \<Rightarrow>
          let st = ws_stats (snd (snd (take_chunks sc (fst seen) (start_stream (rq_sessions (wk_rq wk))))));
              wk1 = (record_caveman_ratio (log_session w sess_key) st wk)\<lparr>wk_rq := rq\<rparr>;
              wk2 = (if row_status row = ''success''
                     then record_caveman_prose (log_session w sess_key) (row_text row) wk1 else wk1)
          in record_db (session_or_untracked sess_key) (row_stats row) (row_status row) (row_error row)
               (row_text row) None att wk2)"

definition dispatch_stream ::
  "world \<Rightarrow> settings \<Rightarrow> string option \<Rightarrow> work \<Rightarrow> http_answer \<times> work" where
  "dispatch_stream w st sess_key wk =
     (let payload = wk_payload wk; sc = stream_config_of w st sess_key wk;
          att = attempt_of w st payload;
          (chunks, e) = upstream_stream w st payload;
          (out, e1, _, _) =
            usage_sse_wrapper (g_dash (w_glyphs w)) sc (at_ratelimit att) chunks e (wk_rq wk);
          (shown, x) = map_stream (echo_chunk w wk) out;
          e2 = (case x of None \<Rightarrow> e1 | Some exc \<Rightarrow> Raised exc)
      in case send_sse (has_key ''thread'' payload) (w_ticks w) shown e2 (open_conn (w_room w)) of
           (n, done, c) \<Rightarrow>
             (Sse_answer (written c),
              case pulled chunks e shown x n done of
                None \<Rightarrow> wk
              | Some seen \<Rightarrow> finish_stream w sess_key att sc seen wk))"

section \<open>Answers\<close>

definition error_answer :: "api_error \<Rightarrow> http_answer" where
  "error_answer a =
     Json_answer (status_code a) (anthropic_error_payload (err_type a) (err_message a))
       (if status_code a = 429 then map_option ceiling (err_retry_after a) else None)"

definition bad_gateway :: http_answer where
  "bad_gateway = Json_answer 502 (anthropic_error_payload ''api_error'' ''Upstream request failed'') None"

definition exn_answer :: "exn \<Rightarrow> http_answer" where
  "exn_answer e = (case e of RequestError a \<Rightarrow> error_answer a | PyError _ \<Rightarrow> bad_gateway)"

definition THREAD_MODEL_MISMATCH_MESSAGE :: string where
  "THREAD_MODEL_MISMATCH_MESSAGE =
     ''thread: the request does not match the stored Thread for the requested '' @
     ''`previous_message_id`; differing field(s): model. These fields must stay '' @
     ''the same across a Thread'' @ [CHR 0x27] @ ''s turns; to change them, start a new Thread with '' @
     ''`thread: {'' @ [CHR 0x22] @ ''type'' @ [CHR 0x22] @ '': '' @ [CHR 0x22] @ ''create'' @ [CHR 0x22] @
     ''}` and replay the conversation.''"

definition mismatch_answer :: http_answer where
  "mismatch_answer =
     Json_answer 400 (anthropic_error_payload THREAD_MODEL_MISMATCH_TYPE THREAD_MODEL_MISMATCH_MESSAGE) None"

definition send_reclassified :: "string option \<Rightarrow> work \<Rightarrow> http_answer \<times> work" where
  "send_reclassified sess_key wk =
     (mismatch_answer,
      record_db (session_or_untracked sess_key) [] ''reclassified'' None None
        (reclassified_from (wk_rq wk)) no_attempt wk)"

text \<open>\<open>_record_failed_request\<close> with the status its callers give it.\<close>

definition record_failed_request :: "world \<Rightarrow> settings \<Rightarrow> exn \<Rightarrow> work \<Rightarrow> work" where
  "record_failed_request w st e wk =
     (let sid = session_or_untracked (session_key (wk_payload wk));
          att = attempt_of w st (wk_payload wk); dash = g_dash (w_glyphs w)
      in case e of
           RequestError a \<Rightarrow>
             record_db sid [] (if status_code a = 429 then ''rate_limited'' else ''error'')
               (Some (db_error dash a)) None None att wk
         | PyError _ \<Rightarrow>
             record_db sid [] ''error'' (Some (''502'' @ dash @ ''upstream_failure'')) None None att wk)"

definition dispatch_request ::
  "world \<Rightarrow> settings \<Rightarrow> string option \<Rightarrow> work \<Rightarrow> http_answer \<times> work" where
  "dispatch_request w st sess_key wk =
     (if truthy (jget ''stream'' (wk_payload wk)) then dispatch_stream w st sess_key wk
      else (case dispatch_json w st sess_key wk of
              (Inl e, wk') \<Rightarrow> (exn_answer e, record_failed_request w st e wk')
            | (Inr result, wk') \<Rightarrow> (Json_answer 200 result None, wk')))"

text \<open>A local answer is a message, or the same message as a stream.\<close>

definition local_answer :: "world \<Rightarrow> string \<Rightarrow> jdict \<Rightarrow> http_answer" where
  "local_answer w markdown payload =
     (let model = (if has_key ''model'' payload then jget ''model'' payload else JStr []) in
      if truthy (jget ''stream'' payload)
      then Sse_answer (written (snd (snd (send_sse False 0
             (map (sse_event (w_dumps w)) (local_message_sse (w_message_id w) markdown model)) Finished
             (open_conn (w_room w))))))
      else Json_answer 200 (local_message (w_message_id w) markdown model) None)"

section \<open>The handler\<close>

datatype disposition = Local_command local_command | Monitor_reply | Activity_reply | Upstream

definition disposition_of :: "settings \<Rightarrow> jdict \<Rightarrow> disposition" where
  "disposition_of st payload =
     (case parse_local_command payload of
        Some c \<Rightarrow> Local_command c
      | None \<Rightarrow>
          if st_monitor_local st \<and> has_happy_new_year_system_prompt payload then Monitor_reply
          else if st_activity_local st \<and> is_activity_label_request payload then Activity_reply
          else Upstream)"

definition run_upstream ::
  "world \<Rightarrow> settings \<Rightarrow> string option \<Rightarrow> work \<Rightarrow> http_answer \<times> work" where
  "run_upstream w st sess_key wk =
     (case prepare w st sess_key wk of
        (Some e, wk1) \<Rightarrow> (exn_answer e, wk1)
      | (None, wk1) \<Rightarrow>
          if reclassified_from (wk_rq wk1) \<noteq> None then send_reclassified sess_key wk1
          else dispatch_request w st sess_key wk1)"

definition handle_payload ::
  "world \<Rightarrow> settings \<Rightarrow> header_map \<Rightarrow> jdict \<Rightarrow> server \<Rightarrow> http_answer \<times> server" where
  "handle_payload w st headers payload srv =
     (case disposition_of st payload of
        Local_command c \<Rightarrow>
          (case command_markdown (w_glyphs w) (env_repr (w_env w)) (routing_config (st_handler st)) c
                  (session_key payload) (srv_sessions srv) of
             (markdown, s) \<Rightarrow> (local_answer w markdown payload, srv\<lparr>srv_sessions := s\<rparr>))
      | Monitor_reply \<Rightarrow> (local_answer w HAPPY_BIRTHDAY_REPLY payload, srv)
      | Activity_reply \<Rightarrow> (local_answer w (w_label w) payload, srv)
      | Upstream \<Rightarrow>
          (case extract_client_credentials headers of
             Inl e \<Rightarrow> (exn_answer e, srv)
           | Inr credentials \<Rightarrow>
               (case run_upstream w st (session_key payload)
                       (start_work (with_client_betas headers payload) srv) of
                  (reply, wk) \<Rightarrow> (reply, end_work wk))))"

definition handle_messages ::
  "world \<Rightarrow> settings \<Rightarrow> header_map \<Rightarrow> string \<Rightarrow> server \<Rightarrow> http_answer \<times> server" where
  "handle_messages w st headers body srv =
     (case read_payload (env_loads (w_env w)) headers body of
        Inl e \<Rightarrow> (exn_answer e, srv)
      | Inr payload \<Rightarrow> handle_payload w st headers payload srv)"

text \<open>\<open>_handle_count_tokens\<close>.\<close>

definition handle_count_tokens ::
  "world \<Rightarrow> settings \<Rightarrow> (jdict \<Rightarrow> reply) \<Rightarrow> header_map \<Rightarrow> string \<Rightarrow> http_answer" where
  "handle_count_tokens w st up headers body =
     (case read_payload (env_loads (w_env w)) headers body of
        Inl e \<Rightarrow> exn_answer e
      | Inr payload \<Rightarrow>
          (case extract_client_credentials headers of
             Inl e \<Rightarrow> exn_answer e
           | Inr credentials \<Rightarrow>
               (case count_tokens (w_http w) up (model_aliases (st_handler st)) payload of
                  Inl e \<Rightarrow> exn_answer e
                | Inr result \<Rightarrow> Json_answer 200 result None)))"

end
