(* ===== verification/Message_Props.thy ===== *)
theory Message_Props
  imports Message_Handling Thread_Props
begin

text \<open>
  What one \<open>POST /v1/messages\<close> guarantees: the payload that is dispatched is the one the decision names, a
  security-monitor request leaves no trace in routing, a local command stays local, and a request leaves at
  most one database row.
\<close>

section \<open>Content stages\<close>

definition content_only :: "work \<Rightarrow> work \<Rightarrow> bool" where
  "content_only wk wk' \<longleftrightarrow>
     wk_routing wk' = wk_routing wk \<and> wk_rows wk' = wk_rows wk \<and> wk_ratio wk' = wk_ratio wk \<and>
     wk_prose wk' = wk_prose wk \<and>
     rq_sessions (wk_rq wk') = rq_sessions (wk_rq wk) \<and> rq_router (wk_rq wk') = rq_router (wk_rq wk) \<and>
     reclassified_from (wk_rq wk') = reclassified_from (wk_rq wk) \<and>
     rq_ctx_key (wk_rq wk') = rq_ctx_key (wk_rq wk) \<and>
     (\<forall>k. k \<notin> {''system'', ''messages''} \<longrightarrow> map_of (wk_payload wk') k = map_of (wk_payload wk) k)"

lemma content_only_refl [simp]: "content_only wk wk"
  by (simp add: content_only_def)

lemma content_only_trans: "content_only a b \<Longrightarrow> content_only b c \<Longrightarrow> content_only a c"
  by (simp add: content_only_def)

lemma content_only_payload:
  "content_only wk wk' \<Longrightarrow> \<forall>k. k \<notin> {''system'', ''messages''} \<longrightarrow> map_of p k = map_of (wk_payload wk) k \<Longrightarrow>
     content_only wk (set_payload p wk')"
  by (simp add: content_only_def set_payload_def wk_payload_def)

lemma content_only_frame [simp]:
  "content_only wk (wk'\<lparr>wk_capture := pc\<rparr>) \<longleftrightarrow> content_only wk wk'"
  "content_only wk (wk'\<lparr>wk_events := ev\<rparr>) \<longleftrightarrow> content_only wk wk'"
  "content_only wk (wk'\<lparr>wk_tracker := tr\<rparr>) \<longleftrightarrow> content_only wk wk'"
  "content_only wk (wk'\<lparr>wk_rewriter := rw\<rparr>) \<longleftrightarrow> content_only wk wk'"
  "content_only wk (wk'\<lparr>wk_caveman := cv\<rparr>) \<longleftrightarrow> content_only wk wk'"
  "content_only (wk\<lparr>wk_caveman := cv\<rparr>) wk' \<longleftrightarrow> content_only wk wk'"
  "content_only (wk\<lparr>wk_capture := pc\<rparr>) wk' \<longleftrightarrow> content_only wk wk'"
  by (simp_all add: content_only_def wk_payload_def)

lemma payload_frame [simp]:
  "wk_payload (wk\<lparr>wk_capture := pc\<rparr>) = wk_payload wk" "wk_payload (wk\<lparr>wk_events := ev\<rparr>) = wk_payload wk"
  "wk_payload (wk\<lparr>wk_tracker := tr\<rparr>) = wk_payload wk" "wk_payload (wk\<lparr>wk_rewriter := rw\<rparr>) = wk_payload wk"
  "wk_payload (wk\<lparr>wk_caveman := cv\<rparr>) = wk_payload wk" "wk_payload (wk\<lparr>wk_routing := d\<rparr>) = wk_payload wk"
  "wk_payload (set_payload p wk) = p"
  by (simp_all add: wk_payload_def set_payload_def)

lemma sanitizer_keeps_fields:
  assumes "sanitize_system_prompt dumps sha cfg digest payload mode sid tr = (r, payload', tr')"
    and "k \<noteq> ''system''"
  shows "map_of payload' k = map_of payload k"
  using assms by (auto simp: sanitize_system_prompt_def Let_def split_beta split: if_splits)

lemma sanitize_step_content: "content_only wk (sanitize_step w st sess_key wk)"
  by (auto simp: sanitize_step_def intro!: content_only_payload dest: sanitizer_keeps_fields split: prod.split)

lemma strip_step_content: "content_only wk (strip_attribution_step st wk)"
  by (simp add: strip_attribution_step_def content_only_payload split: prod.split)

lemma write_opening_fields:
  "write_opening_system_blocks p places bs = Inr p' \<Longrightarrow> k \<noteq> ''messages'' \<Longrightarrow> map_of p' k = map_of p k"
  by (auto simp: write_opening_system_blocks_def split: if_splits json.splits)

lemma rewrite_messages_content: "content_only wk (snd (rewrite_messages w st mode wk))"
  by (auto simp: rewrite_messages_def Let_def intro!: content_only_payload dest: write_opening_fields
      split: prod.split option.split sum.split)

lemma rewrite_system_content: "content_only wk (rewrite_system w st mode wk)"
  by (auto simp: rewrite_system_def Let_def intro!: content_only_payload split: prod.split option.split)

lemma caveman_step_content: "content_only wk (caveman_step w st wk)"
proof (cases "st_caveman st \<noteq> ''on'' \<or> has_happy_new_year_system_prompt (wk_payload wk)")
  case False
  show ?thesis
  proof (cases "detect_mode (w_caveman_header w) (wk_payload wk)")
    case (Some mode)
    obtain b wk1 where run: "rewrite_messages w st mode (wk\<lparr>wk_caveman := None\<rparr>) = (b, wk1)" by fastforce
    with rewrite_messages_content [of "wk\<lparr>wk_caveman := None\<rparr>" w st mode]
    have step: "content_only wk wk1" by simp
    have "content_only wk (rewrite_system w st mode wk1)"
      by (rule content_only_trans [OF step rewrite_system_content])
    with step run False Some show ?thesis by (cases b) (simp_all add: caveman_step_def)
  qed (use False in \<open>simp add: caveman_step_def\<close>)
qed (simp add: caveman_step_def)

lemma dispatched_text_content: "content_only wk (capture_dispatched_text w wk)"
  by (simp add: capture_dispatched_text_def Let_def)

lemma content_stages:
  "content_only wk (capture_dispatched_text w
     (caveman_step w st (strip_attribution_step st (sanitize_step w st sess_key wk))))"
  by (rule content_only_trans [OF content_only_trans [OF content_only_trans [OF
        sanitize_step_content strip_step_content] caveman_step_content] dispatched_text_content])

lemma prepare_content:
  assumes "prepare w st sess_key wk = (None, wk')"
  obtains wk1 where "route_step w st sess_key wk = (None, wk1)" "content_only wk1 wk'"
proof -
  from assms obtain wk1 where route: "route_step w st sess_key wk = (None, wk1)"
    by (auto simp: prepare_def Let_def split: prod.splits option.splits)
  have "content_only wk1 wk'"
    using assms route content_stages [of "wk1\<lparr>wk_capture := extract_prompt_capture w (wk_payload wk1)\<rparr>" w st sess_key]
    by (auto simp: prepare_def Let_def split: if_splits)
  with route show ?thesis by (rule that)
qed

section \<open>The dispatched payload\<close>

lemma wk_payload_start [simp]: "wk_payload (start_work payload srv) = payload"
  by (simp add: wk_payload_def start_work_def)

lemma wk_rows_start [simp]: "wk_rows (start_work payload srv) = srv_rows srv"
  by (simp add: start_work_def)

lemma monitor_decision:
  assumes "jget ''model'' payload = JStr m"
  shows "security_monitor_passthrough env (wk_rq (start_work payload srv)) =
     decide m m None ''security_monitor_passthrough''"
  using assms by (simp add: security_monitor_passthrough_def requested_text_def raw_model_def
      start_work_def py_str_def)

lemma route_step_decision:
  assumes model: "jget ''model'' payload = JStr m"
    and route: "route_step w st sess_key (start_work payload srv) = (None, wk)"
    and kept: "reclassified_from (wk_rq wk) = None"
  shows "\<exists>d. wk_routing wk = Some d \<and> requested_model d = m \<and> consistent d \<and>
      reason_code d \<in> set REASON_CODES \<and> jget ''model'' (wk_payload wk) = JStr (routed_model d) \<and>
      (\<forall>k. k \<notin> {''model'', ''_anthropic_beta''} \<longrightarrow> map_of (wk_payload wk) k = map_of payload k)"
proof (cases "has_happy_new_year_system_prompt payload")
  case True
  have "consistent (decide m m None ''security_monitor_passthrough'')"
    by (simp add: decide_def consistent_def)
  with True route model thread_reasons show ?thesis
    by (auto simp: route_step_def monitor_decision [OF model] decide_def)
next
  case False
  let ?wk = "start_work payload srv"
  from False route obtain d rq where
    rr: "route_request (w_env w) (w_sha w) (st_handler st) (w_now w) (w_later w) sess_key
       (handoff_key_of (w_sha w) sess_key payload) (wk_rq ?wk) = (Inr d, rq)"
    and wk: "wk = ?wk\<lparr>wk_rq := rq, wk_routing := Some d\<rparr>"
    by (auto simp: route_step_def split: prod.splits sum.splits)
  have "jget ''model'' (rq_payload (wk_rq ?wk)) = JStr m" using model by (simp add: start_work_def)
  from route_request_sound [OF this rr] kept wk show ?thesis
    by (simp add: wk_payload_def start_work_def consistent_def)
qed

text \<open>(C1) When a request reaches the dispatch, its decision names the client's model and a declared
  reason, the payload holds exactly the model the decision names, every body any attempt sends carries that
  model resolved, and the stages before the dispatch change no field but the model, the betas, the system
  prompt and the messages.\<close>

theorem dispatch_matches_decision:
  assumes model: "jget ''model'' payload = JStr m"
    and prep: "prepare w st sess_key (start_work payload srv) = (None, wk)"
    and kept: "reclassified_from (wk_rq wk) = None"
  shows "\<exists>d. wk_routing wk = Some d \<and> requested_model d = m \<and> applied d = (routed_model d \<noteq> m) \<and>
      reason_code d \<in> set REASON_CODES \<and> jget ''model'' (wk_payload wk) = JStr (routed_model d) \<and>
      (\<forall>k. k \<notin> {''model'', ''_anthropic_beta'', ''system'', ''messages''} \<longrightarrow>
         map_of (wk_payload wk) k = map_of payload k) \<and>
      (\<forall>al resolved he up. resolve_model al (JStr (routed_model d)) = Inr resolved \<longrightarrow>
         list_all (\<lambda>body. jget ''model'' body = JStr resolved)
           (sent (snd (send_with_retries he up al (wk_payload wk)))))"
proof -
  from prep obtain wk1 where route: "route_step w st sess_key (start_work payload srv) = (None, wk1)"
    and content: "content_only wk1 wk" by (rule prepare_content)
  from content kept have "reclassified_from (wk_rq wk1) = None" by (simp add: content_only_def)
  from route_step_decision [OF model route this] obtain d where d: "wk_routing wk1 = Some d"
    "requested_model d = m" "consistent d" "reason_code d \<in> set REASON_CODES"
    "jget ''model'' (wk_payload wk1) = JStr (routed_model d)"
    "\<forall>k. k \<notin> {''model'', ''_anthropic_beta''} \<longrightarrow> map_of (wk_payload wk1) k = map_of payload k" by blast
  from content have fields: "map_of (wk_payload wk) k = map_of (wk_payload wk1) k"
    if "k \<notin> {''system'', ''messages''}" for k using that by (simp add: content_only_def)
  from fields [of "''model''"] d(5) have dispatched: "jget ''model'' (wk_payload wk) = JStr (routed_model d)"
    by (simp add: jget_def)
  have "list_all (\<lambda>body. jget ''model'' body = JStr resolved)
      (sent (snd (send_with_retries he up al (wk_payload wk))))"
    if "resolve_model al (JStr (routed_model d)) = Inr resolved" for al resolved he up
    using send_with_retries_tried [of al "wk_payload wk" resolved he up] that dispatched
    by (auto simp: tried_def fresh_transport_def accepted_by_def list_all_iff)
  with d content dispatched fields show ?thesis
    by (intro exI [of _ d]) (simp add: content_only_def consistent_def)
qed

section \<open>What the dispatch writes\<close>

text \<open>The routing state: the switches, the tier cache, the context observations and the handoffs.\<close>

definition same_routing :: "session_state \<Rightarrow> session_state \<Rightarrow> bool" where
  "same_routing s s' \<longleftrightarrow>
     global_routing s' = global_routing s \<and> routing_overrides s' = routing_overrides s \<and>
     routed_tiers s' = routed_tiers s \<and> context_obs s' = context_obs s \<and> handoffs s' = handoffs s"

lemma same_routing_refl [simp]: "same_routing s s"
  by (simp add: same_routing_def)

lemma same_routing_trans: "same_routing a b \<Longrightarrow> same_routing b c \<Longrightarrow> same_routing a c"
  by (simp add: same_routing_def)

lemma same_routing_writes [simp]:
  "same_routing a (record_ratelimit window s) = same_routing a s"
  "same_routing a (record_thread i m lc k txt n s) = same_routing a s"
  by (auto simp: same_routing_def record_ratelimit_def record_thread_def Let_def split: option.splits)

lemma take_chunk_routing:
  assumes "take_chunk sc c ws = (x, ws')"
  shows "same_routing (ws_sessions ws) (ws_sessions ws')"
  using assms
  by (auto simp: take_chunk_def note_text_def note_thread_def note_error_def pin_thread_def
      split: prod.splits option.splits if_splits)

lemma take_chunks_routing:
  "take_chunks sc cs ws = (out, x, ws') \<Longrightarrow> same_routing (ws_sessions ws) (ws_sessions ws')"
proof (induction cs arbitrary: ws out)
  case (Cons c cs)
  obtain y ws1 where c: "take_chunk sc c ws = (y, ws1)" by fastforce
  note step = take_chunk_routing [OF c]
  show ?case
  proof (cases y)
    case None
    with Cons.prems c obtain out' where "take_chunks sc cs ws1 = (out', x, ws')"
      by (auto split: prod.splits)
    from same_routing_trans [OF step Cons.IH [OF this]] show ?thesis .
  qed (use Cons.prems c step in auto)
qed simp

text \<open>With no context key and no caveman state, the dispatch writes only Thread pins, the rate-limit
  window and rows.\<close>

definition quiet :: "work \<Rightarrow> work \<Rightarrow> bool" where
  "quiet wk wk' \<longleftrightarrow>
     same_routing (rq_sessions (wk_rq wk)) (rq_sessions (wk_rq wk')) \<and>
     rq_router (wk_rq wk') = rq_router (wk_rq wk) \<and> rq_ctx_key (wk_rq wk') = rq_ctx_key (wk_rq wk) \<and>
     wk_caveman wk' = wk_caveman wk \<and> wk_tracker wk' = wk_tracker wk \<and>
     wk_rewriter wk' = wk_rewriter wk \<and> wk_ratio wk' = wk_ratio wk \<and> wk_prose wk' = wk_prose wk"

definition untracked :: "work \<Rightarrow> bool" where
  "untracked wk \<longleftrightarrow> rq_ctx_key (wk_rq wk) = None \<and> wk_caveman wk = None"

lemma quiet_refl [simp]: "quiet wk wk"
  by (simp add: quiet_def)

lemma quiet_record_db [simp]: "quiet wk (record_db sid st s e t m att wk') = quiet wk wk'"
  by (simp add: quiet_def record_db_def split: option.split)

lemma quiet_record_failed [simp]: "quiet wk (record_failed_request w st e wk') = quiet wk wk'"
  by (simp add: record_failed_request_def Let_def split: exn.split)

lemma record_session_context_None: "rq_ctx_key rq = None \<Longrightarrow> record_session_context st rq = rq"
  by (simp add: record_session_context_def)

lemma caveman_records_None:
  "wk_caveman wk = None \<Longrightarrow> record_caveman_prose sess txt wk = wk"
  "wk_caveman wk = None \<Longrightarrow> record_caveman_ratio sess st wk = wk"
  by (simp_all add: record_caveman_prose_def record_caveman_ratio_def)

lemma dispatch_json_quiet:
  assumes "untracked wk"
  shows "quiet wk (snd (dispatch_json w st sess_key wk))"
proof -
  have keep: "quiet wk (upd_sessions f wk') = quiet wk wk'"
    if "\<And>a s. same_routing a (f s) = same_routing a s" for f wk'
    using that by (simp add: quiet_def upd_sessions_def)
  have pin: "same_routing a (pin_response st sess_key p result t s) = same_routing a s" for a p result t s
    by (simp add: pin_response_def split: option.split json.split)
  have finish: "quiet wk (finish_json w sess_key att stats t wk') = quiet wk wk'"
    if "untracked wk'" for att stats t wk'
    using that by (simp add: finish_json_def untracked_def record_session_context_None caveman_records_None)
  have un: "untracked (upd_sessions f wk') = untracked wk'" for f wk'
    by (simp add: untracked_def upd_sessions_def)
  show ?thesis
    using assms
    by (simp add: dispatch_json_def Let_def keep [OF pin] keep [OF same_routing_writes(1)] finish un
        split: sum.split json.split)
qed

lemma wrapper_quiet:
  assumes "usage_sse_wrapper dash sc rl cs e rq = (out, e', row, rq')" and "rq_ctx_key rq = None"
  shows "same_routing (rq_sessions rq) (rq_sessions rq')" "rq_router rq' = rq_router rq" "rq_ctx_key rq' = None"
proof -
  obtain o1 x ws where take: "take_chunks sc cs (start_stream (rq_sessions rq)) = (o1, x, ws)"
    by (metis prod_cases3)
  from take_chunks_routing [OF take] have "same_routing (rq_sessions rq) (ws_sessions ws)"
    by (simp add: start_stream_def)
  with assms take
  show "same_routing (rq_sessions rq) (rq_sessions rq')" "rq_router rq' = rq_router rq" "rq_ctx_key rq' = None"
    by (auto simp: usage_sse_wrapper_def Let_def record_session_context_None)
qed

lemma finish_stream_quiet:
  assumes "untracked wk"
  shows "quiet wk (finish_stream w sess_key att sc seen wk)"
proof -
  obtain out e' row rq where run: "usage_sse_wrapper (g_dash (w_glyphs w)) sc (at_ratelimit att)
      (fst seen) (snd seen) (wk_rq wk) = (out, e', row, rq)" by (metis prod_cases4)
  from assms have key: "rq_ctx_key (wk_rq wk) = None" and cave: "wk_caveman wk = None"
    by (simp_all add: untracked_def)
  have "quiet wk (wk\<lparr>wk_rq := rq\<rparr>)" using wrapper_quiet [OF run key] key by (simp add: quiet_def)
  then show ?thesis
    using cave by (simp add: finish_stream_def run Let_def caveman_records_None)
qed

lemma dispatch_request_quiet:
  assumes "untracked wk"
  shows "quiet wk (snd (dispatch_request w st sess_key wk))"
proof (cases "truthy (jget ''stream'' (wk_payload wk))")
  case True
  with assms show ?thesis
    by (auto simp: dispatch_request_def dispatch_stream_def Let_def finish_stream_quiet
        split: prod.split option.split)
next
  case False
  with dispatch_json_quiet [OF assms, of w st sess_key] show ?thesis
    by (auto simp: dispatch_request_def split: prod.split sum.split)
qed

section \<open>Security-monitor requests\<close>

lemma monitor_with_betas:
  "has_happy_new_year_system_prompt (with_client_betas headers payload) =
     has_happy_new_year_system_prompt payload"
  by (simp add: has_happy_new_year_system_prompt_def with_client_betas_def Let_def)

lemma prepare_monitor:
  assumes "has_happy_new_year_system_prompt (wk_payload wk)" "reclassified_from (wk_rq wk) = None"
  shows "prepare w st sess_key wk =
    (None, wk\<lparr>wk_routing := Some (security_monitor_passthrough (w_env w) (wk_rq wk)),
              wk_capture := extract_prompt_capture w (wk_payload wk), wk_events := []\<rparr>)"
  using assms by (simp add: prepare_def route_step_def Let_def wk_payload_def)

lemma run_monitor:
  assumes monitor: "has_happy_new_year_system_prompt payload"
  shows "run_upstream w st sess_key (start_work payload srv) =
    dispatch_request w st sess_key ((start_work payload srv)
      \<lparr>wk_routing := Some (security_monitor_passthrough (w_env w) (wk_rq (start_work payload srv))),
       wk_capture := extract_prompt_capture w payload, wk_events := []\<rparr>)"
  using monitor prepare_monitor [of "start_work payload srv" w st sess_key]
  by (simp add: run_upstream_def) (simp add: start_work_def)


text \<open>The payload a monitor request dispatches, for reference in \<open>dispatch_matches_decision\<close>.\<close>

lemma monitor_payload_untouched:
  assumes "has_happy_new_year_system_prompt payload"
    and "prepare w st sess_key (start_work payload srv) = (None, wk)"
  shows "wk_payload wk = payload"
  using assms prepare_monitor [of "start_work payload srv" w st sess_key]
  by (auto simp: wk_payload_def start_work_def)

section \<open>Local commands\<close>

lemma local_answer_world:
  "local_answer (w\<lparr>w_upstream := up, w_env := e\<rparr>) = local_answer w"
  by (simp add: fun_eq_iff local_answer_def Let_def cong: if_cong)


section \<open>Rows\<close>

definition STATUSES :: "string list" where
  "STATUSES = [''success'', ''error'', ''rate_limited'', ''reclassified'']"

text \<open>One row was appended, for this session and this decision, with an error text exactly when it failed.\<close>

definition row_for :: "string \<Rightarrow> decision \<Rightarrow> db_row list option \<Rightarrow> db_row list option \<Rightarrow> bool" where
  "row_for sid d rows rows' \<longleftrightarrow>
     (rows = None \<and> rows' = None) \<or>
     (\<exists>rs r. rows = Some rs \<and> rows' = Some (rs @ [r]) \<and> dr_session r = sid \<and> dr_decision r = d \<and>
        dr_status r \<in> set STATUSES \<and>
        (dr_error r = None \<longleftrightarrow> dr_status r \<in> {''success'', ''reclassified''}))"

lemma record_db_row:
  assumes "wk_routing wk = Some d" "status \<in> set STATUSES"
    and "e = None \<longleftrightarrow> status \<in> {''success'', ''reclassified''}"
  shows "row_for sid d (wk_rows wk) (wk_rows (record_db sid st status e t m att wk))"
  using assms by (auto simp: row_for_def record_db_def split: option.split)

lemma caveman_records_frame [simp]:
  "wk_rows (record_caveman_prose s t x) = wk_rows x" "wk_routing (record_caveman_prose s t x) = wk_routing x"
  "wk_rows (record_caveman_ratio s st x) = wk_rows x" "wk_routing (record_caveman_ratio s st x) = wk_routing x"
  by (simp_all add: record_caveman_prose_def record_caveman_ratio_def split: option.split prod.split)

lemma upd_sessions_frame [simp]:
  "wk_rows (upd_sessions f wk) = wk_rows wk" "wk_routing (upd_sessions f wk) = wk_routing wk"
  "wk_payload (upd_sessions f wk) = wk_payload wk"
  by (simp_all add: upd_sessions_def wk_payload_def)

lemma finish_json_row:
  "wk_routing wk = Some d \<Longrightarrow>
     row_for (session_or_untracked sess_key) d (wk_rows wk) (wk_rows (finish_json w sess_key att st t wk))"
  using record_db_row [of "record_caveman_prose (log_session w sess_key) t
      ((record_caveman_ratio (log_session w sess_key) st wk)\<lparr>wk_rq := record_session_context st (wk_rq wk)\<rparr>)" d]
  by (simp add: finish_json_def STATUSES_def)

lemma dispatch_json_rows:
  assumes "dispatch_json w st sess_key wk = (r, wk')" and "wk_routing wk = Some d"
  shows "case r of
      Inl e \<Rightarrow> wk_rows wk' = wk_rows wk \<and> wk_routing wk' = Some d \<and> wk_payload wk' = wk_payload wk
    | Inr v \<Rightarrow> row_for (session_or_untracked sess_key) d (wk_rows wk) (wk_rows wk')"
proof -
  have finish: "row_for (session_or_untracked sess_key) d (wk_rows wk)
      (wk_rows (finish_json w sess_key att stats t (upd_sessions f (upd_sessions g wk))))" for att stats t f g
    using finish_json_row [of "upd_sessions f (upd_sessions g wk)" d] assms(2) by simp
  show ?thesis
    using assms finish by (auto simp: dispatch_json_def Let_def split: sum.splits json.splits)
qed

lemma failed_row:
  assumes "wk_routing wk = Some d" "session_key (wk_payload wk) = sess_key"
  shows "row_for (session_or_untracked sess_key) d (wk_rows wk) (wk_rows (record_failed_request w st e wk))"
  using assms by (auto simp: record_failed_request_def Let_def STATUSES_def intro!: record_db_row split: exn.split)

lemma stream_row_status:
  "row_status (stream_row dash e ws) \<in> set STATUSES"
  "row_error (stream_row dash e ws) = None \<longleftrightarrow> row_status (stream_row dash e ws) \<in> {''success'', ''reclassified''}"
  by (auto simp: stream_row_def STATUSES_def split: ending.split exn.split)

lemma finish_stream_row:
  assumes "wk_routing wk = Some d"
  shows "row_for (session_or_untracked sess_key) d (wk_rows wk) (wk_rows (finish_stream w sess_key att sc seen wk))"
proof -
  obtain out e' row rq where run: "usage_sse_wrapper (g_dash (w_glyphs w)) sc (at_ratelimit att)
      (fst seen) (snd seen) (wk_rq wk) = (out, e', row, rq)" by (metis prod_cases4)
  then obtain e ws where "row = stream_row (g_dash (w_glyphs w)) e ws"
    by (auto simp: usage_sse_wrapper_def Let_def split: prod.splits)
  then have row: "row_status row \<in> set STATUSES"
    "row_error row = None \<longleftrightarrow> row_status row \<in> {''success'', ''reclassified''}"
    by (simp_all only: stream_row_status)
  have "row_for sid d (wk_rows wk) (wk_rows (record_db sid (row_stats row) (row_status row) (row_error row)
      (row_text row) None att x))" if "wk_rows x = wk_rows wk" "wk_routing x = Some d" for sid x
    using record_db_row [OF that(2) row] that(1) by metis
  then show ?thesis using assms by (simp add: finish_stream_def run Let_def)
qed

lemma dispatch_request_rows:
  assumes "dispatch_request w st sess_key wk = (reply, wk')" and "wk_routing wk = Some d"
    and "session_key (wk_payload wk) = sess_key"
  shows "row_for (session_or_untracked sess_key) d (wk_rows wk) (wk_rows wk') \<or>
    (wk_rows wk' = wk_rows wk \<and> truthy (jget ''stream'' (wk_payload wk)))"
proof (cases "truthy (jget ''stream'' (wk_payload wk))")
  case True
  with assms finish_stream_row [OF assms(2)] show ?thesis
    by (auto simp: dispatch_request_def dispatch_stream_def Let_def split: prod.splits option.splits)
next
  case False
  obtain r wk1 where json: "dispatch_json w st sess_key wk = (r, wk1)" by fastforce
  note rows = dispatch_json_rows [OF json assms(2)]
  show ?thesis
  proof (cases r)
    case (Inl e)
    with rows assms(3) failed_row [of wk1 d sess_key w st e] have
      "row_for (session_or_untracked sess_key) d (wk_rows wk) (wk_rows (record_failed_request w st e wk1))"
      by simp
    with Inl False json assms(1) show ?thesis by (auto simp: dispatch_request_def)
  next
    case (Inr v)
    with rows False json assms(1) show ?thesis by (auto simp: dispatch_request_def)
  qed
qed

lemma route_step_fields:
  assumes model: "jget ''model'' payload = JStr m"
    and route: "route_step w st sess_key (start_work payload srv) = (None, wk)"
  shows "\<exists>d. wk_routing wk = Some d \<and> requested_model d = m \<and> wk_rows wk = srv_rows srv \<and>
      (\<forall>k. k \<notin> {''model'', ''_anthropic_beta''} \<longrightarrow> map_of (wk_payload wk) k = map_of payload k)"
proof (cases "has_happy_new_year_system_prompt payload")
  case True
  with route show ?thesis
    by (auto simp: route_step_def monitor_decision [OF model])
next
  case False
  let ?wk = "start_work payload srv"
  from False route obtain d rq where
    rr: "route_request (w_env w) (w_sha w) (st_handler st) (w_now w) (w_later w) sess_key
       (handoff_key_of (w_sha w) sess_key payload) (wk_rq ?wk) = (Inr d, rq)"
    and wk: "wk = ?wk\<lparr>wk_rq := rq, wk_routing := Some d\<rparr>"
    by (auto simp: route_step_def split: prod.splits sum.splits)
  have "jget ''model'' (rq_payload (wk_rq ?wk)) = JStr m" using model by (simp add: start_work_def)
  from route_request_sound [OF this rr] wk show ?thesis
    by (simp add: wk_payload_def start_work_def)
qed

lemma prepare_fields:
  assumes model: "jget ''model'' payload = JStr m"
    and prep: "prepare w st sess_key (start_work payload srv) = (None, wk)"
  shows "\<exists>d. wk_routing wk = Some d \<and> requested_model d = m \<and> wk_rows wk = srv_rows srv \<and>
      (\<forall>k. k \<notin> {''model'', ''_anthropic_beta'', ''system'', ''messages''} \<longrightarrow>
         map_of (wk_payload wk) k = map_of payload k)"
proof -
  from prep obtain wk1 where "route_step w st sess_key (start_work payload srv) = (None, wk1)"
    and "content_only wk1 wk" by (rule prepare_content)
  with route_step_fields [OF model] show ?thesis by (force simp: content_only_def)
qed

lemma route_step_failed:
  "route_step w st sess_key wk = (Some e, wk') \<Longrightarrow> wk_rows wk' = wk_rows wk"
  by (auto simp: route_step_def split: if_splits prod.splits sum.splits)

lemma prepare_failed:
  "prepare w st sess_key wk = (Some e, wk') \<Longrightarrow> wk_rows wk' = wk_rows wk"
  by (auto simp: prepare_def Let_def dest: route_step_failed split: prod.splits option.splits if_splits)

lemma run_upstream_rows:
  assumes model: "jget ''model'' payload = JStr m"
    and run: "run_upstream w st (session_key payload) (start_work payload srv) = (reply, wk')"
  shows "(\<exists>d. requested_model d = m \<and>
       row_for (session_or_untracked (session_key payload)) d (srv_rows srv) (wk_rows wk')) \<or>
     (wk_rows wk' = srv_rows srv \<and> (truthy (jget ''stream'' payload) \<or>
        fst (prepare w st (session_key payload) (start_work payload srv)) \<noteq> None))"
proof -
  obtain x wk where prep: "prepare w st (session_key payload) (start_work payload srv) = (x, wk)" by fastforce
  show ?thesis
  proof (cases x)
    case (Some e)
    with prep run prepare_failed [of w st "session_key payload" "start_work payload srv" e wk]
    show ?thesis by (simp add: run_upstream_def start_work_def)
  next
    case None
    from prepare_fields [OF model] prep None obtain d where d: "wk_routing wk = Some d" "requested_model d = m"
      "wk_rows wk = srv_rows srv"
      "\<forall>k. k \<notin> {''model'', ''_anthropic_beta'', ''system'', ''messages''} \<longrightarrow>
         map_of (wk_payload wk) k = map_of payload k" by blast
    from d(4) have keys: "session_key (wk_payload wk) = session_key payload"
      "jget ''stream'' (wk_payload wk) = jget ''stream'' payload"
      by (simp_all add: session_key_def jget_def)
    show ?thesis
    proof (cases "reclassified_from (wk_rq wk) = None")
      case True
      with prep None run have "dispatch_request w st (session_key payload) wk = (reply, wk')"
        by (simp add: run_upstream_def)
      from dispatch_request_rows [OF this d(1) keys(1)] d(2,3) keys(2) show ?thesis by auto
    next
      case False
      with prep None run have wk': "wk' = record_db (session_or_untracked (session_key payload)) []
          ''reclassified'' None None (reclassified_from (wk_rq wk)) no_attempt wk"
        by (auto simp: run_upstream_def send_reclassified_def)
      have "row_for (session_or_untracked (session_key payload)) d (wk_rows wk) (wk_rows wk')"
        unfolding wk' by (rule record_db_row [OF d(1)]) (simp_all add: STATUSES_def)
      with d(2,3) show ?thesis by auto
    qed
  qed
qed

lemma with_client_betas_fields [simp]:
  "k \<noteq> ''_anthropic_beta'' \<Longrightarrow> jget k (with_client_betas headers payload) = jget k payload"
  "session_key (with_client_betas headers payload) = session_key payload"
  by (simp_all add: with_client_betas_def Let_def session_key_def)


section \<open>A sample server\<close>

definition sample_world :: world where
  "sample_world =
     \<lparr>w_env = sample_env, w_http = plain_http_env, w_upstream = (\<lambda>_ _. plain_reply 529 ''{}''),
      w_dumps = (\<lambda>_. ''{}''), w_sha = (\<lambda>_. ''h''), w_block_digest = (\<lambda>_. ''d''),
      w_editor = \<lparr>ed_sha = id, ed_dumps = (\<lambda>_. []), ed_loads = (\<lambda>_. None), ed_version = ''v1''\<rparr>,
      w_caveman_header = ''LEVEL:'', w_edit_send = (\<lambda>_. None), w_editor_system = ''edit'',
      w_clocks = (\<lambda>_. (0, 0)), w_locks = (\<lambda>_. Some id), w_slots = (\<lambda>_. True), w_now = 0, w_later = 0,
      w_glyphs = \<lparr>g_dash = ''-'', g_arrow = ''>''\<rparr>, w_message_id = ''m'', w_label = ''Cooking'',
      w_cut = None, w_ticks = 0, w_room = None\<rparr>"

definition sample_settings :: settings where
  "sample_settings =
     \<lparr>st_handler = sample_handler, st_monitor_local = False, st_activity_local = True,
      st_sanitize = ''strip'', st_strip_attribution = ''on'', st_caveman = ''on'',
      st_caveman_model = ''sonnet'', st_volatility = default_vol_config\<rparr>"

definition sample_server :: server where
  "sample_server =
     \<lparr>srv_sessions = initial_session True, srv_router = empty_rstate, srv_tracker = [],
      srv_rewriter = new_rewriter None 0, srv_ratio = [], srv_prose = [], srv_rows = Some []\<rparr>"

definition plain_message :: jdict where
  "plain_message =
     [(''model'', JStr ''sonnet''), (''messages'', JArr [user_turn ''redesign the auth layer''])]"

definition monitor_message :: jdict where
  "monitor_message = jset ''system'' (JStr HAPPY_NEW_YEAR_PREFIX) plain_message"

definition command_message :: jdict where
  "command_message = [(''model'', JStr ''sonnet''), (''messages'', JArr [user_turn ''proxy-set-model-routing:off''])]"

definition sample_headers :: header_map where
  "sample_headers = [(''x-api-key'', ''k'')]"

lemma sample_prepare:
  "case prepare sample_world sample_settings None (start_work plain_message sample_server) of
     (None, wk) \<Rightarrow> reclassified_from (wk_rq wk) = None \<and>
       (case wk_routing wk of Some d \<Rightarrow> routed_model d = ''opus'' | None \<Rightarrow> False)
   | _ \<Rightarrow> False"
  by code_simp

lemma dispatch_matches_decision_witness:
  "\<exists>wk. prepare sample_world sample_settings None (start_work plain_message sample_server) = (None, wk) \<and>
     jget ''model'' (wk_payload wk) = JStr ''opus''"
proof -
  obtain wk where prep: "prepare sample_world sample_settings None (start_work plain_message sample_server) = (None, wk)"
    and kept: "reclassified_from (wk_rq wk) = None"
    and routed: "\<forall>d. wk_routing wk = Some d \<longrightarrow> routed_model d = ''opus''"
    using sample_prepare by (auto split: prod.splits option.splits)
  have "jget ''model'' plain_message = JStr ''sonnet''" by code_simp
  from dispatch_matches_decision [OF this prep kept] obtain d where "wk_routing wk = Some d"
    "jget ''model'' (wk_payload wk) = JStr (routed_model d)" by (elim exE conjE) (rule that)
  with prep routed show ?thesis by auto
qed




end
