(* ===== verification/Interception.thy ===== *)
theory Interception
  imports Payload_Common
begin

text \<open>
  \<^verbatim>\<open>anthrouter/interception.py\<close> and the connection handling of \<^verbatim>\<open>anthrouter/handlers.py\<close> around it: where a
  \<open>CONNECT\<close> goes, how a body is read and forwarded, how a tunnel copies bytes, and how the CA bundle is
  built.

  Bytes are characters below 256.  An input stream is the text still to be read.  What the operating
  system or a library decides is an argument: whether a host is an IP literal, base64 decoding, URL
  splitting, \<open>realpath\<close>, and \<open>repr\<close> (\<open>rp\<close>).  Header names in lookups are lower-case.
\<close>

section \<open>Targets of CONNECT\<close>

definition INTERCEPT_HOST :: string where "INTERCEPT_HOST = ''api.anthropic.com''"
definition CONNECT_PORT :: int where "CONNECT_PORT = 443"

definition host_char :: "char \<Rightarrow> bool" where
  "host_char c \<longleftrightarrow>
     (65 \<le> ord c \<and> ord c \<le> 90) \<or> (97 \<le> ord c \<and> ord c \<le> 122) \<or> py_isdigit c \<or>
     c \<in> set ''._%:-''"

definition decimal_text :: "string \<Rightarrow> bool" where
  "decimal_text s \<longleftrightarrow> s \<noteq> [] \<and> list_all py_isdigit s"

definition decimal_value :: "string \<Rightarrow> int" where
  "decimal_value s = foldl (\<lambda>n c. 10 * n + int (ord c - 48)) 0 s"

text \<open>\<open>s.rpartition(':')\<close>: before and after the last colon.\<close>

definition cut_last :: "char \<Rightarrow> string \<Rightarrow> (string \<times> string) option" where
  "cut_last c s =
     (if c \<in> set s
      then let tail = rev (takeWhile (\<lambda>x. x \<noteq> c) (rev s)) in
        Some (take (length s - Suc (length tail)) s, tail)
      else None)"

definition split_authority :: "string \<Rightarrow> (string \<times> string) option" where
  "split_authority authority =
     (case authority of
        c # s \<Rightarrow>
          if c = CHR ''[''
          then (case cut_char CHR '']'' s of
                  (host, Some r) \<Rightarrow> (case r of d # p \<Rightarrow> if d = CHR '':'' then Some (host, p) else None | [] \<Rightarrow> None)
                | (_, None) \<Rightarrow> None)
          else cut_last CHR '':'' authority
      | [] \<Rightarrow> None)"

definition drop_dot :: "string \<Rightarrow> string" where
  "drop_dot h = (if endswith h ''.'' then butlast h else h)"

definition good_labels :: "string \<Rightarrow> bool" where
  "good_labels h \<longleftrightarrow> list_all (\<lambda>l. 0 < length l \<and> length l \<le> 63) (split_char CHR ''.'' (drop_dot h))"

text \<open>Python's \<open>int\<close> raises on more than 4300 digits.\<close>

definition MAX_DIGITS :: int where "MAX_DIGITS = 4300"

definition parse_connect_target :: "(string \<Rightarrow> bool) \<Rightarrow> string \<Rightarrow> exn + (string \<times> int) option" where
  "parse_connect_target ip authority =
     (case split_authority authority of
        None \<Rightarrow> Inr None
      | Some (host, port_text) \<Rightarrow>
          if host = [] \<or> \<not> list_all host_char host \<or> \<not> decimal_text port_text then Inr None
          else if \<not> ip host \<and> \<not> good_labels host then Inr None
          else if MAX_DIGITS < int (length port_text) then Inl (PyError ValueError)
          else let port = decimal_value port_text in
            Inr (if 0 < port \<and> port < 65536 then Some (host, port) else None))"

definition normalize_host :: "string \<Rightarrow> string" where
  "normalize_host host = drop_dot (py_lower host)"

datatype connect_decision = Not_enabled | Malformed | Refused | Intercepted | Tunnel string | Crashed

text \<open>The decision of \<open>do_CONNECT\<close>; an exception leaves the connection closed without an answer.\<close>

definition do_CONNECT :: "(string \<Rightarrow> bool) \<Rightarrow> bool \<Rightarrow> bool \<Rightarrow> string \<Rightarrow> connect_decision" where
  "do_CONNECT ip enabled intercepted authority =
     (if \<not> enabled \<or> intercepted then Not_enabled
      else case parse_connect_target ip authority of
             Inl _ \<Rightarrow> Crashed
           | Inr None \<Rightarrow> Malformed
           | Inr (Some (h, port)) \<Rightarrow>
               let host = normalize_host h in
               if port \<noteq> CONNECT_PORT \<or> ip host then Refused
               else if host = INTERCEPT_HOST then Intercepted else Tunnel host)"

section \<open>Tunnels\<close>

datatype side = Client_side | Upstream_side
datatype received = Data string | Eof | Failure

record tunnel =
  to_client :: string
  to_upstream :: string

definition deliver :: "side \<Rightarrow> string \<Rightarrow> tunnel \<Rightarrow> tunnel" where
  "deliver from_side bytes t =
     (case from_side of
        Client_side \<Rightarrow> t\<lparr>to_upstream := to_upstream t @ bytes\<rparr>
      | Upstream_side \<Rightarrow> t\<lparr>to_client := to_client t @ bytes\<rparr>)"

fun pump :: "(side \<times> received) list \<Rightarrow> tunnel \<Rightarrow> string option \<times> tunnel" where
  "pump [] t = (None, t)"
| "pump ((s, Data bytes) # evs) t = pump evs (deliver s bytes t)"
| "pump ((s, Eof) # evs) t = (Some ''closed'', t)"
| "pump ((s, Failure) # evs) t = (Some ''error'', t)"

text \<open>Each element is what one \<open>select\<close> returns; none ready within the timeout is the empty list.\<close>

fun splice_sockets :: "(side \<times> received) list list \<Rightarrow> tunnel \<Rightarrow> string \<times> tunnel" where
  "splice_sockets [] t = (''idle'', t)"
| "splice_sockets (evs # rest) t =
     (if evs = [] then (''idle'', t)
      else (case pump evs t of
              (Some reason, t') \<Rightarrow> (reason, t')
            | (None, t') \<Rightarrow> splice_sockets rest t'))"

section \<open>Reading a body\<close>

definition MAX_BODY :: int where "MAX_BODY = 32 * 1024 * 1024"
definition MAX_LINE :: nat where "MAX_LINE = 1024"

text \<open>\<open>rfile.readline(limit)\<close>: the line and the rest.\<close>

definition read_line :: "nat \<Rightarrow> string \<Rightarrow> string \<times> string" where
  "read_line limit s =
     (let l = length (takeWhile (\<lambda>c. c \<noteq> CHR 0x0A) s);
          n = (if l < limit then Suc l else limit)
      in (take n s, drop n s))"

definition framing_line :: "string \<Rightarrow> string option \<times> string" where
  "framing_line s =
     (case read_line MAX_LINE s of
        (l, r) \<Rightarrow> (if endswith l nl then Some l else None, r))"

definition FRAMING_ERROR :: string where
  "FRAMING_ERROR = ''framing line too long or body cut off''"

definition OVER_LIMIT :: string where
  "OVER_LIMIT = ''body over 33554432 bytes''"

definition CRLF :: string where "CRLF = [CHR 0x0D, CHR 0x0A]"

lemma framing_line_less: "framing_line s = (Some l, r) \<Longrightarrow> length r < length s"
  by (cases s) (auto simp: framing_line_def read_line_def Let_def endswith_def nl_def MAX_LINE_def split: if_splits)

fun hex_digit :: "char \<Rightarrow> int option" where
  "hex_digit c =
     (if 48 \<le> ord c \<and> ord c \<le> 57 then Some (int (ord c - 48))
      else if 65 \<le> ord c \<and> ord c \<le> 70 then Some (int (ord c - 55))
      else if 97 \<le> ord c \<and> ord c \<le> 102 then Some (int (ord c - 87)) else None)"

definition hex_value :: "string \<Rightarrow> int option" where
  "hex_value s =
     (if s = [] then None
      else foldl (\<lambda>n c. case (n, hex_digit c) of (Some k, Some d) \<Rightarrow> Some (16 * k + d) | _ \<Rightarrow> None) (Some 0) s)"

definition byte_space :: "char \<Rightarrow> bool" where
  "byte_space c \<longleftrightarrow> (9 \<le> ord c \<and> ord c \<le> 13) \<or> ord c = 32"

definition byte_strip :: "string \<Rightarrow> string" where
  "byte_strip s = rev (dropWhile byte_space (rev (dropWhile byte_space s)))"

definition size_text :: "string \<Rightarrow> string" where
  "size_text line = byte_strip (takeWhile (\<lambda>c. c \<noteq> CHR '';'') line)"

function skip_trailers :: "string \<Rightarrow> bool \<times> string" where
  "skip_trailers s =
     (case framing_line s of
        (None, r) \<Rightarrow> (False, r)
      | (Some l, r) \<Rightarrow> if l = CRLF \<or> l = nl then (True, r) else skip_trailers r)"
  by pat_completeness auto
termination
  by (relation "measure length") (auto dest: framing_line_less [OF sym])

function read_chunks :: "(string \<Rightarrow> string) \<Rightarrow> int \<Rightarrow> string \<Rightarrow> string \<Rightarrow> (string + string) \<times> string" where
  "read_chunks rp seen body s =
     (case framing_line s of
        (None, r) \<Rightarrow> (Inl FRAMING_ERROR, r)
      | (Some l, r) \<Rightarrow>
          (case hex_value (size_text l) of
             None \<Rightarrow> (Inl (''bad chunk size '' @ rp (take 16 (size_text l))), r)
           | Some n \<Rightarrow>
               if MAX_BODY < seen + n then (Inl OVER_LIMIT, r)
               else if n = 0
               then (case skip_trailers r of
                       (True, r') \<Rightarrow> (Inr body, r') | (False, r') \<Rightarrow> (Inl FRAMING_ERROR, r'))
               else if int (length r) < n then (Inl ''body ended inside a chunk'', [])
               else (case framing_line (drop (nat n) r) of
                       (None, r') \<Rightarrow> (Inl FRAMING_ERROR, r')
                     | (Some l', r') \<Rightarrow>
                         if l' = CRLF \<or> l' = nl then read_chunks rp (seen + n) (body @ take (nat n) r) r'
                         else (Inl ''body ended inside a chunk'', r'))))"
  by pat_completeness auto
termination
proof (relation "measure (\<lambda>(rp, seen, body, s). length s)")
qed (auto dest!: framing_line_less [OF sym])

declare skip_trailers.simps [simp del] read_chunks.simps [simp del]

type_synonym raw_headers = "(string \<times> string) list"

definition get_all :: "raw_headers \<Rightarrow> string \<Rightarrow> string list" where
  "get_all headers name = map snd (filter (\<lambda>h. py_lower (fst h) = name) headers)"

definition comma_tokens :: "string list \<Rightarrow> string list" where
  "comma_tokens vs = concat (map (\<lambda>v. map (\<lambda>t. py_lower (py_strip t)) (split_char CHR '','' v)) vs)"

definition codings :: "raw_headers \<Rightarrow> string list" where
  "codings headers = filter (\<lambda>t. t \<noteq> []) (comma_tokens (get_all headers ''transfer-encoding''))"

definition content_length_text :: "raw_headers \<Rightarrow> string" where
  "content_length_text headers =
     (let t = py_strip (case get_all headers ''content-length'' of v # _ \<Rightarrow> v | [] \<Rightarrow> []) in
      if t = [] then ''0'' else t)"

text \<open>The bytes of the body or the text of the \<open>ValueError\<close>, and what is left to read.  Python converts at
  most \<open>MAX_DIGITS\<close> decimal digits.\<close>

definition DIGIT_LIMIT_TEXT :: "int \<Rightarrow> string" where
  "DIGIT_LIMIT_TEXT n =
     ''Exceeds the limit (4300 digits) for integer string conversion: value has '' @ show_int n @
     '' digits; use sys.set_int_max_str_digits() to increase the limit''"

definition read_request_body ::
  "(string \<Rightarrow> string) \<Rightarrow> raw_headers \<Rightarrow> string \<Rightarrow> (string + string) \<times> string" where
  "read_request_body rp headers s =
     (if codings headers \<noteq> [] \<and> codings headers \<noteq> [''chunked'']
      then (Inl (''unsupported Transfer-Encoding '' @ rp (py_join '', '' (codings headers))), s)
      else if codings headers \<noteq> [] then read_chunks rp 0 [] s
      else let t = content_length_text headers in
        if \<not> decimal_text t then (Inl (''bad Content-Length '' @ rp (take 16 t)), s)
        else if MAX_DIGITS < int (length t) then (Inl (DIGIT_LIMIT_TEXT (int (length t))), s)
        else if MAX_BODY < decimal_value t then (Inl OVER_LIMIT, s)
        else if int (length s) < decimal_value t then (Inl ''body shorter than Content-Length'', [])
        else (Inr (take (nat (decimal_value t)) s), drop (nat (decimal_value t)) s))"

section \<open>Forwarding\<close>

definition HOP_BY_HOP :: "string list" where
  "HOP_BY_HOP =
     [''connection'', ''keep-alive'', ''proxy-authenticate'', ''proxy-authorization'',
      ''proxy-connection'', ''te'', ''trailer'', ''transfer-encoding'', ''upgrade'']"

definition named_headers :: "raw_headers \<Rightarrow> string list" where
  "named_headers headers = comma_tokens (get_all headers ''connection'')"

definition forwardable :: "raw_headers \<Rightarrow> raw_headers" where
  "forwardable headers =
     filter (\<lambda>h. py_lower (fst h) \<notin> set HOP_BY_HOP \<and> py_lower (fst h) \<notin> set (named_headers headers) \<and>
       py_lower (fst h) \<notin> {''host'', ''content-length''}) headers"

text \<open>\<open>UpstreamTarget\<close>: scheme, host, port and path of a URL, as \<open>urlsplit\<close> gives them; the port raises
  when it is no number in range.\<close>

record url =
  url_scheme :: string
  url_host :: "string option"
  url_port :: "(int option) option"
  url_path :: string

record upstream_target =
  ut_scheme :: string
  ut_host :: string
  ut_port :: "int option"
  ut_prefix :: string

definition rstrip_slash :: "string \<Rightarrow> string" where
  "rstrip_slash s = rev (dropWhile (\<lambda>c. c = CHR ''/'') (rev s))"

definition upstream_target_of :: "url \<Rightarrow> upstream_target option" where
  "upstream_target_of u =
     (if url_scheme u \<notin> {''http'', ''https''} then None
      else case url_host u of
             None \<Rightarrow> None
           | Some h \<Rightarrow>
               if h = [] then None
               else (case url_port u of
                       None \<Rightarrow> None
                     | Some p \<Rightarrow>
                         Some \<lparr>ut_scheme = url_scheme u, ut_host = h, ut_port = p,
                               ut_prefix = rstrip_slash (url_path u)\<rparr>))"

definition netloc :: "upstream_target \<Rightarrow> string" where
  "netloc t =
     (case ut_port t of
        Some p \<Rightarrow> if p \<noteq> 0 then ut_host t @ '':'' @ show_int p else ut_host t
      | None \<Rightarrow> ut_host t)"

record forwarded =
  fw_method :: string
  fw_path :: string
  fw_headers :: raw_headers
  fw_body :: string

definition forwarded_request :: "upstream_target \<Rightarrow> string \<Rightarrow> string \<Rightarrow> raw_headers \<Rightarrow> string \<Rightarrow> forwarded" where
  "forwarded_request t method path headers body =
     \<lparr>fw_method = method, fw_path = ut_prefix t @ path,
      fw_headers = (''Host'', netloc t) # forwardable headers @
        (if body \<noteq> [] \<or> method \<in> {''POST'', ''PUT'', ''PATCH''}
         then [(''Content-Length'', show_int (int (length body)))] else []),
      fw_body = body\<rparr>"

record far_response =
  fr_status :: int
  fr_chunked :: bool
  fr_headers :: raw_headers
  fr_body :: string

text \<open>What the far end does: no connection, a failure before a response, or a response.\<close>

datatype far_end = No_connection | Broken | Responds far_response

definition relay_headers :: "far_response \<Rightarrow> raw_headers" where
  "relay_headers r =
     filter (\<lambda>h. py_lower (fst h) \<notin> set HOP_BY_HOP \<and>
       \<not> (fr_chunked r \<and> py_lower (fst h) = ''content-length'')) (fr_headers r) @ [(''Connection'', ''close'')]"

datatype forward_answer =
    Malformed_body string
  | Unreachable string
  | Bad_gateway
  | Relayed int raw_headers string

definition relay_response :: "string \<Rightarrow> far_response \<Rightarrow> forward_answer" where
  "relay_response method r =
     Relayed (fr_status r) (relay_headers r) (if method = ''HEAD'' then [] else fr_body r)"

text \<open>\<open>forward\<close>: the answer, the request that was sent, and what is left of the input.\<close>

definition forward_to ::
  "(string \<Rightarrow> string) \<Rightarrow> (forwarded \<Rightarrow> far_end) \<Rightarrow> upstream_target \<Rightarrow> string \<Rightarrow> string \<Rightarrow> string \<Rightarrow>
   raw_headers \<Rightarrow> string \<Rightarrow> forward_answer \<times> forwarded option \<times> string" where
  "forward_to rp far t error_code method path headers s =
     (case read_request_body rp headers s of
        (Inl e, r) \<Rightarrow> (Malformed_body (''Malformed request body: '' @ e), None, r)
      | (Inr body, r) \<Rightarrow>
          let rq = forwarded_request t method path headers body in
          (case far rq of
             No_connection \<Rightarrow> (Unreachable error_code, None, r)
           | Broken \<Rightarrow> (Bad_gateway, Some rq, r)
           | Responds resp \<Rightarrow> (relay_response method resp, Some rq, r)))"

section \<open>The CA bundle\<close>

definition py_newline :: "char \<Rightarrow> bool" where
  "py_newline c \<longleftrightarrow> (10 \<le> ord c \<and> ord c \<le> 13) \<or> (28 \<le> ord c \<and> ord c \<le> 30) \<or> ord c = 133"

fun split_lines :: "string \<Rightarrow> string \<Rightarrow> string list" where
  "split_lines acc [] = (if acc = [] then [] else [rev acc])"
| "split_lines acc (c # s) =
     (if ord c = 13 \<and> startswith s nl then rev acc # split_lines [] (tl s)
      else if py_newline c then rev acc # split_lines [] s
      else split_lines (c # acc) s)"

definition pem_label_char :: "char \<Rightarrow> bool" where
  "pem_label_char c \<longleftrightarrow> (65 \<le> ord c \<and> ord c \<le> 90) \<or> py_isdigit c \<or> c = CHR '' ''"

definition pem_begin :: "string \<Rightarrow> string option" where
  "pem_begin line =
     (if startswith line ''-----BEGIN '' \<and> endswith line ''-----'' \<and> 17 \<le> length line
      then let label = take (length line - 16) (drop 11 line) in
        if list_all pem_label_char label then Some label else None
      else None)"

text \<open>The open block with its lines, and the number of certificates.\<close>

fun pem_scan :: "(string \<Rightarrow> string option) \<Rightarrow> (string \<times> string list) option \<Rightarrow> nat \<Rightarrow> string list \<Rightarrow> string option" where
  "pem_scan b64 open_block certs [] =
     (case open_block of
        Some (label, _) \<Rightarrow> Some (''it ends inside a '' @ label @ '' block'')
      | None \<Rightarrow> if certs = 0 then Some ''it holds no PEM certificate'' else None)"
| "pem_scan b64 None certs (raw # ls) =
     pem_scan b64 (map_option (\<lambda>l. (l, [])) (pem_begin (py_strip raw))) certs ls"
| "pem_scan b64 (Some (label, body)) certs (raw # ls) =
     (let line = py_strip raw in
      if line = ''-----END '' @ label @ ''-----''
      then (if label = ''CERTIFICATE''
            then (case b64 (concat body) of
                    None \<Rightarrow> Some ''a CERTIFICATE block is not valid base64''
                  | Some der \<Rightarrow>
                      if startswith der [CHR 0x30] then pem_scan b64 None (Suc certs) ls
                      else Some ''a CERTIFICATE block is not a DER certificate'')
            else pem_scan b64 None certs ls)
      else pem_scan b64 (Some (label, body @ [line])) certs ls)"

definition pem_problem :: "(string \<Rightarrow> string option) \<Rightarrow> string \<Rightarrow> string option" where
  "pem_problem b64 data = pem_scan b64 None 0 (split_lines [] data)"

text \<open>A source is read, or fails with a problem; \<open>fs\<close> is the file system.\<close>

definition read_source :: "(string \<Rightarrow> string option) \<Rightarrow> (string \<Rightarrow> string + string) \<Rightarrow> string \<Rightarrow> string + string" where
  "read_source b64 fs path =
     (case fs path of
        Inl e \<Rightarrow> Inl e
      | Inr data \<Rightarrow> (case pem_problem b64 data of Some p \<Rightarrow> Inl p | None \<Rightarrow> Inr data))"

fun fresh_sources :: "(string \<Rightarrow> string) \<Rightarrow> string list \<Rightarrow> string list \<Rightarrow> string list" where
  "fresh_sources realpath skip [] = []"
| "fresh_sources realpath skip (p # ps) =
     (if realpath p \<in> set skip then fresh_sources realpath skip ps
      else p # fresh_sources realpath (realpath p # skip) ps)"

definition ends_with_newline :: "string \<Rightarrow> string" where
  "ends_with_newline d = (if endswith d nl then d else d @ nl)"

datatype bundle_result = Untouched | Kept_old | Written string | Not_created

text \<open>\<open>rebuild_ca_bundle\<close>: \<open>present\<close> tells whether a bundle exists, \<open>ca\<close> reads \<open>ca.pem\<close> (None on an \<open>OSError\<close> there
  or in writing the file).\<close>

definition rebuild_ca_bundle ::
  "(string \<Rightarrow> string option) \<Rightarrow> (string \<Rightarrow> string) \<Rightarrow> (string \<Rightarrow> string + string) \<Rightarrow> bool \<Rightarrow> string option \<Rightarrow>
   string \<Rightarrow> string \<Rightarrow> string list option \<Rightarrow> bundle_result" where
  "rebuild_ca_bundle b64 realpath fs present ca bundle_path ca_path sources =
     (case sources of
        None \<Rightarrow> Untouched
      | Some ps \<Rightarrow>
          let reads = map (read_source b64 fs) (fresh_sources realpath [realpath bundle_path, realpath ca_path] ps);
              unreadable = list_ex (\<lambda>r. case r of Inl _ \<Rightarrow> True | Inr _ \<Rightarrow> False) reads;
              parts = List.map_filter (\<lambda>r. case r of Inl _ \<Rightarrow> None | Inr d \<Rightarrow> Some (ends_with_newline d)) reads
          in if unreadable \<and> present then Kept_old
             else case ca of
                    None \<Rightarrow> if present then Kept_old else Not_created
                  | Some c \<Rightarrow> Written (concat parts @ c))"

end
