(* ===== verification/Config.thy ===== *)
theory Config
  imports Interception Model_Table Router_Core
begin

text \<open>
  \<^verbatim>\<open>anthrouter/config.py\<close>: the settings, their parsing and their validation.

  A float is a finite rational, an infinity or NaN, compared as Python compares it.  The parsing of
  numbers, \<open>urlsplit\<close> and the resolution of a time zone are arguments.  A text of \<open>validate_config\<close> is a
  value of \<open>config_error\<close>.  \<open>p.error\<close> ends the process; it is None where a parsed value is expected.
\<close>

section \<open>Floats\<close>

datatype pyfloat = Fin rat | Pos_inf | Neg_inf | Nan

fun float_less :: "pyfloat \<Rightarrow> pyfloat \<Rightarrow> bool" where
  "float_less (Fin a) (Fin b) \<longleftrightarrow> a < b"
| "float_less Neg_inf y \<longleftrightarrow> y \<noteq> Neg_inf \<and> y \<noteq> Nan"
| "float_less x Pos_inf \<longleftrightarrow> x \<noteq> Pos_inf \<and> x \<noteq> Nan"
| "float_less _ _ \<longleftrightarrow> False"

definition float_le :: "pyfloat \<Rightarrow> pyfloat \<Rightarrow> bool" where
  "float_le x y \<longleftrightarrow> float_less x y \<or> (x = y \<and> x \<noteq> Nan)"

fun float_add :: "pyfloat \<Rightarrow> pyfloat \<Rightarrow> pyfloat" where
  "float_add (Fin a) (Fin b) = Fin (a + b)"
| "float_add Nan _ = Nan"
| "float_add _ Nan = Nan"
| "float_add Pos_inf y = (if y = Neg_inf then Nan else Pos_inf)"
| "float_add Neg_inf y = (if y = Pos_inf then Nan else Neg_inf)"
| "float_add (Fin _) y = y"

fun float_abs :: "pyfloat \<Rightarrow> pyfloat" where
  "float_abs (Fin a) = Fin \<bar>a\<bar>"
| "float_abs Nan = Nan"
| "float_abs _ = Pos_inf"

text \<open>Python's \<open>max\<close> and \<open>min\<close> of two values keep the first unless the second is strictly beyond it.\<close>

definition float_max :: "pyfloat \<Rightarrow> pyfloat \<Rightarrow> pyfloat" where
  "float_max x y = (if float_less x y then y else x)"

definition float_min :: "pyfloat \<Rightarrow> pyfloat \<Rightarrow> pyfloat" where
  "float_min x y = (if float_less y x then y else x)"

fun finite_float :: "pyfloat \<Rightarrow> bool" where
  "finite_float (Fin _) = True"
| "finite_float _ = False"

fun rat_of :: "pyfloat \<Rightarrow> rat" where
  "rat_of (Fin a) = a"
| "rat_of _ = 0"

section \<open>Fields\<close>

text \<open>The keys of \<open>EDITABLE_FIELDS\<close>.\<close>

datatype field =
    Classification | Aliases | Host | Port | Log_file | Db_path | Upstream_base_url | Classifier_model
  | Log_level | Routing | Long_context_threshold | Affirmation_inherit | Long_target | Confidence_bump
  | Min_confidence | Mode | Prior_summary_limit | System_weight | User_weight | Trivial_threshold
  | Standard_threshold | Max_retries | Cache_size | Preview_limit | Lock | Sanitize | Strip_attribution
  | Caveman_switch | Caveman_model | Keepalive | Retention_days | Timezone | Poll_interval

primrec field_name :: "field \<Rightarrow> string" where
  "field_name Classification = ''auto_model_routing_classification''"
| "field_name Aliases = ''model_aliases''"
| "field_name Host = ''host''"
| "field_name Port = ''port''"
| "field_name Log_file = ''log_file''"
| "field_name Db_path = ''db_path''"
| "field_name Upstream_base_url = ''upstream_base_url''"
| "field_name Classifier_model = ''auto_model_routing_classifier_model''"
| "field_name Log_level = ''log_level''"
| "field_name Routing = ''auto_model_routing''"
| "field_name Long_context_threshold = ''auto_model_routing_long_context_threshold''"
| "field_name Affirmation_inherit = ''auto_model_routing_affirmation_inherit''"
| "field_name Long_target = ''auto_model_routing_long''"
| "field_name Confidence_bump = ''auto_model_routing_confidence_bump''"
| "field_name Min_confidence = ''auto_model_routing_min_confidence''"
| "field_name Mode = ''auto_model_routing_mode''"
| "field_name Prior_summary_limit = ''auto_model_routing_prior_response_summary_limit''"
| "field_name System_weight = ''auto_model_routing_system_prompt_weight''"
| "field_name User_weight = ''auto_model_routing_user_prompt_weight''"
| "field_name Trivial_threshold = ''auto_model_routing_trivial_threshold''"
| "field_name Standard_threshold = ''auto_model_routing_standard_threshold''"
| "field_name Max_retries = ''auto_model_routing_classifier_max_retries''"
| "field_name Cache_size = ''auto_model_routing_system_prompt_cache_size''"
| "field_name Preview_limit = ''auto_model_routing_system_prompt_preview_limit''"
| "field_name Lock = ''lock_requested_model''"
| "field_name Sanitize = ''sanitize_system_prompt''"
| "field_name Strip_attribution = ''strip_attribution_reminder''"
| "field_name Caveman_switch = ''caveman_rewrite''"
| "field_name Caveman_model = ''caveman_rewrite_model''"
| "field_name Keepalive = ''sse_keepalive_interval''"
| "field_name Retention_days = ''db_retention_days''"
| "field_name Timezone = ''oauth_usage_timezone''"
| "field_name Poll_interval = ''oauth_usage_poll_interval''"

text \<open>True: a change applies after a restart only.\<close>

definition EDITABLE_FIELDS :: "(field \<times> bool) list" where
  "EDITABLE_FIELDS =
     [(Classification, False), (Aliases, True), (Host, True), (Port, True), (Log_file, True), (Db_path, True),
      (Upstream_base_url, True), (Classifier_model, True), (Log_level, False), (Routing, False),
      (Long_context_threshold, False), (Affirmation_inherit, False), (Long_target, False),
      (Confidence_bump, False), (Min_confidence, False), (Mode, False), (Prior_summary_limit, False),
      (System_weight, False), (User_weight, False), (Trivial_threshold, False),
      (Standard_threshold, False), (Max_retries, False), (Cache_size, False), (Preview_limit, False),
      (Lock, False), (Sanitize, False), (Strip_attribution, False), (Caveman_switch, False),
      (Caveman_model, False), (Keepalive, False), (Retention_days, False), (Timezone, True),
      (Poll_interval, False)]"

definition restart_required :: "field \<Rightarrow> bool" where
  "restart_required f = (map_of EDITABLE_FIELDS f = Some True)"

definition field_named :: "string \<Rightarrow> field option" where
  "field_named s = find (\<lambda>f. field_name f = s) (map fst EDITABLE_FIELDS)"

section \<open>The configuration\<close>

record config =
  cfg_host :: string
  cfg_port :: int
  cfg_upstream_base_url :: string
  cfg_log_level :: string
  cfg_log_file :: string
  cfg_home :: string
  cfg_history_size :: int
  cfg_routing :: bool
  cfg_classifier_model :: string
  cfg_long_context_threshold :: int
  cfg_affirmation_inherit :: bool
  cfg_classification :: label_map
  cfg_long_target :: string
  cfg_confidence_bump :: bool
  cfg_min_confidence :: pyfloat
  cfg_mode :: string
  cfg_prior_summary_limit :: int
  cfg_system_weight :: pyfloat
  cfg_user_weight :: pyfloat
  cfg_trivial_threshold :: pyfloat
  cfg_standard_threshold :: pyfloat
  cfg_max_retries :: int
  cfg_cache_size :: int
  cfg_preview_limit :: int
  cfg_lock :: string
  cfg_sanitize :: string
  cfg_strip_attribution :: string
  cfg_caveman :: string
  cfg_caveman_model :: string
  cfg_caveman_timeout :: pyfloat
  cfg_caveman_dir :: string
  cfg_keepalive :: pyfloat
  cfg_db_path :: "string option"
  cfg_retention_days :: int
  cfg_enable_ui :: bool
  cfg_aliases :: aliases
  cfg_admin_token :: "string option"
  cfg_timezone :: "string option"
  cfg_poll_interval :: int
  cfg_tls_system_trust :: bool
  cfg_activity_local :: bool
  cfg_monitor_local :: bool
  cfg_connect_proxy :: bool
  cfg_interception_target :: string
  cfg_tls_dir :: string
  cfg_tunnel_idle :: int
  cfg_ca_sources :: "string list option"

definition DEFAULT_UPSTREAM_BASE_URL :: string where
  "DEFAULT_UPSTREAM_BASE_URL = ''https://api.anthropic.com''"

definition default_config :: config where
  "default_config =
     \<lparr>cfg_host = ''127.0.0.1'', cfg_port = 8083, cfg_upstream_base_url = DEFAULT_UPSTREAM_BASE_URL,
      cfg_log_level = ''INFO'', cfg_log_file = ''/tmp/anthrouter.log'', cfg_home = [], cfg_history_size = 5,
      cfg_routing = False, cfg_classifier_model = ''haiku'', cfg_long_context_threshold = 150000,
      cfg_affirmation_inherit = True, cfg_classification = DEFAULT_LABEL_MAP, cfg_long_target = ''off'',
      cfg_confidence_bump = False, cfg_min_confidence = Fin 0, cfg_mode = ''classifier'',
      cfg_prior_summary_limit = 1000, cfg_system_weight = Fin (1 / 5), cfg_user_weight = Fin (4 / 5),
      cfg_trivial_threshold = Fin 30, cfg_standard_threshold = Fin 60, cfg_max_retries = 4,
      cfg_cache_size = 256, cfg_preview_limit = 500, cfg_lock = ''off'', cfg_sanitize = ''strip'',
      cfg_strip_attribution = ''on'', cfg_caveman = ''on'', cfg_caveman_model = ''claude-sonnet-5-5'',
      cfg_caveman_timeout = Fin 30, cfg_caveman_dir = [], cfg_keepalive = Fin 10, cfg_db_path = None,
      cfg_retention_days = 30, cfg_enable_ui = False, cfg_aliases = [], cfg_admin_token = None,
      cfg_timezone = None, cfg_poll_interval = 60, cfg_tls_system_trust = True,
      cfg_activity_local = True, cfg_monitor_local = False, cfg_connect_proxy = False,
      cfg_interception_target = [], cfg_tls_dir = [], cfg_tunnel_idle = 600, cfg_ca_sources = None\<rparr>"

section \<open>Reading single settings\<close>

definition env_bool :: "(string \<Rightarrow> string option) \<Rightarrow> string \<Rightarrow> bool \<Rightarrow> bool" where
  "env_bool env name dflt =
     (let val = py_lower (case env name of Some s \<Rightarrow> s | None \<Rightarrow> []) in
      if val \<in> {''1'', ''true'', ''yes''} then True
      else if val \<in> {''0'', ''false'', ''no''} then False else dflt)"

definition resolve_home :: "string \<Rightarrow> string \<Rightarrow> string" where
  "resolve_home dflt override = (if py_strip override \<noteq> [] then py_strip override else dflt)"

text \<open>One \<open>name:model\<close> pair: nothing for a blank one, None for a malformed one.\<close>

definition parse_pair :: "(string \<Rightarrow> bool) \<Rightarrow> string \<Rightarrow> (string \<times> string) option option" where
  "parse_pair good raw =
     (let pair = py_strip raw in
      if pair = [] then Some None
      else case cut_char CHR '':'' pair of
             (_, None) \<Rightarrow> None
           | (a, Some b) \<Rightarrow>
               if good (py_strip a) \<and> py_strip b \<noteq> [] then Some (Some (py_strip a, py_strip b)) else None)"

fun overlay :: "(string \<times> string) option list \<Rightarrow> (string \<times> string) list \<Rightarrow> (string \<times> string) list" where
  "overlay [] d = d"
| "overlay (None # ps) d = overlay ps d"
| "overlay (Some (k, v) # ps) d = overlay ps (AList.update k v d)"

fun all_given :: "'a option list \<Rightarrow> 'a list option" where
  "all_given [] = Some []"
| "all_given (None # _) = None"
| "all_given (Some x # xs) = map_option ((#) x) (all_given xs)"

definition parse_pairs ::
  "(string \<Rightarrow> bool) \<Rightarrow> (string \<times> string) list \<Rightarrow> string \<Rightarrow> (string \<times> string) list option" where
  "parse_pairs good start raw =
     (if py_strip raw = [] then Some start
      else map_option (\<lambda>ps. overlay ps start) (all_given (map (parse_pair good) (split_char CHR '','' raw))))"

definition parse_classification_str :: "string \<Rightarrow> label_map option" where
  "parse_classification_str = parse_pairs (\<lambda>l. l \<in> fst ` set DEFAULT_LABEL_MAP) DEFAULT_LABEL_MAP"

definition parse_model_aliases_str :: "string \<Rightarrow> aliases option" where
  "parse_model_aliases_str = parse_pairs (\<lambda>a. a \<noteq> []) []"

section \<open>Validation\<close>

datatype config_error =
    Bad_log_level | Bad_mode | Bad_sanitize | Bad_strip_attribution | Bad_caveman | Empty_caveman_model
  | Bad_min_confidence | Empty_classifier_model | Bad_keepalive | Bad_retention_days
  | Bad_long_context_threshold | Bad_prior_summary_limit | Bad_max_retries | Bad_cache_size
  | Bad_preview_limit | Empty_upstream | Bad_system_weight | Bad_user_weight | Bad_weight_sum
  | Nonpositive_system_weight | Nonpositive_user_weight | Bad_thresholds | Bad_tunnel_idle
  | Exposed_connect_proxy | Bad_interception_target

definition CONNECT_PROXY_HOSTS :: "string list" where
  "CONNECT_PROXY_HOSTS = [''127.0.0.1'', ''::1'', ''localhost'']"

definition report :: "bool \<Rightarrow> config_error \<Rightarrow> config_error list" where
  "report bad e = (if bad then [e] else [])"

definition enum_errors :: "config \<Rightarrow> config_error list" where
  "enum_errors c =
     report (cfg_log_level c \<notin> {''DEBUG'', ''INFO'', ''WARNING'', ''ERROR''}) Bad_log_level @
     report (cfg_mode c \<notin> {''classifier'', ''rules''}) Bad_mode @
     report (cfg_sanitize c \<notin> {''off'', ''warn'', ''strip''}) Bad_sanitize @
     report (cfg_strip_attribution c \<notin> {''on'', ''off''}) Bad_strip_attribution @
     report (cfg_caveman c \<notin> {''on'', ''off''}) Bad_caveman @
     report (py_strip (cfg_caveman_model c) = []) Empty_caveman_model"

definition bound_errors :: "config \<Rightarrow> config_error list" where
  "bound_errors c =
     report (float_less (cfg_min_confidence c) (Fin 0) \<or> float_less (Fin 1) (cfg_min_confidence c)) Bad_min_confidence @
     report (py_strip (cfg_classifier_model c) = []) Empty_classifier_model @
     report (float_less (cfg_keepalive c) (Fin 0)) Bad_keepalive @
     report (cfg_retention_days c < 0) Bad_retention_days @
     report (cfg_long_context_threshold c < 0) Bad_long_context_threshold @
     report (cfg_prior_summary_limit c < 50 \<or> 32000 < cfg_prior_summary_limit c) Bad_prior_summary_limit @
     report (cfg_max_retries c < 0 \<or> 4 < cfg_max_retries c) Bad_max_retries @
     report (cfg_cache_size c < 1) Bad_cache_size @
     report (cfg_preview_limit c < 1) Bad_preview_limit @
     report (cfg_upstream_base_url c = []) Empty_upstream"

definition weight_errors :: "config \<Rightarrow> config_error list" where
  "weight_errors c =
     (let s = cfg_system_weight c; u = cfg_user_weight c in
      report (float_less s (Fin 0) \<or> float_less (Fin 1) s) Bad_system_weight @
      report (float_less u (Fin 0) \<or> float_less (Fin 1) u) Bad_user_weight @
      report (float_le (Fin (1 / 10 ^ 9)) (float_abs (float_add (float_add s u) (Fin (- 1))))) Bad_weight_sum @
      report (float_le s (Fin 0)) Nonpositive_system_weight @
      report (float_le u (Fin 0)) Nonpositive_user_weight @
      report (float_le (cfg_standard_threshold c) (cfg_trivial_threshold c)) Bad_thresholds)"

text \<open>\<open>urlsplit\<close> itself may raise: then so does \<open>validate_config\<close>.\<close>

definition bad_target :: "url \<Rightarrow> bool" where
  "bad_target u \<longleftrightarrow>
     url_scheme u \<notin> {''http'', ''https''} \<or> url_host u \<in> {None, Some []} \<or> url_port u = None"

definition validate_config :: "(string \<Rightarrow> url option) \<Rightarrow> config \<Rightarrow> exn + config_error list" where
  "validate_config split c =
     (let es = enum_errors c @ bound_errors c @ weight_errors c @
            report (cfg_tunnel_idle c < 0) Bad_tunnel_idle @
            report (cfg_connect_proxy c \<and> cfg_host c \<notin> set CONNECT_PROXY_HOSTS) Exposed_connect_proxy
      in if cfg_interception_target c = [] then Inr es
         else case split (cfg_interception_target c) of
                None \<Rightarrow> Inl (PyError ValueError)
              | Some u \<Rightarrow> Inr (es @ report (bad_target u) Bad_interception_target))"

section \<open>Starting\<close>

text \<open>
  \<open>parse_args\<close> with the environment and the options given on the command line, each already converted by
  argparse.  Every numeric variable of the environment is converted first, also when an option overrides
  it; a text that is no number ends the process with a traceback.  argparse checks the choices of a given
  option, not of a default.
\<close>

datatype cfg_value =
    VBool bool | VInt int | VFloat pyfloat | VStr string | VNone | VDict "(string \<times> string) list"

record start_env =
  se_vars :: "string \<Rightarrow> string option"
  se_given :: "string \<Rightarrow> cfg_value option"
  se_int :: "string \<Rightarrow> int option"
  se_float :: "string \<Rightarrow> pyfloat option"
  se_split :: "string \<Rightarrow> url option"
  se_timezone :: "string option \<Rightarrow> string option"
  se_home :: string
  se_join :: "string \<Rightarrow> string \<Rightarrow> string"

datatype start = Started config | Usage_error | Crash py_error

definition INT_VARS :: "string list" where
  "INT_VARS =
     [''ANTHROUTER_PORT'', ''ANTHROUTER_REQUEST_HISTORY_SIZE'',
      ''ANTHROUTER_AUTO_MODEL_ROUTING_LONG_CONTEXT_THRESHOLD'',
      ''ANTHROUTER_AUTO_MODEL_ROUTING_PRIOR_RESPONSE_SUMMARY_LIMIT'',
      ''ANTHROUTER_AUTO_MODEL_ROUTING_CLASSIFIER_MAX_RETRIES'',
      ''ANTHROUTER_AUTO_MODEL_ROUTING_SYSTEM_PROMPT_CACHE_SIZE'',
      ''ANTHROUTER_AUTO_MODEL_ROUTING_SYSTEM_PROMPT_PREVIEW_LIMIT'', ''ANTHROUTER_DB_RETENTION_DAYS'',
      ''ANTHROUTER_OAUTH_USAGE_POLL_INTERVAL'', ''ANTHROUTER_TUNNEL_IDLE_TIMEOUT'']"

definition FLOAT_VARS :: "string list" where
  "FLOAT_VARS =
     [''ANTHROUTER_AUTO_MODEL_ROUTING_MIN_CONFIDENCE'',
      ''ANTHROUTER_AUTO_MODEL_ROUTING_SYSTEM_PROMPT_WEIGHT'',
      ''ANTHROUTER_AUTO_MODEL_ROUTING_USER_PROMPT_WEIGHT'',
      ''ANTHROUTER_AUTO_MODEL_ROUTING_TRIVIAL_THRESHOLD'',
      ''ANTHROUTER_AUTO_MODEL_ROUTING_STANDARD_THRESHOLD'', ''ANTHROUTER_CAVEMAN_REWRITE_TIMEOUT'',
      ''ANTHROUTER_SSE_KEEPALIVE_INTERVAL'']"

definition numbers_ok :: "start_env \<Rightarrow> bool" where
  "numbers_ok e \<longleftrightarrow>
     list_all (\<lambda>v. case se_vars e v of None \<Rightarrow> True | Some s \<Rightarrow> se_int e s \<noteq> None) INT_VARS \<and>
     list_all (\<lambda>v. case se_vars e v of None \<Rightarrow> True | Some s \<Rightarrow> se_float e s \<noteq> None) FLOAT_VARS"

fun text_of_value :: "cfg_value \<Rightarrow> string" where
  "text_of_value (VStr s) = s"
| "text_of_value _ = []"

fun int_of_value :: "cfg_value \<Rightarrow> int" where
  "int_of_value (VInt n) = n"
| "int_of_value _ = 0"

fun float_of_value :: "cfg_value \<Rightarrow> pyfloat" where
  "float_of_value (VFloat x) = x"
| "float_of_value _ = Fin 0"

fun bool_of_value :: "cfg_value \<Rightarrow> bool" where
  "bool_of_value (VBool b) = b"
| "bool_of_value _ = False"

fun opt_of_value :: "cfg_value \<Rightarrow> string option" where
  "opt_of_value (VStr s) = Some s"
| "opt_of_value _ = None"

fun dict_of_value :: "cfg_value \<Rightarrow> (string \<times> string) list" where
  "dict_of_value (VDict d) = d"
| "dict_of_value _ = []"

definition text_arg :: "start_env \<Rightarrow> string \<Rightarrow> string \<Rightarrow> string \<Rightarrow> string" where
  "text_arg e dest var dflt =
     (case se_given e dest of
        Some v \<Rightarrow> text_of_value v
      | None \<Rightarrow> (case se_vars e var of Some s \<Rightarrow> s | None \<Rightarrow> dflt))"

definition opt_arg :: "start_env \<Rightarrow> string \<Rightarrow> string \<Rightarrow> string option" where
  "opt_arg e dest var = (case se_given e dest of Some v \<Rightarrow> opt_of_value v | None \<Rightarrow> se_vars e var)"

definition int_arg :: "start_env \<Rightarrow> string \<Rightarrow> string \<Rightarrow> int \<Rightarrow> int" where
  "int_arg e dest var dflt =
     (case se_given e dest of
        Some v \<Rightarrow> int_of_value v
      | None \<Rightarrow> (case se_vars e var of Some s \<Rightarrow> (case se_int e s of Some n \<Rightarrow> n | None \<Rightarrow> dflt) | None \<Rightarrow> dflt))"

definition float_arg :: "start_env \<Rightarrow> string \<Rightarrow> string \<Rightarrow> rat \<Rightarrow> pyfloat" where
  "float_arg e dest var dflt =
     (case se_given e dest of
        Some v \<Rightarrow> float_of_value v
      | None \<Rightarrow>
          (case se_vars e var of Some s \<Rightarrow> (case se_float e s of Some x \<Rightarrow> x | None \<Rightarrow> Fin dflt) | None \<Rightarrow> Fin dflt))"

definition bool_arg :: "start_env \<Rightarrow> string \<Rightarrow> string \<Rightarrow> bool \<Rightarrow> bool" where
  "bool_arg e dest var dflt =
     (case se_given e dest of Some v \<Rightarrow> bool_of_value v | None \<Rightarrow> env_bool (se_vars e) var dflt)"

definition or_off :: "string \<Rightarrow> string" where
  "or_off s = (if py_strip s = [] then ''off'' else py_strip s)"

text \<open>The namespace after the conversions that follow \<open>p.parse_args\<close>, with the parsed tables.\<close>

definition config_of_args :: "start_env \<Rightarrow> string \<Rightarrow> label_map \<Rightarrow> aliases \<Rightarrow> config" where
  "config_of_args e zone classes als =
     \<lparr>cfg_host = text_arg e ''host'' ''ANTHROUTER_HOST'' ''127.0.0.1'',
      cfg_port = int_arg e ''port'' ''ANTHROUTER_PORT'' 8083,
      cfg_upstream_base_url =
        rstrip_slash (py_strip (text_arg e ''upstream_base_url'' ''ANTHROUTER_UPSTREAM_BASE_URL''
          DEFAULT_UPSTREAM_BASE_URL)),
      cfg_log_level = text_arg e ''log_level'' ''ANTHROUTER_LOG_LEVEL'' ''INFO'',
      cfg_log_file = text_arg e ''log_file'' ''ANTHROUTER_LOG_FILE'' ''/tmp/anthrouter.log'',
      cfg_home = text_arg e ''anthrouter_home'' ''ANTHROUTER_HOME'' [],
      cfg_history_size = int_arg e ''request_history_size'' ''ANTHROUTER_REQUEST_HISTORY_SIZE'' 5,
      cfg_routing = bool_arg e ''auto_model_routing'' ''ANTHROUTER_AUTO_MODEL_ROUTING'' False,
      cfg_classifier_model = text_arg e ''auto_model_routing_classifier_model''
        ''ANTHROUTER_AUTO_MODEL_ROUTING_CLASSIFIER_MODEL'' ''haiku'',
      cfg_long_context_threshold = int_arg e ''auto_model_routing_long_context_threshold''
        ''ANTHROUTER_AUTO_MODEL_ROUTING_LONG_CONTEXT_THRESHOLD'' 150000,
      cfg_affirmation_inherit = bool_arg e ''auto_model_routing_affirmation_inherit''
        ''ANTHROUTER_AUTO_MODEL_ROUTING_AFFIRMATION_INHERIT'' True,
      cfg_classification = classes,
      cfg_long_target = text_arg e ''auto_model_routing_long'' ''ANTHROUTER_AUTO_MODEL_ROUTING_LONG'' ''off'',
      cfg_confidence_bump = bool_arg e ''auto_model_routing_confidence_bump''
        ''ANTHROUTER_AUTO_MODEL_ROUTING_CONFIDENCE_BUMP'' False,
      cfg_min_confidence = float_max (Fin 0) (float_min (Fin 1)
        (float_arg e ''auto_model_routing_min_confidence'' ''ANTHROUTER_AUTO_MODEL_ROUTING_MIN_CONFIDENCE'' 0)),
      cfg_mode = text_arg e ''auto_model_routing_mode'' ''ANTHROUTER_AUTO_MODEL_ROUTING_MODE'' ''classifier'',
      cfg_prior_summary_limit = int_arg e ''auto_model_routing_prior_response_summary_limit''
        ''ANTHROUTER_AUTO_MODEL_ROUTING_PRIOR_RESPONSE_SUMMARY_LIMIT'' 1000,
      cfg_system_weight = float_arg e ''auto_model_routing_system_prompt_weight''
        ''ANTHROUTER_AUTO_MODEL_ROUTING_SYSTEM_PROMPT_WEIGHT'' (1 / 5),
      cfg_user_weight = float_arg e ''auto_model_routing_user_prompt_weight''
        ''ANTHROUTER_AUTO_MODEL_ROUTING_USER_PROMPT_WEIGHT'' (4 / 5),
      cfg_trivial_threshold = float_arg e ''auto_model_routing_trivial_threshold''
        ''ANTHROUTER_AUTO_MODEL_ROUTING_TRIVIAL_THRESHOLD'' 30,
      cfg_standard_threshold = float_arg e ''auto_model_routing_standard_threshold''
        ''ANTHROUTER_AUTO_MODEL_ROUTING_STANDARD_THRESHOLD'' 60,
      cfg_max_retries = int_arg e ''auto_model_routing_classifier_max_retries''
        ''ANTHROUTER_AUTO_MODEL_ROUTING_CLASSIFIER_MAX_RETRIES'' 4,
      cfg_cache_size = int_arg e ''auto_model_routing_system_prompt_cache_size''
        ''ANTHROUTER_AUTO_MODEL_ROUTING_SYSTEM_PROMPT_CACHE_SIZE'' 256,
      cfg_preview_limit = int_arg e ''auto_model_routing_system_prompt_preview_limit''
        ''ANTHROUTER_AUTO_MODEL_ROUTING_SYSTEM_PROMPT_PREVIEW_LIMIT'' 500,
      cfg_lock = or_off (text_arg e ''lock_requested_model'' ''ANTHROUTER_LOCK_REQUESTED_MODEL'' ''off''),
      cfg_sanitize = text_arg e ''sanitize_system_prompt'' ''ANTHROUTER_SANITIZE_SYSTEM_PROMPT'' ''strip'',
      cfg_strip_attribution = text_arg e ''strip_attribution_reminder''
        ''ANTHROUTER_STRIP_ATTRIBUTION_REMINDER'' ''on'',
      cfg_caveman = text_arg e ''caveman_rewrite'' ''ANTHROUTER_CAVEMAN_REWRITE'' ''on'',
      cfg_caveman_model = text_arg e ''caveman_rewrite_model'' ''ANTHROUTER_CAVEMAN_REWRITE_MODEL''
        ''claude-sonnet-5-5'',
      cfg_caveman_timeout = float_arg e ''caveman_rewrite_timeout'' ''ANTHROUTER_CAVEMAN_REWRITE_TIMEOUT'' 30,
      cfg_caveman_dir = text_arg e ''caveman_rewrite_dir'' ''ANTHROUTER_CAVEMAN_REWRITE_DIR'' [],
      cfg_keepalive = float_arg e ''sse_keepalive_interval'' ''ANTHROUTER_SSE_KEEPALIVE_INTERVAL'' 10,
      cfg_db_path = opt_arg e ''db_path'' ''ANTHROUTER_DB_PATH'',
      cfg_retention_days = int_arg e ''db_retention_days'' ''ANTHROUTER_DB_RETENTION_DAYS'' 30,
      cfg_enable_ui = (case se_given e ''enable_ui'' of Some v \<Rightarrow> bool_of_value v | None \<Rightarrow> False),
      cfg_aliases = als,
      cfg_admin_token = opt_arg e ''admin_token'' ''ANTHROUTER_ADMIN_TOKEN'',
      cfg_timezone = Some zone,
      cfg_poll_interval = int_arg e ''oauth_usage_poll_interval'' ''ANTHROUTER_OAUTH_USAGE_POLL_INTERVAL'' 60,
      cfg_tls_system_trust = bool_arg e ''tls_system_trust'' ''ANTHROUTER_TLS_SYSTEM_TRUST'' True,
      cfg_activity_local = bool_arg e ''activity_label_local_reply'' ''ANTHROUTER_ACTIVITY_LABEL_LOCAL_REPLY'' True,
      cfg_monitor_local = bool_arg e ''security_monitor_local_reply''
        ''ANTHROUTER_SECURITY_MONITOR_LOCAL_REPLY'' False,
      cfg_connect_proxy = bool_arg e ''connect_proxy'' ''ANTHROUTER_CONNECT_PROXY'' False,
      cfg_interception_target =
        rstrip_slash (py_strip (text_arg e ''interception_target'' ''ANTHROUTER_INTERCEPTION_TARGET'' [])),
      cfg_tls_dir = text_arg e ''interception_tls_dir'' ''ANTHROUTER_INTERCEPTION_TLS_DIR'' [],
      cfg_tunnel_idle = int_arg e ''tunnel_idle_timeout'' ''ANTHROUTER_TUNNEL_IDLE_TIMEOUT'' 600,
      cfg_ca_sources =
        map_option (\<lambda>s. filter (\<lambda>p. p \<noteq> []) (split_char CHR '':'' s))
          (opt_arg e ''interception_ca_sources'' ''ANTHROUTER_INTERCEPTION_CA_SOURCES'')\<rparr>"

text \<open>The directories below the home directory.\<close>

definition resolve_paths :: "start_env \<Rightarrow> config \<Rightarrow> config" where
  "resolve_paths e c =
     (let home = resolve_home (se_home e) (cfg_home c) in
      c\<lparr>cfg_home := home,
        cfg_tls_dir := (if py_strip (cfg_tls_dir c) = [] then se_join e home ''tls'' else cfg_tls_dir c),
        cfg_caveman_dir := (if py_strip (cfg_caveman_dir c) = [] then se_join e home ''rewrites''
                            else cfg_caveman_dir c),
        cfg_db_path := (if cfg_enable_ui c \<and> cfg_db_path c = None then Some (se_join e home ''anthrouter.db'')
                        else cfg_db_path c)\<rparr>)"

definition parse_args :: "start_env \<Rightarrow> start" where
  "parse_args e =
     (if \<not> numbers_ok e then Crash ValueError
      else case se_timezone e (opt_arg e ''oauth_usage_timezone'' ''ANTHROUTER_OAUTH_USAGE_TIMEZONE'') of
        None \<Rightarrow> Usage_error
      | Some zone \<Rightarrow>
          (case (parse_classification_str (text_arg e ''auto_model_routing_classification''
                   ''ANTHROUTER_AUTO_MODEL_ROUTING_CLASSIFICATION'' []),
                 parse_model_aliases_str (text_arg e ''model_aliases'' ''ANTHROUTER_MODEL_ALIASES'' [])) of
             (Some classes, Some als) \<Rightarrow>
               let c = config_of_args e zone classes als in
               if py_strip (cfg_long_target c) = [] \<or> cfg_upstream_base_url c = [] then Usage_error
               else (case validate_config (se_split e) c of
                       Inl (PyError x) \<Rightarrow> Crash x
                     | Inl (RequestError a) \<Rightarrow> Crash OtherError
                     | Inr [] \<Rightarrow> Started (resolve_paths e c)
                     | Inr (_ # _) \<Rightarrow> Usage_error)
           | _ \<Rightarrow> Usage_error))"

end
