(* ===== verification/Admin.thy ===== *)
theory Admin
  imports Config "HOL-Library.List_Lexorder" "HOL-Library.Char_ord"
begin

text \<open>
  \<^verbatim>\<open>anthrouter/admin.py\<close>: reading and writing \<open>config.env\<close>, the handler of \<open>POST /admin/config\<close>, and the
  choice of a view for a GET.

  \<open>config.env\<close> is a text or absent.  The running configuration and the file are the state; the lock makes one
  POST one step.  A message of an error answer is a value of \<open>complaint\<close>.
\<close>

section \<open>Fields as values\<close>

datatype kind = Bool_kind | Int_kind | Float_kind | Str_kind

text \<open>\<open>_FIELD_KIND\<close>: the kind of a field, from the types of \<open>Config\<close>.\<close>

definition field_kind :: "field \<Rightarrow> kind" where
  "field_kind f =
     (case f of
        Routing \<Rightarrow> Bool_kind | Affirmation_inherit \<Rightarrow> Bool_kind | Confidence_bump \<Rightarrow> Bool_kind
      | Port \<Rightarrow> Int_kind | Long_context_threshold \<Rightarrow> Int_kind | Prior_summary_limit \<Rightarrow> Int_kind
      | Max_retries \<Rightarrow> Int_kind | Cache_size \<Rightarrow> Int_kind | Preview_limit \<Rightarrow> Int_kind
      | Retention_days \<Rightarrow> Int_kind | Poll_interval \<Rightarrow> Int_kind
      | Min_confidence \<Rightarrow> Float_kind | System_weight \<Rightarrow> Float_kind | User_weight \<Rightarrow> Float_kind
      | Trivial_threshold \<Rightarrow> Float_kind | Standard_threshold \<Rightarrow> Float_kind | Keepalive \<Rightarrow> Float_kind
      | _ \<Rightarrow> Str_kind)"

definition field_optional :: "field \<Rightarrow> bool" where
  "field_optional f \<longleftrightarrow> f \<in> {Db_path, Timezone}"

primrec get_field :: "field \<Rightarrow> config \<Rightarrow> cfg_value" where
  "get_field Classification c = VDict (cfg_classification c)"
| "get_field Aliases c = VDict (cfg_aliases c)"
| "get_field Host c = VStr (cfg_host c)"
| "get_field Port c = VInt (cfg_port c)"
| "get_field Log_file c = VStr (cfg_log_file c)"
| "get_field Db_path c = (case cfg_db_path c of None \<Rightarrow> VNone | Some s \<Rightarrow> VStr s)"
| "get_field Upstream_base_url c = VStr (cfg_upstream_base_url c)"
| "get_field Classifier_model c = VStr (cfg_classifier_model c)"
| "get_field Log_level c = VStr (cfg_log_level c)"
| "get_field Routing c = VBool (cfg_routing c)"
| "get_field Long_context_threshold c = VInt (cfg_long_context_threshold c)"
| "get_field Affirmation_inherit c = VBool (cfg_affirmation_inherit c)"
| "get_field Long_target c = VStr (cfg_long_target c)"
| "get_field Confidence_bump c = VBool (cfg_confidence_bump c)"
| "get_field Min_confidence c = VFloat (cfg_min_confidence c)"
| "get_field Mode c = VStr (cfg_mode c)"
| "get_field Prior_summary_limit c = VInt (cfg_prior_summary_limit c)"
| "get_field System_weight c = VFloat (cfg_system_weight c)"
| "get_field User_weight c = VFloat (cfg_user_weight c)"
| "get_field Trivial_threshold c = VFloat (cfg_trivial_threshold c)"
| "get_field Standard_threshold c = VFloat (cfg_standard_threshold c)"
| "get_field Max_retries c = VInt (cfg_max_retries c)"
| "get_field Cache_size c = VInt (cfg_cache_size c)"
| "get_field Preview_limit c = VInt (cfg_preview_limit c)"
| "get_field Lock c = VStr (cfg_lock c)"
| "get_field Sanitize c = VStr (cfg_sanitize c)"
| "get_field Strip_attribution c = VStr (cfg_strip_attribution c)"
| "get_field Caveman_switch c = VStr (cfg_caveman c)"
| "get_field Caveman_model c = VStr (cfg_caveman_model c)"
| "get_field Keepalive c = VFloat (cfg_keepalive c)"
| "get_field Retention_days c = VInt (cfg_retention_days c)"
| "get_field Timezone c = (case cfg_timezone c of None \<Rightarrow> VNone | Some s \<Rightarrow> VStr s)"
| "get_field Poll_interval c = VInt (cfg_poll_interval c)"

primrec set_field :: "field \<Rightarrow> cfg_value \<Rightarrow> config \<Rightarrow> config" where
  "set_field Classification v c = c\<lparr>cfg_classification := dict_of_value v\<rparr>"
| "set_field Aliases v c = c\<lparr>cfg_aliases := dict_of_value v\<rparr>"
| "set_field Host v c = c\<lparr>cfg_host := text_of_value v\<rparr>"
| "set_field Port v c = c\<lparr>cfg_port := int_of_value v\<rparr>"
| "set_field Log_file v c = c\<lparr>cfg_log_file := text_of_value v\<rparr>"
| "set_field Db_path v c = c\<lparr>cfg_db_path := opt_of_value v\<rparr>"
| "set_field Upstream_base_url v c = c\<lparr>cfg_upstream_base_url := text_of_value v\<rparr>"
| "set_field Classifier_model v c = c\<lparr>cfg_classifier_model := text_of_value v\<rparr>"
| "set_field Log_level v c = c\<lparr>cfg_log_level := text_of_value v\<rparr>"
| "set_field Routing v c = c\<lparr>cfg_routing := bool_of_value v\<rparr>"
| "set_field Long_context_threshold v c = c\<lparr>cfg_long_context_threshold := int_of_value v\<rparr>"
| "set_field Affirmation_inherit v c = c\<lparr>cfg_affirmation_inherit := bool_of_value v\<rparr>"
| "set_field Long_target v c = c\<lparr>cfg_long_target := text_of_value v\<rparr>"
| "set_field Confidence_bump v c = c\<lparr>cfg_confidence_bump := bool_of_value v\<rparr>"
| "set_field Min_confidence v c = c\<lparr>cfg_min_confidence := float_of_value v\<rparr>"
| "set_field Mode v c = c\<lparr>cfg_mode := text_of_value v\<rparr>"
| "set_field Prior_summary_limit v c = c\<lparr>cfg_prior_summary_limit := int_of_value v\<rparr>"
| "set_field System_weight v c = c\<lparr>cfg_system_weight := float_of_value v\<rparr>"
| "set_field User_weight v c = c\<lparr>cfg_user_weight := float_of_value v\<rparr>"
| "set_field Trivial_threshold v c = c\<lparr>cfg_trivial_threshold := float_of_value v\<rparr>"
| "set_field Standard_threshold v c = c\<lparr>cfg_standard_threshold := float_of_value v\<rparr>"
| "set_field Max_retries v c = c\<lparr>cfg_max_retries := int_of_value v\<rparr>"
| "set_field Cache_size v c = c\<lparr>cfg_cache_size := int_of_value v\<rparr>"
| "set_field Preview_limit v c = c\<lparr>cfg_preview_limit := int_of_value v\<rparr>"
| "set_field Lock v c = c\<lparr>cfg_lock := text_of_value v\<rparr>"
| "set_field Sanitize v c = c\<lparr>cfg_sanitize := text_of_value v\<rparr>"
| "set_field Strip_attribution v c = c\<lparr>cfg_strip_attribution := text_of_value v\<rparr>"
| "set_field Caveman_switch v c = c\<lparr>cfg_caveman := text_of_value v\<rparr>"
| "set_field Caveman_model v c = c\<lparr>cfg_caveman_model := text_of_value v\<rparr>"
| "set_field Keepalive v c = c\<lparr>cfg_keepalive := float_of_value v\<rparr>"
| "set_field Retention_days v c = c\<lparr>cfg_retention_days := int_of_value v\<rparr>"
| "set_field Timezone v c = c\<lparr>cfg_timezone := opt_of_value v\<rparr>"
| "set_field Poll_interval v c = c\<lparr>cfg_poll_interval := int_of_value v\<rparr>"

text \<open>\<open>dataclasses.replace(config, **values)\<close>.\<close>

fun replace_fields :: "(field \<times> cfg_value) list \<Rightarrow> config \<Rightarrow> config" where
  "replace_fields [] c = c"
| "replace_fields ((f, v) # fs) c = replace_fields fs (set_field f v c)"

section \<open>The file\<close>

text \<open>Lines of a text file, with universal newlines.\<close>

fun text_lines :: "string \<Rightarrow> string \<Rightarrow> string list" where
  "text_lines acc [] = (if acc = [] then [] else [rev acc])"
| "text_lines acc (c # s) =
     (if c = CHR 0x0A then rev acc # text_lines [] s
      else if c = CHR 0x0D then rev acc # text_lines [] (if startswith s nl then tl s else s)
      else text_lines (c # acc) s)"

text \<open>The key and the text after the first equals sign of a line that is an assignment.\<close>

definition assignment :: "string \<Rightarrow> (string \<times> string) option" where
  "assignment line =
     (let s = py_strip line in
      if startswith s ''#'' then None
      else case cut_char CHR ''='' s of
             (_, None) \<Rightarrow> None
           | (a, Some b) \<Rightarrow> Some (py_strip a, b))"

definition quote :: string where "quote = [CHR 0x22]"

definition assign :: "string \<times> string \<Rightarrow> string" where
  "assign kv = fst kv @ ''='' @ quote @ snd kv @ quote"

text \<open>The lines with the keys still to be written replaced in place, and those that were not found.\<close>

fun replace_lines ::
  "(string \<times> string) list \<Rightarrow> string list \<Rightarrow> string list \<times> (string \<times> string) list" where
  "replace_lines left [] = ([], left)"
| "replace_lines left (l # ls) =
     (case Option.bind (assignment l) (\<lambda>(k, _). map_option (Pair k) (map_of left k)) of
        None \<Rightarrow> (case replace_lines left ls of (out, r) \<Rightarrow> (l # out, r))
      | Some kv \<Rightarrow> (case replace_lines (AList.delete (fst kv) left) ls of (out, r) \<Rightarrow> (assign kv # out, r)))"

text \<open>\<open>str.upper\<close> on field names, which are ASCII.\<close>

definition ascii_upper :: "char \<Rightarrow> char" where
  "ascii_upper c = (if 97 \<le> ord c \<and> ord c \<le> 122 then char_of (ord c - 32) else c)"

definition env_key :: "string \<Rightarrow> string" where
  "env_key name = ''ANTHROUTER_'' @ map ascii_upper name"

definition file_lines :: "string option \<Rightarrow> string list" where
  "file_lines file = (case file of None \<Rightarrow> [] | Some t \<Rightarrow> text_lines [] t)"

definition write_config_env :: "string option \<Rightarrow> (string \<times> string) list \<Rightarrow> string" where
  "write_config_env file submitted =
     (case replace_lines (map (\<lambda>(name, v). (env_key name, v)) submitted) (file_lines file) of
        (out, r) \<Rightarrow>
          let content = py_join nl (out @ map assign r) in
          if content = [] then [] else content @ nl)"

definition unquote :: "string \<Rightarrow> string" where
  "unquote v =
     (if startswith v quote \<and> endswith v quote \<and> 2 \<le> length v then butlast (tl v) else v)"

fun read_lines :: "string list \<Rightarrow> (string \<times> string) list \<Rightarrow> (string \<times> string) list" where
  "read_lines [] d = d"
| "read_lines (l # ls) d =
     (case assignment l of
        None \<Rightarrow> read_lines ls d
      | Some (k, v) \<Rightarrow> read_lines ls (AList.update k (unquote (py_strip v)) d))"

definition read_config_env :: "string option \<Rightarrow> (string \<times> string) list" where
  "read_config_env file = read_lines (file_lines file) []"

section \<open>\<open>POST /admin/config\<close>\<close>

record admin_env =
  ae_int :: "string \<Rightarrow> int option"
  ae_float :: "string \<Rightarrow> pyfloat option"
  ae_split :: "string \<Rightarrow> url option"
  ae_writable :: bool

record admin_state =
  running :: config
  config_env :: "string option"

datatype complaint =
    Bad_token | Not_an_object | Unknown_field string | Missing_field string | Not_a_string string
  | Bad_character string char | Not_a_boolean string | Not_an_integer string | Not_a_number string
  | Invalid config_error | Not_persisted

datatype post_result = Saved | Refused int "complaint list" | Exits | Raises py_error

definition UNSAFE_QUOTE_CHARS :: string where
  "UNSAFE_QUOTE_CHARS = [CHR 0x22, CHR 0x5C, CHR ''$'', CHR 0x60, CHR 0x0A]"

definition quoting_error :: "string \<Rightarrow> string \<Rightarrow> complaint option" where
  "quoting_error name raw = map_option (Bad_character name) (find (\<lambda>c. c \<in> set raw) UNSAFE_QUOTE_CHARS)"

definition coerce_field :: "admin_env \<Rightarrow> string \<Rightarrow> string \<Rightarrow> kind \<Rightarrow> complaint + cfg_value" where
  "coerce_field ae name raw k =
     (case k of
        Bool_kind \<Rightarrow>
          (let low = py_lower (py_strip raw) in
           if low \<in> {''true'', ''1'', ''yes''} then Inr (VBool True)
           else if low \<in> {''false'', ''0'', ''no''} then Inr (VBool False)
           else Inl (Not_a_boolean name))
      | Int_kind \<Rightarrow> (case ae_int ae raw of Some n \<Rightarrow> Inr (VInt n) | None \<Rightarrow> Inl (Not_an_integer name))
      | Float_kind \<Rightarrow> (case ae_float ae raw of Some x \<Rightarrow> Inr (VFloat x) | None \<Rightarrow> Inl (Not_a_number name))
      | Str_kind \<Rightarrow> Inr (VStr raw))"

definition coerce_entry :: "admin_env \<Rightarrow> string \<times> json \<Rightarrow> complaint + (field \<times> cfg_value)" where
  "coerce_entry ae kv =
     (case (field_named (fst kv), snd kv) of
        (Some f, JStr raw) \<Rightarrow>
          if field_kind f = Str_kind
          then (case quoting_error (fst kv) raw of
                  Some e \<Rightarrow> Inl e
                | None \<Rightarrow> Inr (f, if field_optional f \<and> raw = [] then VNone else VStr raw))
          else map_sum id (Pair f) (coerce_field ae (fst kv) raw (field_kind f))
      | _ \<Rightarrow> Inl (Not_a_string (fst kv)))"

definition lefts :: "('a + 'b) list \<Rightarrow> 'a list" where
  "lefts xs = List.map_filter (\<lambda>x. case x of Inl a \<Rightarrow> Some a | Inr _ \<Rightarrow> None) xs"

definition rights :: "('a + 'b) list \<Rightarrow> 'b list" where
  "rights xs = List.map_filter (\<lambda>x. case x of Inl _ \<Rightarrow> None | Inr b \<Rightarrow> Some b) xs"

text \<open>The two tables are parsed from their text; a malformed one ends in \<open>p.error\<close>, so None.\<close>

definition parse_table :: "field \<times> cfg_value \<Rightarrow> (field \<times> cfg_value) option" where
  "parse_table fv =
     (case fv of
        (Classification, VStr s) \<Rightarrow> map_option (\<lambda>d. (Classification, VDict d)) (parse_classification_str s)
      | (Aliases, VStr s) \<Rightarrow> map_option (\<lambda>d. (Aliases, VDict d)) (parse_model_aliases_str s)
      | _ \<Rightarrow> Some fv)"

definition parse_tables :: "(field \<times> cfg_value) list \<Rightarrow> (field \<times> cfg_value) list option" where
  "parse_tables fs = all_given (map parse_table fs)"

definition unknown_keys :: "jdict \<Rightarrow> string list" where
  "unknown_keys d = sort (filter (\<lambda>k. field_named k = None) (map fst d))"

definition missing_keys :: "jdict \<Rightarrow> string list" where
  "missing_keys d = sort (filter (\<lambda>k. \<not> has_key k d) (map (field_name \<circ> fst) EDITABLE_FIELDS))"

definition submitted_texts :: "jdict \<Rightarrow> (string \<times> string) list" where
  "submitted_texts d = map (\<lambda>(k, v). (k, case v of JStr s \<Rightarrow> s | _ \<Rightarrow> [])) d"

text \<open>The part under the lock: validate the whole candidate, write the file, swap in the live fields.\<close>

definition save_config ::
  "admin_env \<Rightarrow> jdict \<Rightarrow> (field \<times> cfg_value) list \<Rightarrow> admin_state \<Rightarrow> post_result \<times> admin_state" where
  "save_config ae d coerced st =
     (case validate_config (ae_split ae) (replace_fields coerced (running st)) of
        Inl (PyError x) \<Rightarrow> (Raises x, st)
      | Inl (RequestError _) \<Rightarrow> (Raises OtherError, st)
      | Inr (e # es) \<Rightarrow> (Refused 400 (map Invalid (e # es)), st)
      | Inr [] \<Rightarrow>
          if \<not> ae_writable ae then (Refused 500 [Not_persisted], st)
          else (Saved,
                \<lparr>running = replace_fields (filter (\<lambda>(f, _). \<not> restart_required f) coerced) (running st),
                 config_env = Some (write_config_env (config_env st) (submitted_texts d))\<rparr>))"

definition handle_post_config ::
  "admin_env \<Rightarrow> string option \<Rightarrow> json \<Rightarrow> admin_state \<Rightarrow> post_result \<times> admin_state" where
  "handle_post_config ae token body st =
     (if cfg_admin_token (running st) \<in> {None, Some []} \<or> token \<noteq> cfg_admin_token (running st)
      then (Refused 403 [Bad_token], st)
      else case as_obj body of
        None \<Rightarrow> (Refused 400 [Not_an_object], st)
      | Some d \<Rightarrow>
          if unknown_keys d \<noteq> [] then (Refused 400 (map Unknown_field (unknown_keys d)), st)
          else if missing_keys d \<noteq> [] then (Refused 400 (map Missing_field (missing_keys d)), st)
          else let entries = map (coerce_entry ae) d in
            if lefts entries \<noteq> [] then (Refused 400 (lefts entries), st)
            else case parse_tables (rights entries) of
                   None \<Rightarrow> (Exits, st)
                 | Some coerced \<Rightarrow> save_config ae d coerced st)"

section \<open>GET\<close>

text \<open>\<open>str\<close> of a value; the text of a float is an argument.\<close>

definition show_value :: "(pyfloat \<Rightarrow> string) \<Rightarrow> cfg_value \<Rightarrow> string" where
  "show_value fl v =
     (case v of
        VBool b \<Rightarrow> if b then ''True'' else ''False''
      | VInt n \<Rightarrow> show_int n
      | VFloat x \<Rightarrow> fl x
      | VStr s \<Rightarrow> s
      | VNone \<Rightarrow> ''None''
      | VDict d \<Rightarrow> py_join '','' (map (\<lambda>(k, m). k @ '':'' @ m) d))"

text \<open>\<open>_get_config\<close>: the shown text of a field.\<close>

definition shown_value :: "(pyfloat \<Rightarrow> string) \<Rightarrow> admin_state \<Rightarrow> field \<Rightarrow> string" where
  "shown_value fl st f =
     (case (if restart_required f
            then map_of (read_config_env (config_env st)) (env_key (field_name f)) else None) of
        Some v \<Rightarrow> v
      | None \<Rightarrow> show_value fl (get_field f (running st)))"

definition MAX_LIMIT :: int where "MAX_LIMIT = 500"
definition DEFAULT_LIMIT :: int where "DEFAULT_LIMIT = 50"

definition int_param ::
  "(string \<Rightarrow> int option) \<Rightarrow> (string \<times> string) list \<Rightarrow> string \<Rightarrow> int \<Rightarrow> int option \<Rightarrow> int" where
  "int_param parse params key dflt most =
     (case (case map_of params key of None \<Rightarrow> Some dflt | Some s \<Rightarrow> parse s) of
        None \<Rightarrow> dflt
      | Some n \<Rightarrow> if n < 0 then dflt else (case most of Some m \<Rightarrow> min n m | None \<Rightarrow> n))"

definition page :: "(string \<Rightarrow> int option) \<Rightarrow> (string \<times> string) list \<Rightarrow> int \<times> int" where
  "page parse params =
     (int_param parse params ''limit'' DEFAULT_LIMIT (Some MAX_LIMIT), int_param parse params ''offset'' 0 None)"

datatype view =
    View_config | View_status | View_requests int int "string option" | View_request int
  | View_routing int int | View_ratelimit | View_usage | View_prompt string
  | View_error int string | View_raises py_error

text \<open>\<open>str.isdigit\<close> accepts the superscript digits, which \<open>int\<close> does not convert.\<close>

definition unicode_digit :: "char \<Rightarrow> bool" where
  "unicode_digit c \<longleftrightarrow> py_isdigit c \<or> ord c \<in> {178, 179, 185}"

definition handle_get ::
  "(string \<Rightarrow> int option) \<Rightarrow> string \<Rightarrow> (string \<times> string) list \<Rightarrow> bool \<Rightarrow> view" where
  "handle_get parse path params has_db =
     (let route = rstrip_slash path; (limit, offset) = page parse params in
      if route = ''/admin/config'' then View_config
      else if \<not> has_db then View_error 503 ''api_error''
      else if route \<in> {''/admin'', ''/admin/status''} then View_status
      else if route = ''/admin/requests''
      then View_requests limit offset (case map_of params ''q'' of Some (c # s) \<Rightarrow> Some (c # s) | _ \<Rightarrow> None)
      else if startswith route ''/admin/requests/''
      then let raw = drop 16 route in
        if raw = [] \<or> \<not> list_all unicode_digit raw then View_error 400 ''invalid_request_error''
        else (case parse raw of Some n \<Rightarrow> View_request n | None \<Rightarrow> View_raises ValueError)
      else if route = ''/admin/routing'' then View_routing limit offset
      else if route = ''/admin/ratelimit'' then View_ratelimit
      else if route = ''/admin/oauth-usage'' then View_usage
      else if startswith route ''/admin/prompts/'' then View_prompt (drop 15 route)
      else View_error 404 ''not_found_error'')"

end
