(* ===== verification/Admin_File.thy ===== *)
theory Admin_File
  imports Admin
begin

text \<open>
  What \<open>config.env\<close> holds after it was written: every submitted key has its new text, every other key
  keeps its own.
\<close>

section \<open>Lines\<close>

definition one_line_text :: "string \<Rightarrow> bool" where
  "one_line_text s \<longleftrightarrow> CHR 0x0A \<notin> set s \<and> CHR 0x0D \<notin> set s"

lemma one_line_text_simps [simp]:
  "one_line_text []"
  "one_line_text (c # s) \<longleftrightarrow> c \<noteq> CHR 0x0A \<and> c \<noteq> CHR 0x0D \<and> one_line_text s"
  "one_line_text (s @ t) \<longleftrightarrow> one_line_text s \<and> one_line_text t"
  "one_line_text (rev s) = one_line_text s"
  by (auto simp: one_line_text_def)

lemma text_lines_clean: "one_line_text acc \<Longrightarrow> l \<in> set (text_lines acc s) \<Longrightarrow> one_line_text l"
  by (induction acc s rule: text_lines.induct) (auto split: if_splits)

lemma text_lines_line:
  "one_line_text l \<Longrightarrow> text_lines acc (l @ nl @ s) = (rev acc @ l) # text_lines [] s"
  by (induction l arbitrary: acc) (simp_all add: nl_def)

lemma text_lines_join:
  "\<forall>l \<in> set ls. one_line_text l \<Longrightarrow> ls \<noteq> [] \<Longrightarrow> text_lines [] (py_join nl ls @ nl) = ls"
proof (induction ls)
  case (Cons s ls)
  then show ?case
    using text_lines_line [of s "[]" "[]"] text_lines_line [of s "[]" "py_join nl ls @ nl"] by (cases ls) simp_all
qed simp

section \<open>Reading\<close>

definition assigns :: "string \<Rightarrow> string \<Rightarrow> bool" where
  "assigns k line \<longleftrightarrow> (\<exists>v. assignment line = Some (k, v))"

lemma read_lines_append: "read_lines (xs @ ys) d = read_lines ys (read_lines xs d)"
  by (induction xs d rule: read_lines.induct) (auto split: option.splits)

lemma read_lines_other: "\<forall>l \<in> set ls. \<not> assigns k l \<Longrightarrow> map_of (read_lines ls d) k = map_of d k"
  by (induction ls d rule: read_lines.induct) (auto simp: assigns_def split: option.splits)

lemma read_lines_cong:
  "map_of d k = map_of d' k \<Longrightarrow> map_of (read_lines ls d) k = map_of (read_lines ls d') k"
  by (induction ls d arbitrary: d' rule: read_lines.induct) (auto split: option.splits)

lemma read_line_other: "\<not> assigns k l \<Longrightarrow> map_of (read_lines [l] d) k = map_of d k"
  by (rule read_lines_other) simp

lemma py_strip_id:
  assumes "s \<noteq> []" "\<not> py_isspace (hd s)" "\<not> py_isspace (last s)"
  shows "py_strip s = s"
proof -
  have "dropWhile py_isspace s = s" using assms by (intro dropWhile_id) simp
  moreover have "dropWhile py_isspace (rev s) = rev s"
    using assms by (intro dropWhile_id) (simp add: hd_rev)
  ultimately show ?thesis by (simp add: py_strip_dropWhile)
qed

text \<open>The names of variables: not blank at either end, no equals sign, no comment sign.\<close>

definition good_key :: "string \<Rightarrow> bool" where
  "good_key k \<longleftrightarrow>
     k \<noteq> [] \<and> \<not> py_isspace (hd k) \<and> \<not> py_isspace (last k) \<and> CHR ''='' \<notin> set k \<and> hd k \<noteq> CHR ''#''"

lemma cut_char_at: "c \<notin> set a \<Longrightarrow> cut_char c (a @ c # b) = (a, Some b)"
  by (induction a) auto

lemma not_space_quote: "\<not> py_isspace CHR 0x22"
  by (simp add: py_isspace_def)

lemma assignment_assign:
  assumes "good_key k" shows "assignment (assign (k, v)) = Some (k, quote @ v @ quote)"
proof -
  let ?l = "k @ ''='' @ quote @ v @ quote"
  have "py_strip ?l = ?l"
    using assms by (intro py_strip_id) (auto simp: good_key_def quote_def not_space_quote hd_append)
  moreover have "\<not> startswith ?l ''#''"
    using assms by (cases k) (auto simp: good_key_def startswith_def)
  moreover have "py_strip k = k" using assms by (intro py_strip_id) (simp_all add: good_key_def)
  ultimately show ?thesis
    using assms by (simp add: assignment_def assign_def Let_def cut_char_at good_key_def)
qed

lemma unquote_quoted: "unquote (py_strip (quote @ v @ quote)) = v"
proof -
  have "py_strip (quote @ v @ quote) = quote @ v @ quote"
    by (intro py_strip_id) (simp_all add: quote_def not_space_quote)
  moreover have "endswith (quote @ v @ quote) quote"
    unfolding endswith_suffix by (rule suffixI [of _ "quote @ v"]) simp
  ultimately show ?thesis by (simp add: unquote_def quote_def startswith_def)
qed

lemma read_assign:
  assumes "good_key k" shows "read_lines (assign (k, v) # ls) d = read_lines ls (AList.update k v d)"
  using assignment_assign [OF assms, of v] by (simp add: unquote_quoted)

lemma assigns_assign: "good_key k \<Longrightarrow> assigns k' (assign (k, v)) \<longleftrightarrow> k' = k"
  by (auto simp: assigns_def assignment_assign)

lemma read_assigned:
  assumes "\<forall>kv \<in> set left. good_key (fst kv)" "distinct (map fst left)"
  shows "map_of (read_lines (map assign left) d) k = (case map_of left k of Some v \<Rightarrow> Some v | None \<Rightarrow> map_of d k)"
  using assms
proof (induction left arbitrary: d)
  case (Cons kv left)
  obtain k' v where kv: "kv = (k', v)" by (cases kv)
  with Cons.prems have "map_of left k' = None" by (simp add: map_of_eq_None_iff)
  with Cons kv show ?case by (auto simp: read_assign simp del: read_lines.simps split: option.splits)
qed simp

section \<open>Replacing\<close>

lemma replace_lines_Cons:
  assumes "replace_lines left (l # ls) = (out, r)"
  obtains
    (kept) out' where "out = l # out'" "replace_lines left ls = (out', r)"
      "\<And>k. assigns k l \<Longrightarrow> map_of left k = None"
  | (replaced) k v out' where "out = assign (k, v) # out'"
      "replace_lines (AList.delete k left) ls = (out', r)" "assigns k l" "map_of left k = Some v"
proof (cases "Option.bind (assignment l) (\<lambda>(k, _). map_option (Pair k) (map_of left k))")
  case None
  with assms obtain out' where "out = l # out'" "replace_lines left ls = (out', r)"
    by (auto split: prod.splits)
  moreover have "map_of left k = None" if "assigns k l" for k
    using None that by (cases "assignment l") (auto simp: assigns_def)
  ultimately show thesis by (rule kept)
next
  case (Some kv)
  obtain k v where kv: "kv = (k, v)" by (cases kv)
  with Some assms obtain out' where "out = assign (k, v) # out'"
    "replace_lines (AList.delete k left) ls = (out', r)" by (auto split: prod.splits)
  moreover have "assigns k l" "map_of left k = Some v"
    using Some kv by (auto simp: assigns_def bind_eq_Some_conv)
  ultimately show thesis by (rule replaced)
qed

lemma good_delete:
  "\<forall>kv \<in> set left. P (fst kv) \<Longrightarrow> \<forall>kv \<in> set (AList.delete k left). P (fst kv)"
  by (auto simp: AList.delete_eq)

lemma assigns_unique: "assigns k l \<Longrightarrow> assigns k' l \<Longrightarrow> k = k'"
  by (auto simp: assigns_def)

text \<open>A key that is not submitted reads as before.\<close>

lemma replace_lines_other:
  assumes "replace_lines left ls = (out, r)" "map_of left k = None"
    and "\<forall>kv \<in> set left. good_key (fst kv)" "distinct (map fst left)"
  shows "map_of (read_lines (out @ map assign r) d) k = map_of (read_lines ls d) k"
  using assms
proof (induction ls arbitrary: left out d)
  case Nil
  then show ?case by (auto simp: read_assigned)
next
  case (Cons l ls)
  from Cons.prems(1) show ?case
  proof (cases rule: replace_lines_Cons)
    case (kept out')
    from Cons.IH [OF kept(2) Cons.prems(2,3,4)] show ?thesis by (auto simp: kept(1) split: option.splits)
  next
    case (replaced k' v out')
    from replaced(4) Cons.prems(2) have ne: "k' \<noteq> k" by auto
    have good: "good_key k'" using map_of_SomeD [OF replaced(4)] Cons.prems(3) by fastforce
    have "map_of (read_lines (out' @ map assign r) (AList.update k' v d)) k =
        map_of (read_lines ls (AList.update k' v d)) k"
      using Cons.IH [OF replaced(2) _ good_delete [OF Cons.prems(3)] AList.distinct_delete [OF Cons.prems(4)]]
        Cons.prems(2) by simp
    moreover have "\<not> assigns k l" using replaced(3) ne assigns_unique by blast
    then have "map_of (read_lines (l # ls) d) k = map_of (read_lines ls d) k"
      using read_lines_append [of "[l]" ls d] read_lines_cong [OF read_line_other] by simp
    moreover have "map_of (read_lines ls (AList.update k' v d)) k = map_of (read_lines ls d) k"
      by (rule read_lines_cong) (use ne in simp)
    ultimately show ?thesis
      using read_assign [OF good, of v "out' @ map assign r" d] by (simp add: replaced(1) del: read_lines.simps)
  qed
qed

text \<open>A submitted key reads as submitted, when at most one line of the old file assigns it.\<close>

lemma replace_lines_submitted:
  assumes "replace_lines left ls = (out, r)" "map_of left k = Some v"
    and "\<forall>kv \<in> set left. good_key (fst kv)" "distinct (map fst left)"
    and "length (filter (assigns k) ls) \<le> 1"
  shows "map_of (read_lines (out @ map assign r) d) k = Some v"
  using assms
proof (induction ls arbitrary: left out d)
  case Nil
  then show ?case by (auto simp: read_assigned)
next
  case (Cons l ls)
  have once: "length (filter (assigns k) ls) \<le> 1" using Cons.prems(5) by (auto split: if_splits)
  from Cons.prems(1) show ?case
  proof (cases rule: replace_lines_Cons)
    case (kept out')
    from Cons.IH [OF kept(2) Cons.prems(2,3,4) once] show ?thesis
      by (auto simp: kept(1) split: option.splits)
  next
    case (replaced k' v' out')
    have "good_key k'" using map_of_SomeD [OF replaced(4)] Cons.prems(3) by fastforce
    note start = read_assign [OF this, of v' "out' @ map assign r" d]
    note rest = good_delete [OF Cons.prems(3)] AList.distinct_delete [OF Cons.prems(4)]
    show ?thesis
    proof (cases "k' = k")
      case True
      with Cons.prems(5) replaced(3) have "\<forall>l' \<in> set ls. \<not> assigns k l'" by (auto simp: filter_empty_conv)
      then have "map_of (read_lines ls (AList.update k v d)) k = Some v" by (simp add: read_lines_other)
      moreover have "v' = v" using replaced(4) Cons.prems(2) True by simp
      ultimately show ?thesis
        using replace_lines_other [OF replaced(2) _ rest, of k "AList.update k v d"] start True
        by (simp add: replaced(1) del: read_lines.simps)
    next
      case False
      with Cons.prems(2) have "map_of (AList.delete k' left) k = Some v" by simp
      from Cons.IH [OF replaced(2) this rest once] start show ?thesis
        by (simp add: replaced(1) del: read_lines.simps)
    qed
  qed
qed

lemma replace_lines_sets:
  assumes "replace_lines left ls = (out, r)"
  shows "set (out @ map assign r) \<subseteq> set ls \<union> assign ` set left"
  using assms
proof (induction ls arbitrary: left out)
  case (Cons l ls)
  from Cons.prems show ?case
  proof (cases rule: replace_lines_Cons)
    case (kept out')
    with Cons.IH [OF kept(2)] show ?thesis by auto
  next
    case (replaced k v out')
    have "assign ` set (AList.delete k left) \<subseteq> assign ` set left" by (auto simp: AList.delete_eq)
    with Cons.IH [OF replaced(2)] have "set (out' @ map assign r) \<subseteq> set ls \<union> assign ` set left" by blast
    moreover have "assign (k, v) \<in> assign ` set left" by (rule imageI) (rule map_of_SomeD [OF replaced(4)])
    ultimately show ?thesis unfolding replaced(1) append_Cons list.set by blast
  qed
qed simp

lemma replace_lines_assigns:
  assumes "replace_lines left ls = (out, r)" "left \<noteq> []"
  shows "\<exists>kv \<in> set left. assign kv \<in> set (out @ map assign r)"
  using assms
proof (induction ls arbitrary: left out)
  case Nil
  then show ?case by (cases left) fastforce+
next
  case (Cons l ls)
  from Cons.prems(1) show ?case
  proof (cases rule: replace_lines_Cons)
    case (kept out')
    from Cons.IH [OF kept(2) Cons.prems(2)] show ?thesis by (auto simp: kept(1))
  next
    case (replaced k v out')
    with map_of_SomeD [OF replaced(4)] show ?thesis by auto
  qed
qed

section \<open>The written file\<close>

lemma py_join_Nil_iff: "py_join nl ls = [] \<longleftrightarrow> ls = [] \<or> ls = [[]]"
  by (cases ls; cases "tl ls") (auto simp: nl_def)

lemma file_lines_clean: "l \<in> set (file_lines file) \<Longrightarrow> one_line_text l"
  by (auto simp: file_lines_def dest: text_lines_clean [rotated] split: option.splits)

lemma written_lines:
  assumes "replace_lines (map (\<lambda>(name, v). (env_key name, v)) submitted) (file_lines file) = (out, r)"
    and "submitted \<noteq> []" "\<forall>(name, v) \<in> set submitted. one_line_text (env_key name) \<and> one_line_text v"
  shows "file_lines (Some (write_config_env file submitted)) = out @ map assign r"
proof -
  let ?ls = "out @ map assign r"
  have clean: "one_line_text l" if "l \<in> set ?ls" for l
  proof -
    from that replace_lines_sets [OF assms(1)] consider "l \<in> set (file_lines file)"
      | "l \<in> assign ` set (map (\<lambda>(name, v). (env_key name, v)) submitted)" by blast
    then show ?thesis
      using assms(3) file_lines_clean by cases (auto simp: assign_def quote_def)
  qed
  obtain kv where "assign kv \<in> set ?ls"
    using replace_lines_assigns [OF assms(1)] assms(2) by auto
  moreover have "assign kv \<noteq> []" by (simp add: assign_def)
  ultimately have "?ls \<noteq> [] \<and> ?ls \<noteq> [[]]"
    by (metis empty_iff empty_set insert_iff list.simps(15))
  with clean show ?thesis
    using assms(1) py_join_Nil_iff [of ?ls] text_lines_join [of ?ls]
    by (auto simp: write_config_env_def file_lines_def Let_def split: prod.splits)
qed

lemma written_file:
  assumes keys: "\<forall>(name, v) \<in> set submitted. good_key (env_key name) \<and> one_line_text (env_key name) \<and> one_line_text v"
    and dist: "distinct (map (env_key \<circ> fst) submitted)" and nonempty: "submitted \<noteq> []"
  shows "map_of (map (\<lambda>(name, v). (env_key name, v)) submitted) k = Some v \<Longrightarrow>
      length (filter (assigns k) (file_lines file)) \<le> 1 \<Longrightarrow>
      map_of (read_config_env (Some (write_config_env file submitted))) k = Some v"
    and "k \<notin> (env_key \<circ> fst) ` set submitted \<Longrightarrow>
      map_of (read_config_env (Some (write_config_env file submitted))) k = map_of (read_config_env file) k"
proof -
  let ?left = "map (\<lambda>(name, v). (env_key name, v)) submitted"
  obtain out r where lines: "replace_lines ?left (file_lines file) = (out, r)" by fastforce
  have lines': "file_lines (Some (write_config_env file submitted)) = out @ map assign r"
    by (rule written_lines [OF lines nonempty]) (use keys in auto)
  have good: "\<forall>kv \<in> set ?left. good_key (fst kv)" using keys by auto
  have "map fst ?left = map (env_key \<circ> fst) submitted" by auto
  with dist have dist': "distinct (map fst ?left)" by (simp only:)
  show "map_of (read_config_env (Some (write_config_env file submitted))) k = Some v"
    if "map_of ?left k = Some v" "length (filter (assigns k) (file_lines file)) \<le> 1"
    unfolding read_config_env_def lines' by (rule replace_lines_submitted [OF lines that(1) good dist' that(2)])
  show "map_of (read_config_env (Some (write_config_env file submitted))) k = map_of (read_config_env file) k"
    if "k \<notin> (env_key \<circ> fst) ` set submitted"
    unfolding read_config_env_def lines'
    by (rule replace_lines_other [OF lines _ good dist']) (use that in \<open>force simp: map_of_eq_None_iff\<close>)
qed

end
