(* ===== verification/Admin_Props.thy ===== *)
theory Admin_Props
  imports Admin_File
begin

text \<open>
  What \<open>POST /admin/config\<close> guarantees: nothing changes unless it answers 200, the running configuration
  stays valid, and the file holds what was submitted.
\<close>

section \<open>Fields\<close>

lemma editable_all: "f \<in> set (map fst EDITABLE_FIELDS)"
  by (cases f) (simp_all add: EDITABLE_FIELDS_def)

lemma restart_required_iff:
  "restart_required f \<longleftrightarrow>
     f \<in> {Aliases, Host, Port, Log_file, Db_path, Upstream_base_url, Classifier_model, Timezone}"
  by (cases f) (simp_all add: restart_required_def EDITABLE_FIELDS_def)

text \<open>Length and last but one character tell the names apart.\<close>

definition name_mark :: "string \<Rightarrow> nat \<times> char" where
  "name_mark s = (length s, hd (tl (rev s)))"

lemma field_name_inj: "field_name f = field_name g \<longleftrightarrow> f = g"
proof
  have "distinct (map (\<lambda>f. name_mark (field_name f)) (map fst EDITABLE_FIELDS))"
    by (simp add: EDITABLE_FIELDS_def name_mark_def)
  then have "inj_on (\<lambda>f. name_mark (field_name f)) (set (map fst EDITABLE_FIELDS))"
    by (simp only: distinct_map)
  then show "f = g" if "field_name f = field_name g"
    using that editable_all [of f] editable_all [of g] inj_onD by metis
qed simp

lemma field_named_name [simp]: "field_named (field_name f) = Some f"
proof (cases "field_named (field_name f)")
  case None
  then show ?thesis using editable_all [of f] unfolding field_named_def find_None_iff by blast
next
  case (Some g)
  then have "field_name g = field_name f" unfolding field_named_def by (blast dest: find_SomeD)
  with Some show ?thesis by (simp add: field_name_inj)
qed

lemma field_named_Some: "field_named s = Some f \<longleftrightarrow> s = field_name f"
proof
  assume "field_named s = Some f"
  then show "s = field_name f" unfolding field_named_def by (auto dest: find_SomeD)
qed simp

definition name_char :: "char \<Rightarrow> bool" where
  "name_char c \<longleftrightarrow> (97 \<le> ord c \<and> ord c \<le> 122) \<or> c = CHR ''_''"

lemma field_name_chars: "list_all name_char (field_name f) \<and> field_name f \<noteq> []"
  by (cases f) (simp_all add: name_char_def)

lemma ord_ascii_upper: "ord (ascii_upper c) = (if 97 \<le> ord c \<and> ord c \<le> 122 then ord c - 32 else ord c)"
proof -
  have "(ord c - 32) mod 256 = ord c - 32" using ord_less_256 [of c] by (intro mod_less) linarith
  then show ?thesis by (simp add: ascii_upper_def)
qed

lemma ord_underscore: "ord c = 95 \<longleftrightarrow> c = CHR ''_''"
proof
  assume "ord c = 95"
  then have "ord c = ord CHR ''_''" by simp
  then show "c = CHR ''_''" by (simp only: of_char_eq_iff)
qed simp

lemma ascii_upper_inj:
  assumes "name_char c" "name_char d" shows "ascii_upper c = ascii_upper d \<longleftrightarrow> c = d"
proof
  assume "ascii_upper c = ascii_upper d"
  then have "ord (ascii_upper c) = ord (ascii_upper d)" by simp
  then have "ord c = ord d"
    using assms unfolding ord_ascii_upper name_char_def ord_underscore [symmetric]
    by (simp del: of_char_eq_iff split: if_splits)
  then show "c = d" by (simp only: of_char_eq_iff)
qed simp

lemma upper_char_plain:
  assumes "name_char c"
  shows "\<not> py_isspace (ascii_upper c)" "ascii_upper c \<noteq> CHR ''=''" "ascii_upper c \<noteq> CHR 0x0A"
    "ascii_upper c \<noteq> CHR 0x0D"
proof -
  have r: "65 \<le> ord (ascii_upper c)" "ord (ascii_upper c) \<le> 95"
    using assms unfolding ord_ascii_upper name_char_def ord_underscore [symmetric] by (auto split: if_splits)
  then show "\<not> py_isspace (ascii_upper c)" unfolding py_isspace_def Let_def by linarith
  from r show "ascii_upper c \<noteq> CHR ''=''" "ascii_upper c \<noteq> CHR 0x0A" "ascii_upper c \<noteq> CHR 0x0D" by auto
qed

lemma env_key_good: "good_key (env_key (field_name f)) \<and> one_line_text (env_key (field_name f))"
proof -
  let ?u = "map ascii_upper (field_name f)"
  have chars: "\<not> py_isspace c \<and> c \<noteq> CHR ''='' \<and> c \<noteq> CHR 0x0A \<and> c \<noteq> CHR 0x0D" if "c \<in> set ?u" for c
    using that field_name_chars [of f] by (auto simp: list_all_iff upper_char_plain)
  have u: "?u \<noteq> []" using field_name_chars [of f] by simp
  have "\<not> py_isspace (last ?u)" using chars [OF last_in_set [OF u]] by simp
  moreover have "\<not> py_isspace CHR ''A''" by (simp add: py_isspace_def)
  moreover have "CHR ''='' \<notin> set ?u" "CHR 0x0A \<notin> set ?u" "CHR 0x0D \<notin> set ?u" using chars by blast+
  ultimately show ?thesis
    using u unfolding good_key_def env_key_def one_line_text_def by simp
qed

lemma env_key_inj: "env_key (field_name f) = env_key (field_name g) \<longleftrightarrow> f = g"
proof -
  have "map ascii_upper s = map ascii_upper t \<longleftrightarrow> s = t" if "list_all name_char s" "list_all name_char t" for s t
    using that
  proof (induction s arbitrary: t)
    case (Cons c s)
    then show ?case by (cases t) (auto simp: ascii_upper_inj)
  qed auto
  with field_name_chars field_name_inj show ?thesis by (simp add: env_key_def)
qed

definition fits :: "field \<Rightarrow> cfg_value \<Rightarrow> bool" where
  "fits f v \<longleftrightarrow>
     (case field_kind f of
        Bool_kind \<Rightarrow> \<exists>b. v = VBool b
      | Int_kind \<Rightarrow> \<exists>n. v = VInt n
      | Float_kind \<Rightarrow> \<exists>x. v = VFloat x
      | Str_kind \<Rightarrow>
          if f \<in> {Classification, Aliases} then \<exists>d. v = VDict d
          else (\<exists>s. v = VStr s) \<or> (field_optional f \<and> v = VNone))"

lemma get_set_other: "g \<noteq> f \<Longrightarrow> get_field g (set_field f v c) = get_field g c"
  by (cases f; cases g; simp)

lemma get_set_same: "fits f v \<Longrightarrow> get_field f (set_field f v c) = v"
  by (cases f) (auto simp: fits_def field_kind_def field_optional_def)

lemma set_field_frame [simp]:
  "cfg_connect_proxy (set_field f v c) = cfg_connect_proxy c"
  "cfg_interception_target (set_field f v c) = cfg_interception_target c"
  "cfg_tunnel_idle (set_field f v c) = cfg_tunnel_idle c"
  "cfg_admin_token (set_field f v c) = cfg_admin_token c"
  "cfg_home (set_field f v c) = cfg_home c"
  by (cases f; simp)+

lemma replace_fields_frame [simp]:
  "cfg_connect_proxy (replace_fields fs c) = cfg_connect_proxy c"
  "cfg_interception_target (replace_fields fs c) = cfg_interception_target c"
  "cfg_tunnel_idle (replace_fields fs c) = cfg_tunnel_idle c"
  "cfg_admin_token (replace_fields fs c) = cfg_admin_token c"
  "cfg_home (replace_fields fs c) = cfg_home c"
  by (induction fs c rule: replace_fields.induct) simp_all

lemma replace_fields_other: "f \<notin> fst ` set fs \<Longrightarrow> get_field f (replace_fields fs c) = get_field f c"
  by (induction fs c rule: replace_fields.induct) (auto simp: get_set_other)

lemma replace_fields_value:
  assumes "(f, v) \<in> set fs" "distinct (map fst fs)" "\<forall>(f, v) \<in> set fs. fits f v"
  shows "get_field f (replace_fields fs c) = v"
  using assms
proof (induction fs c rule: replace_fields.induct)
  case (2 g w fs c)
  show ?case
  proof (cases "(f, v) = (g, w)")
    case True
    with 2 have "f \<notin> fst ` set fs" by auto
    with True 2 show ?thesis by (simp add: replace_fields_other get_set_same)
  next
    case False
    with 2 show ?thesis by auto
  qed
qed simp

section \<open>Valid configurations\<close>

lemma report_Nil [simp]: "report b e = [] \<longleftrightarrow> \<not> b"
  by (simp add: report_def)

lemma validate_Nil:
  "validate_config split c = Inr [] \<longleftrightarrow>
     enum_errors c = [] \<and> bound_errors c = [] \<and> weight_errors c = [] \<and> 0 \<le> cfg_tunnel_idle c \<and>
     (cfg_connect_proxy c \<longrightarrow> cfg_host c \<in> set CONNECT_PROXY_HOSTS) \<and>
     (cfg_interception_target c = [] \<or>
      (\<exists>u. split (cfg_interception_target c) = Some u \<and> \<not> bad_target u))"
  by (auto simp: validate_config_def Let_def not_less split: option.splits)

text \<open>Valid, and with a target for each label.\<close>

definition config_ok :: "(string \<Rightarrow> url option) \<Rightarrow> config \<Rightarrow> bool" where
  "config_ok split c \<longleftrightarrow>
     validate_config split c = Inr [] \<and>
     list_all (\<lambda>l. map_of (cfg_classification c) (label_name l) \<notin> {None, Some []}) [Trivial, Standard, Deep]"

lemma live_values:
  assumes "\<And>f. \<not> restart_required f \<Longrightarrow> get_field f a = get_field f b"
  shows "cfg_log_level a = cfg_log_level b" "cfg_mode a = cfg_mode b" "cfg_sanitize a = cfg_sanitize b"
    "cfg_strip_attribution a = cfg_strip_attribution b" "cfg_caveman a = cfg_caveman b"
    "cfg_caveman_model a = cfg_caveman_model b" "cfg_min_confidence a = cfg_min_confidence b"
    "cfg_keepalive a = cfg_keepalive b" "cfg_retention_days a = cfg_retention_days b"
    "cfg_long_context_threshold a = cfg_long_context_threshold b"
    "cfg_prior_summary_limit a = cfg_prior_summary_limit b" "cfg_max_retries a = cfg_max_retries b"
    "cfg_cache_size a = cfg_cache_size b" "cfg_preview_limit a = cfg_preview_limit b"
    "cfg_system_weight a = cfg_system_weight b" "cfg_user_weight a = cfg_user_weight b"
    "cfg_trivial_threshold a = cfg_trivial_threshold b"
    "cfg_standard_threshold a = cfg_standard_threshold b" "cfg_classification a = cfg_classification b"
  using assms [of Log_level] assms [of Mode] assms [of Sanitize] assms [of Strip_attribution]
    assms [of Caveman_switch] assms [of Caveman_model] assms [of Min_confidence] assms [of Keepalive]
    assms [of Retention_days] assms [of Long_context_threshold] assms [of Prior_summary_limit]
    assms [of Max_retries] assms [of Cache_size] assms [of Preview_limit] assms [of System_weight]
    assms [of User_weight] assms [of Trivial_threshold] assms [of Standard_threshold]
    assms [of Classification]
  by (simp_all add: restart_required_iff)

lemma restart_values:
  assumes "\<And>f. restart_required f \<Longrightarrow> get_field f a = get_field f b"
  shows "cfg_host a = cfg_host b" "cfg_classifier_model a = cfg_classifier_model b"
    "cfg_upstream_base_url a = cfg_upstream_base_url b"
  using assms [of Host] assms [of Classifier_model] assms [of Upstream_base_url]
  by (simp_all add: restart_required_iff)

text \<open>Live settings of a valid candidate over a valid configuration: each check reads either live
  settings only or none.\<close>

lemma config_ok_mix:
  assumes old: "config_ok split old" and new: "config_ok split new"
    and live: "\<And>f. \<not> restart_required f \<Longrightarrow> get_field f c = get_field f new"
    and kept: "\<And>f. restart_required f \<Longrightarrow> get_field f c = get_field f old"
    and frame: "cfg_connect_proxy c = cfg_connect_proxy old"
      "cfg_interception_target c = cfg_interception_target old" "cfg_tunnel_idle c = cfg_tunnel_idle old"
  shows "config_ok split c"
proof -
  note l = live_values [OF live] and r = restart_values [OF kept]
  have "enum_errors c = enum_errors new" by (simp add: enum_errors_def l)
  moreover have "weight_errors c = weight_errors new" by (simp add: weight_errors_def l)
  moreover have "bound_errors c = []"
    using old new by (simp add: config_ok_def validate_Nil bound_errors_def l r)
  ultimately show ?thesis using old new by (simp add: config_ok_def validate_Nil l r frame)
qed

section \<open>Submitted values\<close>

definition entry_value :: "admin_env \<Rightarrow> string \<times> json \<Rightarrow> (field \<times> cfg_value) option" where
  "entry_value ae kv = (case coerce_entry ae kv of Inl _ \<Rightarrow> None | Inr fv \<Rightarrow> parse_table fv)"

lemma rights_all: "lefts xs = [] \<Longrightarrow> map Inr (rights xs) = xs"
  by (induction xs) (auto simp: lefts_def rights_def List.map_filter_simps split: sum.splits)

lemma all_given_Some: "all_given xs = Some ys \<longleftrightarrow> xs = map Some ys"
  by (induction xs arbitrary: ys rule: all_given.induct) auto

lemma entries_coerced:
  assumes "lefts (map (coerce_entry ae) d) = []" "parse_tables (rights (map (coerce_entry ae) d)) = Some coerced"
  shows "map (entry_value ae) d = map Some coerced"
proof -
  let ?es = "rights (map (coerce_entry ae) d)"
  have "map (coerce_entry ae) d = map Inr ?es" using rights_all [OF assms(1)] by simp
  then have "map (entry_value ae) d = map parse_table ?es"
    by (auto simp: entry_value_def list_eq_iff_nth_eq)
  with assms(2) show ?thesis by (simp add: parse_tables_def all_given_Some)
qed

lemma coerce_fits:
  assumes "coerce_entry ae (k, j) = Inr (f, v)"
  shows "k = field_name f \<and>
    (case field_kind f of
       Str_kind \<Rightarrow> (\<exists>s. j = JStr s \<and> (v = VStr s \<or> v = VNone \<and> field_optional f))
     | _ \<Rightarrow> fits f v)"
  using assms
  by (auto simp: coerce_entry_def coerce_field_def fits_def field_named_Some Let_def
      split: option.splits json.splits kind.splits if_splits sum.splits)

lemma entry_value_fits:
  assumes "entry_value ae (k, j) = Some (f, v)"
  shows "k = field_name f \<and> fits f v"
proof -
  from assms obtain v0 where c: "coerce_entry ae (k, j) = Inr v0" and t: "parse_table v0 = Some (f, v)"
    by (auto simp: entry_value_def split: sum.splits)
  obtain g w where v0: "v0 = (g, w)" by (cases v0)
  from t v0 have "f = g" by (auto simp: parse_table_def split: field.splits cfg_value.splits)
  with coerce_fits [OF c [unfolded v0]] t v0 show ?thesis
    by (cases g) (auto simp: parse_table_def fits_def field_kind_def field_optional_def split: cfg_value.splits)
qed

text \<open>The outcomes of a POST: only a saved one changes anything.\<close>

lemma post_cases:
  assumes "handle_post_config ae token body st = (r, st')"
  obtains (unchanged) "r \<noteq> Saved" "st' = st"
  | (saved) d coerced where "r = Saved" "body = JObj d" "token = cfg_admin_token (running st)"
      "token \<noteq> None" "token \<noteq> Some []" "unknown_keys d = []" "missing_keys d = []"
      "map (entry_value ae) d = map Some coerced"
      "validate_config (ae_split ae) (replace_fields coerced (running st)) = Inr []" "ae_writable ae"
      "running st' = replace_fields (filter (\<lambda>(f, _). \<not> restart_required f) coerced) (running st)"
      "config_env st' = Some (write_config_env (config_env st) (submitted_texts d))"
proof (cases "r = Saved")
  case False
  with assms have "st' = st"
    by (auto simp: handle_post_config_def save_config_def Let_def
        split: if_splits option.splits sum.splits exn.splits list.splits)
  with False show thesis by (rule unchanged)
next
  case True
  with assms obtain d where d: "body = JObj d" "token = cfg_admin_token (running st)"
    "token \<noteq> None" "token \<noteq> Some []" "unknown_keys d = []" "missing_keys d = []"
    "lefts (map (coerce_entry ae) d) = []"
    "(case parse_tables (rights (map (coerce_entry ae) d)) of
        None \<Rightarrow> (Exits, st) | Some coerced \<Rightarrow> save_config ae d coerced st) = (Saved, st')"
    by (auto simp: handle_post_config_def Let_def split: if_splits option.splits)
  from d(8) obtain coerced where c: "parse_tables (rights (map (coerce_entry ae) d)) = Some coerced"
    "save_config ae d coerced st = (Saved, st')" by (auto split: option.splits)
  from c(2) have "validate_config (ae_split ae) (replace_fields coerced (running st)) = Inr []" "ae_writable ae"
    "running st' = replace_fields (filter (\<lambda>(f, _). \<not> restart_required f) coerced) (running st)"
    "config_env st' = Some (write_config_env (config_env st) (submitted_texts d))"
    by (auto simp: save_config_def split: sum.splits exn.splits list.splits if_splits)
  with True d entries_coerced [OF d(7) c(1)] show thesis by (intro saved)
qed

lemma sort_Nil_iff: "sort xs = [] \<longleftrightarrow> xs = []"
  by (metis set_empty set_sort)

lemma all_submitted: "missing_keys d = [] \<Longrightarrow> has_key (field_name f) d"
  using editable_all [of f]
  by (auto simp: missing_keys_def sort_Nil_iff filter_empty_conv)

text \<open>The coerced values of a saved body: every field once, each of its kind.\<close>

lemma coerced_facts:
  assumes vals: "map (entry_value ae) d = map Some coerced" and all: "missing_keys d = []"
    and keys: "distinct (map fst d)"
  shows "distinct (map fst coerced)" "\<forall>(f, v) \<in> set coerced. fits f v" "\<And>f. f \<in> fst ` set coerced"
    "\<And>f j. (field_name f, j) \<in> set d \<Longrightarrow> \<exists>v. entry_value ae (field_name f, j) = Some (f, v) \<and> (f, v) \<in> set coerced"
proof -
  have nth: "entry_value ae (d ! i) = Some (coerced ! i)" "fst (d ! i) = field_name (fst (coerced ! i))"
    "fits (fst (coerced ! i)) (snd (coerced ! i))" if "i < length d" for i
  proof -
    show *: "entry_value ae (d ! i) = Some (coerced ! i)"
      using vals that by (metis length_map nth_map)
    from entry_value_fits [of ae "fst (d ! i)" "snd (d ! i)" "fst (coerced ! i)" "snd (coerced ! i)"] *
    show "fst (d ! i) = field_name (fst (coerced ! i))" "fits (fst (coerced ! i)) (snd (coerced ! i))"
      by simp_all
  qed
  have len: "length coerced = length d" using vals by (metis length_map)
  have names: "map fst d = map field_name (map fst coerced)"
    by (rule nth_equalityI) (simp_all add: len nth)
  with keys show "distinct (map fst coerced)" by (metis distinct_map)
  show "\<forall>(f, v) \<in> set coerced. fits f v"
    using nth(3) len by (auto simp: in_set_conv_nth) (metis fst_conv snd_conv)
  show "f \<in> fst ` set coerced" for f
  proof -
    from all_submitted [OF all] have "field_name f \<in> set (map fst d)"
      unfolding has_key_def map_of_eq_None_iff by simp
    then show ?thesis unfolding names by (force simp: field_name_inj)
  qed
  show "\<exists>v. entry_value ae (field_name f, j) = Some (f, v) \<and> (f, v) \<in> set coerced"
    if "(field_name f, j) \<in> set d" for f j
  proof -
    from that obtain i where i: "i < length d" "d ! i = (field_name f, j)" by (auto simp: in_set_conv_nth)
    with nth(1,2) [OF i(1)] have "fst (coerced ! i) = f" by (simp add: field_name_inj)
    with nth(1) [OF i(1)] i len show ?thesis by (metis nth_mem prod.collapse)
  qed
qed

section \<open>The tables\<close>

lemma parse_pair_value: "parse_pair good raw = Some (Some (k, v)) \<Longrightarrow> good k \<and> v \<noteq> []"
  by (auto simp: parse_pair_def Let_def split: if_splits prod.splits option.splits)

lemma overlay_keeps:
  "\<forall>k v. Some (k, v) \<in> set ps \<longrightarrow> v \<noteq> [] \<Longrightarrow> map_of d l \<notin> {None, Some []} \<Longrightarrow>
   map_of (overlay ps d) l \<notin> {None, Some []}"
proof (induction ps d rule: overlay.induct)
  case (3 k v ps d)
  then show ?case by (cases "l = k") auto
qed auto

lemma parse_classification_total:
  assumes "parse_classification_str s = Some d"
  shows "map_of d (label_name l) \<notin> {None, Some []}"
proof -
  have start: "map_of DEFAULT_LABEL_MAP (label_name l) \<notin> {None, Some []}"
    by (cases l) (simp_all add: DEFAULT_LABEL_MAP_def)
  show ?thesis
  proof (cases "py_strip s = []")
    case True
    with assms start show ?thesis by (simp add: parse_classification_str_def parse_pairs_def)
  next
    case False
    let ?good = "\<lambda>l. l \<in> fst ` set DEFAULT_LABEL_MAP"
    from False assms obtain ps where ps: "map (parse_pair ?good) (split_char CHR '','' s) = map Some ps"
      "d = overlay ps DEFAULT_LABEL_MAP"
      by (auto simp: parse_classification_str_def parse_pairs_def all_given_Some)
    have "v \<noteq> []" if "Some (k, v) \<in> set ps" for k v
    proof -
      from that have "Some (Some (k, v)) \<in> set (map (parse_pair ?good) (split_char CHR '','' s))"
        unfolding ps(1) by simp
      then show ?thesis using parse_pair_value by (metis (no_types, lifting) imageE list.set_map)
    qed
    with overlay_keeps [OF _ start] ps(2) show ?thesis by blast
  qed
qed

lemma entry_classification:
  assumes "entry_value ae (field_name Classification, j) = Some (Classification, VDict d)"
  shows "\<exists>s. parse_classification_str s = Some d"
proof (cases "\<exists>s. j = JStr s \<and> quoting_error (field_name Classification) s = None")
  case True
  then obtain s where "j = JStr s" "quoting_error (field_name Classification) s = None" by blast
  with assms have "parse_table (Classification, VStr s) = Some (Classification, VDict d)"
    by (simp add: entry_value_def coerce_entry_def field_kind_def field_optional_def del: field_name.simps)
  then show ?thesis by (auto simp: parse_table_def)
next
  case False
  with assms show ?thesis
    by (cases j) (simp_all add: entry_value_def coerce_entry_def field_kind_def del: field_name.simps
        split: option.splits)
qed

section \<open>What a POST guarantees\<close>

lemma saved_values:
  assumes "map (entry_value ae) d = map Some coerced" "missing_keys d = []" "distinct (map fst d)"
    and "running st' = replace_fields (filter (\<lambda>(f, _). \<not> restart_required f) coerced) c"
  shows "\<not> restart_required f \<Longrightarrow> get_field f (running st') = get_field f (replace_fields coerced c)"
    and "restart_required f \<Longrightarrow> get_field f (running st') = get_field f c"
proof -
  note facts = coerced_facts [OF assms(1,2,3)]
  let ?live = "filter (\<lambda>(f, _). \<not> restart_required f) coerced"
  have "distinct (map fst ?live)" using facts(1) by (simp add: distinct_map_filter)
  moreover have "\<forall>(f, v) \<in> set ?live. fits f v" using facts(2) by auto
  ultimately show "get_field f (running st') = get_field f (replace_fields coerced c)"
    if live: "\<not> restart_required f"
  proof -
    assume l: "distinct (map fst ?live)" "\<forall>(f, v) \<in> set ?live. fits f v"
    from facts(3) [of f] obtain v where v: "(f, v) \<in> set coerced" by auto
    with live have "(f, v) \<in> set ?live" by simp
    from replace_fields_value [OF this l] replace_fields_value [OF v facts(1,2)]
    show ?thesis by (simp only: assms(4))
  qed
  show "get_field f (running st') = get_field f c" if "restart_required f"
    unfolding assms(4) by (rule replace_fields_other) (use that in auto)
qed


text \<open>A POST never leaves an invalid running configuration, although only the live part of the candidate
  that was validated is put in force.\<close>

lemma post_keeps_valid:
  assumes "config_ok (ae_split ae) (running st)" and "distinct (map fst d)"
    and "handle_post_config ae token (JObj d) st = (r, st')"
  shows "config_ok (ae_split ae) (running st')"
  using assms(3)
proof (cases rule: post_cases)
  case unchanged
  with assms(1) show ?thesis by simp
next
  case (saved d' coerced)
  from saved(2) have d: "d' = d" by simp
  note facts = coerced_facts [OF saved(8,7) assms(2) [folded d]]
  let ?full = "replace_fields coerced (running st)"
  obtain v where v: "(Classification, v) \<in> set coerced" using facts(3) [of Classification] by auto
  then have "fits Classification v" using facts(2) by auto
  then obtain cl where cl: "v = VDict cl" by (auto simp: fits_def field_kind_def)
  obtain j where "(field_name Classification, j) \<in> set d'"
    using all_submitted [OF saved(7), of Classification] by (auto simp: has_key_def dest: map_of_SomeD)
  with facts(4) facts(1) v cl have "entry_value ae (field_name Classification, j) = Some (Classification, VDict cl)"
    by (metis eq_key_imp_eq_value)
  then obtain s where "parse_classification_str s = Some cl" using entry_classification by blast
  moreover have "get_field Classification ?full = VDict cl"
    using replace_fields_value [OF v facts(1,2)] cl by simp
  ultimately have "config_ok (ae_split ae) ?full"
    using saved(9) parse_classification_total by (simp add: config_ok_def)
  from config_ok_mix [OF assms(1) this, of "running st'"] show ?thesis
    using saved_values [OF saved(8,7) assms(2) [folded d] saved(11)] by (simp add: saved(11))
qed

text \<open>What a POST that names only editable fields submits: one clean assignment for each.\<close>

lemma submitted_lines:
  assumes named: "\<forall>(k, j) \<in> set d. \<exists>g s. k = field_name g \<and> j = JStr s"
    and lines: "\<forall>k raw. (k, JStr raw) \<in> set d \<longrightarrow> one_line_text raw" and keys: "distinct (map fst d)"
  shows "\<forall>(name, v) \<in> set (submitted_texts d). good_key (env_key name) \<and> one_line_text (env_key name) \<and> one_line_text v"
    and "distinct (map (env_key \<circ> fst) (submitted_texts d))"
    and "(k, JStr raw) \<in> set d \<Longrightarrow>
      map_of (map (\<lambda>(name, v). (env_key name, v)) (submitted_texts d)) (env_key k) = Some raw"
proof -
  let ?s = "submitted_texts d"
  have names: "(k, j) \<in> set d \<Longrightarrow> \<exists>g. k = field_name g" and strs: "(k, j) \<in> set d \<Longrightarrow> \<exists>s. j = JStr s" for k j
    using named by blast+
  have sub: "(k, v) \<in> set ?s \<Longrightarrow> (k, JStr v) \<in> set d" for k v
    using strs by (fastforce simp: submitted_texts_def)
  show "\<forall>(name, v) \<in> set ?s. good_key (env_key name) \<and> one_line_text (env_key name) \<and> one_line_text v"
    using sub names lines env_key_good by blast
  have fsts: "map fst ?s = map fst d" by (auto simp: submitted_texts_def)
  have "inj_on env_key (fst ` set d)"
  proof (rule inj_onI)
    fix x y assume "x \<in> fst ` set d" "y \<in> fst ` set d" and eq: "env_key x = env_key y"
    then obtain jx jy where "(x, jx) \<in> set d" "(y, jy) \<in> set d" by auto
    then obtain g h where "x = field_name g" "y = field_name h" using names by blast
    with eq env_key_inj show "x = y" by simp
  qed
  then show dist: "distinct (map (env_key \<circ> fst) ?s)"
    using keys by (metis distinct_map fsts list.set_map map_map)
  assume "(k, JStr raw) \<in> set d"
  then have "(env_key k, raw) \<in> set (map (\<lambda>(name, v). (env_key name, v)) ?s)"
    by (force simp: submitted_texts_def)
  then show "map_of (map (\<lambda>(name, v). (env_key name, v)) ?s) (env_key k) = Some raw"
    using dist by (intro map_of_is_SomeI) (simp_all add: comp_def split_beta)
qed


section \<open>A sample\<close>

definition sample_int :: "string \<Rightarrow> int option" where
  "sample_int s = (if decimal_text (py_strip s) then Some (decimal_value (py_strip s)) else None)"

definition sample_float :: "string \<Rightarrow> pyfloat option" where
  "sample_float s =
     (if s = ''0.2'' then Some (Fin (1 / 5)) else if s = ''0.8'' then Some (Fin (4 / 5))
      else if s = ''nan'' then Some Nan else map_option (\<lambda>n. Fin (of_int n)) (sample_int s))"

definition sample_admin :: admin_env where
  "sample_admin = \<lparr>ae_int = sample_int, ae_float = sample_float, ae_split = (\<lambda>_. None), ae_writable = True\<rparr>"

definition sample_running :: config where
  "sample_running = default_config\<lparr>cfg_admin_token := Some ''t'', cfg_timezone := Some ''UTC''\<rparr>"

definition sample_state :: admin_state where
  "sample_state = \<lparr>running = sample_running, config_env = None\<rparr>"

definition sample_text :: "field \<Rightarrow> string" where
  "sample_text f =
     (case f of
        Classification \<Rightarrow> ''deep:fable'' | Aliases \<Rightarrow> [] | Host \<Rightarrow> ''127.0.0.1'' | Port \<Rightarrow> ''9000''
      | Log_file \<Rightarrow> ''/tmp/a.log'' | Db_path \<Rightarrow> ''a.db'' | Upstream_base_url \<Rightarrow> ''https://api.anthropic.com''
      | Classifier_model \<Rightarrow> ''haiku'' | Log_level \<Rightarrow> ''DEBUG'' | Routing \<Rightarrow> ''yes''
      | Long_context_threshold \<Rightarrow> ''0'' | Affirmation_inherit \<Rightarrow> ''true'' | Long_target \<Rightarrow> ''off''
      | Confidence_bump \<Rightarrow> ''no'' | Min_confidence \<Rightarrow> ''0'' | Mode \<Rightarrow> ''rules'' | Prior_summary_limit \<Rightarrow> ''50''
      | System_weight \<Rightarrow> ''0.2'' | User_weight \<Rightarrow> ''0.8'' | Trivial_threshold \<Rightarrow> ''30''
      | Standard_threshold \<Rightarrow> ''60'' | Max_retries \<Rightarrow> ''2'' | Cache_size \<Rightarrow> ''1'' | Preview_limit \<Rightarrow> ''1''
      | Lock \<Rightarrow> ''off'' | Sanitize \<Rightarrow> ''warn'' | Strip_attribution \<Rightarrow> ''on'' | Caveman_switch \<Rightarrow> ''off''
      | Caveman_model \<Rightarrow> ''sonnet'' | Keepalive \<Rightarrow> ''0'' | Retention_days \<Rightarrow> ''0'' | Timezone \<Rightarrow> ''UTC''
      | Poll_interval \<Rightarrow> ''60'')"

definition sample_new :: config where
  "sample_new = sample_running
     \<lparr>cfg_classification := [(''trivial'', ''haiku''), (''standard'', ''sonnet''), (''deep'', ''fable'')],
      cfg_port := 9000, cfg_log_file := ''/tmp/a.log'', cfg_db_path := Some ''a.db'', cfg_log_level := ''DEBUG'',
      cfg_routing := True, cfg_long_context_threshold := 0, cfg_mode := ''rules'', cfg_prior_summary_limit := 50,
      cfg_max_retries := 2, cfg_cache_size := 1, cfg_preview_limit := 1, cfg_sanitize := ''warn'',
      cfg_caveman := ''off'', cfg_caveman_model := ''sonnet'', cfg_keepalive := Fin 0, cfg_retention_days := 0\<rparr>"

definition body_of :: "(field \<Rightarrow> string) \<Rightarrow> jdict" where
  "body_of t = map (\<lambda>f. (field_name f, JStr (t f))) (map fst EDITABLE_FIELDS)"

lemma body_of_keys: "distinct (map fst (body_of t))" "unknown_keys (body_of t) = []" "missing_keys (body_of t) = []"
proof -
  have "distinct (map fst EDITABLE_FIELDS)" by (simp add: EDITABLE_FIELDS_def)
  then show "distinct (map fst (body_of t))"
    by (simp add: body_of_def comp_def distinct_map inj_on_def field_name_inj)
  show "unknown_keys (body_of t) = []"
    by (simp add: unknown_keys_def body_of_def sort_Nil_iff filter_empty_conv)
  have "has_key (field_name f) (body_of t)" for f
    unfolding has_key_def body_of_def map_of_eq_None_iff using editable_all [of f] by force
  then show "missing_keys (body_of t) = []" by (simp add: missing_keys_def sort_Nil_iff filter_empty_conv)
qed

lemma quoting_None: "list_all (\<lambda>c. c \<notin> set UNSAFE_QUOTE_CHARS) s \<Longrightarrow> quoting_error n s = None"
  by (auto simp: quoting_error_def find_None_iff list_all_iff)

lemma sample_tables:
  "parse_classification_str ''deep:fable'' = Some [(''trivial'', ''haiku''), (''standard'', ''sonnet''), (''deep'', ''fable'')]"
  "parse_model_aliases_str [] = Some []"
  by code_simp+

lemma sample_entry:
  "\<exists>v. coerce_entry sample_admin (field_name f, JStr (sample_text f)) = Inr (f, v) \<and>
     parse_table (f, v) = Some (f, get_field f sample_new)"
proof -
  have "quoting_error n (sample_text f) = None" for n
    by (rule quoting_None) (cases f; simp add: sample_text_def UNSAFE_QUOTE_CHARS_def)
  then show ?thesis
    by (cases f) (simp_all add: coerce_entry_def sample_text_def field_kind_def field_optional_def
        parse_table_def sample_new_def sample_running_def default_config_def coerce_field_def sample_admin_def
        sample_int_def sample_float_def decimal_text_def decimal_value_def sample_tables
        DEFAULT_UPSTREAM_BASE_URL_def py_eval del: field_name.simps)
qed

definition sample_coerced :: "(field \<times> cfg_value) list" where
  "sample_coerced = map (\<lambda>f. (f, get_field f sample_new)) (map fst EDITABLE_FIELDS)"

lemma lefts_Inr: "lefts (map (\<lambda>x. Inr (h x)) xs) = []"
  by (induction xs) (simp_all add: lefts_def List.map_filter_simps)

lemma rights_Inr: "rights (map (\<lambda>x. Inr (h x)) xs) = map h xs"
  by (induction xs) (simp_all add: rights_def List.map_filter_simps)

lemma sample_entries:
  "map (entry_value sample_admin) (body_of sample_text) = map Some sample_coerced"
  "lefts (map (coerce_entry sample_admin) (body_of sample_text)) = []"
  "parse_tables (rights (map (coerce_entry sample_admin) (body_of sample_text))) = Some sample_coerced"
proof -
  have "\<forall>f. \<exists>v. coerce_entry sample_admin (field_name f, JStr (sample_text f)) = Inr (f, v) \<and>
     parse_table (f, v) = Some (f, get_field f sample_new)" using sample_entry by blast
  then obtain g where g: "coerce_entry sample_admin (field_name f, JStr (sample_text f)) = Inr (f, g f)"
    "parse_table (f, g f) = Some (f, get_field f sample_new)" for f by metis
  define fs where "fs = map fst EDITABLE_FIELDS"
  have body: "body_of sample_text = map (\<lambda>f. (field_name f, JStr (sample_text f))) fs"
    and new: "sample_coerced = map (\<lambda>f. (f, get_field f sample_new)) fs"
    by (simp_all add: body_of_def fs_def sample_coerced_def)
  show "lefts (map (coerce_entry sample_admin) (body_of sample_text)) = []"
    and "parse_tables (rights (map (coerce_entry sample_admin) (body_of sample_text))) = Some sample_coerced"
    by (simp_all add: body new g parse_tables_def all_given_Some comp_def lefts_Inr rights_Inr)
  show "map (entry_value sample_admin) (body_of sample_text) = map Some sample_coerced"
    by (simp add: body new entry_value_def g comp_def)
qed

lemma sample_valid: "validate_config (ae_split sample_admin) (replace_fields sample_coerced sample_running) = Inr []"
  by (simp add: sample_coerced_def EDITABLE_FIELDS_def sample_new_def sample_running_def default_config_def)
    (simp add: validate_config_def enum_errors_def bound_errors_def weight_errors_def
      report_def float_le_def DEFAULT_UPSTREAM_BASE_URL_def py_eval)

lemma sample_saved:
  "\<exists>st'. handle_post_config sample_admin (Some ''t'') (JObj (body_of sample_text)) sample_state = (Saved, st')"
  using sample_valid
  by (simp add: handle_post_config_def sample_state_def body_of_keys sample_entries save_config_def Let_def)
     (simp add: sample_running_def sample_admin_def)




end
