(* ===== verification/Admin_Findings.thy ===== *)
theory Admin_Findings
  imports Admin_Props
begin

text \<open>
  Where the editor, the file and the next start disagree, each shown on the model: what ADR-0005 rules out
  and the code lets through.
\<close>

section \<open>Values that validation lets through\<close>

lemmas validate_simps =
  validate_config_def enum_errors_def bound_errors_def weight_errors_def report_def float_le_def

text \<open>NaN passes every bound that is written as a rejection.\<close>

lemma nan_threshold_accepted:
  "validate_config split (default_config\<lparr>cfg_trivial_threshold := Nan, cfg_system_weight := Nan\<rparr>) = Inr []"
  by (simp add: validate_simps default_config_def DEFAULT_UPSTREAM_BASE_URL_def py_eval)

text \<open>A blank long-context target is valid and ends the next start.\<close>

lemma blank_target_ends_start:
  assumes "se_given e ''auto_model_routing_long'' = None"
    and "se_vars e ''ANTHROUTER_AUTO_MODEL_ROUTING_LONG'' = Some []"
  shows "validate_config split (c\<lparr>cfg_long_target := []\<rparr>) = validate_config split c \<and>
    (\<forall>c'. parse_args e \<noteq> Started c')"
proof -
  have "cfg_long_target (config_of_args e z cl al) = []" for z cl al
    using assms by (simp add: config_of_args_def text_arg_def)
  then have "parse_args e \<noteq> Started c'" for c'
    by (simp add: parse_args_def Let_def py_eval split: option.splits)
  then show ?thesis by (simp add: validate_simps Let_def)
qed

text \<open>So is an upstream URL of blanks.\<close>

lemma blank_upstream_ends_start:
  assumes "se_given e ''upstream_base_url'' = None" and "se_vars e ''ANTHROUTER_UPSTREAM_BASE_URL'' = Some '' ''"
  shows "Empty_upstream \<notin> set (bound_errors (c\<lparr>cfg_upstream_base_url := '' ''\<rparr>)) \<and> (\<forall>c'. parse_args e \<noteq> Started c')"
proof -
  have "cfg_upstream_base_url (config_of_args e z cl al) = []" for z cl al
    using assms by (simp add: config_of_args_def text_arg_def rstrip_slash_def py_eval)
  then have "parse_args e \<noteq> Started c'" for c'
    by (simp add: parse_args_def Let_def py_eval split: option.splits)
  then show ?thesis by (auto simp: bound_errors_def report_def)
qed

text \<open>A boolean with spaces is true for the running process and unreadable for the next one.\<close>

lemma spaced_boolean_lost:
  "coerce_field ae name '' true '' Bool_kind = Inr (VBool True) \<and>
    env_bool (\<lambda>_. Some '' true '') var False = False"
  by (simp add: coerce_field_def env_bool_def py_eval)

section \<open>Texts that do not survive the file\<close>

text \<open>A carriage return is not among the refused characters, and ends the line when the file is read.\<close>

lemma carriage_return_cut:
  "quoting_error ''log_file'' [CHR ''a'', CHR 0x0D, CHR ''b''] = None \<and>
    read_config_env (Some (write_config_env None [(''log_file'', [CHR ''a'', CHR 0x0D, CHR ''b''])])) =
      [(''ANTHROUTER_LOG_FILE'', [CHR 0x22, CHR ''a''])]"
  by code_simp

text \<open>The text of a number is not checked for characters at all: one that ends in a line break is an
  integer, and its assignment takes two lines.\<close>

lemma number_breaks_line:
  "coerce_entry sample_admin (''port'', JStr (''9000'' @ nl)) = Inr (Port, VInt 9000) \<and>
    read_config_env (Some (write_config_env None [(''port'', ''9000'' @ nl)])) =
      [(''ANTHROUTER_PORT'', quote @ ''9000'')]"
  by code_simp

text \<open>Of two lines for one variable the first is rewritten and the last is read.\<close>

lemma duplicate_line_wins:
  "read_config_env (Some (write_config_env
       (Some (''ANTHROUTER_PORT=1'' @ nl @ ''ANTHROUTER_PORT=2'' @ nl)) [(''port'', ''9000'')])) =
     [(''ANTHROUTER_PORT'', ''2'')]"
  by code_simp

section \<open>Requests without an answer\<close>

text \<open>A malformed table is refused by the parser of the command line, which ends the thread.\<close>

lemma malformed_table_exits:
  assumes "cfg_admin_token (running st) = Some (c # t)" "unknown_keys d = []" "missing_keys d = []"
    "lefts (map (coerce_entry ae) d) = []" "(field_name Classification, JStr ''deep'') \<in> set d"
  shows "handle_post_config ae (Some (c # t)) (JObj d) st = (Exits, st)"
proof -
  have p: "parse_table (Classification, VStr ''deep'') = None" by code_simp
  have q: "quoting_error (field_name Classification) ''deep'' = None" by code_simp
  have "coerce_entry ae (field_name Classification, JStr ''deep'') = Inr (Classification, VStr ''deep'')"
    using q by (simp add: coerce_entry_def field_kind_def field_optional_def del: field_name.simps)
  then have "entry_value ae (field_name Classification, JStr ''deep'') = None"
    by (simp add: entry_value_def p)
  then have "parse_tables (rights (map (coerce_entry ae) d)) = None"
    using entries_coerced [OF assms(4)] assms(5)
    by (cases "parse_tables (rights (map (coerce_entry ae) d))") (force dest: map_eq_imp_length_eq simp: list_eq_iff_nth_eq in_set_conv_nth)+
  then show ?thesis using assms by (simp add: handle_post_config_def Let_def)
qed

text \<open>A superscript digit is a digit and no number: the promise that a bad path never raises fails.\<close>

lemma superscript_id_raises:
  "handle_get sample_int (''/admin/requests/'' @ [char_of (178 :: nat)]) [] True = View_raises ValueError"
  by code_simp

end
