(* ===== verification/Configured_Routing.thy ===== *)
theory Configured_Routing
  imports Admin_Props Router_Props
begin

text \<open>
  The configuration and the router together: what is read of a \<open>Config\<close> by \<open>route_model\<close>, and that no
  configuration the process starts with, or is edited into while it runs, makes routing raise.
\<close>

section \<open>The settings the router reads\<close>

definition router_config_of :: "config \<Rightarrow> router_config" where
  "router_config_of c =
     \<lparr>auto_model_routing = cfg_routing c,
      long_context_threshold = cfg_long_context_threshold c,
      long_target = cfg_long_target c,
      labels = cfg_classification c,
      classifier_model = cfg_classifier_model c,
      confidence_bump = cfg_confidence_bump c,
      routing_mode = cfg_mode c,
      affirmation_inherit = cfg_affirmation_inherit c,
      trivial_threshold = rat_of (cfg_trivial_threshold c),
      standard_threshold = rat_of (cfg_standard_threshold c),
      sys_cache_size = nat (cfg_cache_size c),
      sys_preview_limit = cfg_preview_limit c,
      sys_weight = rat_of (cfg_system_weight c),
      user_weight = rat_of (cfg_user_weight c),
      classifier_max_retries = nat (cfg_max_retries c),
      prior_summary_limit = cfg_prior_summary_limit c\<rparr>"

section \<open>Routing with every label configured\<close>

definition total_labels :: "router_config \<Rightarrow> bool" where
  "total_labels cfg \<longleftrightarrow> (\<forall>l. map_of (labels cfg) (label_name l) \<noteq> None)"

lemma label_model_total: "total_labels cfg \<Longrightarrow> \<exists>m. label_model cfg l = Inr m"
  by (fastforce simp: total_labels_def label_model_def split: option.splits)

definition routed :: "outcome \<Rightarrow> bool" where
  "routed r \<longleftrightarrow> (\<exists>d. fst r = Inr d)"

lemma routed_dispatch [simp]: "routed (dispatch_to d payload st)"
  by (simp add: routed_def dispatch_to_def)

lemma routed_Inr [simp]: "routed (Inr d, payload, st)"
  by (simp add: routed_def)

lemma routed_walkback: "routed (route_walkback cfg requested summary cached est payload st)"
  by (simp add: route_walkback_def Let_def split_beta)

lemma routed_title: "total_labels cfg \<Longrightarrow> routed (route_title cfg ra requested est payload st)"
  using label_model_total [of cfg Trivial] by (auto simp: route_title_def)

lemma routed_floor: "total_labels cfg \<Longrightarrow> routed (affirmation_floor cfg ra requested reclassify est payload st)"
  using label_model_total [of cfg Standard] by (auto simp: affirmation_floor_def split: option.split)

lemma routed_affirmation:
  assumes "total_labels cfg"
  shows "routed (route_affirmation env cfg ra requested summary prior est payload st)"
proof -
  obtain m where m: "label_model cfg Trivial = Inr m" using label_model_total [OF assms] by blast
  show ?thesis
    by (simp add: route_affirmation_def Let_def m split_beta routed_floor [OF assms] split: option.split)
qed

lemma rules_never_score:
  "mode = ''rules'' \<Longrightarrow> dp_value (fst (dispatch_classifier_mode env cfg mode summary prior st)) \<noteq> Score n"
  by (simp add: dispatch_classifier_mode_def no_call_def split: option.split)

lemma routed_classified:
  assumes "total_labels cfg" "effective_mode cfg ra \<in> {''classifier'', ''rules''}"
  shows "routed (route_classified env cfg ra requested b summary prior est payload st)"
proof -
  obtain dp st' where dp: "dispatch_classifier_mode env cfg (effective_mode cfg ra) summary prior st = (dp, st')"
    by force
  show ?thesis
  proof (cases "dp_value dp")
    case No_value
    then show ?thesis by (simp add: route_classified_def dp)
  next
    case (Tier l)
    with label_model_total [OF assms(1), of l] show ?thesis by (auto simp: route_classified_def dp)
  next
    case (Score n)
    with rules_never_score [of "effective_mode cfg ra" env cfg summary prior st n] dp assms(2)
    have mode: "effective_mode cfg ra = ''classifier''" by auto
    obtain bl st'' where bl: "apply_weighted_blend env cfg n (system_prompt_sha256 summary) payload st' = (bl, st'')"
      by force
    from label_model_total [OF assms(1), of "bl_label bl"] dp [unfolded mode] show ?thesis
      by (auto simp: route_classified_def mode Score Let_def bl)
  qed
qed

lemma route_model_total:
  assumes "total_labels cfg" "effective_mode cfg ra \<in> {''classifier'', ''rules''}"
  shows "routed (route_model env cfg ra payload st)"
proof -
  have "routed (route_eligible env cfg ra requested b payload st)" for requested b payload st
    by (simp add: route_eligible_def Let_def split_beta routed_walkback routed_title [OF assms(1)]
        routed_affirmation [OF assms(1)] routed_classified [OF assms] split: option.split bool.split)
  then show ?thesis by (simp add: route_model_def Let_def)
qed

section \<open>Configurations that occur\<close>

lemma validate_resolve [simp]: "validate_config split (resolve_paths e c) = validate_config split c"
  by (simp add: resolve_paths_def Let_def validate_config_def enum_errors_def bound_errors_def weight_errors_def)

lemma started_config_ok:
  assumes "parse_args e = Started c"
  shows "config_ok (se_split e) c"
proof -
  from assms obtain zone classes als s where s: "parse_classification_str s = Some classes"
    and v: "validate_config (se_split e) (config_of_args e zone classes als) = Inr []"
    and c: "c = resolve_paths e (config_of_args e zone classes als)"
    by (auto simp: parse_args_def Let_def split: if_splits option.splits sum.splits exn.splits list.splits)
  have "cfg_classification c = classes" by (simp add: c resolve_paths_def Let_def config_of_args_def)
  with parse_classification_total [OF s] v show ?thesis by (simp add: config_ok_def c)
qed

text \<open>The states of the editor: a start, then any posts.  The keys of a parsed JSON object are distinct.\<close>

inductive config_reach :: "start_env \<Rightarrow> admin_env \<Rightarrow> admin_state \<Rightarrow> bool" for e ae where
  boot: "parse_args e = Started c \<Longrightarrow> config_reach e ae \<lparr>running = c, config_env = f\<rparr>"
| post: "config_reach e ae st \<Longrightarrow> handle_post_config ae token (JObj d) st = (r, st') \<Longrightarrow>
    distinct (map fst d) \<Longrightarrow> config_reach e ae st'"

lemma reach_config_ok:
  assumes "config_reach e ae st" "ae_split ae = se_split e"
  shows "config_ok (se_split e) (running st)"
  using assms(1)
proof (induction rule: config_reach.induct)
  case (boot c f)
  then show ?case by (simp add: started_config_ok)
next
  case (post st token d r st')
  then show ?case using post_keeps_valid [of ae st d token r st'] assms(2) by simp
qed


definition sample_start :: start_env where
  "sample_start =
     \<lparr>se_vars = (\<lambda>_. None), se_given = (\<lambda>_. None), se_int = sample_int, se_float = sample_float,
      se_split = (\<lambda>_. None), se_timezone = (\<lambda>_. Some ''UTC''), se_home = ''/h'', se_join = (\<lambda>a b. a @ ''/'' @ b)\<rparr>"

lemma sample_started:
  "\<exists>c. parse_args sample_start = Started c \<and> cfg_trivial_threshold c = Fin 30 \<and> cfg_standard_threshold c = Fin 60 \<and>
    cfg_system_weight c = Fin (1 / 5) \<and> cfg_user_weight c = Fin (4 / 5)"
proof -
  have t: "parse_classification_str [] = Some DEFAULT_LABEL_MAP" "parse_model_aliases_str [] = Some []"
    by code_simp+
  have "numbers_ok sample_start" by (simp add: numbers_ok_def sample_start_def list_all_iff)
  then show ?thesis
    by (simp add: parse_args_def t opt_arg_def text_arg_def sample_start_def config_of_args_def int_arg_def float_arg_def
        bool_arg_def env_bool_def or_off_def validate_config_def enum_errors_def bound_errors_def weight_errors_def
        report_def float_le_def float_min_def float_max_def resolve_paths_def resolve_home_def rstrip_slash_def
        DEFAULT_UPSTREAM_BASE_URL_def Let_def py_eval)
qed


end
