(* ===== verification/Pace.thy ===== *)
theory Pace
  imports Py_Prelude
begin

text \<open>
  \<^verbatim>\<open>anthrouter/pace.py\<close>: the share of a month, or of its working days, that has elapsed.

  A date is its proleptic Gregorian ordinal (\<open>date.toordinal\<close>), a moment in UTC a record of its calendar
  fields, an instant the number of microseconds since the midnight that starts ordinal 0.  A time zone is
  a function from an instant to its offset from UTC in microseconds.  Fractions are exact.
\<close>

section \<open>The calendar\<close>

definition leap_year :: "int \<Rightarrow> bool" where
  "leap_year y \<longleftrightarrow> y mod 4 = 0 \<and> (y mod 100 \<noteq> 0 \<or> y mod 400 = 0)"

definition days_before_year :: "int \<Rightarrow> int" where
  "days_before_year y = (let z = y - 1 in z * 365 + z div 4 - z div 100 + z div 400)"

text \<open>\<open>calendar.monthrange(y, m)[1]\<close>.\<close>

definition month_days :: "int \<Rightarrow> int \<Rightarrow> int" where
  "month_days y m =
     (if m = 2 then (if leap_year y then 29 else 28) else if m \<in> {4, 6, 9, 11} then 30 else 31)"

definition days_before_month :: "int \<Rightarrow> int \<Rightarrow> int" where
  "days_before_month y m = sum_list (map (month_days y) [1..m - 1])"

definition ordinal :: "int \<Rightarrow> int \<Rightarrow> int \<Rightarrow> int" where
  "ordinal y m d = days_before_year y + days_before_month y m + d"

text \<open>\<open>date.weekday()\<close>: Monday is 0.\<close>

definition weekday :: "int \<Rightarrow> int" where
  "weekday n = (n + 6) mod 7"

record moment =
  mo_year :: int
  mo_month :: int
  mo_day :: int
  mo_hour :: int
  mo_minute :: int
  mo_second :: int
  mo_micro :: int

definition seconds_into_day :: "moment \<Rightarrow> int" where
  "seconds_into_day t = mo_hour t * 3600 + mo_minute t * 60 + mo_second t"

definition DAY :: int where "DAY = 86400 * 1000000"

definition instant :: "moment \<Rightarrow> int" where
  "instant t =
     ordinal (mo_year t) (mo_month t) (mo_day t) * DAY + seconds_into_day t * 1000000 + mo_micro t"

text \<open>What every \<open>datetime\<close> satisfies.\<close>

definition moment_ok :: "moment \<Rightarrow> bool" where
  "moment_ok t \<longleftrightarrow>
     1 \<le> mo_month t \<and> mo_month t \<le> 12 \<and>
     1 \<le> mo_day t \<and> mo_day t \<le> month_days (mo_year t) (mo_month t) \<and>
     0 \<le> mo_hour t \<and> mo_hour t < 24 \<and> 0 \<le> mo_minute t \<and> mo_minute t < 60 \<and>
     0 \<le> mo_second t \<and> mo_second t < 60 \<and> 0 \<le> mo_micro t \<and> mo_micro t < 1000000"

definition midnight :: "int \<Rightarrow> int \<Rightarrow> moment" where
  "midnight y m =
     \<lparr>mo_year = y, mo_month = m, mo_day = 1, mo_hour = 0, mo_minute = 0, mo_second = 0, mo_micro = 0\<rparr>"

section \<open>The periods\<close>

definition period_bounds :: "moment \<Rightarrow> moment \<times> moment" where
  "period_bounds now =
     (midnight (mo_year now) (mo_month now),
      if mo_month now = 12 then midnight (mo_year now + 1) 1 else midnight (mo_year now) (mo_month now + 1))"

definition calendar_elapsed_pct :: "moment \<Rightarrow> rat" where
  "calendar_elapsed_pct now =
     (of_int (mo_day now - 1) + of_int (seconds_into_day now) / 86400) /
       of_int (month_days (mo_year now) (mo_month now)) * 100"

type_synonym zone = "int \<Rightarrow> int"

text \<open>The date and the whole seconds of the day that a clock in the zone shows at an instant.\<close>

definition local_date :: "zone \<Rightarrow> int \<Rightarrow> int" where
  "local_date tz i = (i + tz i) div DAY"

definition local_seconds :: "zone \<Rightarrow> int \<Rightarrow> int" where
  "local_seconds tz i = (i + tz i) mod DAY div 1000000"

function weekdays_from :: "int \<Rightarrow> int \<Rightarrow> int list" where
  "weekdays_from current stop =
     (if current \<le> stop
      then (if weekday current < 5 then current # weekdays_from (current + 1) stop
            else weekdays_from (current + 1) stop)
      else [])"
  by pat_completeness auto
termination by (relation "measure (\<lambda>(c, l). nat (l + 1 - c))") auto

declare weekdays_from.simps [simp del]

definition period_workday_dates :: "int \<Rightarrow> int \<Rightarrow> zone \<Rightarrow> int list" where
  "period_workday_dates start_i end_i tz = weekdays_from (local_date tz start_i) (local_date tz (end_i - 1))"

primrec elapsed_days :: "int \<Rightarrow> rat \<Rightarrow> int list \<Rightarrow> rat" where
  "elapsed_days today fraction [] = 0"
| "elapsed_days today fraction (wd # wds) =
     (if wd < today then 1 else if wd = today \<and> weekday today < 5 then fraction else 0) +
     elapsed_days today fraction wds"

definition workday_elapsed_pct :: "moment \<Rightarrow> zone \<Rightarrow> rat \<times> int" where
  "workday_elapsed_pct now tz =
     (let (s, e) = period_bounds now;
          workdays = period_workday_dates (instant s) (instant e) tz;
          n = length workdays
      in if n = 0 then (0, 0)
         else (elapsed_days (local_date tz (instant now)) (of_int (local_seconds tz (instant now)) / 86400) workdays /
                 of_nat n * 100, int n))"

text \<open>
  \<open>resolve_timezone\<close>: the name that is looked up in the zone database, from the configured name and the
  detected one.
\<close>

definition fallback_zone :: "string option \<Rightarrow> string" where
  "fallback_zone detected =
     (case detected of
        None \<Rightarrow> ''America/Los_Angeles''
      | Some d \<Rightarrow> if d \<in> {''UTC'', ''Etc/UTC'', ''Universal'', ''Zulu''} then ''America/Los_Angeles'' else d)"

definition resolved_zone :: "string option \<Rightarrow> string option \<Rightarrow> string" where
  "resolved_zone configured detected =
     (case configured of
        Some c \<Rightarrow> if py_strip c \<noteq> [] then py_strip c else fallback_zone detected
      | None \<Rightarrow> fallback_zone detected)"

text \<open>
  \<open>detect_local_timezone_name\<close>: the key of the process's own zone, the part of the target of
  \<open>/etc/localtime\<close> after its first \<open>zoneinfo\<close> component, or the first name of \<open>time.tzname\<close> that is a zone.
  A step that raises counts as nothing found.
\<close>

definition zone_of_link :: "string \<Rightarrow> string option" where
  "zone_of_link target =
     (case dropWhile (\<lambda>p. p \<noteq> ''zoneinfo'') (split_char CHR ''/'' target) of
        [] \<Rightarrow> None
      | _ # ps \<Rightarrow> (let n = py_join ''/'' ps in if n = [] then None else Some n))"

definition detect_local_timezone_name ::
  "string option \<Rightarrow> string option \<Rightarrow> string list \<Rightarrow> (string \<Rightarrow> bool) \<Rightarrow> string option" where
  "detect_local_timezone_name key link names is_zone =
     (case key of
        Some (c # k) \<Rightarrow> Some (c # k)
      | _ \<Rightarrow>
        (case Option.bind link zone_of_link of
           Some n \<Rightarrow> Some n
         | None \<Rightarrow> find (\<lambda>n. n \<noteq> [] \<and> is_zone n) names))"

section \<open>The calendar's arithmetic\<close>

lemma DAY_pos [simp]: "0 < DAY" "0 \<le> DAY" "DAY \<noteq> 0"
  by (simp_all add: DAY_def)

lemma month_days_bounds: "28 \<le> month_days y m \<and> month_days y m \<le> 31"
  by (simp add: month_days_def)

lemma days_before_next_month:
  "1 \<le> m \<Longrightarrow> days_before_month y (m + 1) = days_before_month y m + month_days y m"
  by (simp add: days_before_month_def upto_rec2)

lemma days_before_first [simp]: "days_before_month y 1 = 0"
  by (simp add: days_before_month_def)

lemma year_days: "days_before_month y 13 = (if leap_year y then 366 else 365)"
  by (simp add: days_before_month_def upto_rec1 month_days_def)

lemma div_step:
  assumes "0 < (k :: int)" shows "(z + 1) div k = z div k + (if (z + 1) mod k = 0 then 1 else 0)"
proof (cases "(z + 1) mod k = 0")
  case True
  then have "z + 1 = k * ((z + 1) div k)" using mult_div_mod_eq [of k "z + 1"] by simp
  then have "z = k * ((z + 1) div k - 1) + (k - 1)" by (simp add: right_diff_distrib)
  from int_div_pos_eq [OF this] assms have "z div k = (z + 1) div k - 1" by simp
  with True show ?thesis by simp
next
  case False
  with assms have r: "0 \<le> (z + 1) mod k - 1" "(z + 1) mod k - 1 < k"
    using pos_mod_sign [of k "z + 1"] pos_mod_bound [of k "z + 1"] by linarith+
  have "z = k * ((z + 1) div k) + ((z + 1) mod k - 1)"
    using mult_div_mod_eq [of k "z + 1"] by linarith
  from int_div_pos_eq [OF this r] have "z div k = (z + 1) div k" .
  with False show ?thesis by simp
qed

lemma year_difference:
  "y * 365 + p' - q' + r' - ((y - 1) * 365 + p - q + r) = 365 + (p' - p) - (q' - q) + (r' - r)"
  for y p p' q q' r r' :: int
  by (simp add: algebra_simps)

lemma days_before_next_year:
  "days_before_year (y + 1) = days_before_year y + (if leap_year y then 366 else 365)"
proof -
  have c: "100 dvd y \<longrightarrow> 4 dvd y" "400 dvd y \<longrightarrow> 100 dvd y"
    using dvd_trans [of 4 100 y] dvd_trans [of 100 400 y] by simp_all
  have d: "y div k - (y - 1) div k = (if y mod k = 0 then 1 else 0)" if "0 < k" for k
    using div_step [OF that, of "y - 1"] by simp
  have l: "(365 :: int) + (if P then 1 else 0) - (if Q then 1 else 0) + (if R then 1 else 0) =
      (if P \<and> (\<not> Q \<or> R) then 366 else 365)" if "Q \<longrightarrow> P" "R \<longrightarrow> Q" for P Q R
    using that by (cases P; cases Q; cases R; simp)
  have "days_before_year (y + 1) - days_before_year y =
      365 + (y div 4 - (y - 1) div 4) - (y div 100 - (y - 1) div 100) + (y div 400 - (y - 1) div 400)"
    unfolding days_before_year_def Let_def add_diff_cancel_right' by (rule year_difference)
  also have "\<dots> = 365 + (if 4 dvd y then 1 else 0) - (if 100 dvd y then 1 else 0) + (if 400 dvd y then 1 else 0)"
    by (simp only: d mod_eq_0_iff_dvd zero_less_numeral)
  also have "\<dots> = (if leap_year y then 366 else 365)"
    unfolding leap_year_def mod_eq_0_iff_dvd by (rule l) (use c in blast)+
  finally show ?thesis unfolding diff_eq_eq by (rule trans [OF _ add.commute])
qed

lemma seconds_into_day_bounds: "moment_ok t \<Longrightarrow> 0 \<le> seconds_into_day t \<and> seconds_into_day t < 86400"
  by (auto simp: moment_ok_def seconds_into_day_def)

lemma month_length:
  assumes "moment_ok now"
  shows "instant (snd (period_bounds now)) =
    instant (fst (period_bounds now)) + month_days (mo_year now) (mo_month now) * DAY"
proof (cases "mo_month now = 12")
  case True
  have "days_before_month (mo_year now) 13 = days_before_month (mo_year now) 12 + month_days (mo_year now) 12"
    using days_before_next_month [of 12 "mo_year now"] by simp
  then show ?thesis
    using days_before_next_year [of "mo_year now"] year_days [of "mo_year now"] True
    by (simp add: period_bounds_def midnight_def instant_def seconds_into_day_def ordinal_def distrib_right)
next
  case False
  then show ?thesis
    using assms days_before_next_month [of "mo_month now" "mo_year now"]
    by (simp add: period_bounds_def midnight_def instant_def seconds_into_day_def ordinal_def moment_ok_def
        distrib_right)
qed

lemma period_contains:
  assumes "moment_ok now"
  shows "instant (fst (period_bounds now)) \<le> instant now \<and> instant now < instant (snd (period_bounds now))"
proof -
  let ?d = "mo_day now" and ?n = "month_days (mo_year now) (mo_month now)"
  have now: "instant now = instant (fst (period_bounds now)) +
      ((?d - 1) * DAY + (seconds_into_day now * 1000000 + mo_micro now))"
    by (simp add: period_bounds_def midnight_def instant_def seconds_into_day_def ordinal_def left_diff_distrib
        distrib_right)
  have "0 \<le> seconds_into_day now * 1000000 + mo_micro now" "seconds_into_day now * 1000000 + mo_micro now < DAY"
    using assms seconds_into_day_bounds [OF assms] by (auto simp: moment_ok_def DAY_def)
  moreover have "0 \<le> (?d - 1) * DAY" "?d * DAY \<le> ?n * DAY"
    using assms by (auto simp: moment_ok_def intro!: mult_right_mono mult_nonneg_nonneg)
  ultimately show ?thesis unfolding now month_length [OF assms] left_diff_distrib mult_1 by linarith
qed

section \<open>Working days\<close>

lemma weekdays_from_filter: "weekdays_from a b = filter (\<lambda>d. weekday d < 5) [a..b]"
  by (induction a b rule: weekdays_from.induct) (subst weekdays_from.simps, simp add: upto_rec1)

lemma elapsed_days_bounds:
  assumes "0 \<le> f" "f \<le> 1"
  shows "0 \<le> elapsed_days today f wds \<and> elapsed_days today f wds \<le> of_nat (length wds)"
  using assms by (induction wds) auto

lemma elapsed_days_mono:
  assumes "d < d' \<or> d = d' \<and> f \<le> f'" "0 \<le> f'" "f \<le> 1"
  shows "elapsed_days d f wds \<le> elapsed_days d' f' wds"
  using assms by (induction wds) auto

lemma week_has_five: "length (filter (\<lambda>d. weekday d < 5) [a..a + 6]) = 5"
proof -
  define r where "r = (a + 6) mod 7"
  have w: "weekday (a + i) = (r + i) mod 7" for i
    unfolding weekday_def r_def mod_add_left_eq by (simp add: ac_simps)
  have "0 \<le> r" "r < 7" by (simp_all add: r_def)
  then consider "r = 0" | "r = 1" | "r = 2" | "r = 3" | "r = 4" | "r = 5" | "r = 6" by linarith
  moreover have "[a..a + 6] = [a + 0, a + 1, a + 2, a + 3, a + 4, a + 5, a + 6]"
    by (simp add: upto_rec1)
  ultimately show ?thesis by cases (simp_all only: w filter.simps, simp_all)
qed

lemma three_weeks:
  assumes "a + 20 \<le> b" shows "15 \<le> length (weekdays_from a b)"
proof -
  have "[a..b] = [a..a + 6] @ [a + 7..a + 13] @ [a + 14..a + 20] @ [a + 21..b]"
    using assms upto_split2 [of a "a + 6" b] upto_split2 [of "a + 7" "a + 13" b] upto_split2 [of "a + 14" "a + 20" b]
    by (simp add: add.commute)
  then show ?thesis
    using week_has_five [of a] week_has_five [of "a + 7"] week_has_five [of "a + 14"]
    by (simp add: weekdays_from_filter add.commute)
qed

lemma local_seconds_bounds: "0 \<le> local_seconds tz i \<and> local_seconds tz i < 86400"
proof -
  have "0 \<le> (i + tz i) mod DAY" "(i + tz i) mod DAY < 86400 * 1000000"
    using pos_mod_bound [of DAY "i + tz i"] by (simp_all add: DAY_def)
  then show ?thesis unfolding local_seconds_def by (simp add: div_less_iff_less_mult pos_imp_zdiv_nonneg_iff)
qed

lemma local_clock_mono:
  assumes "i + tz i \<le> j + tz j"
  shows "local_date tz i < local_date tz j \<or> local_date tz i = local_date tz j \<and> local_seconds tz i \<le> local_seconds tz j"
proof -
  have le: "local_date tz i \<le> local_date tz j" using assms by (simp add: local_date_def zdiv_mono1)
  have "local_seconds tz i \<le> local_seconds tz j" if "local_date tz i = local_date tz j"
  proof -
    have "(i + tz i) mod DAY \<le> (j + tz j) mod DAY"
      using assms that by (simp add: local_date_def minus_mult_div_eq_mod [symmetric])
    then show ?thesis by (simp add: local_seconds_def zdiv_mono1)
  qed
  with le show ?thesis by fastforce
qed

lemma period_has_workdays:
  assumes ok: "moment_ok now" and zone: "\<forall>i. \<bar>tz i\<bar> < DAY"
  shows "15 \<le> length (period_workday_dates (instant (fst (period_bounds now))) (instant (snd (period_bounds now))) tz)"
proof -
  let ?s = "instant (fst (period_bounds now))" and ?e = "instant (snd (period_bounds now))"
  let ?n = "month_days (mo_year now) (mo_month now)"
  obtain k where k: "?s = k * DAY"
    by (auto simp: period_bounds_def midnight_def instant_def seconds_into_day_def)
  have "?s + tz ?s \<le> k * DAY + (DAY - 1)" using zone [rule_format, of ?s] k by simp
  then have "(?s + tz ?s) div DAY \<le> (k * DAY + (DAY - 1)) div DAY" by (rule zdiv_mono1) simp
  moreover have "(k * DAY + (DAY - 1)) div DAY = k" by (simp add: DAY_def)
  ultimately have "local_date tz ?s \<le> k" by (simp add: local_date_def)
  moreover have "k + ?n - 2 \<le> local_date tz (?e - 1)"
  proof -
    have "(k + ?n - 2) * DAY \<le> ?e - 1 + tz (?e - 1)"
      using zone [rule_format, of "?e - 1"] month_length [OF ok] k by (simp add: algebra_simps DAY_def)
    then have "(k + ?n - 2) * DAY div DAY \<le> (?e - 1 + tz (?e - 1)) div DAY" by (rule zdiv_mono1) simp
    then show ?thesis by (simp add: local_date_def)
  qed
  ultimately show ?thesis
    using month_days_bounds [of "mo_year now" "mo_month now"]
    unfolding period_workday_dates_def by (intro three_weeks) linarith
qed

text \<open>The calendar month of a moment contains it, has 28 to 31 days, and the elapsed share of it lies in
  \<open>[0, 100)\<close>.\<close>

theorem calendar_period_correct:
  assumes "moment_ok now"
  shows "instant (fst (period_bounds now)) \<le> instant now \<and> instant now < instant (snd (period_bounds now)) \<and>
    instant (snd (period_bounds now)) - instant (fst (period_bounds now)) \<in> {28 * DAY, 29 * DAY, 30 * DAY, 31 * DAY} \<and>
    0 \<le> calendar_elapsed_pct now \<and> calendar_elapsed_pct now < 100"
proof -
  let ?n = "month_days (mo_year now) (mo_month now)"
  have n: "?n \<in> {28, 29, 30, 31}" "1 \<le> mo_day now" "mo_day now \<le> ?n"
    using assms by (auto simp: month_days_def moment_ok_def)
  have "(of_int (seconds_into_day now) / 86400 :: rat) < 1" "(0 :: rat) \<le> of_int (seconds_into_day now) / 86400"
    using seconds_into_day_bounds [OF assms] by simp_all
  moreover have "(of_int (mo_day now - 1) :: rat) \<le> of_int (?n - 1)" "(0 :: rat) \<le> of_int (mo_day now - 1)"
    using n unfolding of_int_le_iff by simp_all
  ultimately have "of_int (mo_day now - 1) + of_int (seconds_into_day now) / 86400 < (of_int ?n :: rat)"
    "(0 :: rat) \<le> of_int (mo_day now - 1) + of_int (seconds_into_day now) / 86400" by simp_all
  then have "0 \<le> calendar_elapsed_pct now \<and> calendar_elapsed_pct now < 100"
    using n by (auto simp: calendar_elapsed_pct_def divide_less_eq)
  with period_contains [OF assms] month_length [OF assms] n(1) show ?thesis by auto
qed

text \<open>(C40) The workday baseline lies in \<open>[0, 100]\<close> over at least 15 working days, and in one month never falls
  while the local clock does not.\<close>

theorem workday_pace_monotone:
  assumes ok: "moment_ok now" "moment_ok later" and zone: "\<forall>i. \<bar>tz i\<bar> < DAY"
    and month: "mo_year later = mo_year now" "mo_month later = mo_month now"
    and clock: "instant now + tz (instant now) \<le> instant later + tz (instant later)"
  shows "0 \<le> fst (workday_elapsed_pct now tz) \<and>
    fst (workday_elapsed_pct now tz) \<le> fst (workday_elapsed_pct later tz) \<and>
    fst (workday_elapsed_pct later tz) \<le> 100 \<and>
    snd (workday_elapsed_pct later tz) = snd (workday_elapsed_pct now tz) \<and>
    15 \<le> snd (workday_elapsed_pct now tz)"
proof -
  let ?b = "period_bounds now"
  let ?w = "period_workday_dates (instant (fst ?b)) (instant (snd ?b)) tz"
  let ?f = "\<lambda>t. of_int (local_seconds tz (instant t)) / 86400 :: rat"
  let ?d = "\<lambda>t. local_date tz (instant t)"
  have same: "period_bounds later = ?b" using month by (simp add: period_bounds_def)
  have n: "15 \<le> length ?w" using period_has_workdays [OF ok(1) zone] .
  have w: "length ?w \<noteq> 0" using n by linarith
  then have pct: "workday_elapsed_pct t tz = (elapsed_days (?d t) (?f t) ?w / of_nat (length ?w) * 100, int (length ?w))"
    if "period_bounds t = ?b" for t
    by (simp add: workday_elapsed_pct_def that Let_def split_beta)
  have f: "0 \<le> ?f t \<and> ?f t \<le> 1" for t using local_seconds_bounds [of tz "instant t"] by simp
  have "elapsed_days (?d now) (?f now) ?w \<le> elapsed_days (?d later) (?f later) ?w"
    by (rule elapsed_days_mono) (use local_clock_mono [OF clock] f in auto)
  moreover have "0 \<le> elapsed_days (?d now) (?f now) ?w" "elapsed_days (?d later) (?f later) ?w \<le> of_nat (length ?w)"
    using elapsed_days_bounds f by blast+
  moreover have "(0 :: rat) < of_nat (length ?w)" using w by (simp only: of_nat_0_less_iff neq0_conv)
  ultimately show ?thesis
    using n by (simp add: pct [OF refl] pct [OF same] divide_right_mono divide_le_eq)
qed

definition sample_now :: moment where
  "sample_now = \<lparr>mo_year = 2026, mo_month = 2, mo_day = 13, mo_hour = 20, mo_minute = 30, mo_second = 0, mo_micro = 7\<rparr>"

definition sample_later :: moment where
  "sample_later = sample_now\<lparr>mo_day := 16, mo_hour := 1\<rparr>"

definition sample_zone :: zone where
  "sample_zone i = - (8 * 3600 * 1000000)"

lemmas sample_moment_simps =
  sample_now_def sample_later_def moment_ok_def month_days_def leap_year_def sample_zone_def instant_def
  seconds_into_day_def DAY_def ordinal_def

theorem calendar_period_correct_witness:
  "calendar_elapsed_pct sample_now < 100 \<and> instant (fst (period_bounds sample_now)) \<le> instant sample_now"
proof -
  have "moment_ok sample_now" by (simp add: sample_moment_simps)
  from calendar_period_correct [OF this] show ?thesis by simp
qed

theorem workday_pace_monotone_witness:
  "fst (workday_elapsed_pct sample_now sample_zone) \<le> fst (workday_elapsed_pct sample_later sample_zone)"
proof -
  have "moment_ok sample_now" "moment_ok sample_later" "\<forall>i. \<bar>sample_zone i\<bar> < DAY"
    "mo_year sample_later = mo_year sample_now" "mo_month sample_later = mo_month sample_now"
    "instant sample_now + sample_zone (instant sample_now) \<le> instant sample_later + sample_zone (instant sample_later)"
    by (simp_all add: sample_moment_simps)
  from workday_pace_monotone [OF this] show ?thesis by simp
qed

end
