(* ===== verification/Oauth_Usage.thy ===== *)
theory Oauth_Usage
  imports Pace Config
begin

text \<open>
  \<^verbatim>\<open>anthrouter/oauth_usage.py\<close>: the cached usage of an OAuth token and the pace of its polling.

  The state is the cache's fields under its lock.  The background thread is the sequence of its polls: the
  wait it takes before each one is \<open>cooldown_seconds\<close>, and a poll is answered, refused or fails.  The hash
  of a token, the clock and the parsing of a number are arguments.  JSON floats are finite.
\<close>

section \<open>State\<close>

record oauth_usage =
  us_burn_pct :: "rat option"
  us_used_usd :: "rat option"
  us_total_usd :: "rat option"
  us_month_elapsed_pct :: rat
  us_monthly_blocked :: bool
  us_eligible :: bool
  us_age :: "int option"
  us_stale :: bool
  us_workday_elapsed_pct :: rat
  us_calendar_elapsed_pct :: rat
  us_period_start :: moment
  us_period_end :: moment
  us_workday_count :: int

record oauth_cache =
  oc_token_hash :: "string option"
  oc_usage :: "oauth_usage option"
  oc_cached_at :: rat
  oc_fetch_scheduled_at :: rat
  oc_thread :: bool
  oc_current_token :: "string option"
  oc_base_interval :: int
  oc_backoff_multiplier :: rat
  oc_retry_after :: "pyfloat option"
  oc_cooldown_active :: bool
  oc_window_429_logged :: bool

definition CACHE_TTL_SECONDS :: rat where "CACHE_TTL_SECONDS = 60"
definition FETCH_INTERVAL_SECONDS :: int where "FETCH_INTERVAL_SECONDS = 60"
definition MAX_BACKOFF_SECONDS :: rat where "MAX_BACKOFF_SECONDS = 300"
definition MIN_COOLDOWN_SECONDS :: rat where "MIN_COOLDOWN_SECONDS = 5"

text \<open>\<open>poll_interval_seconds or FETCH_INTERVAL_SECONDS\<close>.\<close>

definition new_cache :: "int option \<Rightarrow> oauth_cache" where
  "new_cache poll =
     \<lparr>oc_token_hash = None, oc_usage = None, oc_cached_at = 0, oc_fetch_scheduled_at = 0, oc_thread = False,
      oc_current_token = None,
      oc_base_interval = (case poll of None \<Rightarrow> FETCH_INTERVAL_SECONDS
                          | Some n \<Rightarrow> if n = 0 then FETCH_INTERVAL_SECONDS else n),
      oc_backoff_multiplier = 1, oc_retry_after = None, oc_cooldown_active = False,
      oc_window_429_logged = False\<rparr>"

section \<open>Operations\<close>

definition cooldown_seconds :: "oauth_cache \<Rightarrow> pyfloat" where
  "cooldown_seconds c =
     (if oc_backoff_multiplier c \<le> 1 then Fin (of_int (oc_base_interval c))
      else
        let wait = max (of_int (oc_base_interval c) * oc_backoff_multiplier c) MIN_COOLDOWN_SECONDS;
            wait' = (case oc_retry_after c of None \<Rightarrow> Fin wait | Some r \<Rightarrow> float_max (Fin wait) r)
        in float_min wait' (Fin MAX_BACKOFF_SECONDS))"

text \<open>
  \<open>get\<close>: the usage it returns, and the state.  Seconds added to the clock are those of the cooldown, a
  finite number (see \<open>cooldown_finite\<close>).
\<close>

definition get_cached :: "string \<Rightarrow> string \<Rightarrow> rat \<Rightarrow> oauth_cache \<Rightarrow> oauth_usage option \<times> oauth_cache" where
  "get_cached token token_hash now c =
     (if Some token_hash = oc_token_hash c \<and> now - oc_cached_at c < CACHE_TTL_SECONDS then (oc_usage c, c)
      else
        let c' =
          (if Some token_hash \<noteq> oc_token_hash c \<or> oc_fetch_scheduled_at c < now
           then c\<lparr>oc_token_hash := Some token_hash, oc_current_token := Some token,
                  oc_fetch_scheduled_at := now + rat_of (cooldown_seconds c), oc_thread := True\<rparr>
           else c)
        in (oc_usage c', c'))"

definition get_usage :: "oauth_cache \<Rightarrow> oauth_usage option" where
  "get_usage c = oc_usage c"

definition record_success :: "oauth_usage \<Rightarrow> string option \<Rightarrow> rat \<Rightarrow> oauth_cache \<Rightarrow> oauth_cache" where
  "record_success u token_hash now c =
     (if token_hash \<noteq> oc_token_hash c then c
      else c\<lparr>oc_usage := Some u, oc_cached_at := now, oc_backoff_multiplier := 1, oc_retry_after := None,
             oc_cooldown_active := False, oc_window_429_logged := False\<rparr>)"

definition record_failure :: "oauth_cache \<Rightarrow> oauth_cache" where
  "record_failure c =
     c\<lparr>oc_usage := map_option (us_stale_update (\<lambda>_. True)) (oc_usage c),
       oc_backoff_multiplier :=
         min (oc_backoff_multiplier c * 2) (MAX_BACKOFF_SECONDS / of_int (oc_base_interval c)),
       oc_cooldown_active := True\<rparr>"

definition note_error_response ::
  "(string \<Rightarrow> pyfloat option) \<Rightarrow> int \<Rightarrow> string option \<Rightarrow> oauth_cache \<Rightarrow> oauth_cache" where
  "note_error_response parse status header c =
     c\<lparr>oc_retry_after :=
         (case header of Some (h # hs) \<Rightarrow> if status = 429 then parse (h # hs) else None | _ \<Rightarrow> None),
       oc_window_429_logged := (status = 429 \<or> oc_window_429_logged c)\<rparr>"

section \<open>One answer\<close>

text \<open>
  \<open>float(x)\<close> and \<open>int(x)\<close> of a JSON value; None is the \<open>TypeError\<close> or \<open>ValueError\<close> that is caught.  A
  text that parses to an infinity or NaN is not a rational; the parser of texts is an argument.
\<close>

definition number_of :: "(string \<Rightarrow> rat option) \<Rightarrow> json \<Rightarrow> rat option" where
  "number_of parse j =
     (case j of JInt n \<Rightarrow> Some (of_int n) | JFloat q \<Rightarrow> Some q | JBool b \<Rightarrow> Some (if b then 1 else 0)
      | JStr s \<Rightarrow> parse s | _ \<Rightarrow> None)"

definition integer_of :: "(string \<Rightarrow> int option) \<Rightarrow> json \<Rightarrow> int option" where
  "integer_of parse j =
     (case j of JInt n \<Rightarrow> Some n | JFloat q \<Rightarrow> Some (if q < 0 then - \<lfloor>- q\<rfloor> else \<lfloor>q\<rfloor>)
      | JBool b \<Rightarrow> Some (if b then 1 else 0) | JStr s \<Rightarrow> parse s | _ \<Rightarrow> None)"

definition credit_scale :: "(string \<Rightarrow> int option) \<Rightarrow> jdict \<Rightarrow> rat" where
  "credit_scale parse extra =
     (case integer_of parse (if truthy (jget ''decimal_places'' extra) then jget ''decimal_places'' extra else JInt 2) of
        None \<Rightarrow> 100
      | Some dp \<Rightarrow> (if 0 \<le> dp then 10 ^ nat dp else 1 / 10 ^ nat (- dp)))"

definition usage_of_extra ::
  "(string \<Rightarrow> rat option) \<Rightarrow> (string \<Rightarrow> int option) \<Rightarrow> zone \<Rightarrow> moment \<Rightarrow> jdict \<Rightarrow> oauth_usage" where
  "usage_of_extra num intg tz now extra =
     (let scale = credit_scale intg extra;
          used = number_of num (jget ''used_credits'' extra);
          limit = number_of num (jget ''monthly_limit'' extra);
          utilization = number_of num (jget ''utilization'' extra);
          readable = (limit \<noteq> None \<and> used \<noteq> None \<and> utilization \<noteq> None);
          capped = (jget ''spend_limit_reached'' extra = JBool True \<or>
                    (readable \<and> 100 \<le> the utilization));
          valid = (readable \<and> jget ''is_enabled'' extra = JBool True \<and> 0 < the limit \<and> 0 \<le> the used \<and>
                   0 \<le> the utilization);
          (pct, count) = workday_elapsed_pct now tz;
          (period_start, period_end) = period_bounds now
      in \<lparr>us_burn_pct = (if valid then utilization else None),
          us_used_usd = map_option (\<lambda>q. q / scale) used,
          us_total_usd = map_option (\<lambda>q. q / scale) limit,
          us_month_elapsed_pct = calendar_elapsed_pct now,
          us_monthly_blocked = capped,
          us_eligible = (valid \<and> \<not> capped),
          us_age = None,
          us_stale = False,
          us_workday_elapsed_pct = pct,
          us_calendar_elapsed_pct = calendar_elapsed_pct now,
          us_period_start = period_start,
          us_period_end = period_end,
          us_workday_count = count\<rparr>)"

text \<open>The answer's \<open>extra_usage\<close>; None is the \<open>AttributeError\<close> of a value that is no object.\<close>

definition extra_usage :: "json \<Rightarrow> jdict option" where
  "extra_usage data =
     Option.bind (as_obj data)
       (\<lambda>d. if truthy (jget ''extra_usage'' d) then as_obj (jget ''extra_usage'' d) else Some [])"

section \<open>Polling\<close>

text \<open>What a poll meets: no response, an answer that is no JSON, a JSON answer, or an error status.\<close>

datatype poll = Unreachable | Garbled | Answer json | Status int "string option"

record poll_env =
  pe_num :: "string \<Rightarrow> rat option"
  pe_int :: "string \<Rightarrow> int option"
  pe_float :: "string \<Rightarrow> pyfloat option"
  pe_zone :: zone

text \<open>\<open>_fetch_usage\<close>: the usage, or None when it raises.\<close>

definition fetch_usage :: "poll_env \<Rightarrow> moment \<Rightarrow> poll \<Rightarrow> oauth_cache \<Rightarrow> oauth_usage option \<times> oauth_cache" where
  "fetch_usage pe now p c =
     (let c' = c\<lparr>oc_retry_after := None\<rparr> in
      case p of
        Status st header \<Rightarrow> (None, note_error_response (pe_float pe) st header c')
      | Answer j \<Rightarrow> (map_option (usage_of_extra (pe_num pe) (pe_int pe) (pe_zone pe) now) (extra_usage j), c')
      | _ \<Rightarrow> (None, c'))"

text \<open>
  One turn of \<open>_background_fetch_loop\<close> after its wait.  The token is the one read at the top of the turn;
  callers of \<open>get\<close> may have replaced it meanwhile.
\<close>

definition poll_turn ::
  "poll_env \<Rightarrow> moment \<Rightarrow> rat \<Rightarrow> string option \<Rightarrow> poll \<Rightarrow> oauth_cache \<Rightarrow> oauth_cache" where
  "poll_turn pe now clock token_hash p c =
     (case fetch_usage pe now p c of
        (Some u, c') \<Rightarrow> record_success (u\<lparr>us_age := Some 0, us_stale := False\<rparr>) token_hash clock c'
      | (None, c') \<Rightarrow> record_failure c')"

text \<open>The events of the cache, and the states they reach.\<close>

datatype cache_event =
    Get string string rat | Turn moment rat "string option" poll

definition cache_step :: "poll_env \<Rightarrow> cache_event \<Rightarrow> oauth_cache \<Rightarrow> oauth_cache" where
  "cache_step pe e c =
     (case e of
        Get token h now \<Rightarrow> snd (get_cached token h now c)
      | Turn now clock h p \<Rightarrow> poll_turn pe now clock h p c)"

inductive cache_reach :: "poll_env \<Rightarrow> int option \<Rightarrow> oauth_cache \<Rightarrow> bool" for pe poll where
  start: "cache_reach pe poll (new_cache poll)"
| step: "cache_reach pe poll c \<Longrightarrow> cache_reach pe poll (cache_step pe e c)"

end
