(* ===== verification/Oauth_Props.thy ===== *)
theory Oauth_Props
  imports Oauth_Usage
begin

text \<open>
  What the usage cache guarantees: its waits are bounded and back off, a success restores the cadence, an
  answer to a replaced token is dropped, and the derived numbers are within their ranges.
\<close>

section \<open>Waits\<close>

lemma float_le_Fin [simp]: "float_le (Fin a) (Fin b) \<longleftrightarrow> a \<le> b"
  by (auto simp: float_le_def)

text \<open>What every reachable cache with an interval in the documented range satisfies.\<close>

definition paced :: "oauth_cache \<Rightarrow> bool" where
  "paced c \<longleftrightarrow>
     1 \<le> oc_base_interval c \<and> oc_base_interval c \<le> 300 \<and> 1 \<le> oc_backoff_multiplier c \<and>
     of_int (oc_base_interval c) * oc_backoff_multiplier c \<le> 300"

lemma base_interval_kept [simp]:
  "oc_base_interval (cache_step pe e c) = oc_base_interval c"
  by (cases e)
    (auto simp: cache_step_def get_cached_def poll_turn_def fetch_usage_def record_success_def record_failure_def
      note_error_response_def Let_def split: poll.splits option.splits prod.splits)

lemma fetch_keeps [simp]:
  "oc_base_interval (snd (fetch_usage pe now p c)) = oc_base_interval c"
  "oc_backoff_multiplier (snd (fetch_usage pe now p c)) = oc_backoff_multiplier c"
  "oc_token_hash (snd (fetch_usage pe now p c)) = oc_token_hash c"
  "oc_usage (snd (fetch_usage pe now p c)) = oc_usage c"
  by (simp_all add: fetch_usage_def note_error_response_def Let_def split: poll.splits)

lemma failure_multiplier:
  assumes "paced c"
  shows "1 \<le> oc_backoff_multiplier (record_failure c) \<and>
    of_int (oc_base_interval c) * oc_backoff_multiplier (record_failure c) =
      min (2 * (of_int (oc_base_interval c) * oc_backoff_multiplier c)) 300"
proof -
  let ?b = "of_int (oc_base_interval c) :: rat" and ?m = "oc_backoff_multiplier c"
  have b: "1 \<le> ?b" "?b \<le> 300" "1 \<le> ?m" using assms by (simp_all add: paced_def)
  have "?b * min (?m * 2) (300 / ?b) = min (?b * (?m * 2)) (?b * (300 / ?b))"
    using b by (simp add: min_mult_distrib_left)
  moreover have "1 \<le> 300 / ?b" using b by simp
  ultimately show ?thesis
    using b by (simp add: record_failure_def MAX_BACKOFF_SECONDS_def ac_simps)
qed

lemma paced_step: "paced c \<Longrightarrow> paced (cache_step pe e c)"
proof (cases e)
  case (Turn now clock h p)
  assume c: "paced c"
  obtain r c' where f: "fetch_usage pe now p c = (r, c')" by force
  have c': "paced c'" using c fetch_keeps [of pe now p c] by (simp add: f paced_def)
  show ?thesis
  proof (cases r)
    case None
    with failure_multiplier [OF c'] c' show ?thesis
      by (simp add: Turn cache_step_def poll_turn_def f paced_def record_failure_def)
  next
    case (Some u)
    with c' show ?thesis
      by (auto simp: Turn cache_step_def poll_turn_def f paced_def record_success_def)
  qed
qed (auto simp: paced_def cache_step_def get_cached_def Let_def)

lemma reach_paced:
  assumes "cache_reach pe poll c" "poll = None \<or> (\<exists>n. poll = Some n \<and> 1 \<le> n \<and> n \<le> 300)"
  shows "paced c"
  using assms(1)
proof (induction rule: cache_reach.induct)
  case start
  with assms(2) show ?case by (auto simp: paced_def new_cache_def FETCH_INTERVAL_SECONDS_def)
qed (rule paced_step)

lemma clipped_wait:
  assumes "w \<le> 300"
  shows "\<exists>q. float_min (case r of None \<Rightarrow> Fin w | Some r \<Rightarrow> float_max (Fin w) r) (Fin 300) = Fin q \<and>
    w \<le> q \<and> q \<le> 300 \<and> (r = None \<longrightarrow> q = w)"
proof (cases r)
  case None
  with assms show ?thesis by (simp add: float_min_def)
next
  case (Some x)
  with assms show ?thesis by (cases x) (auto simp: float_min_def float_max_def)
qed

definition backoff :: "oauth_cache \<Rightarrow> rat" where
  "backoff c =
     (if oc_backoff_multiplier c \<le> 1 then of_int (oc_base_interval c)
      else max (of_int (oc_base_interval c) * oc_backoff_multiplier c) 5)"

lemma cooldown_backoff:
  assumes "paced c"
  shows "\<exists>q. cooldown_seconds c = Fin q \<and> backoff c \<le> q \<and> q \<le> 300 \<and>
    (oc_retry_after c = None \<longrightarrow> q = backoff c)"
proof -
  have b: "backoff c \<le> 300" using assms by (auto simp: backoff_def paced_def)
  show ?thesis
  proof (cases "oc_backoff_multiplier c \<le> 1")
    case True
    with b show ?thesis by (simp add: cooldown_seconds_def backoff_def)
  next
    case False
    let ?w = "max (of_int (oc_base_interval c) * oc_backoff_multiplier c) 5"
    have w: "backoff c = ?w" "?w \<le> 300" using False b by (simp_all add: backoff_def)
    from clipped_wait [OF w(2), of "oc_retry_after c"] False show ?thesis
      by (simp add: cooldown_seconds_def w(1) Let_def MIN_COOLDOWN_SECONDS_def MAX_BACKOFF_SECONDS_def)
  qed
qed


section \<open>Outages\<close>

definition failing :: "poll \<Rightarrow> bool" where
  "failing p \<longleftrightarrow> (case p of Answer j \<Rightarrow> extra_usage j = None | _ \<Rightarrow> True)"

lemma failing_turn:
  "failing p \<Longrightarrow> poll_turn pe now clock h p c = record_failure (snd (fetch_usage pe now p c))"
  by (auto simp: failing_def poll_turn_def fetch_usage_def Let_def split: poll.splits)

definition outage :: "poll_env \<Rightarrow> (moment \<times> rat \<times> string option \<times> poll) list \<Rightarrow> oauth_cache \<Rightarrow> oauth_cache" where
  "outage pe ts c = fold (\<lambda>(now, clock, h, p). poll_turn pe now clock h p) ts c"

lemma outage_backoff:
  assumes "paced c" "oc_backoff_multiplier c = 1" "\<forall>(now, clock, h, p) \<in> set ts. failing p"
  shows "paced (outage pe ts c) \<and> oc_base_interval (outage pe ts c) = oc_base_interval c \<and>
    of_int (oc_base_interval c) * oc_backoff_multiplier (outage pe ts c) =
      min (of_int (oc_base_interval c) * 2 ^ length ts) (300 :: rat)"
  using assms(3)
proof (induction ts rule: rev_induct)
  case Nil
  with assms(1,2) show ?case by (simp add: outage_def paced_def)
next
  case (snoc t ts)
  obtain now clock h p where t: "t = (now, clock, h, p)" by (cases t)
  define d where "d = outage pe ts c"
  define e where "e = snd (fetch_usage pe now p d)"
  have d: "paced d" "oc_base_interval d = oc_base_interval c"
    "of_int (oc_base_interval c) * oc_backoff_multiplier d = min (of_int (oc_base_interval c) * 2 ^ length ts) (300 :: rat)"
    using snoc unfolding d_def by auto
  have e: "paced e" "oc_base_interval e = oc_base_interval c" "oc_backoff_multiplier e = oc_backoff_multiplier d"
    using d fetch_keeps [of pe now p d] by (simp_all add: e_def paced_def)
  have step: "outage pe (ts @ [t]) c = record_failure e"
    using snoc.prems by (simp add: outage_def t failing_turn e_def d_def)
  have "outage pe (ts @ [t]) c = cache_step pe (Turn now clock h p) d"
    using snoc.prems by (simp add: outage_def t d_def cache_step_def)
  with paced_step [OF d(1)] have "paced (outage pe (ts @ [t]) c)" by simp
  moreover have "of_int (oc_base_interval c) * oc_backoff_multiplier (record_failure e) =
      min (of_int (oc_base_interval c) * 2 ^ length (ts @ [t])) (300 :: rat)"
    using failure_multiplier [OF e(1)] e(2,3) d(3) by (simp add: min_def)
  ultimately show ?case by (simp add: step e(2)) (simp add: record_failure_def e(2))
qed


text \<open>An interval below zero, which nothing refuses, is never waited for.\<close>

lemma negative_interval_never_waits:
  assumes "cache_reach pe (Some n) c" "n < 0"
  shows "cooldown_seconds c = Fin (of_int n)"
proof -
  have "oc_base_interval c = n \<and> oc_backoff_multiplier c \<le> 1"
    using assms(1)
  proof (induction rule: cache_reach.induct)
    case start
    with assms(2) show ?case by (simp add: new_cache_def)
  next
    case (step c e)
    have "300 / of_int n \<le> (1 :: rat)" using assms(2) by (simp add: divide_le_eq)
    then have f: "oc_base_interval d = n \<Longrightarrow> oc_backoff_multiplier (record_failure d) \<le> 1" for d
      by (simp add: record_failure_def MAX_BACKOFF_SECONDS_def min_le_iff_disj)
    show ?case
    proof (cases e)
      case (Get token h now)
      with step show ?thesis by (simp add: cache_step_def get_cached_def Let_def)
    next
      case (Turn now clock h p)
      obtain r c' where c': "fetch_usage pe now p c = (r, c')" by force
      with step fetch_keeps [of pe now p c] have "oc_base_interval c' = n" "oc_backoff_multiplier c' \<le> 1"
        by simp_all
      with f [of c'] step show ?thesis
        by (cases r) (auto simp: Turn cache_step_def poll_turn_def c' record_success_def record_failure_def)
    qed
  qed
  then show ?thesis by (simp add: cooldown_seconds_def)
qed

section \<open>Tokens\<close>

text \<open>An answer to a token that was replaced meanwhile leaves the cached usage alone.\<close>

lemma late_answer_dropped:
  assumes "h \<noteq> oc_token_hash c"
  shows "oc_usage (poll_turn pe now clock h (Answer j) c) \<in>
    {oc_usage c, map_option (us_stale_update (\<lambda>_. True)) (oc_usage c)}"
  using assms
  by (auto simp: poll_turn_def fetch_usage_def record_success_def record_failure_def split: option.splits)

text \<open>After a token has replaced another the fresh usage of the other is handed out, and not as stale.\<close>

lemma usage_of_replaced_token:
  assumes "oc_token_hash c = Some a" "a \<noteq> b" "oc_usage c = Some u" "now - oc_cached_at c < 60"
  shows "fst (get_cached tb b now c) = Some u \<and>
    fst (get_cached tb b now (snd (get_cached tb b now c))) = Some u"
  using assms by (simp add: get_cached_def Let_def CACHE_TTL_SECONDS_def)

section \<open>Derived numbers\<close>

text \<open>A usage that is eligible has a burn rate from 0 to below 100 and is not blocked; a burn rate is only
  shown for an enabled plan with a positive limit and no negative amounts.\<close>

theorem usage_numbers:
  assumes "u = usage_of_extra num intg tz now extra"
  shows "(us_eligible u \<longrightarrow> \<not> us_monthly_blocked u \<and> (\<exists>q. us_burn_pct u = Some q \<and> 0 \<le> q \<and> q < 100)) \<and>
    (us_burn_pct u \<noteq> None \<longrightarrow> jget ''is_enabled'' extra = JBool True \<and>
       (\<exists>l s. us_total_usd u = Some l \<and> 0 < l \<and> us_used_usd u = Some s \<and> 0 \<le> s)) \<and>
    us_month_elapsed_pct u = us_calendar_elapsed_pct u"
proof -
  have scale: "0 < credit_scale intg extra" by (simp add: credit_scale_def split: option.split)
  show ?thesis
    using scale unfolding assms usage_of_extra_def Let_def
    by (auto simp: split_beta zero_less_divide_iff zero_le_divide_iff)
qed

section \<open>Samples\<close>

definition sample_poll_env :: poll_env where
  "sample_poll_env = \<lparr>pe_num = (\<lambda>_. None), pe_int = (\<lambda>_. None), pe_float = (\<lambda>_. Some (Fin 7)), pe_zone = sample_zone\<rparr>"

definition sample_outage :: "(moment \<times> rat \<times> string option \<times> poll) list" where
  "sample_outage = [(sample_now, 0, None, Unreachable), (sample_now, 0, None, Status 429 (Some ''7''))]"

definition sample_extra :: jdict where
  "sample_extra =
     [(''is_enabled'', JBool True), (''monthly_limit'', JInt 5000), (''used_credits'', JInt 1250),
      (''utilization'', JFloat 25)]"



theorem usage_numbers_witness:
  "us_burn_pct (usage_of_extra (\<lambda>_. None) (\<lambda>_. None) sample_zone sample_now sample_extra) = Some 25 \<and>
    \<not> us_monthly_blocked (usage_of_extra (\<lambda>_. None) (\<lambda>_. None) sample_zone sample_now sample_extra)"
proof -
  let ?u = "usage_of_extra (\<lambda>_. None) (\<lambda>_. None) sample_zone sample_now sample_extra"
  have "us_eligible ?u \<and> us_burn_pct ?u = Some 25"
    by (simp add: usage_of_extra_def Let_def split_beta sample_extra_def number_of_def)
  with usage_numbers [OF refl, of "\<lambda>_. None" "\<lambda>_. None" sample_zone sample_now sample_extra]
  show ?thesis by blast
qed

section \<open>Findings\<close>

text \<open>The check of a configuration accepts a negative poll interval, with which the thread polls without
  any pause.\<close>

lemma negative_interval_accepted:
  "validate_config split (default_config\<lparr>cfg_poll_interval := - 1\<rparr>) = Inr [] \<and>
    (\<forall>c. cache_reach pe (Some (cfg_poll_interval (default_config\<lparr>cfg_poll_interval := - 1\<rparr>))) c \<longrightarrow>
       cooldown_seconds c = Fin (- 1))"
proof -
  have "validate_config split (default_config\<lparr>cfg_poll_interval := - 1\<rparr>) = Inr []"
    by (simp add: validate_config_def enum_errors_def bound_errors_def weight_errors_def default_config_def
        report_def float_le_def DEFAULT_UPSTREAM_BASE_URL_def py_eval)
  moreover have "cooldown_seconds c = Fin (- 1)" if "cache_reach pe (Some (- 1)) c" for c
    using negative_interval_never_waits [OF that] by simp
  ultimately show ?thesis by simp
qed

end
