(* ===== verification/Field_Metadata.thy ===== *)
theory Field_Metadata
  imports Admin_Props
begin

text \<open>
  \<open>FIELD_METADATA\<close> of \<^verbatim>\<open>config.py\<close>, without its descriptions, and the view \<open>_get_config\<close> of
  \<^verbatim>\<open>admin.py\<close> that hands it to the editor.  \<open>validate_config\<close> keeps what the metadata promise, but for
  the poll interval.
\<close>

section \<open>The table\<close>

record field_meta =
  fm_type :: string
  fm_enum :: "string list option"
  fm_min :: "rat option"
  fm_max :: "rat option"
  fm_group :: string

definition meta :: "string \<Rightarrow> string \<Rightarrow> field_meta" where
  "meta ty grp = \<lparr>fm_type = ty, fm_enum = None, fm_min = None, fm_max = None, fm_group = grp\<rparr>"

definition enum_meta :: "string list \<Rightarrow> string \<Rightarrow> field_meta" where
  "enum_meta es grp = (meta ''str'' grp)\<lparr>fm_enum := Some es\<rparr>"

definition bounded_meta :: "string \<Rightarrow> rat option \<Rightarrow> rat option \<Rightarrow> string \<Rightarrow> field_meta" where
  "bounded_meta ty lo hi grp = (meta ty grp)\<lparr>fm_min := lo, fm_max := hi\<rparr>"

primrec field_meta_of :: "field \<Rightarrow> field_meta" where
  "field_meta_of Log_level = enum_meta [''DEBUG'', ''INFO'', ''WARNING'', ''ERROR''] ''Logging''"
| "field_meta_of Log_file = meta ''str'' ''Logging''"
| "field_meta_of Upstream_base_url = meta ''str'' ''Upstream''"
| "field_meta_of Routing = meta ''bool'' ''Model Routing''"
| "field_meta_of Mode = enum_meta [''classifier'', ''rules''] ''Model Routing''"
| "field_meta_of Classifier_model = meta ''str'' ''Model Routing''"
| "field_meta_of Classification = meta ''str'' ''Model Routing''"
| "field_meta_of Aliases = meta ''str'' ''Model Routing''"
| "field_meta_of Long_target = meta ''str'' ''Model Routing''"
| "field_meta_of Long_context_threshold = bounded_meta ''int'' (Some 0) None ''Model Routing''"
| "field_meta_of Trivial_threshold = meta ''float'' ''Model Routing''"
| "field_meta_of Standard_threshold = meta ''float'' ''Model Routing''"
| "field_meta_of System_weight = bounded_meta ''float'' (Some 0) (Some 1) ''Model Routing''"
| "field_meta_of User_weight = bounded_meta ''float'' (Some 0) (Some 1) ''Model Routing''"
| "field_meta_of Max_retries = bounded_meta ''int'' (Some 0) (Some 4) ''Model Routing''"
| "field_meta_of Cache_size = bounded_meta ''int'' (Some 1) None ''Model Routing''"
| "field_meta_of Preview_limit = bounded_meta ''int'' (Some 1) None ''Model Routing''"
| "field_meta_of Confidence_bump = meta ''bool'' ''Model Routing''"
| "field_meta_of Min_confidence = bounded_meta ''float'' (Some 0) (Some 1) ''Model Routing''"
| "field_meta_of Affirmation_inherit = meta ''bool'' ''Model Routing''"
| "field_meta_of Prior_summary_limit = bounded_meta ''int'' (Some 50) (Some 32000) ''Model Routing''"
| "field_meta_of Lock = meta ''str'' ''Model Routing''"
| "field_meta_of Sanitize = enum_meta [''off'', ''warn'', ''strip''] ''Prompt Sanitization''"
| "field_meta_of Strip_attribution = enum_meta [''on'', ''off''] ''Prompt Sanitization''"
| "field_meta_of Caveman_switch = enum_meta [''on'', ''off''] ''Prompt Sanitization''"
| "field_meta_of Caveman_model = meta ''str'' ''Prompt Sanitization''"
| "field_meta_of Db_path = meta ''str'' ''Database''"
| "field_meta_of Retention_days = bounded_meta ''int'' (Some 0) None ''Database''"
| "field_meta_of Host = meta ''str'' ''Server''"
| "field_meta_of Port = meta ''int'' ''Server''"
| "field_meta_of Keepalive = bounded_meta ''float'' (Some 0) None ''Server''"
| "field_meta_of Timezone = meta ''str'' ''OAuth Usage''"
| "field_meta_of Poll_interval = bounded_meta ''int'' (Some 1) (Some 300) ''OAuth Usage''"

text \<open>The order of the editor.\<close>

definition FIELD_ORDER :: "field list" where
  "FIELD_ORDER =
     [Log_level, Log_file, Upstream_base_url, Routing, Mode, Classifier_model, Classification,
      Aliases, Long_target, Long_context_threshold, Trivial_threshold, Standard_threshold,
      System_weight, User_weight, Max_retries, Cache_size, Preview_limit, Confidence_bump,
      Min_confidence, Affirmation_inherit, Prior_summary_limit, Lock, Sanitize, Strip_attribution,
      Caveman_switch, Caveman_model, Db_path, Retention_days, Host, Port, Keepalive, Timezone,
      Poll_interval]"

definition FIELD_METADATA :: "(field \<times> field_meta) list" where
  "FIELD_METADATA = map (\<lambda>f. (f, field_meta_of f)) FIELD_ORDER"

text \<open>The editor's view of one field.\<close>

record field_view =
  fv_restart :: bool
  fv_value :: string
  fv_meta :: field_meta

definition get_config :: "(pyfloat \<Rightarrow> string) \<Rightarrow> admin_state \<Rightarrow> bool \<times> (field \<times> field_view) list" where
  "get_config fl st =
     (cfg_admin_token (running st) \<notin> {None, Some []},
      map (\<lambda>(f, m). (f, \<lparr>fv_restart = restart_required f, fv_value = shown_value fl st f, fv_meta = m\<rparr>))
        FIELD_METADATA)"

section \<open>What the table promises\<close>

definition in_range :: "field_meta \<Rightarrow> pyfloat \<Rightarrow> bool" where
  "in_range m x \<longleftrightarrow>
     (case fm_min m of None \<Rightarrow> True | Some a \<Rightarrow> float_le (Fin a) x) \<and>
     (case fm_max m of None \<Rightarrow> True | Some b \<Rightarrow> float_le x (Fin b))"

definition meets :: "field_meta \<Rightarrow> cfg_value \<Rightarrow> bool" where
  "meets m v \<longleftrightarrow>
     (case v of
        VBool _ \<Rightarrow> fm_type m = ''bool''
      | VInt n \<Rightarrow> fm_type m = ''int'' \<and> in_range m (Fin (of_int n))
      | VFloat x \<Rightarrow> fm_type m = ''float'' \<and> in_range m x
      | VStr s \<Rightarrow> fm_type m = ''str'' \<and> (case fm_enum m of None \<Rightarrow> True | Some es \<Rightarrow> s \<in> set es)
      | _ \<Rightarrow> fm_type m = ''str'')"

text \<open>The check at import time: the table has exactly the editable fields, each once.\<close>

lemma metadata_keys: "set FIELD_ORDER = set (map fst EDITABLE_FIELDS) \<and> distinct FIELD_ORDER"
  by code_simp

lemma not_less_le: "\<not> float_less x y \<Longrightarrow> x \<noteq> Nan \<Longrightarrow> y \<noteq> Nan \<Longrightarrow> float_le y x"
  by (cases x; cases y) (auto simp: float_le_def)

lemma float_le_iff: "float_le (Fin a) (Fin b) \<longleftrightarrow> a \<le> b"
  by (auto simp: float_le_def)

lemma valid_parts:
  assumes "validate_config split c = Inr []"
  shows "enum_errors c = []" "bound_errors c = []" "weight_errors c = []"
  using assms by (auto simp: validate_config_def Let_def split: if_splits option.splits)

text \<open>(C20) A configuration without validation errors meets the type, the choices and the bounds that the table
  gives for each field, except a float that is NaN and the poll interval, whose bounds nothing checks.\<close>

theorem metadata_enforced:
  assumes "validate_config split c = Inr []" "f \<noteq> Poll_interval" "get_field f c \<noteq> VFloat Nan"
  shows "meets (field_meta_of f) (get_field f c)"
proof -
  note parts = valid_parts [OF assms(1)]
  have enums: "cfg_log_level c \<in> set [''DEBUG'', ''INFO'', ''WARNING'', ''ERROR'']" "cfg_mode c \<in> set [''classifier'', ''rules'']"
    "cfg_sanitize c \<in> set [''off'', ''warn'', ''strip'']" "cfg_strip_attribution c \<in> set [''on'', ''off'']"
    "cfg_caveman c \<in> set [''on'', ''off'']"
    using parts(1) by (simp_all only: enum_errors_def report_Nil append_is_Nil_conv list.set not_not)
  have ints: "0 \<le> cfg_retention_days c" "0 \<le> cfg_long_context_threshold c" "50 \<le> cfg_prior_summary_limit c"
    "cfg_prior_summary_limit c \<le> 32000" "0 \<le> cfg_max_retries c" "cfg_max_retries c \<le> 4" "1 \<le> cfg_cache_size c"
    "1 \<le> cfg_preview_limit c"
    using parts(2) by (auto simp only: bound_errors_def report_Nil append_is_Nil_conv not_less de_Morgan_disj)
  have floats: "\<not> float_less (cfg_min_confidence c) (Fin 0)" "\<not> float_less (Fin 1) (cfg_min_confidence c)"
    "\<not> float_less (cfg_keepalive c) (Fin 0)" "\<not> float_less (cfg_system_weight c) (Fin 0)"
    "\<not> float_less (Fin 1) (cfg_system_weight c)" "\<not> float_less (cfg_user_weight c) (Fin 0)"
    "\<not> float_less (Fin 1) (cfg_user_weight c)"
    using parts(2,3) by (auto simp only: bound_errors_def weight_errors_def Let_def report_Nil append_is_Nil_conv)
  note text_fields = meets_def meta_def enum_meta_def
  note number_fields = meets_def in_range_def meta_def bounded_meta_def float_le_iff not_less_le
  show ?thesis
  proof (cases f)
    case Log_level then show ?thesis using enums(1) by (simp only: field_meta_of.simps get_field.simps) (simp add: text_fields)
  next
    case Mode then show ?thesis using enums(2) by (simp only: field_meta_of.simps get_field.simps) (simp add: text_fields)
  next
    case Sanitize then show ?thesis using enums(3) by (simp only: field_meta_of.simps get_field.simps) (simp add: text_fields)
  next
    case Strip_attribution then show ?thesis using enums(4) by (simp only: field_meta_of.simps get_field.simps) (simp add: text_fields)
  next
    case Caveman_switch then show ?thesis using enums(5) by (simp only: field_meta_of.simps get_field.simps) (simp add: text_fields)
  qed (use assms(2,3) ints floats in \<open>simp_all add: number_fields split: option.split\<close>)
qed

lemma metadata_enforced_witness:
  "meets (bounded_meta ''int'' (Some 50) (Some 32000) ''Model Routing'') (VInt 1000)"
proof -
  have "validate_config (\<lambda>_. None) default_config = Inr []"
    by (simp add: validate_config_def enum_errors_def bound_errors_def weight_errors_def report_def default_config_def
        DEFAULT_UPSTREAM_BASE_URL_def float_le_def py_eval)
  moreover have "get_field Prior_summary_limit default_config = VInt 1000" by (simp add: default_config_def)
  ultimately show ?thesis using metadata_enforced [of "\<lambda>_. None" default_config Prior_summary_limit] by simp
qed

end
