(* ===== verification/Request_Db.thy ===== *)
theory Request_Db
  imports Message_Handling "HOL-Library.List_Lexorder" "HOL-Library.Char_ord" "HOL-Library.Product_Lexorder"
begin

text \<open>
  \<^verbatim>\<open>anthrouter/db.py\<close>: the request database at its last schema version, with the triggers that count
  the references of stored prompts.

  A table is a list of its rows in insertion order, NULL is None, a transaction is one step.  Timestamps
  are the texts SQLite writes, compared as texts.  Which thousand old rows a retention chunk deletes is
  SQLite's choice; here they are taken in table order.  The full-text index is an argument, a predicate on
  phrase and row.  Errors of SQLite other than a violated CHECK are not modelled.
\<close>

section \<open>Tables\<close>

text \<open>A row of \<open>requests\<close>: what the caller passed, and the columns computed from it.\<close>

record request_row =
  rr_id :: int
  rr_ts :: string
  rr_args :: db_row
  rr_duration :: int
  rr_error :: "string option"
  rr_cost :: "rat option"
  rr_net_savings :: "rat option"
  rr_cache_savings :: "rat option"
  rr_tier :: "string option"

record stored_prompt =
  sp_type :: string
  sp_content :: string
  sp_refs :: int
  sp_first_seen :: string

record event_row =
  ev_request :: int
  ev_block :: string
  ev_allowlisted :: bool
  ev_preview :: string

record request_db =
  rd_rows :: "request_row list"
  rd_prompts :: "(string \<times> stored_prompt) list"
  rd_events :: "event_row list"
  rd_retention_days :: int
  rd_last_retention :: rat

definition empty_db :: "int \<Rightarrow> request_db" where
  "empty_db days =
     \<lparr>rd_rows = [], rd_prompts = [], rd_events = [], rd_retention_days = days, rd_last_retention = 0\<rparr>"

definition ROW_STATUSES :: "string list" where
  "ROW_STATUSES = [''success'', ''error'', ''rate_limited'', ''reclassified'']"

definition CONTENT_TYPES :: "string list" where
  "CONTENT_TYPES = [''system'', ''system_sanitized'', ''tools'']"

definition RETENTION_INTERVAL_SECS :: rat where "RETENTION_INTERVAL_SECS = 86400"
definition RETENTION_CHUNK :: nat where "RETENTION_CHUNK = 1000"

section \<open>Writes\<close>

definition tier_from_model :: "string \<Rightarrow> string option" where
  "tier_from_model model = (let t = classify_tier_str model in if t = ''other'' then None else Some t)"

text \<open>The hashes a row refers to, each once: the UNION of the triggers.\<close>

definition row_hashes :: "db_row \<Rightarrow> string set" where
  "row_hashes row =
     (let pc = dr_capture row in
      set (List.map_filter id
        [pc_system_sha pc, pc_sanitized_sha pc, pc_caveman_sha pc, pc_opening_sha pc,
         pc_opening_dispatched_sha pc, pc_tools_sha pc]))"

text \<open>\<open>INSERT OR IGNORE INTO prompt_store\<close>: a known hash and a type the CHECK refuses are both skipped.\<close>

definition insert_prompt ::
  "string \<Rightarrow> string \<times> string \<times> string \<Rightarrow> (string \<times> stored_prompt) list \<Rightarrow> (string \<times> stored_prompt) list" where
  "insert_prompt now e ps =
     (case e of (sha, ty, content) \<Rightarrow>
        if map_of ps sha \<noteq> None \<or> ty \<notin> set CONTENT_TYPES then ps
        else ps @ [(sha, \<lparr>sp_type = ty, sp_content = content, sp_refs = 0, sp_first_seen = now\<rparr>)])"

text \<open>The reference-count triggers: plus one at an insert, minus one at a delete.\<close>

definition count_refs :: "int \<Rightarrow> string set \<Rightarrow> (string \<times> stored_prompt) list \<Rightarrow> (string \<times> stored_prompt) list" where
  "count_refs n hs ps = map (\<lambda>(h, p). (h, if h \<in> hs then p\<lparr>sp_refs := sp_refs p + n\<rparr> else p)) ps"

definition insert_event :: "int \<Rightarrow> sanitizer_event \<Rightarrow> event_row list \<Rightarrow> event_row list" where
  "insert_event rid e evs =
     (case e of (block, allowed, preview) \<Rightarrow>
        if \<exists>x \<in> set evs. ev_request x = rid \<and> ev_block x = block then evs
        else evs @ [\<lparr>ev_request = rid, ev_block = block, ev_allowlisted = allowed, ev_preview = preview\<rparr>])"

definition next_id :: "request_row list \<Rightarrow> int" where
  "next_id rows = (if rows = [] then 1 else Max (rr_id ` set rows) + 1)"

text \<open>The computed columns: a request that was refused locally has a known cost of 0 and saves nothing.\<close>

definition row_of_args :: "int \<Rightarrow> string \<Rightarrow> int \<Rightarrow> db_row \<Rightarrow> request_row" where
  "row_of_args rid now duration row =
     (let d = dr_decision row; m = routed_model d; st = dr_stats row; local = dr_status row = ''reclassified'' in
      \<lparr>rr_id = rid, rr_ts = now, rr_args = row, rr_duration = duration,
       rr_error = (if local then None else dr_error row),
       rr_cost = (if local then Some 0 else if st = [] then None else compute_cost m (stats_usage st)),
       rr_net_savings = (if local \<or> \<not> applied d then None else dr_savings row),
       rr_cache_savings = (if local then None else compute_cache_savings m (map_of st ''cache_read_tokens'')),
       rr_tier = tier_from_model m\<rparr>)"

text \<open>The transaction of \<open>record_request\<close>; None is the \<open>IntegrityError\<close> of a status the CHECK refuses.\<close>

definition insert_request :: "string \<Rightarrow> int \<Rightarrow> db_row \<Rightarrow> request_db \<Rightarrow> (int \<times> request_db) option" where
  "insert_request now duration row db =
     (if dr_status row \<notin> set ROW_STATUSES then None
      else
        let rid = next_id (rd_rows db);
            prompts = fold (insert_prompt now) (pc_entries (dr_capture row)) (rd_prompts db)
        in Some (rid, db\<lparr>rd_rows := rd_rows db @ [row_of_args rid now duration row],
                        rd_prompts := count_refs 1 (row_hashes row) prompts,
                        rd_events := fold (insert_event rid) (dr_events row) (rd_events db)\<rparr>))"

section \<open>Retention\<close>

definition old_rows :: "string \<Rightarrow> request_db \<Rightarrow> request_row list" where
  "old_rows cutoff db = take RETENTION_CHUNK (filter (\<lambda>r. rr_ts r < cutoff) (rd_rows db))"

text \<open>One chunk: the rows, by trigger their references, by cascade their events.\<close>

definition delete_rows :: "request_row list \<Rightarrow> request_db \<Rightarrow> request_db" where
  "delete_rows victims db =
     db\<lparr>rd_rows := filter (\<lambda>r. rr_id r \<notin> rr_id ` set victims) (rd_rows db),
        rd_prompts := fold (\<lambda>r. count_refs (- 1) (row_hashes (rr_args r))) victims (rd_prompts db),
        rd_events := filter (\<lambda>e. ev_request e \<notin> rr_id ` set victims) (rd_events db)\<rparr>"

lemma delete_shrinks:
  assumes "old_rows cutoff db \<noteq> []"
  shows "length (rd_rows (delete_rows (old_rows cutoff db) db)) < length (rd_rows db)"
proof -
  obtain r rs where r: "old_rows cutoff db = r # rs" using assms by (cases "old_rows cutoff db") auto
  then have "r \<in> set (old_rows cutoff db)" by simp
  then have "r \<in> set (rd_rows db)" unfolding old_rows_def by (auto dest: in_set_takeD)
  with r show ?thesis by (auto simp: delete_rows_def intro!: length_filter_less [of r])
qed

text \<open>The loop over chunks; the cutoff of each is computed from its own \<open>now\<close>.\<close>

function retention_loop :: "(nat \<Rightarrow> string) \<Rightarrow> nat \<Rightarrow> nat \<Rightarrow> request_db \<Rightarrow> nat \<times> request_db" where
  "retention_loop cutoff k total_deleted db =
     (let victims = old_rows (cutoff k) db; db' = delete_rows victims db; n = total_deleted + length victims in
      if length victims < RETENTION_CHUNK then (n, db') else retention_loop cutoff (Suc k) n db')"
  by pat_completeness auto
termination
proof (relation "measure (\<lambda>(cutoff, k, n, db). length (rd_rows db))", goal_cases)
  case (2 cutoff k n db victims db' n')
  then have "victims \<noteq> []" by (auto simp: RETENTION_CHUNK_def)
  with 2 delete_shrinks [of "cutoff k" db] show ?case by simp
qed simp

declare retention_loop.simps [simp del]

definition prune_prompts :: "request_db \<Rightarrow> request_db" where
  "prune_prompts db = db\<lparr>rd_prompts := filter (\<lambda>(_, p). 0 < sp_refs p) (rd_prompts db)\<rparr>"

definition run_retention :: "(nat \<Rightarrow> string) \<Rightarrow> request_db \<Rightarrow> nat \<times> request_db" where
  "run_retention cutoff db = (case retention_loop cutoff 0 0 db of (n, db') \<Rightarrow> (n, prune_prompts db'))"

definition maybe_run_retention :: "rat \<Rightarrow> (nat \<Rightarrow> string) \<Rightarrow> request_db \<Rightarrow> request_db" where
  "maybe_run_retention now cutoff db =
     (if rd_retention_days db \<le> 0 then db
      else if rd_last_retention db \<noteq> 0 \<and> now - rd_last_retention db < RETENTION_INTERVAL_SECS then db
      else snd (run_retention cutoff (db\<lparr>rd_last_retention := now\<rparr>)))"

definition record_request ::
  "string \<Rightarrow> rat \<Rightarrow> (nat \<Rightarrow> string) \<Rightarrow> int \<Rightarrow> db_row \<Rightarrow> request_db \<Rightarrow> int option \<times> request_db" where
  "record_request now clock cutoff duration row db =
     (case insert_request now duration row db of
        None \<Rightarrow> (None, db)
      | Some (rid, db') \<Rightarrow> (Some rid, maybe_run_retention clock cutoff db'))"

section \<open>Reads\<close>

text \<open>\<open>ORDER BY request_ts DESC, id DESC LIMIT ? OFFSET ?\<close>.\<close>

definition newest_first :: "request_row list \<Rightarrow> request_row list" where
  "newest_first rows = rev (sort_key (\<lambda>r. (rr_ts r, rr_id r)) rows)"

definition sql_page :: "int \<Rightarrow> int \<Rightarrow> 'a list \<Rightarrow> 'a list" where
  "sql_page limit offset xs = (let ys = drop (nat offset) xs in if limit < 0 then ys else take (nat limit) ys)"

definition ascii_lower :: "char \<Rightarrow> char" where
  "ascii_lower c = (if 65 \<le> ord c \<and> ord c \<le> 90 then char_of (ord c + 32) else c)"

text \<open>SQLite's LIKE: ASCII letters match in either case, \<open>%\<close> any text, \<open>_\<close> any character.\<close>

function like :: "string \<Rightarrow> string \<Rightarrow> bool" where
  "like [] s \<longleftrightarrow> s = []"
| "like (c # p) s \<longleftrightarrow>
     (if c = CHR ''%'' then like p s \<or> (case s of [] \<Rightarrow> False | _ # s' \<Rightarrow> like (c # p) s')
      else case s of
             [] \<Rightarrow> False
           | x # s' \<Rightarrow> (c = CHR ''_'' \<or> ascii_lower c = ascii_lower x) \<and> like p s')"
  by pat_completeness auto
termination by (relation "measure (\<lambda>(p, s). length p + length s)") (auto simp: neq_Nil_conv)

definition like_text :: "string \<Rightarrow> string option \<Rightarrow> bool" where
  "like_text p t = (case t of None \<Rightarrow> False | Some s \<Rightarrow> like p s)"

definition matching_rows ::
  "(string \<Rightarrow> request_row \<Rightarrow> bool) \<Rightarrow> string option \<Rightarrow> request_row list \<Rightarrow> request_row list" where
  "matching_rows fts q rows =
     (let term = py_strip (case q of None \<Rightarrow> [] | Some s \<Rightarrow> s) in
      if term = [] then rows
      else if 3 \<le> length term
      then filter (fts ([CHR 0x22] @ concat (map (\<lambda>c. if c = CHR 0x22 then [c, c] else [c]) term) @ [CHR 0x22])) rows
      else filter (\<lambda>r. like_text (''%'' @ term @ ''%'') (pc_user_text (dr_capture (rr_args r))) \<or>
                       like_text (''%'' @ term @ ''%'') (dr_text (rr_args r))) rows)"

definition get_requests ::
  "(string \<Rightarrow> request_row \<Rightarrow> bool) \<Rightarrow> int \<Rightarrow> int \<Rightarrow> string option \<Rightarrow> request_db \<Rightarrow> request_row list" where
  "get_requests fts limit offset q db = sql_page limit offset (newest_first (matching_rows fts q (rd_rows db)))"

record request_detail =
  rt_row :: request_row
  rt_system :: "string option"
  rt_tools :: "string option"
  rt_sanitized :: "string option"
  rt_dispatched :: "string option"
  rt_opening :: "string option"
  rt_opening_dispatched :: "string option"

definition content_of :: "request_db \<Rightarrow> string option \<Rightarrow> string option" where
  "content_of db h = Option.bind h (\<lambda>k. map_option sp_content (map_of (rd_prompts db) k))"

definition get_request :: "int \<Rightarrow> request_db \<Rightarrow> request_detail option" where
  "get_request rid db =
     map_option
       (\<lambda>r. let pc = dr_capture (rr_args r); sanitized = content_of db (pc_sanitized_sha pc) in
          \<lparr>rt_row = r, rt_system = content_of db (pc_system_sha pc), rt_tools = content_of db (pc_tools_sha pc),
           rt_sanitized = sanitized,
           rt_dispatched = (case content_of db (pc_caveman_sha pc) of Some c \<Rightarrow> Some c | None \<Rightarrow> sanitized),
           rt_opening = content_of db (pc_opening_sha pc),
           rt_opening_dispatched = content_of db (pc_opening_dispatched_sha pc)\<rparr>)
       (find (\<lambda>r. rr_id r = rid) (rd_rows db))"

definition get_sanitizer_events :: "int \<Rightarrow> request_db \<Rightarrow> event_row list" where
  "get_sanitizer_events rid db = filter (\<lambda>e. ev_request e = rid) (rd_events db)"

definition get_prompt :: "string \<Rightarrow> request_db \<Rightarrow> stored_prompt option" where
  "get_prompt h db = map_of (rd_prompts db) h"

text \<open>The reason code is never NULL, so every row is a routing decision.\<close>

definition get_routing_decisions :: "int \<Rightarrow> int \<Rightarrow> request_db \<Rightarrow> request_row list" where
  "get_routing_decisions limit offset db = sql_page limit offset (newest_first (rd_rows db))"

text \<open>SUM is NULL without a value, also the SUM of a CASE without a row.\<close>

definition sql_sum :: "'a :: comm_monoid_add option list \<Rightarrow> 'a option" where
  "sql_sum xs = (case List.map_filter id xs of [] \<Rightarrow> None | ys \<Rightarrow> Some (sum_list ys))"

definition sql_count_if :: "('a \<Rightarrow> bool) \<Rightarrow> 'a list \<Rightarrow> int option" where
  "sql_count_if P rows = (if rows = [] then None else Some (int (length (filter P rows))))"

record routing_totals =
  to_all :: int
  to_applied :: "int option"
  to_trivial :: "int option"
  to_standard :: "int option"
  to_deep :: "int option"
  to_net_savings :: "rat option"
  to_overhead :: "rat option"

definition get_routing_summary :: "request_db \<Rightarrow> routing_totals" where
  "get_routing_summary db =
     (let rows = filter (\<lambda>r. dr_status (rr_args r) \<noteq> ''reclassified'') (rd_rows db);
          labelled = (\<lambda>l. sql_count_if (\<lambda>r. classification (dr_decision (rr_args r)) = Some l) rows)
      in \<lparr>to_all = int (length rows),
          to_applied = sql_count_if (\<lambda>r. applied (dr_decision (rr_args r))) rows,
          to_trivial = labelled Trivial, to_standard = labelled Standard, to_deep = labelled Deep,
          to_net_savings = sql_sum (map rr_net_savings rows),
          to_overhead = sql_sum (map (\<lambda>r. dr_overhead (rr_args r)) rows)\<rparr>)"

definition get_latest_ratelimit :: "request_db \<Rightarrow> (string \<times> jdict) option" where
  "get_latest_ratelimit db =
     (case filter (\<lambda>r. \<exists>k \<in> {''requests_remaining'', ''tokens_remaining'', ''reset_at''}.
              jget k (dr_ratelimit (rr_args r)) \<noteq> JNull) (newest_first (rd_rows db)) of
        [] \<Rightarrow> None
      | r # _ \<Rightarrow> Some (rr_ts r, dr_ratelimit (rr_args r)))"

record db_stats =
  ds_requests :: int
  ds_errors :: "int option"
  ds_rate_limited :: "int option"
  ds_sessions :: int
  ds_input :: "int option"
  ds_output :: "int option"
  ds_cache_read :: "int option"
  ds_cache_creation :: "int option"
  ds_cost :: "rat option"
  ds_cache_savings :: "rat option"
  ds_first_ts :: "string option"
  ds_last_ts :: "string option"

definition get_stats :: "request_db \<Rightarrow> db_stats" where
  "get_stats db =
     (let rows = rd_rows db;
          counter = (\<lambda>k. sql_sum (map (\<lambda>r. map_of (dr_stats (rr_args r)) k) rows));
          status = (\<lambda>s. sql_count_if (\<lambda>r. dr_status (rr_args r) = s) rows)
      in \<lparr>ds_requests = int (length rows), ds_errors = status ''error'', ds_rate_limited = status ''rate_limited'',
          ds_sessions = int (length (remdups (map (\<lambda>r. dr_session (rr_args r)) rows))),
          ds_input = counter ''input_tokens'', ds_output = counter ''output_tokens'',
          ds_cache_read = counter ''cache_read_tokens'', ds_cache_creation = counter ''cache_creation_tokens'',
          ds_cost = sql_sum (map rr_cost rows), ds_cache_savings = sql_sum (map rr_cache_savings rows),
          ds_first_ts = (if rows = [] then None else Some (Min (rr_ts ` set rows))),
          ds_last_ts = (if rows = [] then None else Some (Max (rr_ts ` set rows)))\<rparr>)"

end
