(* ===== verification/Request_Db_Props.thy ===== *)
theory Request_Db_Props
  imports Request_Db
begin

text \<open>
  What the database guarantees: the reference counts are exact and retention never drops a prompt that a
  remaining row shows; pages cover every row once; a short search finds substrings.
\<close>

section \<open>The invariant\<close>

definition references :: "string \<Rightarrow> request_row list \<Rightarrow> int" where
  "references h rows = int (length (filter (\<lambda>r. h \<in> row_hashes (rr_args r)) rows))"

definition db_ok :: "request_db \<Rightarrow> bool" where
  "db_ok db \<longleftrightarrow>
     distinct (map rr_id (rd_rows db)) \<and> distinct (map fst (rd_prompts db)) \<and>
     (\<forall>(h, p) \<in> set (rd_prompts db). sp_refs p = references h (rd_rows db)) \<and>
     (\<forall>r \<in> set (rd_rows db). row_hashes (rr_args r) \<subseteq> fst ` set (rd_prompts db)) \<and>
     distinct (map (\<lambda>e. (ev_request e, ev_block e)) (rd_events db)) \<and>
     (\<forall>e \<in> set (rd_events db). ev_request e \<in> rr_id ` set (rd_rows db))"

text \<open>A row whose hashes all come with their content, of a type the table takes.\<close>

definition row_captured :: "db_row \<Rightarrow> bool" where
  "row_captured row \<longleftrightarrow>
     (\<forall>h \<in> row_hashes row. \<exists>ty c. (h, ty, c) \<in> set (pc_entries (dr_capture row))) \<and>
     (\<forall>(h, ty, c) \<in> set (pc_entries (dr_capture row)). ty \<in> set CONTENT_TYPES)"

lemma row_hashes_iff:
  "h \<in> row_hashes row \<longleftrightarrow>
     Some h \<in> {pc_system_sha (dr_capture row), pc_sanitized_sha (dr_capture row), pc_caveman_sha (dr_capture row),
       pc_opening_sha (dr_capture row), pc_opening_dispatched_sha (dr_capture row), pc_tools_sha (dr_capture row)}"
proof -
  have mf: "h \<in> set (List.map_filter id xs) \<longleftrightarrow> Some h \<in> set xs" for xs
    by (force simp: List.map_filter_def)
  show ?thesis unfolding row_hashes_def Let_def mf by simp
qed

lemma references_simps [simp]:
  "references h [] = 0"
  "references h (r # rows) = (if h \<in> row_hashes (rr_args r) then 1 else 0) + references h rows"
  "references h (rows @ rows') = references h rows + references h rows'"
  by (simp_all add: references_def)

lemma references_none: "\<forall>r \<in> set rows. h \<notin> row_hashes (rr_args r) \<Longrightarrow> references h rows = 0"
  by (simp add: references_def filter_empty_conv)

lemma references_pos: "0 < references h rows \<longleftrightarrow> (\<exists>r \<in> set rows. h \<in> row_hashes (rr_args r))"
  by (induction rows) (auto simp: add_pos_nonneg references_def)

section \<open>Inserting\<close>

lemma row_of_args_simps [simp]:
  "rr_id (row_of_args rid now duration row) = rid" "rr_args (row_of_args rid now duration row) = row"
  by (simp_all add: row_of_args_def Let_def)

lemma count_refs_keys [simp]: "map fst (count_refs n hs ps) = map fst ps"
  by (induction ps) (auto simp: count_refs_def)

lemma count_refs_dom [simp]: "fst ` set (count_refs n hs ps) = fst ` set ps"
  by (metis count_refs_keys list.set_map)

lemma insert_prompts_keys:
  "distinct (map fst ps) \<Longrightarrow> distinct (map fst (fold (insert_prompt now) es ps))"
  by (induction es arbitrary: ps) (auto simp: insert_prompt_def map_of_eq_None_iff split: prod.splits)

lemma insert_prompts_old: "x \<in> set ps \<Longrightarrow> x \<in> set (fold (insert_prompt now) es ps)"
  by (induction es arbitrary: ps) (auto simp: insert_prompt_def split: prod.splits)

lemma insert_prompts_new:
  "(h, p) \<in> set (fold (insert_prompt now) es ps) \<Longrightarrow> (h, p) \<in> set ps \<or> sp_refs p = 0 \<and> h \<notin> fst ` set ps"
proof (induction es arbitrary: ps)
  case (Cons e es)
  obtain sha ty c where e: "e = (sha, ty, c)" by (cases e)
  from Cons.IH [of "insert_prompt now e ps"] Cons.prems show ?case
    by (auto simp: e insert_prompt_def map_of_eq_None_iff split: if_splits)
qed simp

lemma insert_prompts_covered:
  assumes "(h, ty, c) \<in> set es" "\<forall>(h, ty, c) \<in> set es. ty \<in> set CONTENT_TYPES"
  shows "h \<in> fst ` set (fold (insert_prompt now) es ps)"
  using assms
proof (induction es arbitrary: ps)
  case (Cons e es)
  show ?case
  proof (cases "e = (h, ty, c)")
    case True
    have "ty \<in> set CONTENT_TYPES" using Cons.prems by auto
    then have "h \<in> fst ` set (insert_prompt now e ps)"
      by (auto simp: True insert_prompt_def map_of_eq_None_iff)
    then obtain p where "(h, p) \<in> set (insert_prompt now e ps)" by auto
    from insert_prompts_old [OF this] show ?thesis by (force intro: image_eqI [of _ _ "(h, p)"])
  next
    case False
    with Cons show ?thesis by simp
  qed
qed simp

lemma next_id_fresh: "r \<in> set rows \<Longrightarrow> rr_id r < next_id rows"
  by (auto simp: next_id_def)

lemma insert_events_ok:
  assumes "distinct (map (\<lambda>e. (ev_request e, ev_block e)) evs)" "\<forall>e \<in> set evs. ev_request e \<in> ids" "rid \<in> ids"
  shows "distinct (map (\<lambda>e. (ev_request e, ev_block e)) (fold (insert_event rid) es evs)) \<and>
    (\<forall>e \<in> set (fold (insert_event rid) es evs). ev_request e \<in> ids)"
  using assms
proof (induction es arbitrary: evs)
  case (Cons e es)
  obtain b a p where e: "e = (b, a, p)" by (cases e)
  have "distinct (map (\<lambda>e. (ev_request e, ev_block e)) (insert_event rid e evs))"
    "\<forall>e \<in> set (insert_event rid e evs). ev_request e \<in> ids"
    using Cons.prems by (auto simp: e insert_event_def)
  from Cons.IH [OF this Cons.prems(3)] show ?case by simp
qed simp

lemma insert_ok:
  assumes ok: "db_ok db" and row: "row_captured row"
    and ins: "insert_request now duration row db = Some (rid, db')"
  shows "db_ok db'"
proof -
  let ?ps = "fold (insert_prompt now) (pc_entries (dr_capture row)) (rd_prompts db)"
  let ?new = "row_of_args rid now duration row"
  from ins have db': "rid = next_id (rd_rows db)" "rd_rows db' = rd_rows db @ [?new]"
    "rd_prompts db' = count_refs 1 (row_hashes row) ?ps" "rd_events db' = fold (insert_event rid) (dr_events row) (rd_events db)"
    by (auto simp: insert_request_def Let_def split: if_splits)
  have fresh: "next_id (rd_rows db) \<notin> rr_id ` set (rd_rows db)" using next_id_fresh by force
  have "distinct (map rr_id (rd_rows db'))"
    using ok fresh by (simp add: db_ok_def db')
  moreover have "distinct (map fst (rd_prompts db'))"
    using ok by (simp add: db_ok_def db' insert_prompts_keys)
  moreover have "\<forall>(h, p) \<in> set (rd_prompts db'). sp_refs p = references h (rd_rows db')"
  proof (safe)
    fix h p assume "(h, p) \<in> set (rd_prompts db')"
    then obtain q where q: "(h, q) \<in> set ?ps"
      "p = (if h \<in> row_hashes row then q\<lparr>sp_refs := sp_refs q + 1\<rparr> else q)"
      by (auto simp: db' count_refs_def)
    have "sp_refs q = references h (rd_rows db)"
      using insert_prompts_new [OF q(1)] ok references_none [of "rd_rows db" h]
      by (fastforce simp: db_ok_def)
    with q(2) show "sp_refs p = references h (rd_rows db')" by (simp add: db')
  qed
  moreover have "\<forall>r \<in> set (rd_rows db'). row_hashes (rr_args r) \<subseteq> fst ` set (rd_prompts db')"
  proof
    fix r assume r: "r \<in> set (rd_rows db')"
    have keep: "fst ` set (rd_prompts db) \<subseteq> fst ` set ?ps" using insert_prompts_old by force
    have "row_hashes row \<subseteq> fst ` set ?ps"
      using row insert_prompts_covered unfolding row_captured_def by blast
    moreover have "row_hashes (rr_args r) \<subseteq> fst ` set ?ps" if "r \<in> set (rd_rows db)"
      using that keep ok unfolding db_ok_def by (meson order_trans)
    ultimately show "row_hashes (rr_args r) \<subseteq> fst ` set (rd_prompts db')"
      using r by (auto simp: db')
  qed
  moreover have "distinct (map (\<lambda>e. (ev_request e, ev_block e)) (rd_events db')) \<and>
    (\<forall>e \<in> set (rd_events db'). ev_request e \<in> rr_id ` set (rd_rows db'))"
    unfolding db'(4) by (rule insert_events_ok) (use ok in \<open>auto simp: db_ok_def db'\<close>)
  ultimately show ?thesis by (simp add: db_ok_def)
qed

section \<open>Retention\<close>

lemma count_refs_fold:
  "fold (\<lambda>r. count_refs (- 1) (row_hashes (rr_args r))) victims ps =
     map (\<lambda>(h, p). (h, p\<lparr>sp_refs := sp_refs p - references h victims\<rparr>)) ps"
  by (induction victims arbitrary: ps) (auto simp: count_refs_def)

lemma old_rows_subset: "set (old_rows cutoff db) \<subseteq> {r \<in> set (rd_rows db). rr_ts r < cutoff}"
  by (auto simp: old_rows_def dest: in_set_takeD)

lemma references_split:
  "references h rows = references h (filter P rows) + references h (filter (\<lambda>r. \<not> P r) rows)"
  by (induction rows) auto

lemma references_same_set:
  assumes "distinct xs" "distinct ys" "set xs = set ys" shows "references h xs = references h ys"
proof -
  have "references h zs = int (card {r \<in> set zs. h \<in> row_hashes (rr_args r)})" if "distinct zs" for zs
    using that distinct_card [OF distinct_filter [OF that]] by (simp add: references_def)
  with assms show ?thesis by simp
qed

lemma distinct_same_ids:
  assumes "distinct (map rr_id rows)" "r \<in> set rows" "set vs \<subseteq> set rows"
  shows "rr_id r \<in> rr_id ` set vs \<longleftrightarrow> r \<in> set vs"
  using assms by (auto simp: distinct_map inj_on_def)

lemma delete_rows_rows:
  assumes "distinct (map rr_id (rd_rows db))" "set vs \<subseteq> set (rd_rows db)"
  shows "rd_rows (delete_rows vs db) = filter (\<lambda>r. r \<notin> set vs) (rd_rows db)"
  unfolding delete_rows_def using distinct_same_ids [OF assms(1) _ assms(2)] by (auto intro: filter_cong)

lemma delete_ok:
  assumes ok: "db_ok db" and vs: "set vs \<subseteq> set (rd_rows db)" "distinct vs"
  shows "db_ok (delete_rows vs db)"
proof -
  let ?db = "delete_rows vs db"
  have ids: "distinct (map rr_id (rd_rows db))" using ok by (simp add: db_ok_def)
  then have rows: "distinct (rd_rows db)" by (simp add: distinct_map)
  note rest = delete_rows_rows [OF ids vs(1)]
  have "set (filter (\<lambda>r. r \<in> set vs) (rd_rows db)) = set vs" using vs(1) by auto
  then have "references h (filter (\<lambda>r. r \<in> set vs) (rd_rows db)) = references h vs" for h
    using rows vs(2) by (intro references_same_set) simp_all
  then have refs: "references h (rd_rows ?db) = references h (rd_rows db) - references h vs" for h
    using references_split [of h "rd_rows db" "\<lambda>r. r \<in> set vs"] by (simp add: rest)
  have ps: "rd_prompts ?db = map (\<lambda>(h, p). (h, p\<lparr>sp_refs := sp_refs p - references h vs\<rparr>)) (rd_prompts db)"
    by (simp add: delete_rows_def count_refs_fold)
  have "map fst (rd_prompts ?db) = map fst (rd_prompts db)" by (simp add: ps comp_def split_beta)
  then have keys: "distinct (map fst (rd_prompts ?db))" "fst ` set (rd_prompts ?db) = fst ` set (rd_prompts db)"
    using ok by (simp_all add: db_ok_def) (metis list.set_map)
  have "distinct (map rr_id (rd_rows ?db))" using ids by (simp add: rest distinct_map_filter)
  moreover have "\<forall>(h, p) \<in> set (rd_prompts ?db). sp_refs p = references h (rd_rows ?db)"
    using ok by (auto simp: ps refs db_ok_def)
  moreover have "\<forall>r \<in> set (rd_rows ?db). row_hashes (rr_args r) \<subseteq> fst ` set (rd_prompts ?db)"
    using ok by (auto simp: keys(2) rest db_ok_def)
  moreover have "distinct (map (\<lambda>e. (ev_request e, ev_block e)) (rd_events ?db))"
    using ok by (simp add: delete_rows_def db_ok_def distinct_map_filter)
  moreover have "\<forall>e \<in> set (rd_events ?db). ev_request e \<in> rr_id ` set (rd_rows ?db)"
    using ok by (auto simp: delete_rows_def db_ok_def)
  ultimately show ?thesis using keys(1) by (simp add: db_ok_def)
qed

lemma old_rows_distinct: "db_ok db \<Longrightarrow> distinct (old_rows cutoff db)"
  by (simp add: db_ok_def old_rows_def distinct_map)

text \<open>What a run of chunks keeps and removes; the cutoffs of later chunks are not earlier.\<close>

lemma retention_loop_result:
  assumes "db_ok db" "mono cutoff" "retention_loop cutoff k n db = (m, db')"
  shows "db_ok db' \<and> set (rd_rows db') \<subseteq> {r \<in> set (rd_rows db). \<not> rr_ts r < cutoff k} \<and>
    (\<exists>j \<ge> k. {r \<in> set (rd_rows db). \<not> rr_ts r < cutoff j} \<subseteq> set (rd_rows db')) \<and>
    m + length (rd_rows db') = n + length (rd_rows db) \<and>
    rd_retention_days db' = rd_retention_days db"
  using assms
proof (induction cutoff k n db rule: retention_loop.induct)
  case (1 cutoff k n db)
  let ?vs = "old_rows (cutoff k) db" and ?db = "delete_rows (old_rows (cutoff k) db) db"
  have ids: "distinct (map rr_id (rd_rows db))" and vs: "set ?vs \<subseteq> set (rd_rows db)" "distinct ?vs"
    using "1.prems"(1) old_rows_subset [of "cutoff k" db] old_rows_distinct by (auto simp: db_ok_def)
  have ok: "db_ok ?db" by (rule delete_ok [OF "1.prems"(1) vs])
  note rows = delete_rows_rows [OF ids vs(1)]
  have "set (filter (\<lambda>r. r \<in> set ?vs) (rd_rows db)) = set ?vs" using vs(1) by auto
  then have "length (filter (\<lambda>r. r \<in> set ?vs) (rd_rows db)) = length ?vs"
    using vs(2) ids by (metis distinct_card distinct_filter distinct_map)
  then have len: "length ?vs + length (rd_rows ?db) = length (rd_rows db)"
    unfolding rows using sum_length_filter_compl [of "\<lambda>r. r \<in> set ?vs" "rd_rows db"] by simp
  have days: "rd_retention_days ?db = rd_retention_days db" by (simp add: delete_rows_def)
  have young: "{r \<in> set (rd_rows db). \<not> rr_ts r < cutoff k} \<subseteq> set (rd_rows ?db)"
    using old_rows_subset [of "cutoff k" db] by (auto simp: rows)
  show ?case
  proof (cases "length ?vs < RETENTION_CHUNK")
    case True
    then have "?vs = filter (\<lambda>r. rr_ts r < cutoff k) (rd_rows db)"
      by (auto simp: old_rows_def min_def split: if_splits)
    then have "set ?vs = {r \<in> set (rd_rows db). rr_ts r < cutoff k}" by (metis set_filter)
    then have "set (rd_rows ?db) \<subseteq> {r \<in> set (rd_rows db). \<not> rr_ts r < cutoff k}" by (auto simp: rows)
    with True "1.prems"(3) ok young len days show ?thesis
      by (auto simp: retention_loop.simps [of cutoff k n db] Let_def)
  next
    case False
    with "1.prems"(3) have loop: "retention_loop cutoff (Suc k) (n + length ?vs) ?db = (m, db')"
      by (simp add: retention_loop.simps [of cutoff k n db] Let_def)
    from "1.IH" [OF refl refl refl False ok "1.prems"(2) loop]
    obtain j where ih: "db_ok db'" "set (rd_rows db') \<subseteq> {r \<in> set (rd_rows ?db). \<not> rr_ts r < cutoff (Suc k)}"
      "Suc k \<le> j" "{r \<in> set (rd_rows ?db). \<not> rr_ts r < cutoff j} \<subseteq> set (rd_rows db')"
      "m + length (rd_rows db') = n + length ?vs + length (rd_rows ?db)"
      "rd_retention_days db' = rd_retention_days ?db" by auto
    have "cutoff k \<le> cutoff (Suc k)" "cutoff k \<le> cutoff j" using "1.prems"(2) ih(3) by (auto simp: mono_def)
    then have "set (rd_rows db') \<subseteq> {r \<in> set (rd_rows db). \<not> rr_ts r < cutoff k}"
      "{r \<in> set (rd_rows db). \<not> rr_ts r < cutoff j} \<subseteq> set (rd_rows db')"
      using ih(2,4) young by (auto simp: rows not_less)
    moreover have "k \<le> j" using ih(3) by simp
    ultimately show ?thesis using ih(1,5,6) days len by auto
  qed
qed

lemma prune_ok:
  assumes "db_ok db" shows "db_ok (prune_prompts db)"
proof -
  have "h \<in> fst ` set (filter (\<lambda>(_, p). 0 < sp_refs p) (rd_prompts db))"
    if "r \<in> set (rd_rows db)" "h \<in> row_hashes (rr_args r)" for r h
  proof -
    from assms that obtain p where p: "(h, p) \<in> set (rd_prompts db)" by (force simp: db_ok_def)
    with assms have "sp_refs p = references h (rd_rows db)" by (auto simp: db_ok_def)
    with that references_pos have "0 < sp_refs p" by metis
    with p show ?thesis by force
  qed
  then show ?thesis using assms by (auto simp: db_ok_def prune_prompts_def distinct_map_filter)
qed

lemma chunks_keep_contents:
  assumes "retention_loop cutoff k n db = (m, db')"
  shows "map_option sp_content (map_of (rd_prompts db') h) = map_option sp_content (map_of (rd_prompts db) h)"
  using assms
proof (induction cutoff k n db rule: retention_loop.induct)
  case (1 cutoff k n db)
  let ?db = "delete_rows (old_rows (cutoff k) db) db"
  have "map_option sp_content (map_of (map (\<lambda>(h, p). (h, p\<lparr>sp_refs := f h p\<rparr>)) ps) h) = map_option sp_content (map_of ps h)"
    for f ps by (induction ps) auto
  then have step: "map_option sp_content (map_of (rd_prompts ?db) h) = map_option sp_content (map_of (rd_prompts db) h)"
    by (simp add: delete_rows_def count_refs_fold)
  show ?case
  proof (cases "length (old_rows (cutoff k) db) < RETENTION_CHUNK")
    case True
    with "1.prems" step show ?thesis by (auto simp: retention_loop.simps [of cutoff k n db] Let_def)
  next
    case False
    with "1.prems" have "retention_loop cutoff (Suc k) (n + length (old_rows (cutoff k) db)) ?db = (m, db')"
      by (simp add: retention_loop.simps [of cutoff k n db] Let_def)
    from "1.IH" [OF refl refl refl False this] step show ?thesis by simp
  qed
qed

lemma pruned_prompt:
  assumes "db_ok db"
  shows "map_of (rd_prompts (prune_prompts db)) h =
    (if 0 < references h (rd_rows db) then map_of (rd_prompts db) h else None)"
proof (cases "map_of (rd_prompts db) h")
  case None
  then have "map_of (rd_prompts (prune_prompts db)) h = None" by (auto simp: prune_prompts_def map_of_eq_None_iff)
  with None show ?thesis by simp
next
  case (Some p)
  have d: "distinct (map fst (rd_prompts db))" using assms by (simp add: db_ok_def)
  from Some have p: "(h, p) \<in> set (rd_prompts db)" by (rule map_of_SomeD)
  with assms have refs: "sp_refs p = references h (rd_rows db)" by (auto simp: db_ok_def)
  show ?thesis
  proof (cases "0 < sp_refs p")
    case True
    with p have "(h, p) \<in> set (rd_prompts (prune_prompts db))" by (simp add: prune_prompts_def)
    moreover have "distinct (map fst (rd_prompts (prune_prompts db)))"
      using d by (simp add: prune_prompts_def distinct_map_filter)
    ultimately show ?thesis using True refs Some by simp
  next
    case False
    have "h \<notin> fst ` set (rd_prompts (prune_prompts db))"
    proof
      assume "h \<in> fst ` set (rd_prompts (prune_prompts db))"
      then obtain q where "(h, q) \<in> set (rd_prompts db)" "0 < sp_refs q" by (auto simp: prune_prompts_def)
      with p d False show False by (metis eq_key_imp_eq_value)
    qed
    with False refs show ?thesis by (simp add: map_of_eq_None_iff)
  qed
qed

text \<open>(C21) A retention run ends, deletes exactly rows that are too old and every row older than its first cutoff,
  reports their number, and leaves exactly the prompts that a remaining row shows, with their content.\<close>

theorem retention_exact:
  assumes "db_ok db" "mono cutoff" "run_retention cutoff db = (n, db')"
  shows "db_ok db' \<and> (\<forall>r \<in> set (rd_rows db'). r \<in> set (rd_rows db) \<and> cutoff 0 \<le> rr_ts r) \<and>
    (\<exists>j. \<forall>r \<in> set (rd_rows db). cutoff j \<le> rr_ts r \<longrightarrow> r \<in> set (rd_rows db')) \<and>
    n + length (rd_rows db') = length (rd_rows db) \<and>
    (\<forall>h. map_option sp_content (map_of (rd_prompts db') h) =
       (if \<exists>r \<in> set (rd_rows db'). h \<in> row_hashes (rr_args r)
        then map_option sp_content (map_of (rd_prompts db) h) else None))"
proof -
  obtain db1 where loop: "retention_loop cutoff 0 0 db = (n, db1)" and db': "db' = prune_prompts db1"
    using assms(3) by (auto simp: run_retention_def split: prod.splits)
  note res = retention_loop_result [OF assms(1,2) loop]
  then have ok: "db_ok db1" by blast
  have rows: "rd_rows db' = rd_rows db1" by (simp add: db' prune_prompts_def)
  have "map_option sp_content (map_of (rd_prompts db') h) =
      (if \<exists>r \<in> set (rd_rows db'). h \<in> row_hashes (rr_args r)
       then map_option sp_content (map_of (rd_prompts db) h) else None)" for h
    unfolding db' rows [unfolded db'] references_pos pruned_prompt [OF ok]
    using chunks_keep_contents [OF loop, of h] by simp
  moreover have "db_ok db'" using prune_ok [OF ok] by (simp add: db')
  moreover have "\<forall>r \<in> set (rd_rows db'). r \<in> set (rd_rows db) \<and> cutoff 0 \<le> rr_ts r"
    using res unfolding rows by (fastforce simp: not_less)
  moreover have "\<exists>j. \<forall>r \<in> set (rd_rows db). cutoff j \<le> rr_ts r \<longrightarrow> r \<in> set (rd_rows db')"
    using res unfolding rows by (fastforce simp: not_less)
  moreover have "n + length (rd_rows db') = length (rd_rows db)" using res unfolding rows by simp
  ultimately show ?thesis by blast
qed

section \<open>Reachable databases\<close>

lemma retention_exact_ok: "db_ok db \<Longrightarrow> mono cutoff \<Longrightarrow> db_ok (snd (run_retention cutoff db))"
  using retention_loop_result [of db cutoff 0 0] prune_ok
  by (fastforce simp: run_retention_def split: prod.split)

inductive db_reach :: "int \<Rightarrow> request_db \<Rightarrow> bool" for days where
  empty: "db_reach days (empty_db days)"
| recorded: "db_reach days db \<Longrightarrow> row_captured row \<Longrightarrow> mono cutoff \<Longrightarrow>
    record_request now clock cutoff duration row db = (r, db') \<Longrightarrow> db_reach days db'"

lemma reach_db_ok: "db_reach days db \<Longrightarrow> db_ok db"
proof (induction rule: db_reach.induct)
  case empty
  then show ?case by (simp add: db_ok_def empty_db_def)
next
  case (recorded db row cutoff now clock duration r db')
  show ?case
  proof (cases "insert_request now duration row db")
    case None
    with recorded show ?thesis by (simp add: record_request_def)
  next
    case (Some x)
    obtain rid db1 where x: "x = (rid, db1)" by (cases x)
    have ok: "db_ok db1" using insert_ok [OF recorded.IH recorded.hyps(2) Some [unfolded x]] .
    have "db_ok (db1\<lparr>rd_last_retention := t\<rparr>)" for t using ok by (simp add: db_ok_def)
    then have "db_ok (snd (run_retention cutoff (db1\<lparr>rd_last_retention := t\<rparr>)))" for t
      using retention_exact_ok recorded.hyps(3) by blast
    with ok show ?thesis using recorded.hyps(4) by (auto simp: record_request_def Some x maybe_run_retention_def)
  qed
qed

text \<open>In every database that recording and retention reach, every row's page shows the stored text of each
  of its prompts, and the count of a prompt is the number of rows that show it.\<close>

theorem recorded_prompts_shown:
  assumes "db_reach days db" "r \<in> set (rd_rows db)"
  shows "\<exists>d. get_request (rr_id r) db = Some d \<and> rt_row d = r \<and>
    (pc_system_sha (dr_capture (rr_args r)) \<noteq> None \<longrightarrow> rt_system d \<noteq> None) \<and>
    (pc_tools_sha (dr_capture (rr_args r)) \<noteq> None \<longrightarrow> rt_tools d \<noteq> None) \<and>
    (pc_sanitized_sha (dr_capture (rr_args r)) \<noteq> None \<or> pc_caveman_sha (dr_capture (rr_args r)) \<noteq> None \<longrightarrow>
       rt_dispatched d \<noteq> None) \<and>
    (\<forall>h \<in> row_hashes (rr_args r). \<exists>p. get_prompt h db = Some p \<and> sp_refs p = references h (rd_rows db))"
proof -
  have ok: "db_ok db" using reach_db_ok [OF assms(1)] .
  have found: "find (\<lambda>x. rr_id x = rr_id r) (rd_rows db) = Some r"
  proof (cases "find (\<lambda>x. rr_id x = rr_id r) (rd_rows db)")
    case None
    with assms(2) show ?thesis by (auto simp: find_None_iff)
  next
    case (Some x)
    then have "x \<in> set (rd_rows db)" "rr_id x = rr_id r" by (auto simp: find_Some_iff)
    with ok assms(2) Some show ?thesis by (auto simp: db_ok_def distinct_map inj_on_def)
  qed
  have prompt: "\<exists>p. get_prompt h db = Some p \<and> sp_refs p = references h (rd_rows db)"
    if "h \<in> row_hashes (rr_args r)" for h
  proof -
    from ok that assms(2) have "h \<in> fst ` set (rd_prompts db)" by (auto simp: db_ok_def)
    then obtain p where "map_of (rd_prompts db) h = Some p"
      by (cases "map_of (rd_prompts db) h") (auto simp: map_of_eq_None_iff)
    with ok show ?thesis by (auto simp: db_ok_def get_prompt_def dest: map_of_SomeD)
  qed
  let ?pc = "dr_capture (rr_args r)"
  have shown: "s \<noteq> None \<longrightarrow> content_of db s \<noteq> None"
    if "s \<in> {pc_system_sha ?pc, pc_tools_sha ?pc, pc_sanitized_sha ?pc, pc_caveman_sha ?pc}" for s
  proof (cases s)
    case (Some h)
    with that have "h \<in> row_hashes (rr_args r)" by (auto simp: row_hashes_iff)
    with prompt Some show ?thesis by (fastforce simp: content_of_def get_prompt_def)
  qed simp
  have "pc_sanitized_sha ?pc \<noteq> None \<or> pc_caveman_sha ?pc \<noteq> None \<longrightarrow>
      (case content_of db (pc_caveman_sha ?pc) of Some c \<Rightarrow> Some c | None \<Rightarrow> content_of db (pc_sanitized_sha ?pc)) \<noteq> None"
    using shown [of "pc_sanitized_sha ?pc"] shown [of "pc_caveman_sha ?pc"] by (cases "content_of db (pc_caveman_sha ?pc)") simp_all
  then show ?thesis
    using shown [of "pc_system_sha ?pc"] shown [of "pc_tools_sha ?pc"] prompt
    by (simp add: get_request_def found Let_def)
qed

end
