(* ===== verification/Request_Db_Reads.thy ===== *)
theory Request_Db_Reads
  imports Request_Db_Props
begin

text \<open>
  The lists of the admin API: every matching row is on exactly one page, newest first, and a search of one
  or two characters finds the rows that hold them.
\<close>

section \<open>Pages\<close>

lemma concat_pages: "concat (map (\<lambda>k. take l (drop (l * k) xs)) [0..<n]) = take (l * n) xs"
proof (induction n)
  case (Suc n)
  then show ?case using take_add [of "l * n" l xs] by (simp add: add.commute)
qed simp

lemma newest_first_mset: "set (newest_first rows) = set rows" "length (newest_first rows) = length rows"
  by (simp_all add: newest_first_def)

lemma newest_first_sorted:
  "sorted_wrt (\<lambda>r r'. (rr_ts r', rr_id r') \<le> (rr_ts r, rr_id r)) (newest_first rows)"
  using sorted_sort_key [of "\<lambda>r. (rr_ts r, rr_id r)" rows]
  by (simp add: newest_first_def sorted_wrt_rev sorted_wrt_map)

text \<open>(C39) The pages of a list, one after the other, are the matching rows, each as often as it is stored, from
  the newest to the oldest.\<close>

theorem pages_cover:
  assumes "0 < limit" and "length (matching_rows fts q (rd_rows db)) \<le> limit * n"
  shows "concat (map (\<lambda>k. get_requests fts (int limit) (int (limit * k)) q db) [0..<n]) =
      newest_first (matching_rows fts q (rd_rows db)) \<and>
    set (newest_first (matching_rows fts q (rd_rows db))) = set (matching_rows fts q (rd_rows db)) \<and>
    sorted_wrt (\<lambda>r r'. (rr_ts r', rr_id r') \<le> (rr_ts r, rr_id r)) (newest_first (matching_rows fts q (rd_rows db)))"
proof -
  let ?xs = "newest_first (matching_rows fts q (rd_rows db))"
  have "get_requests fts (int limit) (int (limit * k)) q db = take limit (drop (limit * k) ?xs)" for k
    by (simp add: get_requests_def sql_page_def Let_def nat_mult_distrib flip: of_nat_mult)
  then have "concat (map (\<lambda>k. get_requests fts (int limit) (int (limit * k)) q db) [0..<n]) = take (limit * n) ?xs"
    by (simp only: concat_pages)
  also have "\<dots> = ?xs" using assms(2) by (simp add: newest_first_mset)
  finally show ?thesis using newest_first_mset newest_first_sorted by blast
qed

section \<open>Short searches\<close>

definition contains_text :: "string \<Rightarrow> string option \<Rightarrow> bool" where
  "contains_text t s \<longleftrightarrow>
     (\<exists>u a b. s = Some u \<and> map ascii_lower u = a @ map ascii_lower t @ b)"

lemma like_percent: "like (CHR ''%'' # p) s \<longleftrightarrow> (\<exists>k \<le> length s. like p (drop k s))"
proof (induction s)
  case Nil
  show ?case by simp
next
  case (Cons c s)
  have "(\<exists>k \<le> length (c # s). like p (drop k (c # s))) \<longleftrightarrow> like p (c # s) \<or> (\<exists>k \<le> length s. like p (drop k s))"
    by (metis Suc_le_mono drop_Suc_Cons drop0 length_Cons not0_implies_Suc zero_le)
  with Cons show ?case by (simp del: like.simps add: like.simps(2) [of "CHR ''%''" p "c # s"])
qed

lemma like_any: "like ''%'' s"
  unfolding like_percent by (auto intro: exI [of _ "length s"])

definition plain_char :: "char \<Rightarrow> bool" where
  "plain_char c \<longleftrightarrow> c \<noteq> CHR ''%'' \<and> c \<noteq> CHR ''_''"

lemma like_prefix:
  "list_all plain_char t \<Longrightarrow> like (t @ ''%'') s \<longleftrightarrow> (\<exists>b. map ascii_lower s = map ascii_lower t @ b)"
proof (induction t arbitrary: s)
  case Nil
  then show ?case using like_any by simp
next
  case (Cons c t)
  then show ?case by (cases s) (auto simp: plain_char_def)
qed

lemma like_contains:
  assumes "list_all plain_char t"
  shows "like_text (''%'' @ t @ ''%'') s \<longleftrightarrow> contains_text t s"
proof (cases s)
  case (Some u)
  have "(\<exists>k \<le> length u. \<exists>b. map ascii_lower (drop k u) = map ascii_lower t @ b) \<longleftrightarrow>
      (\<exists>a b. map ascii_lower u = a @ map ascii_lower t @ b)"
  proof
    assume "\<exists>k \<le> length u. \<exists>b. map ascii_lower (drop k u) = map ascii_lower t @ b"
    then obtain k b where "map ascii_lower (drop k u) = map ascii_lower t @ b" by blast
    then have "map ascii_lower u = map ascii_lower (take k u) @ map ascii_lower t @ b"
      by (metis append_take_drop_id map_append)
    then show "\<exists>a b. map ascii_lower u = a @ map ascii_lower t @ b" by blast
  next
    assume "\<exists>a b. map ascii_lower u = a @ map ascii_lower t @ b"
    then obtain a b where ab: "map ascii_lower u = a @ map ascii_lower t @ b" by blast
    then have "length a \<le> length u" by (metis length_append length_map le_add1)
    moreover have "map ascii_lower (drop (length a) u) = map ascii_lower t @ b"
      by (simp add: ab flip: drop_map)
    ultimately show "\<exists>k \<le> length u. \<exists>b. map ascii_lower (drop k u) = map ascii_lower t @ b" by blast
  qed
  then show ?thesis using assms by (simp add: Some like_text_def like_percent like_prefix contains_text_def del: like.simps)
qed (simp add: like_text_def contains_text_def)

text \<open>A search of one or two characters that are no wildcards finds exactly the rows whose user or response
  text holds them, ASCII letters in either case.\<close>

theorem short_search_substring:
  assumes "t = py_strip q" "t \<noteq> []" "length t < 3" "list_all plain_char t"
  shows "matching_rows fts (Some q) rows =
    filter (\<lambda>r. contains_text t (pc_user_text (dr_capture (rr_args r))) \<or> contains_text t (dr_text (rr_args r))) rows"
proof -
  have "like_text (''%'' @ t @ ''%'') u \<longleftrightarrow> contains_text t u" for u using like_contains [OF assms(4)] .
  with assms(2,3) show ?thesis
    unfolding matching_rows_def Let_def option.case assms(1) [symmetric] by simp
qed

text \<open>A wildcard finds every row with a text.\<close>

lemma wildcard_finds_everything:
  assumes "t \<in> {''%'', ''_''}" shows "like (''%'' @ t @ ''%'') (c # u)"
proof -
  have "like (t @ ''%'') (c # u)"
  proof (cases "t = ''%''")
    case True
    have "like (CHR ''%'' # ''%'') (c # u)" by (rule like_percent [THEN iffD2]) (use like_any in blast)
    then show ?thesis by (simp only: True append_Cons append_Nil)
  next
    case False
    with assms have "t @ ''%'' = CHR ''_'' # ''%''" by simp
    then show ?thesis using like_any [of u] by (simp only: like.simps(2) list.case) simp
  qed
  then have "\<exists>k \<le> length (c # u). like (t @ ''%'') (drop k (c # u))" by (intro exI [of _ 0]) simp
  then show ?thesis unfolding append_Cons append_Nil by (rule like_percent [THEN iffD2])
qed

section \<open>Samples\<close>

definition sample_row :: db_row where
  "sample_row =
     \<lparr>dr_session = ''s'', dr_decision = decide ''opus'' ''sonnet'' (Some Standard) ''classifier_standard'',
      dr_stats = [(''input_tokens'', 10)], dr_status = ''success'', dr_error = None, dr_text = Some ''Hello'',
      dr_events = [(''index:0'', False, ''p'')], dr_ratelimit = [], dr_attempt = 1, dr_request_id = None,
      dr_savings = None, dr_overhead = None, dr_thread_model = None,
      dr_capture = \<lparr>pc_user_text = Some ''Hi'', pc_system_sha = Some ''h'', pc_tools_sha = None,
        pc_entries = [(''h'', ''system'', ''be brief'')], pc_sanitized_sha = None, pc_attribution = None,
        pc_caveman_sha = None, pc_opening_sha = None, pc_opening_dispatched_sha = None,
        pc_dispatched_text = None\<rparr>\<rparr>"

definition sample_db :: request_db where
  "sample_db =
     \<lparr>rd_rows = [row_of_args 1 ''2026-01-01'' 12 sample_row],
      rd_prompts = [(''h'', \<lparr>sp_type = ''system'', sp_content = ''be brief'', sp_refs = 1, sp_first_seen = ''2026-01-01''\<rparr>)],
      rd_events = [\<lparr>ev_request = 1, ev_block = ''index:0'', ev_allowlisted = False, ev_preview = ''p''\<rparr>],
      rd_retention_days = 0, rd_last_retention = 0\<rparr>"

lemma sample_hashes: "row_hashes sample_row = {''h''}"
  by (auto simp: row_hashes_iff sample_row_def)

lemma sample_recorded: "record_request ''2026-01-01'' 5 (\<lambda>_. []) 12 sample_row (empty_db 0) = (Some 1, sample_db)"
proof -
  have "dr_status sample_row = ''success''" "pc_entries (dr_capture sample_row) = [(''h'', ''system'', ''be brief'')]"
    "dr_events sample_row = [(''index:0'', False, ''p'')]"
    by (simp_all add: sample_row_def)
  then show ?thesis
    by (simp add: record_request_def insert_request_def empty_db_def ROW_STATUSES_def next_id_def insert_prompt_def
        CONTENT_TYPES_def count_refs_def sample_hashes insert_event_def maybe_run_retention_def sample_db_def Let_def)
qed

lemma sample_reach: "db_reach 0 sample_db"
proof (rule db_reach.recorded [OF db_reach.empty _ _ sample_recorded])
  show "row_captured sample_row"
    unfolding row_captured_def sample_hashes by (simp add: sample_row_def CONTENT_TYPES_def)
  show "mono (\<lambda>_ :: nat. [] :: string)" by (simp add: mono_def)
qed

theorem recorded_prompts_shown_witness:
  "\<exists>d. get_request 1 sample_db = Some d \<and> rt_system d \<noteq> None"
  using recorded_prompts_shown [OF sample_reach, of "row_of_args 1 ''2026-01-01'' 12 sample_row"]
  by (auto simp: sample_db_def) (auto simp: sample_row_def)

theorem retention_exact_witness:
  "\<exists>n db'. run_retention (\<lambda>_. ''2026-02'') sample_db = (n, db') \<and> db_ok db' \<and> n + length (rd_rows db') = 1"
proof -
  obtain n db' where r: "run_retention (\<lambda>_. ''2026-02'') sample_db = (n, db')" by force
  have "mono (\<lambda>_ :: nat. ''2026-02'')" by (simp add: mono_def)
  from retention_exact [OF reach_db_ok [OF sample_reach] this r] r show ?thesis by (auto simp: sample_db_def)
qed

theorem pages_cover_witness:
  "concat (map (\<lambda>k. get_requests (\<lambda>_ _. True) (int 50) (int (50 * k)) None sample_db) [0..<2]) =
    newest_first (rd_rows sample_db)"
proof -
  have m: "matching_rows (\<lambda>_ _. True) None (rd_rows sample_db) = rd_rows sample_db"
    by (simp add: matching_rows_def py_eval)
  have "length (matching_rows (\<lambda>_ _. True) None (rd_rows sample_db)) \<le> 50 * 2"
    unfolding m by (simp add: sample_db_def)
  from pages_cover [OF _ this] show ?thesis by (simp only: m)
qed

theorem short_search_substring_witness:
  "matching_rows (\<lambda>_ _. False) (Some '' hE '') (rd_rows sample_db) =
    filter (\<lambda>r. contains_text ''hE'' (pc_user_text (dr_capture (rr_args r))) \<or> contains_text ''hE'' (dr_text (rr_args r)))
      (rd_rows sample_db)"
  by (rule short_search_substring) (simp_all add: py_eval plain_char_def)

end
