(* ===== verification/Recorded_Requests.thy ===== *)
theory Recorded_Requests
  imports Request_Db_Reads Message_Props
begin

text \<open>
  The handler and the database together: every row a request leaves comes with the content of all its
  hashes, under the hash of that content, and with a status the table takes.  So recording it succeeds, and
  what the database shows does not depend on the prompts that retention has deleted.
\<close>

section \<open>Captures\<close>

definition capture_hashes :: "prompt_capture \<Rightarrow> string set" where
  "capture_hashes pc =
     {h. Some h \<in> {pc_system_sha pc, pc_sanitized_sha pc, pc_caveman_sha pc, pc_opening_sha pc,
                   pc_opening_dispatched_sha pc, pc_tools_sha pc}}"

definition entries_ok :: "(string \<Rightarrow> string) \<Rightarrow> prompt_capture \<Rightarrow> bool" where
  "entries_ok sha pc \<longleftrightarrow> (\<forall>(h, ty, c) \<in> set (pc_entries pc). h = sha c \<and> ty \<in> set CONTENT_TYPES)"

definition captured :: "(string \<Rightarrow> string) \<Rightarrow> prompt_capture \<Rightarrow> bool" where
  "captured sha pc \<longleftrightarrow> entries_ok sha pc \<and> capture_hashes pc \<subseteq> fst ` set (pc_entries pc)"

lemma row_hashes_capture: "row_hashes row = capture_hashes (dr_capture row)"
  by (rule set_eqI) (simp only: row_hashes_iff capture_hashes_def mem_Collect_eq)

lemma captured_row:
  assumes "captured sha (dr_capture row)" shows "row_captured row"
proof -
  have "\<exists>ty c. (h, ty, c) \<in> set (pc_entries (dr_capture row))" if "h \<in> row_hashes row" for h
  proof -
    from that assms have "h \<in> fst ` set (pc_entries (dr_capture row))"
      unfolding row_hashes_capture captured_def by blast
    then obtain e where "e \<in> set (pc_entries (dr_capture row))" "h = fst e" by blast
    then show ?thesis by (metis prod.collapse)
  qed
  moreover have "\<forall>(h, ty, c) \<in> set (pc_entries (dr_capture row)). ty \<in> set CONTENT_TYPES"
    using assms unfolding captured_def entries_ok_def by blast
  ultimately show ?thesis unfolding row_captured_def by blast
qed

lemma update_keys: "fst ` set (AList.update k v d) = insert k (fst ` set d)"
  by (induction d) auto

lemma update_entries: "e \<in> set (AList.update k v d) \<Longrightarrow> e = (k, v) \<or> e \<in> set d"
  by (induction d) (auto split: if_splits)

lemma put_entry_fields [simp]:
  "pc_system_sha (put_entry k e pc) = pc_system_sha pc" "pc_tools_sha (put_entry k e pc) = pc_tools_sha pc"
  "pc_sanitized_sha (put_entry k e pc) = pc_sanitized_sha pc" "pc_caveman_sha (put_entry k e pc) = pc_caveman_sha pc"
  "pc_opening_sha (put_entry k e pc) = pc_opening_sha pc"
  "pc_opening_dispatched_sha (put_entry k e pc) = pc_opening_dispatched_sha pc"
  "fst ` set (pc_entries (put_entry k e pc)) = insert k (fst ` set (pc_entries pc))"
  by (simp_all add: put_entry_def update_keys)

lemma content_types [simp]:
  "''system'' \<in> set CONTENT_TYPES" "''system_sanitized'' \<in> set CONTENT_TYPES" "''tools'' \<in> set CONTENT_TYPES"
  by (simp_all add: CONTENT_TYPES_def)

lemma put_entry_ok [simp]:
  "entries_ok sha pc \<Longrightarrow> ty \<in> set CONTENT_TYPES \<Longrightarrow> entries_ok sha (put_entry (sha c) (ty, c) pc)"
  unfolding entries_ok_def put_entry_def using update_entries by fastforce

lemma extract_captured: "captured (w_sha w) (extract_prompt_capture w payload)"
proof -
  have "captured sha (let pc = no_capture\<lparr>pc_user_text := u, pc_system_sha := map_option sha sys,
        pc_tools_sha := map_option sha tls\<rparr>;
      pc1 = (case sys of Some c \<Rightarrow> put_entry (sha c) (''system'', c) pc | None \<Rightarrow> pc)
    in case tls of Some c \<Rightarrow> put_entry (sha c) (''tools'', c) pc1 | None \<Rightarrow> pc1)" for sha u sys tls
  proof -
    have "entries_ok sha (no_capture\<lparr>pc_user_text := u, pc_system_sha := a, pc_tools_sha := b\<rparr>)" for a b
      by (simp add: entries_ok_def no_capture_def)
    then show ?thesis
      by (cases sys; cases tls) (auto simp: captured_def capture_hashes_def, simp_all add: no_capture_def)
  qed
  then show ?thesis unfolding extract_prompt_capture_def Let_def by blast
qed

lemma sanitized_hash:
  assumes "sanitize_system_prompt dumps sha vol digest payload mode key tr = (r, payload', tr')"
  shows "sanitized_sha256 r = map_option sha (sanitized_content r)"
  using assms by (auto simp: sanitize_system_prompt_def no_result_def Let_def split: if_splits prod.splits)

lemma captured_sanitized:
  assumes "captured sha pc" "sanitized_sha256 r = map_option sha (sanitized_content r)"
  shows "captured sha (capture_sanitized r pc)"
proof (cases "sanitized_content r")
  case (Some c)
  have "entries_ok sha (pc\<lparr>pc_sanitized_sha := x\<rparr>)" for x using assms(1) by (simp add: captured_def entries_ok_def)
  with Some assms show ?thesis by (auto simp: capture_sanitized_def captured_def capture_hashes_def)
qed (use assms in \<open>simp add: capture_sanitized_def\<close>)

lemma captured_opening:
  assumes "captured (w_sha w) pc"
  shows "captured (w_sha w) (capture_opening w payload original pc)"
proof -
  have "entries_ok (w_sha w) (pc\<lparr>pc_opening_sha := x, pc_opening_dispatched_sha := y\<rparr>)" for x y
    using assms by (simp add: captured_def entries_ok_def)
  with assms show ?thesis by (auto simp: capture_opening_def Let_def captured_def capture_hashes_def)
qed

lemma captured_caveman:
  assumes "captured sha pc"
  shows "captured sha (put_entry (sha c) (''system'', c) (pc\<lparr>pc_caveman_sha := Some (sha c)\<rparr>))"
proof -
  have "entries_ok sha (pc\<lparr>pc_caveman_sha := x\<rparr>)" for x using assms by (simp add: captured_def entries_ok_def)
  with assms show ?thesis by (auto simp: captured_def capture_hashes_def)
qed

lemma captured_frame [simp]:
  "captured sha (pc\<lparr>pc_attribution := a\<rparr>) = captured sha pc"
  "captured sha (pc\<lparr>pc_dispatched_text := t\<rparr>) = captured sha pc"
  by (simp_all add: captured_def entries_ok_def capture_hashes_def)

section \<open>Stages\<close>

lemma set_payload_capture [simp]: "wk_capture (set_payload p wk) = wk_capture wk"
  by (simp add: set_payload_def)

lemma sanitize_step_captured:
  "captured (w_sha w) (wk_capture wk) \<Longrightarrow> captured (w_sha w) (wk_capture (sanitize_step w st sess_key wk))"
  by (auto simp: sanitize_step_def intro: captured_sanitized dest: sanitized_hash split: prod.split)

lemma strip_step_captured:
  "captured sha (wk_capture wk) \<Longrightarrow> captured sha (wk_capture (strip_attribution_step st wk))"
  by (simp add: strip_attribution_step_def split: prod.split)

lemma rewrite_messages_captured:
  "captured (w_sha w) (wk_capture wk) \<Longrightarrow> captured (w_sha w) (wk_capture (snd (rewrite_messages w st mode wk)))"
  by (simp add: rewrite_messages_def Let_def captured_opening split: prod.split option.split sum.split)

lemma rewrite_system_captured:
  "captured (w_sha w) (wk_capture wk) \<Longrightarrow> captured (w_sha w) (wk_capture (rewrite_system w st mode wk))"
  by (simp add: rewrite_system_def Let_def captured_caveman split: prod.split option.split)

lemma caveman_step_captured:
  assumes "captured (w_sha w) (wk_capture wk)"
  shows "captured (w_sha w) (wk_capture (caveman_step w st wk))"
proof -
  have "captured (w_sha w) (wk_capture (wk\<lparr>wk_caveman := None\<rparr>))" using assms by simp
  from rewrite_messages_captured [OF this] have
    "captured (w_sha w) (wk_capture wk1)" if "rewrite_messages w st mode (wk\<lparr>wk_caveman := None\<rparr>) = (b, wk1)" for mode b wk1
    using that by (metis snd_conv)
  with assms rewrite_system_captured show ?thesis
    by (auto simp: caveman_step_def split: option.split prod.split bool.split)
qed

lemma dispatched_text_captured:
  "captured sha (wk_capture wk) \<Longrightarrow> captured sha (wk_capture (capture_dispatched_text w wk))"
  by (simp add: capture_dispatched_text_def Let_def)

lemma prepare_captured:
  assumes "prepare w st sess_key wk = (None, wk')"
  shows "captured (w_sha w) (wk_capture wk')"
proof -
  have "captured (w_sha w) (wk_capture (capture_dispatched_text w (caveman_step w st
      (strip_attribution_step st (sanitize_step w st sess_key (wk1\<lparr>wk_capture := extract_prompt_capture w p\<rparr>))))))"
    for wk1 p
    by (intro dispatched_text_captured caveman_step_captured strip_step_captured sanitize_step_captured)
       (simp add: extract_captured)
  then show ?thesis
    using assms extract_captured by (auto simp: prepare_def Let_def split: prod.splits option.splits if_splits)
qed

section \<open>Rows\<close>

definition row_ok :: "(string \<Rightarrow> string) \<Rightarrow> db_row \<Rightarrow> bool" where
  "row_ok sha row \<longleftrightarrow> captured sha (dr_capture row) \<and> dr_status row \<in> set ROW_STATUSES"

definition journal_ok :: "(string \<Rightarrow> string) \<Rightarrow> db_row list option \<Rightarrow> bool" where
  "journal_ok sha rows \<longleftrightarrow> (\<exists>rs. rows = Some rs \<and> list_all (row_ok sha) rs)"

definition recording :: "(string \<Rightarrow> string) \<Rightarrow> work \<Rightarrow> bool" where
  "recording sha wk \<longleftrightarrow> captured sha (wk_capture wk) \<and> journal_ok sha (wk_rows wk)"

lemma statuses_same: "set STATUSES = set ROW_STATUSES"
  by (simp add: STATUSES_def ROW_STATUSES_def)

lemma recording_record_db:
  "recording sha wk \<Longrightarrow> status \<in> set STATUSES \<Longrightarrow> recording sha (record_db sid st status e t m att wk)"
  by (auto simp: recording_def record_db_def journal_ok_def row_ok_def statuses_same split: option.split)

lemma recording_frame [simp]:
  "recording sha (upd_sessions f wk) = recording sha wk"
  "recording sha (wk\<lparr>wk_rq := rq\<rparr>) = recording sha wk"
  "recording sha (record_caveman_prose s t wk) = recording sha wk"
  "recording sha (record_caveman_ratio s st wk) = recording sha wk"
  by (simp_all add: recording_def upd_sessions_def record_caveman_prose_def record_caveman_ratio_def
      split: option.split prod.split)

lemma recording_dispatch_json:
  assumes "recording sha wk"
  shows "recording sha (snd (dispatch_json w st sess_key wk))"
  using assms
  by (simp add: dispatch_json_def Let_def finish_json_def recording_record_db STATUSES_def split: sum.split json.split)

lemma recording_failed: "recording sha wk \<Longrightarrow> recording sha (record_failed_request w st e wk)"
  by (simp add: record_failed_request_def Let_def recording_record_db STATUSES_def split: exn.split)

lemma recording_finish_stream:
  assumes "recording sha wk"
  shows "recording sha (finish_stream w sess_key att sc seen wk)"
proof -
  obtain out e' row rq where run: "usage_sse_wrapper (g_dash (w_glyphs w)) sc (at_ratelimit att)
      (fst seen) (snd seen) (wk_rq wk) = (out, e', row, rq)" by (metis prod_cases4)
  then obtain e ws where "row = stream_row (g_dash (w_glyphs w)) e ws"
    by (auto simp: usage_sse_wrapper_def Let_def split: prod.splits)
  then have "row_status row \<in> set STATUSES" by (simp only: stream_row_status)
  with assms show ?thesis by (simp add: finish_stream_def run Let_def recording_record_db)
qed

lemma recording_dispatch:
  assumes "recording sha wk"
  shows "recording sha (snd (dispatch_request w st sess_key wk))"
proof (cases "truthy (jget ''stream'' (wk_payload wk))")
  case True
  with assms show ?thesis
    by (auto simp: dispatch_request_def dispatch_stream_def Let_def recording_finish_stream
        split: prod.split option.split)
next
  case False
  with recording_dispatch_json [OF assms, of w st sess_key] show ?thesis
    by (auto simp: dispatch_request_def recording_failed split: prod.split sum.split)
qed

lemma prepare_rows:
  assumes "prepare w st sess_key wk = (x, wk')"
  shows "wk_rows wk' = wk_rows wk"
proof (cases x)
  case None
  with assms obtain wk1 where "route_step w st sess_key wk = (None, wk1)" "content_only wk1 wk'"
    by (auto elim: prepare_content)
  moreover from this(2) have "wk_rows wk' = wk_rows wk1" by (simp only: content_only_def)
  ultimately show ?thesis by (auto simp: route_step_def split: if_splits prod.splits sum.splits)
qed (use assms prepare_failed in blast)

lemma handled_rows:
  assumes "journal_ok (w_sha w) (srv_rows srv)"
  shows "journal_ok (w_sha w) (srv_rows (snd (handle_messages w st headers body srv)))"
proof -
  have run: "journal_ok (w_sha w) (wk_rows (snd (run_upstream w st key (start_work p srv))))" for key p
  proof -
    obtain x wk where prep: "prepare w st key (start_work p srv) = (x, wk)" by fastforce
    have rows: "wk_rows wk = srv_rows srv" using prepare_rows [OF prep] by simp
    show ?thesis
    proof (cases x)
      case None
      with prepare_captured prep rows assms have "recording (w_sha w) wk" by (simp add: recording_def)
      then have "recording (w_sha w) (snd (run_upstream w st key (start_work p srv)))"
        using prep None
        by (simp add: run_upstream_def send_reclassified_def recording_dispatch recording_record_db STATUSES_def)
      then show ?thesis by (simp add: recording_def)
    qed (use prep rows assms in \<open>simp add: run_upstream_def\<close>)
  qed
  have rows_of: "srv_rows (end_work wk) = wk_rows wk" for wk by (simp add: end_work_def)
  have payload: "journal_ok (w_sha w) (srv_rows (snd (handle_payload w st headers p srv)))" for p
  proof (cases "disposition_of st p")
    case (Local_command c)
    obtain md s where "command_markdown (w_glyphs w) (env_repr (w_env w)) (routing_config (st_handler st)) c
        (session_key p) (srv_sessions srv) = (md, s)" by fastforce
    with Local_command assms show ?thesis by (simp add: handle_payload_def)
  next
    case Upstream
    obtain reply wk where wk: "run_upstream w st (session_key p) (start_work (with_client_betas headers p) srv) =
        (reply, wk)" by fastforce
    with run [of "session_key p" "with_client_betas headers p"] have "journal_ok (w_sha w) (wk_rows wk)" by simp
    with Upstream wk assms show ?thesis
      by (cases "extract_client_credentials headers") (simp_all add: handle_payload_def rows_of)
  qed (use assms in \<open>simp_all add: handle_payload_def\<close>)
  show ?thesis
    by (cases "read_payload (env_loads (w_env w)) headers body") (simp_all add: handle_messages_def assms payload)
qed

text \<open>Servers that requests reach; the database is on.\<close>

inductive served :: "(string \<Rightarrow> string) \<Rightarrow> server \<Rightarrow> bool" for sha where
  booted: "srv_rows srv = Some [] \<Longrightarrow> served sha srv"
| request: "served sha srv \<Longrightarrow> w_sha w = sha \<Longrightarrow> served sha (snd (handle_messages w st headers body srv))"

lemma served_rows: "served sha srv \<Longrightarrow> journal_ok sha (srv_rows srv)"
  by (induction rule: served.induct) (use handled_rows in \<open>auto simp: journal_ok_def\<close>)

section \<open>The database as a store of whole requests\<close>

text \<open>What the database is for: every row with its own texts, as if no text were shared or counted.\<close>

definition own_text :: "request_row \<Rightarrow> string option \<Rightarrow> string option" where
  "own_text r h = Option.bind h (\<lambda>k. map_option snd (map_of (pc_entries (dr_capture (rr_args r))) k))"

definition own_page :: "request_row \<Rightarrow> request_detail" where
  "own_page r =
     (let pc = dr_capture (rr_args r) in
      \<lparr>rt_row = r, rt_system = own_text r (pc_system_sha pc), rt_tools = own_text r (pc_tools_sha pc),
       rt_sanitized = own_text r (pc_sanitized_sha pc),
       rt_dispatched = own_text r (if pc_caveman_sha pc = None then pc_sanitized_sha pc else pc_caveman_sha pc),
       rt_opening = own_text r (pc_opening_sha pc),
       rt_opening_dispatched = own_text r (pc_opening_dispatched_sha pc)\<rparr>)"

definition texts_of :: "db_row \<Rightarrow> string set" where
  "texts_of row = (\<lambda>(h, ty, c). c) ` set (pc_entries (dr_capture row))"

definition stored_text :: "request_db \<Rightarrow> string \<Rightarrow> string option" where
  "stored_text db h = map_option sp_content (map_of (rd_prompts db) h)"

definition holds :: "(string \<Rightarrow> string) \<Rightarrow> string set \<Rightarrow> request_db \<Rightarrow> bool" where
  "holds sha C db \<longleftrightarrow>
     db_ok db \<and> (\<forall>r \<in> set (rd_rows db). row_ok sha (rr_args r) \<and> texts_of (rr_args r) \<subseteq> C) \<and>
     (\<forall>h c. stored_text db h = Some c \<longrightarrow> h = sha c \<and> c \<in> C)"

type_synonym stamp = "string \<times> rat \<times> (nat \<Rightarrow> string) \<times> int"

text \<open>The interface by which a request hands its row on: what is recorded one after the other, each with its
  clock readings, is None when a row is refused.\<close>

fun put_all :: "('t \<Rightarrow> 'r \<Rightarrow> 'd \<Rightarrow> 'd option) \<Rightarrow> ('t \<times> 'r) list \<Rightarrow> 'd \<Rightarrow> 'd option" where
  "put_all add [] db = Some db"
| "put_all add ((t, row) # xs) db =
     (case add t row db of None \<Rightarrow> None | Some db' \<Rightarrow> put_all add xs db')"

text \<open>A store of rows accepts a good row, keeps its invariant, shows nothing that was not put there, and shows
  everything in order as long as it deletes nothing.\<close>

locale row_store =
  fixes add :: "'t \<Rightarrow> 'r \<Rightarrow> 'd \<Rightarrow> 'd option"
    and shown :: "'d \<Rightarrow> 'r list"
    and permanent :: "'d \<Rightarrow> bool"
    and inv :: "'d \<Rightarrow> bool"
    and good :: "'t \<Rightarrow> 'r \<Rightarrow> bool"
  assumes put_good: "inv db \<Longrightarrow> good t row \<Longrightarrow>
      \<exists>db'. add t row db = Some db' \<and> inv db' \<and> set (shown db') \<subseteq> insert row (set (shown db)) \<and>
        permanent db' = permanent db \<and> (permanent db \<longrightarrow> shown db' = shown db @ [row])"
begin

lemma put_all_good:
  assumes "inv db" "\<forall>(t, row) \<in> set xs. good t row"
  shows "\<exists>db'. put_all add xs db = Some db' \<and> inv db' \<and> set (shown db') \<subseteq> set (shown db) \<union> set (map snd xs) \<and>
    (permanent db \<longrightarrow> shown db' = shown db @ map snd xs)"
  using assms
proof (induction xs arbitrary: db)
  case (Cons x xs)
  obtain t row where x: "x = (t, row)" by (cases x)
  with Cons.prems have "good t row" "\<forall>(t, row) \<in> set xs. good t row" by auto
  from put_good [OF Cons.prems(1) this(1)] Cons.IH [OF _ this(2)] obtain db1 db' where
    "add t row db = Some db1" "set (shown db1) \<subseteq> insert row (set (shown db))" "permanent db1 = permanent db"
    "permanent db \<longrightarrow> shown db1 = shown db @ [row]" "put_all add xs db1 = Some db'" "inv db'"
    "set (shown db') \<subseteq> set (shown db1) \<union> set (map snd xs)"
    "permanent db1 \<longrightarrow> shown db' = shown db1 @ map snd xs" by metis
  then show ?case by (intro exI [of _ db']) (auto simp: x)
qed simp

end

definition put_request :: "stamp \<Rightarrow> db_row \<Rightarrow> request_db \<Rightarrow> request_db option" where
  "put_request stamp row db =
     (case stamp of (now, clock, cutoff, duration) \<Rightarrow>
        (case record_request now clock cutoff duration row db of
           (None, _) \<Rightarrow> None
         | (Some _, db') \<Rightarrow> Some db'))"

definition record_all :: "(stamp \<times> db_row) list \<Rightarrow> request_db \<Rightarrow> request_db option" where
  "record_all = put_all put_request"

definition later_stamp :: "stamp \<Rightarrow> bool" where
  "later_stamp stamp \<longleftrightarrow> mono (fst (snd (snd stamp)))"

lemma inserted_text:
  assumes "map_option sp_content (map_of (fold (insert_prompt now) es ps) h) = Some c"
  shows "map_option sp_content (map_of ps h) = Some c \<or> (\<exists>ty. (h, ty, c) \<in> set es)"
  using assms
proof (induction es arbitrary: ps)
  case (Cons e es)
  obtain k ty d where e: "e = (k, ty, d)" by (cases e)
  from Cons.IH [of "insert_prompt now e ps"] Cons.prems
  have "map_option sp_content (map_of (insert_prompt now e ps) h) = Some c \<or> (\<exists>ty. (h, ty, c) \<in> set es)" by simp
  then show ?case by (auto simp: e insert_prompt_def map_add_def split: if_splits option.splits)
qed simp

lemma counted_text: "map_option sp_content (map_of (count_refs n hs ps) h) = map_option sp_content (map_of ps h)"
  by (induction ps) (auto simp: count_refs_def)

lemma holds_insert:
  assumes "holds sha C db" "row_ok sha row" "texts_of row \<subseteq> C" "insert_request now duration row db = Some (rid, db')"
  shows "holds sha C db'"
proof -
  have db': "rd_rows db' = rd_rows db @ [row_of_args rid now duration row]"
    "rd_prompts db' = count_refs 1 (row_hashes row) (fold (insert_prompt now) (pc_entries (dr_capture row)) (rd_prompts db))"
    using assms(4) by (auto simp: insert_request_def Let_def split: if_splits)
  have "h = sha c \<and> c \<in> C" if "stored_text db' h = Some c" for h c
  proof -
    from that have "map_option sp_content (map_of (fold (insert_prompt now) (pc_entries (dr_capture row))
        (rd_prompts db)) h) = Some c"
      by (simp add: stored_text_def db' counted_text)
    from inserted_text [OF this] show ?thesis
    proof
      assume "map_option sp_content (map_of (rd_prompts db) h) = Some c"
      with assms(1) show ?thesis by (simp add: holds_def stored_text_def)
    next
      assume "\<exists>ty. (h, ty, c) \<in> set (pc_entries (dr_capture row))"
      with assms(2,3) show ?thesis by (force simp: row_ok_def captured_def entries_ok_def texts_of_def)
    qed
  qed
  moreover have "row_captured row" using assms(2) captured_row unfolding row_ok_def by blast
  with assms(1,4) have "db_ok db'" using insert_ok unfolding holds_def by blast
  ultimately show ?thesis using assms(1-3) by (simp add: holds_def db')
qed

lemma pruned_text:
  assumes "db_ok db" "stored_text (prune_prompts db) h = Some c"
  shows "stored_text db h = Some c"
proof -
  from assms(2) obtain p where "map_of (rd_prompts (prune_prompts db)) h = Some p" "sp_content p = c"
    by (auto simp: stored_text_def)
  then have "(h, p) \<in> set (rd_prompts db)" "sp_content p = c"
    by (auto simp: prune_prompts_def dest: map_of_SomeD)
  with assms(1) show ?thesis by (simp add: stored_text_def db_ok_def)
qed

lemma holds_retention:
  assumes "holds sha C db" "mono cutoff" "run_retention cutoff db = (n, db')"
  shows "holds sha C db' \<and> set (rd_rows db') \<subseteq> set (rd_rows db) \<and> rd_retention_days db' = rd_retention_days db"
proof -
  obtain db1 where loop: "retention_loop cutoff 0 0 db = (n, db1)" and db': "db' = prune_prompts db1"
    using assms(3) by (auto simp: run_retention_def split: prod.splits)
  have ok: "db_ok db" using assms(1) by (simp add: holds_def)
  from retention_loop_result [OF ok assms(2) loop]
  have run: "db_ok db1" "set (rd_rows db1) \<subseteq> set (rd_rows db)" "rd_retention_days db1 = rd_retention_days db" by auto
  have "h = sha c \<and> c \<in> C" if "stored_text db' h = Some c" for h c
  proof -
    from pruned_text [OF run(1) that [unfolded db']] chunks_keep_contents [OF loop]
    have "stored_text db h = Some c" by (simp add: stored_text_def)
    with assms(1) show ?thesis by (simp add: holds_def)
  qed
  moreover have "rd_rows db' = rd_rows db1" "rd_retention_days db' = rd_retention_days db1"
    by (simp_all add: db' prune_prompts_def)
  moreover have "db_ok db'" unfolding db' by (rule prune_ok [OF run(1)])
  ultimately show ?thesis using assms(1) run(2,3) unfolding holds_def by auto
qed

lemma accepted_row:
  assumes "db_ok db" "row_ok sha row" "mono cutoff"
  obtains rid db' where "record_request now clock cutoff duration row db = (Some rid, db')" "db_ok db'"
    "rr_args ` set (rd_rows db') \<subseteq> insert row (rr_args ` set (rd_rows db))"
    "rd_retention_days db' = rd_retention_days db"
    "rd_retention_days db \<le> 0 \<longrightarrow> map rr_args (rd_rows db') = map rr_args (rd_rows db) @ [row]"
proof -
  obtain rid db1 where ins: "insert_request now duration row db = Some (rid, db1)"
    using assms(2) by (simp add: insert_request_def Let_def row_ok_def)
  have db1: "rd_rows db1 = rd_rows db @ [row_of_args rid now duration row]" "rd_retention_days db1 = rd_retention_days db"
    using ins by (auto simp: insert_request_def Let_def split: if_splits)
  have "row_captured row" using assms(2) captured_row unfolding row_ok_def by blast
  from insert_ok [OF assms(1) this ins] have ok: "db_ok (db1\<lparr>rd_last_retention := clock\<rparr>)" "db_ok db1"
    by (simp_all add: db_ok_def)
  obtain n db2 where run: "run_retention cutoff (db1\<lparr>rd_last_retention := clock\<rparr>) = (n, db2)" by fastforce
  then obtain db3 where loop: "retention_loop cutoff 0 0 (db1\<lparr>rd_last_retention := clock\<rparr>) = (n, db3)"
    and db2: "db2 = prune_prompts db3" by (auto simp: run_retention_def split: prod.splits)
  from retention_loop_result [OF ok(1) assms(3) loop] prune_ok
  have pruned: "db_ok db2" "set (rd_rows db2) \<subseteq> set (rd_rows db1)" "rd_retention_days db2 = rd_retention_days db1"
    by (auto simp: db2 prune_prompts_def)
  let ?db = "maybe_run_retention clock cutoff db1"
  have db: "?db = db1 \<or> (?db = db2 \<and> 0 < rd_retention_days db)"
    by (auto simp: maybe_run_retention_def run db1(2))
  show ?thesis
  proof (rule that [of rid ?db])
    show "record_request now clock cutoff duration row db = (Some rid, ?db)" by (simp add: record_request_def ins)
    show "db_ok ?db" using db ok pruned by auto
    have "rr_args ` set (rd_rows db1) \<subseteq> insert row (rr_args ` set (rd_rows db))" by (simp add: db1(1))
    moreover have "set (rd_rows ?db) \<subseteq> set (rd_rows db1)" using db pruned by auto
    ultimately show "rr_args ` set (rd_rows ?db) \<subseteq> insert row (rr_args ` set (rd_rows db))"
      by (meson image_mono order_trans)
    show "rd_retention_days ?db = rd_retention_days db" using db pruned db1(2) by auto
    show "rd_retention_days db \<le> 0 \<longrightarrow> map rr_args (rd_rows ?db) = map rr_args (rd_rows db) @ [row]"
      using db db1(1) by auto
  qed
qed

lemma holds_recorded:
  assumes "holds sha C db" "row_ok sha row" "texts_of row \<subseteq> C" "mono cutoff"
    and "record_request now clock cutoff duration row db = (Some rid, db')"
  shows "holds sha C db'"
proof -
  obtain db1 where ins: "insert_request now duration row db = Some (rid, db1)" and db': "db' = maybe_run_retention clock cutoff db1"
    using assms(5) by (auto simp: record_request_def split: option.splits)
  note kept = holds_insert [OF assms(1-3) ins]
  obtain n db2 where run: "run_retention cutoff (db1\<lparr>rd_last_retention := clock\<rparr>) = (n, db2)" by fastforce
  have "holds sha C (db1\<lparr>rd_last_retention := clock\<rparr>)"
    using kept by (simp add: holds_def db_ok_def stored_text_def)
  from holds_retention [OF this assms(4) run] kept show ?thesis
    by (simp add: db' maybe_run_retention_def run)
qed

text \<open>The database is such a store in two ways: with its counts exact, and with its texts addressed by their hash.\<close>

interpretation rows: row_store put_request "\<lambda>db. map rr_args (rd_rows db)" "\<lambda>db. rd_retention_days db \<le> 0"
  db_ok "\<lambda>stamp row. row_ok sha row \<and> later_stamp stamp" for sha
proof
  fix db :: request_db and t :: stamp and row :: db_row
  assume ok: "db_ok db" and g: "row_ok sha row \<and> later_stamp t"
  obtain now clock cutoff duration where t: "t = (now, clock, cutoff, duration)" by (metis prod_cases4)
  with g have "row_ok sha row" "mono cutoff" by (auto simp: later_stamp_def)
  from accepted_row [OF ok this, of now clock duration] obtain rid db' where
    "record_request now clock cutoff duration row db = (Some rid, db')" "db_ok db'"
    "rr_args ` set (rd_rows db') \<subseteq> insert row (rr_args ` set (rd_rows db))"
    "rd_retention_days db' = rd_retention_days db"
    "rd_retention_days db \<le> 0 \<longrightarrow> map rr_args (rd_rows db') = map rr_args (rd_rows db) @ [row]" by metis
  then show "\<exists>db'. put_request t row db = Some db' \<and> db_ok db' \<and>
      set (map rr_args (rd_rows db')) \<subseteq> insert row (set (map rr_args (rd_rows db))) \<and>
      (rd_retention_days db' \<le> 0) = (rd_retention_days db \<le> 0) \<and>
      (rd_retention_days db \<le> 0 \<longrightarrow> map rr_args (rd_rows db') = map rr_args (rd_rows db) @ [row])"
    by (intro exI [of _ db']) (simp add: put_request_def t)
qed

interpretation texts: row_store put_request "\<lambda>db. map rr_args (rd_rows db)" "\<lambda>db. rd_retention_days db \<le> 0"
  "holds sha C" "\<lambda>stamp row. row_ok sha row \<and> texts_of row \<subseteq> C \<and> later_stamp stamp" for sha C
proof
  fix db :: request_db and t :: stamp and row :: db_row
  assume h: "holds sha C db" and g: "row_ok sha row \<and> texts_of row \<subseteq> C \<and> later_stamp t"
  from h g have "db_ok db" "row_ok sha row \<and> later_stamp t" by (simp_all add: holds_def)
  from rows.put_good [OF this] obtain db' where db': "put_request t row db = Some db'"
    "set (map rr_args (rd_rows db')) \<subseteq> insert row (set (map rr_args (rd_rows db))) \<and>
      (rd_retention_days db' \<le> 0) = (rd_retention_days db \<le> 0) \<and>
      (rd_retention_days db \<le> 0 \<longrightarrow> map rr_args (rd_rows db') = map rr_args (rd_rows db) @ [row])" by blast
  obtain now clock cutoff duration where t: "t = (now, clock, cutoff, duration)" by (metis prod_cases4)
  with db'(1) obtain rid where "record_request now clock cutoff duration row db = (Some rid, db')"
    by (auto simp: put_request_def split: prod.splits option.splits)
  with g t have "holds sha C db'" by (intro holds_recorded [OF h]) (auto simp: later_stamp_def)
  with db' show "\<exists>db'. put_request t row db = Some db' \<and> holds sha C db' \<and>
      set (map rr_args (rd_rows db')) \<subseteq> insert row (set (map rr_args (rd_rows db))) \<and>
      (rd_retention_days db' \<le> 0) = (rd_retention_days db \<le> 0) \<and>
      (rd_retention_days db \<le> 0 \<longrightarrow> map rr_args (rd_rows db') = map rr_args (rd_rows db) @ [row])" by blast
qed

lemma found_row:
  assumes "db_ok db" "r \<in> set (rd_rows db)"
  shows "find (\<lambda>x. rr_id x = rr_id r) (rd_rows db) = Some r"
proof (cases "find (\<lambda>x. rr_id x = rr_id r) (rd_rows db)")
  case None
  with assms(2) show ?thesis by (auto simp: find_None_iff)
next
  case (Some x)
  then have "x \<in> set (rd_rows db)" "rr_id x = rr_id r" by (auto simp: find_Some_iff)
  with assms Some show ?thesis by (auto simp: db_ok_def distinct_map inj_on_def)
qed

lemma held_text:
  assumes "holds sha C db" "inj_on sha C" "r \<in> set (rd_rows db)" "h \<in> row_hashes (rr_args r)"
  shows "\<exists>c. content_of db (Some h) = Some c \<and> own_text r (Some h) = Some c"
proof -
  let ?es = "pc_entries (dr_capture (rr_args r))"
  have ok: "db_ok db" and row: "captured sha (dr_capture (rr_args r))" "texts_of (rr_args r) \<subseteq> C"
    using assms(1,3) by (simp_all add: holds_def row_ok_def)
  from ok assms(3,4) have "h \<in> fst ` set (rd_prompts db)" by (auto simp: db_ok_def)
  then obtain p where "map_of (rd_prompts db) h = Some p"
    by (cases "map_of (rd_prompts db) h") (auto simp: map_of_eq_None_iff)
  then have stored: "stored_text db h = Some (sp_content p)" by (simp add: stored_text_def)
  with assms(1) have addressed: "h = sha (sp_content p)" "sp_content p \<in> C" by (simp_all add: holds_def)
  have "h \<in> fst ` set ?es" using row(1) assms(4) unfolding captured_def row_hashes_capture by blast
  then obtain e where own: "map_of ?es h = Some e"
    by (cases "map_of ?es h") (auto simp: map_of_eq_None_iff)
  obtain ty c where e: "e = (ty, c)" by (cases e)
  from own e have mem: "(h, ty, c) \<in> set ?es" by (simp add: map_of_SomeD)
  with row have "h = sha c" "c \<in> C" by (force simp: captured_def entries_ok_def texts_of_def)+
  with addressed assms(2) have "sp_content p = c" by (metis inj_onD)
  with stored own e show ?thesis by (simp add: content_of_def stored_text_def own_text_def)
qed

lemma held_page:
  assumes "holds sha C db" "inj_on sha C" "r \<in> set (rd_rows db)"
  shows "get_request (rr_id r) db = Some (own_page r)"
proof -
  let ?pc = "dr_capture (rr_args r)"
  have same: "content_of db s = own_text r s"
    if "s \<in> {pc_system_sha ?pc, pc_sanitized_sha ?pc, pc_caveman_sha ?pc, pc_opening_sha ?pc,
      pc_opening_dispatched_sha ?pc, pc_tools_sha ?pc}" for s
  proof (cases s)
    case (Some h)
    with that have "h \<in> row_hashes (rr_args r)" by (simp only: row_hashes_iff)
    with held_text [OF assms] Some show ?thesis by fastforce
  qed (simp add: content_of_def own_text_def)
  have "content_of db (pc_caveman_sha ?pc) \<noteq> None" if "pc_caveman_sha ?pc = Some h" for h
  proof -
    from that have "h \<in> row_hashes (rr_args r)" by (simp only: row_hashes_iff) simp
    with held_text [OF assms] that show ?thesis by fastforce
  qed
  then have dispatched: "(case content_of db (pc_caveman_sha ?pc) of Some c \<Rightarrow> Some c
        | None \<Rightarrow> content_of db (pc_sanitized_sha ?pc)) =
      own_text r (if pc_caveman_sha ?pc = None then pc_sanitized_sha ?pc else pc_caveman_sha ?pc)"
    using same [of "pc_caveman_sha ?pc"] same [of "pc_sanitized_sha ?pc"]
    by (cases "pc_caveman_sha ?pc") (auto simp: content_of_def split: option.split)
  have "db_ok db" using assms(1) by (simp add: holds_def)
  note found = found_row [OF this assms(3)]
  show ?thesis
    unfolding get_request_def found option.map own_page_def Let_def dispatched by (simp add: same)
qed

text \<open>(C15) Recording what any sequence of requests leaves succeeds, and the database then shows each of its rows
  with exactly the texts of that request, whatever retention has deleted in between; without retention it
  holds all rows, in order.  No two of the recorded texts may collide under the hash.\<close>

theorem database_shows_own_texts:
  assumes "served sha srv" "srv_rows srv = Some (map snd xs)"
    and "\<forall>(stamp, row) \<in> set xs. mono (fst (snd (snd stamp)))"
    and "inj_on sha (\<Union> (texts_of ` set (map snd xs)))"
  shows "\<exists>db. record_all xs (empty_db days) = Some db \<and>
    (\<forall>r \<in> set (rd_rows db). rr_args r \<in> set (map snd xs) \<and> get_request (rr_id r) db = Some (own_page r)) \<and>
    (days \<le> 0 \<longrightarrow> map rr_args (rd_rows db) = map snd xs)"
proof -
  let ?C = "\<Union> (texts_of ` set (map snd xs))"
  have start: "holds sha ?C (empty_db days)"
    by (simp add: holds_def db_ok_def empty_db_def stored_text_def)
  have "list_all (row_ok sha) (map snd xs)" using served_rows [OF assms(1)] assms(2) by (simp add: journal_ok_def)
  with assms(3) have "\<forall>(stamp, row) \<in> set xs. row_ok sha row \<and> texts_of row \<subseteq> ?C \<and> later_stamp stamp"
    by (fastforce simp: list_all_iff later_stamp_def)
  from texts.put_all_good [OF start this] obtain db where db: "record_all xs (empty_db days) = Some db" "holds sha ?C db"
    "rr_args ` set (rd_rows db) \<subseteq> set (map snd xs)" "days \<le> 0 \<longrightarrow> map rr_args (rd_rows db) = map snd xs"
    by (auto simp: empty_db_def record_all_def)
  with held_page [OF db(2) assms(4)] show ?thesis by (intro exI [of _ db]) auto
qed

definition recorded_world :: world where
  "recorded_world =
     sample_world\<lparr>w_env := sample_env\<lparr>env_loads :=
       (\<lambda>_. Some (JObj (jset ''system'' (JStr ''be brief'') plain_message)))\<rparr>, w_sha := id\<rparr>"

definition recorded_server :: server where
  "recorded_server =
     snd (handle_messages recorded_world sample_settings
       ((''content-type'', ''application/json'') # sample_headers) ''body'' sample_server)"

lemma recorded_prepare:
  "fst (prepare recorded_world sample_settings None
     (start_work (jset ''system'' (JStr ''be brief'') plain_message) sample_server)) = None"
  by code_simp

lemma recorded_row: "\<exists>row. srv_rows recorded_server = Some [row]"
proof -
  let ?p = "jset ''system'' (JStr ''be brief'') plain_message"
  let ?hs = "(''content-type'', ''application/json'') # sample_headers"
  have read: "read_payload (env_loads (w_env recorded_world)) ?hs ''body'' = Inr ?p" by code_simp
  have steps: "disposition_of sample_settings ?p = Upstream" "with_client_betas ?hs ?p = ?p"
    "session_key ?p = None" "jget ''model'' ?p = JStr ''sonnet''" "\<not> truthy (jget ''stream'' ?p)"
    by code_simp+
  have "case extract_client_credentials ?hs of Inl _ \<Rightarrow> False | Inr _ \<Rightarrow> True" by code_simp
  then obtain c where credentials: "extract_client_credentials ?hs = Inr c" by (auto split: sum.splits)
  obtain reply wk where run: "run_upstream recorded_world sample_settings (session_key ?p) (start_work ?p sample_server) =
      (reply, wk)" by fastforce
  have "srv_rows recorded_server = wk_rows wk"
    using run by (simp add: recorded_server_def handle_messages_def read handle_payload_def steps(1,2) credentials end_work_def)
  moreover from run_upstream_rows [OF steps(4) run] obtain d where
    "row_for (session_or_untracked None) d (srv_rows sample_server) (wk_rows wk)"
    using steps(3,5) recorded_prepare by auto
  ultimately show ?thesis by (auto simp: row_for_def sample_server_def)
qed

lemma database_shows_own_texts_witness:
  "\<exists>row db r. srv_rows recorded_server = Some [row] \<and>
     record_all [((''2026-01-01'', 5, \<lambda>_. [], 12), row)] (empty_db 0) = Some db \<and> rd_rows db = [r] \<and>
     get_request (rr_id r) db = Some (own_page r)"
proof -
  obtain row where row: "srv_rows recorded_server = Some [row]" using recorded_row by blast
  let ?xs = "[((''2026-01-01'', 5, \<lambda>_. [], 12), row)] :: (stamp \<times> db_row) list"
  have served: "served id recorded_server"
    unfolding recorded_server_def
    by (rule served.request [OF served.booted]) (simp_all add: sample_server_def recorded_world_def)
  have rows: "srv_rows recorded_server = Some (map snd ?xs)" using row by simp
  have later: "\<forall>(stamp, row) \<in> set ?xs. mono (fst (snd (snd stamp)))" by (simp add: mono_def)
  have "inj_on id (\<Union> (texts_of ` set (map snd ?xs)))" by simp
  from database_shows_own_texts [OF served rows later this, of 0] obtain db where
    db: "record_all ?xs (empty_db 0) = Some db"
    "\<forall>r \<in> set (rd_rows db). get_request (rr_id r) db = Some (own_page r)"
    "map rr_args (rd_rows db) = map snd ?xs" by (elim exE conjE) simp
  from db(3) obtain r where "rd_rows db = [r]" by (cases "rd_rows db") simp_all
  with row db(1,2) show ?thesis by (intro exI [of _ row] exI [of _ db] exI [of _ r]) simp
qed

end
