(* ===== verification/Http_Front.thy ===== *)
theory Http_Front
  imports Field_Metadata Recorded_Requests Oauth_Props Configured_Routing
begin

text \<open>
  The HTTP front of \<^verbatim>\<open>anthrouter/handlers.py\<close>: which handler a request reaches, by its method, its target and
  the connection it came on; the file of the user interface it is given; and the views of \<^verbatim>\<open>admin.py\<close>.

  \<open>urlsplit\<close> is an argument, None where it raises; so are the resolution of a path and the file system.  An
  exception outside the handlers' own \<open>try\<close> ends the connection without an answer.
\<close>

section \<open>Absolute-form targets\<close>

record absolute_url =
  au_scheme :: string
  au_host :: "string option"
  au_port :: "(int option) option"
  au_path :: string
  au_query :: string

datatype form = Origin_form string | Refused_form | Broken_form

definition listener_port :: "absolute_url \<Rightarrow> int option" where
  "listener_port u =
     map_option (\<lambda>p. case p of
         Some n \<Rightarrow> if n \<noteq> 0 then n else if py_lower (au_scheme u) = ''https'' then 443 else 80
       | None \<Rightarrow> if py_lower (au_scheme u) = ''https'' then 443 else 80) (au_port u)"

definition names_listener :: "string \<Rightarrow> int \<Rightarrow> absolute_url \<Rightarrow> bool" where
  "names_listener host port u \<longleftrightarrow>
     py_lower (au_scheme u) = ''http'' \<and>
     (case au_host u of None \<Rightarrow> [] | Some h \<Rightarrow> h) \<in> {py_lower host, ''127.0.0.1'', ''localhost'', ''::1''} \<and>
     listener_port u = Some port"

definition take_origin_form ::
  "(string \<Rightarrow> absolute_url option) \<Rightarrow> string \<Rightarrow> int \<Rightarrow> bool \<Rightarrow> string \<Rightarrow> form" where
  "take_origin_form split host port intercepted path =
     (if intercepted \<or> \<not> (startswith (py_lower path) ''http://'' \<or> startswith (py_lower path) ''https://'')
      then Origin_form path
      else case split path of
             None \<Rightarrow> Broken_form
           | Some u \<Rightarrow>
               if names_listener host port u
               then Origin_form ((if au_path u = [] then ''/'' else au_path u) @
                                 (if au_query u = [] then [] else ''?'' @ au_query u))
               else Refused_form)"

section \<open>Methods\<close>

datatype post_route =
    Post_messages | Post_count_tokens | Post_admin_config | Post_not_found
  | Post_forward string | Post_passthrough | Post_refused | Post_aborted

definition MESSAGES_PATH :: string where "MESSAGES_PATH = ''/v1/messages''"
definition COUNT_PATH :: string where "COUNT_PATH = ''/v1/messages/count_tokens''"

definition intercepted_post :: "string \<Rightarrow> string \<Rightarrow> post_route" where
  "intercepted_post target path =
     (if path \<notin> {MESSAGES_PATH, COUNT_PATH} then Post_passthrough
      else if target \<noteq> [] then Post_forward target
      else if path = MESSAGES_PATH then Post_messages
      else Post_count_tokens)"

definition do_POST ::
  "(string \<Rightarrow> absolute_url option) \<Rightarrow> config \<Rightarrow> int \<Rightarrow> bool \<Rightarrow> string \<Rightarrow> post_route" where
  "do_POST split c port intercepted target =
     (case take_origin_form split (cfg_host c) port intercepted target of
        Refused_form \<Rightarrow> Post_refused
      | Broken_form \<Rightarrow> Post_aborted
      | Origin_form p \<Rightarrow>
          let path = rstrip_slash (fst (cut_char CHR ''?'' p)) in
          if intercepted then intercepted_post (cfg_interception_target c) path
          else if path = MESSAGES_PATH then Post_messages
          else if path = COUNT_PATH then Post_count_tokens
          else if path = ''/admin/config'' then Post_admin_config
          else Post_not_found)"

datatype get_route =
    Get_health | Get_admin string string | Get_ui string | Get_not_found | Get_disabled
  | Get_passthrough | Get_refused | Get_aborted

definition do_GET ::
  "(string \<Rightarrow> absolute_url option) \<Rightarrow> config \<Rightarrow> int \<Rightarrow> bool \<Rightarrow> string \<Rightarrow> get_route" where
  "do_GET split c port intercepted target =
     (if intercepted then Get_passthrough
      else case take_origin_form split (cfg_host c) port intercepted target of
        Refused_form \<Rightarrow> Get_refused
      | Broken_form \<Rightarrow> Get_aborted
      | Origin_form p \<Rightarrow>
          (case cut_char CHR ''?'' p of
             (raw, query) \<Rightarrow>
               let path = rstrip_slash raw in
               if path = ''/health'' then Get_health
               else if \<not> (startswith path ''/admin'' \<or> startswith path ''/ui'') then Get_not_found
               else if \<not> cfg_enable_ui c then Get_disabled
               else if startswith path ''/ui'' then Get_ui raw
               else Get_admin (if path = [] then ''/admin'' else path) (case query of None \<Rightarrow> [] | Some q \<Rightarrow> q)))"

datatype other_route = Other_unsupported | Other_passthrough | Other_refused | Other_aborted

definition other_method ::
  "(string \<Rightarrow> absolute_url option) \<Rightarrow> config \<Rightarrow> int \<Rightarrow> bool \<Rightarrow> string \<Rightarrow> other_route" where
  "other_method split c port intercepted target =
     (if intercepted then Other_passthrough
      else case take_origin_form split (cfg_host c) port intercepted target of
             Refused_form \<Rightarrow> Other_refused
           | Broken_form \<Rightarrow> Other_aborted
           | Origin_form _ \<Rightarrow> Other_unsupported)"

section \<open>The user interface\<close>

record file_system =
  fs_at :: "string \<Rightarrow> string"
  fs_within :: "string \<Rightarrow> bool"
  fs_file :: "string \<Rightarrow> bool"
  fs_index :: string

text \<open>The file that is served and whether a browser may keep it; None is the 404 of a bundle not built.\<close>

definition serve_ui_file :: "file_system \<Rightarrow> string \<Rightarrow> (string \<times> bool) option" where
  "serve_ui_file fs raw =
     (let rest = dropWhile (\<lambda>c. c = CHR ''/'') (drop 3 raw);
          f = fs_at fs (if rest = [] then ''index.html'' else rest);
          chosen = (if fs_within fs f \<and> fs_file fs f then f else fs_index fs)
      in if fs_file fs chosen then Some (chosen, chosen \<noteq> fs_index fs) else None)"

section \<open>The views of the admin API\<close>

record status_view =
  sv_upstream :: string
  sv_routing :: bool
  sv_sanitize :: string
  sv_lock :: string
  sv_retention :: int
  sv_stats :: db_stats
  sv_ratelimit :: "(string \<times> jdict) option"

definition get_status :: "request_db \<Rightarrow> config \<Rightarrow> status_view" where
  "get_status db c =
     \<lparr>sv_upstream = cfg_upstream_base_url c, sv_routing = cfg_routing c, sv_sanitize = cfg_sanitize c,
      sv_lock = cfg_lock c, sv_retention = cfg_retention_days c, sv_stats = get_stats db,
      sv_ratelimit = get_latest_ratelimit db\<rparr>"

datatype admin_body =
    Config_body bool "(field \<times> field_view) list"
  | Status_body status_view
  | Requests_body "request_row list" int int "string option"
  | Detail_body request_detail "event_row list"
  | Routing_body "request_row list" routing_totals int int
  | Ratelimit_body "(string \<times> jdict) option"
  | Usage_body oauth_usage
  | Usage_pending
  | Prompt_body stored_prompt
  | Error_body string

record admin_world =
  aw_int :: "string \<Rightarrow> int option"
  aw_show :: "pyfloat \<Rightarrow> string"
  aw_query :: "string \<Rightarrow> (string \<times> string) list"
  aw_fts :: "string \<Rightarrow> request_row \<Rightarrow> bool"
  aw_hash :: "string \<Rightarrow> string"
  aw_now :: rat

text \<open>\<open>_get_oauth_usage\<close>: a token in the query is handed to the cache like the token of a request.\<close>

definition get_oauth_usage ::
  "admin_world \<Rightarrow> (string \<times> string) list \<Rightarrow> oauth_cache \<Rightarrow> (int \<times> admin_body) \<times> oauth_cache" where
  "get_oauth_usage aw params c =
     (let token = (case map_of params ''token'' of None \<Rightarrow> [] | Some t \<Rightarrow> t);
          c' = (if token = [] then c else snd (get_cached token (aw_hash aw token) (aw_now aw) c))
      in (case get_usage c' of None \<Rightarrow> (202, Usage_pending) | Some u \<Rightarrow> (200, Usage_body u), c'))"

text \<open>The answer to one view of \<open>handle_get\<close>; None is an exception.\<close>

definition render_view ::
  "admin_world \<Rightarrow> request_db option \<Rightarrow> admin_state \<Rightarrow> view \<Rightarrow> (int \<times> admin_body) option" where
  "render_view aw db st v =
     (case v of
        View_config \<Rightarrow> (case get_config (aw_show aw) st of (configured, shown) \<Rightarrow> Some (200, Config_body configured shown))
      | View_error code ty \<Rightarrow> Some (code, Error_body ty)
      | View_raises _ \<Rightarrow> None
      | View_usage \<Rightarrow> None
      | View_status \<Rightarrow> map_option (\<lambda>d. (200, Status_body (get_status d (running st)))) db
      | View_requests limit offset q \<Rightarrow>
          map_option (\<lambda>d. (200, Requests_body (get_requests (aw_fts aw) limit offset q d) limit offset q)) db
      | View_request rid \<Rightarrow>
          map_option (\<lambda>d. case get_request rid d of
              None \<Rightarrow> (404, Error_body ''not_found_error'')
            | Some r \<Rightarrow> (200, Detail_body r (get_sanitizer_events rid d))) db
      | View_routing limit offset \<Rightarrow>
          map_option (\<lambda>d. (200, Routing_body (get_routing_decisions limit offset d) (get_routing_summary d) limit offset)) db
      | View_ratelimit \<Rightarrow> map_option (\<lambda>d. (200, Ratelimit_body (get_latest_ratelimit d))) db
      | View_prompt h \<Rightarrow>
          map_option (\<lambda>d. case get_prompt h d of
              None \<Rightarrow> (404, Error_body ''not_found_error'') | Some sp \<Rightarrow> (200, Prompt_body sp)) db)"

section \<open>The process\<close>

text \<open>What all requests share: the running configuration with its file, the state of the Messages path, the
  database and the usage cache.\<close>

record process =
  pr_admin :: admin_state
  pr_server :: server
  pr_db :: "request_db option"
  pr_usage :: oauth_cache

definition settings_of :: "config \<Rightarrow> settings" where
  "settings_of c =
     \<lparr>st_handler = \<lparr>routing_config = router_config_of c, lock_requested_model = cfg_lock c,
                   model_aliases = cfg_aliases c\<rparr>,
      st_monitor_local = cfg_monitor_local c, st_activity_local = cfg_activity_local c,
      st_sanitize = cfg_sanitize c, st_strip_attribution = cfg_strip_attribution c, st_caveman = cfg_caveman c,
      st_caveman_model = cfg_caveman_model c, st_volatility = default_vol_config\<rparr>"

text \<open>\<open>GET /admin/...\<close> and its 500.\<close>

definition admin_get ::
  "admin_world \<Rightarrow> string \<Rightarrow> string \<Rightarrow> process \<Rightarrow> (int \<times> admin_body) \<times> process" where
  "admin_get aw path query p =
     (let params = aw_query aw query; v = handle_get (aw_int aw) path params (pr_db p \<noteq> None) in
      if v = View_usage
      then (case get_oauth_usage aw params (pr_usage p) of (res, c) \<Rightarrow> (res, p\<lparr>pr_usage := c\<rparr>))
      else (case render_view aw (pr_db p) (pr_admin p) v of
              Some res \<Rightarrow> (res, p)
            | None \<Rightarrow> ((500, Error_body ''api_error''), p)))"

text \<open>\<open>_handle_admin_config_post\<close>: the error answers before \<open>handle_post_config\<close>, its own, and the end of the
  thread.\<close>

datatype config_answer = Config_error int | Config_result post_result

definition admin_config_post ::
  "(string \<Rightarrow> json option) \<Rightarrow> admin_env \<Rightarrow> header_map \<Rightarrow> string \<Rightarrow> process \<Rightarrow> config_answer \<times> process" where
  "admin_config_post loads ae headers body p =
     (if \<not> cfg_enable_ui (running (pr_admin p)) then (Config_error 404, p)
      else if \<not> py_in ''application/json'' (header_value headers ''content-type'') then (Config_error 400, p)
      else case loads (if body = [] then ''{}'' else body) of
             None \<Rightarrow> (Config_error 400, p)
           | Some j \<Rightarrow>
               (case handle_post_config ae (map_of headers ''x-admin-token'') j (pr_admin p) of
                  (Raises _, st) \<Rightarrow> (Config_error 500, p\<lparr>pr_admin := st\<rparr>)
                | (r, st) \<Rightarrow> (Config_result r, p\<lparr>pr_admin := st\<rparr>)))"

text \<open>The token of a request that authenticates as a bearer.\<close>

definition bearer_token :: "header_map \<Rightarrow> string option" where
  "bearer_token headers =
     (let h = header_value headers ''authorization'' in
      if startswith (py_lower h) ''bearer '' \<and> py_strip (drop 7 h) \<noteq> [] then Some (py_strip (drop 7 h)) else None)"

text \<open>Whether a body reaches the upstream path with a credential.\<close>

definition goes_upstream :: "world \<Rightarrow> settings \<Rightarrow> header_map \<Rightarrow> string \<Rightarrow> bool" where
  "goes_upstream w st headers body \<longleftrightarrow>
     (case read_payload (env_loads (w_env w)) headers body of
        Inl _ \<Rightarrow> False
      | Inr payload \<Rightarrow>
          disposition_of st payload = Upstream \<and>
          (case extract_client_credentials headers of Inl _ \<Rightarrow> False | Inr _ \<Rightarrow> True))"

definition note_token :: "world \<Rightarrow> settings \<Rightarrow> header_map \<Rightarrow> string \<Rightarrow> oauth_cache \<Rightarrow> oauth_cache" where
  "note_token w st headers body c =
     (case bearer_token headers of
        Some t \<Rightarrow> if goes_upstream w st headers body then snd (get_cached t (w_sha w t) (w_now w) c) else c
      | None \<Rightarrow> c)"

fun record_rows :: "stamp \<Rightarrow> db_row list \<Rightarrow> request_db \<Rightarrow> request_db" where
  "record_rows stamp [] db = db"
| "record_rows (now, clock, cutoff, duration) (row # rows) db =
     record_rows (now, clock, cutoff, duration) rows (snd (record_request now clock cutoff duration row db))"

text \<open>\<open>POST /v1/messages\<close> on the shared state: the rows it leaves go straight to the database.\<close>

definition post_messages ::
  "world \<Rightarrow> stamp \<Rightarrow> header_map \<Rightarrow> string \<Rightarrow> process \<Rightarrow> http_answer \<times> process" where
  "post_messages w stamp headers body p =
     (let st = settings_of (running (pr_admin p)) in
      case handle_messages w st headers body ((pr_server p)\<lparr>srv_rows := map_option (\<lambda>_. []) (pr_db p)\<rparr>) of
        (res, srv) \<Rightarrow>
          (res,
           p\<lparr>pr_server := srv,
             pr_db := (case (pr_db p, srv_rows srv) of
                         (Some db, Some rows) \<Rightarrow> Some (record_rows stamp rows db) | _ \<Rightarrow> pr_db p),
             pr_usage := note_token w st headers body (pr_usage p)\<rparr>))"

end
