(* ===== verification/Process.thy ===== *)
theory Process
  imports Http_Front
begin

text \<open>
  \<^verbatim>\<open>anthrouter/server.py\<close> and \<^verbatim>\<open>__main__.py\<close>: from the command line to a listening process, and the steps
  the process then takes.  Whether \<open>truststore\<close> is installed, whether the leaf certificate loads and what
  the database file holds are arguments.  The CA bundle (\<open>rebuild_ca_bundle\<close>) touches none of this state.
\<close>

section \<open>Starting\<close>

record start_world =
  sw_split :: "string \<Rightarrow> url option"
  sw_truststore :: bool
  sw_leaf :: bool
  sw_stored :: request_db
  sw_rewrites :: "(string \<times> json \<times> rat) list option"
  sw_now :: rat

datatype boot = Listening process | Bad_upstream | No_leaf

definition create_server :: "start_world \<Rightarrow> string option \<Rightarrow> config \<Rightarrow> boot" where
  "create_server sw env_file c =
     (case Option.bind (sw_split sw (cfg_upstream_base_url c)) upstream_target_of of
        None \<Rightarrow> Bad_upstream
      | Some _ \<Rightarrow>
          if cfg_connect_proxy c \<and> \<not> sw_leaf sw then No_leaf
          else Listening
            \<lparr>pr_admin = \<lparr>running = c, config_env = env_file\<rparr>,
             pr_server =
               \<lparr>srv_sessions = initial_session (cfg_routing c), srv_router = empty_rstate, srv_tracker = [],
                srv_rewriter = new_rewriter (sw_rewrites sw) (sw_now sw), srv_ratio = [], srv_prose = [],
                srv_rows = None\<rparr>,
             pr_db = (if cfg_db_path c \<in> {None, Some []} then None
                      else Some ((sw_stored sw)\<lparr>rd_retention_days := cfg_retention_days c,
                                                rd_last_retention := 0\<rparr>)),
             pr_usage = new_cache (Some (cfg_poll_interval c))\<rparr>)"

datatype started = Serving process | Exit int | Failed py_error

definition main :: "start_env \<Rightarrow> start_world \<Rightarrow> string option \<Rightarrow> started" where
  "main e sw env_file =
     (case parse_args e of
        Usage_error \<Rightarrow> Exit 2
      | Crash x \<Rightarrow> Failed x
      | Started c \<Rightarrow>
          if cfg_tls_system_trust c \<and> \<not> sw_truststore sw then Exit 1
          else (case create_server sw env_file c of
                  Bad_upstream \<Rightarrow> Failed ValueError
                | No_leaf \<Rightarrow> Exit 1
                | Listening p \<Rightarrow> Serving p))"

section \<open>Steps\<close>

text \<open>
  What a served process does: the requests that touch shared state, and the turns of the polling thread.
  The keys of a parsed JSON object are distinct, the clock of the database does not go back, and one hash
  function is used throughout.
\<close>

definition keys_distinct :: "(string \<Rightarrow> json option) \<Rightarrow> bool" where
  "keys_distinct loads \<longleftrightarrow> (\<forall>s d. loads s = Some (JObj d) \<longrightarrow> distinct (map fst d))"

inductive process_reach ::
  "start_env \<Rightarrow> admin_env \<Rightarrow> poll_env \<Rightarrow> (string \<Rightarrow> string) \<Rightarrow> process \<Rightarrow> bool" for e ae pe sha where
  serving: "main e sw env_file = Serving p \<Longrightarrow> db_ok (sw_stored sw) \<Longrightarrow> process_reach e ae pe sha p"
| messages: "process_reach e ae pe sha p \<Longrightarrow> w_sha w = sha \<Longrightarrow> mono cutoff \<Longrightarrow>
    process_reach e ae pe sha (snd (post_messages w (now, clock, cutoff, duration) headers body p))"
| config_post: "process_reach e ae pe sha p \<Longrightarrow> keys_distinct loads \<Longrightarrow>
    process_reach e ae pe sha (snd (admin_config_post loads ae headers body p))"
| admin_view: "process_reach e ae pe sha p \<Longrightarrow> process_reach e ae pe sha (snd (admin_get aw path query p))"
| usage_turn: "process_reach e ae pe sha p \<Longrightarrow>
    process_reach e ae pe sha (p\<lparr>pr_usage := poll_turn pe now clock h pl (pr_usage p)\<rparr>)"

end
