(* ===== verification/Process_Props.thy ===== *)
theory Process_Props
  imports Process
begin

text \<open>
  The process as a whole: each part of its state only takes the steps of its own component, so what is
  proved of the components holds of it; a GET reads; what is recorded can be read back; and a decrypted
  connection reaches neither the editor nor the views.
\<close>

section \<open>Sessions\<close>

abbreviation sessions_ok :: "work \<Rightarrow> bool" where
  "sessions_ok wk \<equiv> session_reachable (rq_sessions (wk_rq wk))"

lemma thread_reachable: "session_reachable s \<Longrightarrow> session_reachable (record_thread i m lc k t n s)"
  by (rule reach_step [OF _ step_thread])

lemma ratelimit_reachable: "session_reachable s \<Longrightarrow> session_reachable (record_ratelimit window s)"
  by (rule reach_step [OF _ step_ratelimit])

lemma take_chunk_reachable:
  assumes "take_chunk sc c ws = (x, ws')" "session_reachable (ws_sessions ws)"
  shows "session_reachable (ws_sessions ws')"
  using assms
  by (auto simp: take_chunk_def note_text_def note_thread_def note_error_def pin_thread_def thread_reachable
      split: prod.splits option.splits if_splits)

lemma take_chunks_reachable:
  "take_chunks sc cs ws = (out, x, ws') \<Longrightarrow> session_reachable (ws_sessions ws) \<Longrightarrow> session_reachable (ws_sessions ws')"
proof (induction cs arbitrary: ws out)
  case (Cons c cs)
  obtain y ws1 where c: "take_chunk sc c ws = (y, ws1)" by fastforce
  note step = take_chunk_reachable [OF c Cons.prems(2)]
  show ?case
  proof (cases y)
    case None
    with Cons.prems c obtain out' where "take_chunks sc cs ws1 = (out', x, ws')"
      by (auto split: prod.splits)
    from Cons.IH [OF this step] show ?thesis .
  qed (use Cons.prems c step in auto)
qed simp

lemma wrapper_reachable:
  assumes "usage_sse_wrapper dash sc rl cs x rq = (out, x', row, rq')" "session_reachable (rq_sessions rq)"
  shows "session_reachable (rq_sessions rq')"
proof -
  obtain o1 y ws where take: "take_chunks sc cs (start_stream (rq_sessions rq)) = (o1, y, ws)"
    by (metis prod_cases3)
  have "session_reachable (ws_sessions ws)"
    by (rule take_chunks_reachable [OF take]) (simp add: start_stream_def assms(2))
  then have "session_reachable (rq_sessions (rq\<lparr>rq_sessions := record_ratelimit rl (ws_sessions ws)\<rparr>))"
    by (simp add: ratelimit_reachable)
  from session_context_reachable [OF this] assms(1) take show ?thesis
    by (auto simp: usage_sse_wrapper_def Let_def)
qed

lemma record_frames [simp]:
  "wk_rq (record_db sid st status err t m att wk) = wk_rq wk"
  "wk_rq (record_caveman_prose s t wk) = wk_rq wk" "wk_rq (record_caveman_ratio s st wk) = wk_rq wk"
  by (simp_all add: record_db_def record_caveman_prose_def record_caveman_ratio_def split: option.split prod.split)

lemma upd_sessions_ok: "sessions_ok wk \<Longrightarrow> (\<And>s. session_reachable s \<Longrightarrow> session_reachable (f s)) \<Longrightarrow> sessions_ok (upd_sessions f wk)"
  by (simp add: upd_sessions_def)

lemma pin_response_reachable: "session_reachable s \<Longrightarrow> session_reachable (pin_response st k p result t s)"
  by (simp add: pin_response_def thread_reachable split: option.split json.split)

lemma finish_json_ok: "sessions_ok wk \<Longrightarrow> sessions_ok (finish_json w k att st t wk)"
  by (simp add: finish_json_def session_context_reachable)

lemma dispatch_json_ok: "sessions_ok wk \<Longrightarrow> sessions_ok (snd (dispatch_json w st k wk))"
  by (simp add: dispatch_json_def Let_def finish_json_ok upd_sessions_ok ratelimit_reachable pin_response_reachable
      split: sum.split json.split)

lemma finish_stream_ok:
  assumes "sessions_ok wk" shows "sessions_ok (finish_stream w k att sc seen wk)"
proof -
  obtain out x row rq where run: "usage_sse_wrapper (g_dash (w_glyphs w)) sc (at_ratelimit att)
      (fst seen) (snd seen) (wk_rq wk) = (out, x, row, rq)" by (metis prod_cases4)
  from wrapper_reachable [OF run assms] show ?thesis by (simp add: finish_stream_def run Let_def)
qed

lemma dispatch_request_ok:
  assumes "sessions_ok wk" shows "sessions_ok (snd (dispatch_request w st k wk))"
proof (cases "truthy (jget ''stream'' (wk_payload wk))")
  case True
  with assms show ?thesis
    by (auto simp: dispatch_request_def dispatch_stream_def Let_def finish_stream_ok split: prod.split option.split)
next
  case False
  with dispatch_json_ok [OF assms, of w st k] show ?thesis
    by (auto simp: dispatch_request_def record_failed_request_def Let_def split: prod.split sum.split exn.split)
qed

lemma route_step_ok:
  assumes "sessions_ok wk" "route_step w st k wk = (x, wk')"
  shows "sessions_ok wk'"
proof (cases "has_happy_new_year_system_prompt (wk_payload wk)")
  case True
  with assms show ?thesis by (auto simp: route_step_def)
next
  case False
  obtain r rq where run: "route_request (w_env w) (w_sha w) (st_handler st) (w_now w) (w_later w) k
      (handoff_key_of (w_sha w) k (wk_payload wk)) (wk_rq wk) = (r, rq)" by fastforce
  have "session_reachable (rq_sessions rq)" using route_request_reachable [OF assms(1)] run by (metis snd_conv)
  with False assms(2) run show ?thesis by (cases r) (auto simp: route_step_def)
qed

lemma prepare_ok:
  assumes "sessions_ok wk" "prepare w st k wk = (x, wk')"
  shows "sessions_ok wk'"
proof (cases x)
  case None
  with assms(2) obtain wk1 where "route_step w st k wk = (None, wk1)" "content_only wk1 wk'"
    by (auto elim: prepare_content)
  with route_step_ok [OF assms(1)] show ?thesis by (auto simp only: content_only_def)
next
  case (Some exc)
  obtain y wk1 where route: "route_step w st k wk = (y, wk1)" by fastforce
  with Some assms(2) have "wk' = wk1"
    by (auto simp: prepare_def Let_def split: option.splits if_splits)
  with route_step_ok [OF assms(1) route] show ?thesis by simp
qed

lemma run_upstream_ok:
  assumes "sessions_ok wk" shows "sessions_ok (snd (run_upstream w st k wk))"
proof -
  obtain x wk1 where prep: "prepare w st k wk = (x, wk1)" by fastforce
  from prepare_ok [OF assms prep] prep show ?thesis
    by (cases x) (simp_all add: run_upstream_def send_reclassified_def dispatch_request_ok)
qed

lemma command_reachable:
  assumes "session_reachable s" "command_markdown g repr cfg c k s = (md, s')"
  shows "session_reachable s'"
proof -
  have 1: "session_reachable (set_model_routing b s)" for b by (rule reach_step [OF assms(1) step_routing])
  have 2: "session_reachable (set_session_model_routing k b s)" for k b by (rule reach_step [OF assms(1) step_override])
  from assms 1 2 show ?thesis
    by (cases c) (auto simp: command_markdown_def set_model_routing_markdown_def session_set_model_routing_markdown_def
        Let_def split: setting.splits option.splits if_splits)
qed

lemma handled_sessions:
  assumes "session_reachable (srv_sessions srv)"
  shows "session_reachable (srv_sessions (snd (handle_messages w st headers body srv)))"
proof -
  have payload: "session_reachable (srv_sessions (snd (handle_payload w st headers p srv)))" for p
  proof (cases "disposition_of st p")
    case (Local_command c)
    obtain md s where md: "command_markdown (w_glyphs w) (env_repr (w_env w)) (routing_config (st_handler st)) c
        (session_key p) (srv_sessions srv) = (md, s)" by fastforce
    from command_reachable [OF assms md] Local_command md show ?thesis by (simp add: handle_payload_def)
  next
    case Upstream
    obtain reply wk where wk: "run_upstream w st (session_key p) (start_work (with_client_betas headers p) srv) =
        (reply, wk)" by fastforce
    have "sessions_ok (start_work (with_client_betas headers p) srv)" using assms by (simp add: start_work_def)
    from run_upstream_ok [OF this, of w st "session_key p"] wk have "sessions_ok wk" by simp
    with Upstream wk assms show ?thesis
      by (cases "extract_client_credentials headers") (simp_all add: handle_payload_def end_work_def)
  qed (use assms in \<open>simp_all add: handle_payload_def\<close>)
  show ?thesis
    by (cases "read_payload (env_loads (w_env w)) headers body") (simp_all add: handle_messages_def assms payload)
qed

section \<open>The database\<close>

lemma record_rows_put:
  "put_all put_request (map (Pair stamp) rows) db = Some db' \<Longrightarrow> record_rows stamp rows db = db'"
  by (induction stamp rows db rule: record_rows.induct)
     (auto simp: put_request_def split: option.splits prod.splits)

lemma recorded_rows:
  assumes "db_ok db" "list_all (row_ok sha) rows" "mono cutoff"
  shows "db_ok (record_rows (now, clock, cutoff, duration) rows db)"
    and "rd_retention_days db \<le> 0 \<Longrightarrow>
      map rr_args (rd_rows (record_rows (now, clock, cutoff, duration) rows db)) = map rr_args (rd_rows db) @ rows"
proof -
  let ?xs = "map (Pair (now, clock, cutoff, duration)) rows"
  have "\<forall>(t, row) \<in> set ?xs. row_ok sha row \<and> later_stamp t"
    using assms(2,3) by (auto simp: list_all_iff later_stamp_def)
  from rows.put_all_good [OF assms(1) this] obtain db' where db': "put_all put_request ?xs db = Some db'" "db_ok db'"
    "rd_retention_days db \<le> 0 \<longrightarrow> map rr_args (rd_rows db') = map rr_args (rd_rows db) @ map snd ?xs" by blast
  note same = record_rows_put [OF db'(1)]
  show "db_ok (record_rows (now, clock, cutoff, duration) rows db)" by (simp add: same db'(2))
  show "rd_retention_days db \<le> 0 \<Longrightarrow>
      map rr_args (rd_rows (record_rows (now, clock, cutoff, duration) rows db)) = map rr_args (rd_rows db) @ rows"
    using db'(3) by (simp add: same comp_def)
qed

text \<open>What a request leaves is recorded at its end: the database keeps exact counts, and without retention the
  rows are appended as they are.\<close>

lemma messages_recorded:
  assumes "pr_db p = Some db" "db_ok db" "mono cutoff"
  obtains rows db' where
    "srv_rows (pr_server (snd (post_messages w (now, clock, cutoff, duration) headers body p))) = Some rows"
    "pr_db (snd (post_messages w (now, clock, cutoff, duration) headers body p)) = Some db'" "db_ok db'"
    "rd_retention_days db \<le> 0 \<longrightarrow> map rr_args (rd_rows db') = map rr_args (rd_rows db) @ rows"
proof -
  let ?st = "settings_of (running (pr_admin p))"
  obtain reply srv where run: "handle_messages w ?st headers body ((pr_server p)\<lparr>srv_rows := Some []\<rparr>) = (reply, srv)"
    by fastforce
  have "journal_ok (w_sha w) (srv_rows ((pr_server p)\<lparr>srv_rows := Some []\<rparr>))" by (simp add: journal_ok_def)
  from handled_rows [OF this, of ?st headers body] run obtain rows
    where rows: "srv_rows srv = Some rows" "list_all (row_ok (w_sha w)) rows" by (auto simp: journal_ok_def)
  from recorded_rows [OF assms(2) rows(2) assms(3)] that rows(1) run assms(1) show ?thesis
    by (simp add: post_messages_def)
qed

lemma messages_db_ok:
  assumes "\<forall>db. pr_db p = Some db \<longrightarrow> db_ok db" "mono cutoff"
    and "pr_db (snd (post_messages w (now, clock, cutoff, duration) headers body p)) = Some db'"
  shows "db_ok db'"
proof -
  obtain db where db: "pr_db p = Some db"
    using assms(3) by (cases "pr_db p") (auto simp: post_messages_def Let_def split: prod.splits)
  with assms(1) have "db_ok db" by blast
  from messages_recorded [OF db this assms(2), of w now clock duration headers body] assms(3) show ?thesis by auto
qed

section \<open>The components of a process\<close>

lemma post_non_object: "as_obj j = None \<Longrightarrow> snd (handle_post_config ae token j st) = st"
  by (simp add: handle_post_config_def)

lemma config_post_reach:
  assumes "config_reach e ae (pr_admin p)" "keys_distinct loads"
  shows "config_reach e ae (pr_admin (snd (admin_config_post loads ae headers body p)))"
proof -
  have post: "config_reach e ae st" if "loads s = Some j" "handle_post_config ae token j (pr_admin p) = (r, st)"
    for s j token r st
  proof (cases "as_obj j")
    case None
    with post_non_object [OF None, of ae token "pr_admin p"] that(2) assms(1) show ?thesis by simp
  next
    case (Some d)
    then have "j = JObj d" by (cases j) simp_all
    with config_reach.post [OF assms(1)] that assms(2) show ?thesis by (auto simp: keys_distinct_def)
  qed
  with assms(1) show ?thesis
    by (auto simp: admin_config_post_def split: option.splits prod.splits post_result.splits)
qed

lemma config_post_frame [simp]:
  "pr_server (snd (admin_config_post loads ae headers body p)) = pr_server p"
  "pr_db (snd (admin_config_post loads ae headers body p)) = pr_db p"
  "pr_usage (snd (admin_config_post loads ae headers body p)) = pr_usage p"
  by (auto simp: admin_config_post_def split: option.split prod.split post_result.split)

lemma admin_get_frame [simp]:
  "pr_admin (snd (admin_get aw path query p)) = pr_admin p"
  "pr_server (snd (admin_get aw path query p)) = pr_server p"
  "pr_db (snd (admin_get aw path query p)) = pr_db p"
  by (simp_all add: admin_get_def Let_def split: prod.split option.split)

lemma get_cached_reach:
  "cache_reach pe n c \<Longrightarrow> cache_reach pe n (snd (get_cached t h now c))"
  using cache_reach.step [of pe n c "Get t h now"] by (simp add: cache_step_def)

lemma admin_get_usage:
  "cache_reach pe n (pr_usage p) \<Longrightarrow> cache_reach pe n (pr_usage (snd (admin_get aw path query p)))"
  by (simp add: admin_get_def get_oauth_usage_def Let_def get_cached_reach split: prod.split option.split)

lemma messages_frame:
  "pr_admin (snd (post_messages w stamp headers body p)) = pr_admin p"
  "pr_usage (snd (post_messages w stamp headers body p)) =
     note_token w (settings_of (running (pr_admin p))) headers body (pr_usage p)"
  "pr_server (snd (post_messages w stamp headers body p)) =
     snd (handle_messages w (settings_of (running (pr_admin p))) headers body
       ((pr_server p)\<lparr>srv_rows := map_option (\<lambda>_. []) (pr_db p)\<rparr>))"
  by (simp_all add: post_messages_def Let_def split: prod.split)

lemma main_serving:
  assumes "main e sw env_file = Serving p"
  obtains c where "parse_args e = Started c" "pr_admin p = \<lparr>running = c, config_env = env_file\<rparr>"
    "srv_sessions (pr_server p) = initial_session (cfg_routing c)"
    "pr_usage p = new_cache (Some (cfg_poll_interval c))"
    "pr_db p = None \<or> pr_db p = Some ((sw_stored sw)\<lparr>rd_retention_days := cfg_retention_days c, rd_last_retention := 0\<rparr>)"
  using assms by (auto simp: main_def create_server_def split: start.splits option.splits if_splits)

lemma process_parts:
  assumes "process_reach e ae pe sha p"
  shows "config_reach e ae (pr_admin p) \<and> session_reachable (srv_sessions (pr_server p)) \<and>
    (\<forall>db. pr_db p = Some db \<longrightarrow> db_ok db) \<and>
    (\<exists>c. parse_args e = Started c \<and> cache_reach pe (Some (cfg_poll_interval c)) (pr_usage p))"
  using assms
proof (induction rule: process_reach.induct)
  case (serving sw env_file p)
  from main_serving [OF serving(1)] obtain c where c: "parse_args e = Started c"
    "pr_admin p = \<lparr>running = c, config_env = env_file\<rparr>" "srv_sessions (pr_server p) = initial_session (cfg_routing c)"
    "pr_usage p = new_cache (Some (cfg_poll_interval c))"
    "pr_db p = None \<or> pr_db p = Some ((sw_stored sw)\<lparr>rd_retention_days := cfg_retention_days c, rd_last_retention := 0\<rparr>)" .
  have "db_ok ((sw_stored sw)\<lparr>rd_retention_days := d, rd_last_retention := 0\<rparr>)" for d
    using serving(2) by (simp add: db_ok_def)
  with c config_reach.boot [OF c(1)] reach_init cache_reach.start show ?case by auto
next
  case (messages p w cutoff now clock duration headers body)
  then have "session_reachable (srv_sessions ((pr_server p)\<lparr>srv_rows := x\<rparr>))" for x by simp
  moreover have "cache_reach pe n (note_token w st headers body (pr_usage p))" if "cache_reach pe n (pr_usage p)" for n st
    using that by (simp add: note_token_def get_cached_reach split: option.split)
  ultimately show ?case
    using messages messages_db_ok [OF _ messages.hyps(3)] handled_sessions by (auto simp: messages_frame)
next
  case (config_post p loads headers body)
  then show ?case using config_post_reach by auto
next
  case (admin_view p aw path query)
  then show ?case using admin_get_usage by auto
next
  case (usage_turn p now clock h pl)
  then show ?case using cache_reach.step [of pe _ "pr_usage p" "Turn now clock h pl"] by (auto simp: cache_step_def)
qed

lemma reached_db_ok: "process_reach e ae pe sha p \<Longrightarrow> pr_db p = Some db \<Longrightarrow> db_ok db"
  using process_parts by blast

text \<open>(C16) In every process that a start and any sequence of requests and polls reach, the configuration is valid,
  every session store is within its bound with unique keys, the database keeps exact reference counts, and
  the usage cache has only taken the steps of its poller, from the interval the process was started with.\<close>

theorem process_invariant:
  assumes "process_reach e ae pe sha p" "ae_split ae = se_split e"
  shows "validate_config (se_split e) (running (pr_admin p)) = Inr [] \<and> session_ok (srv_sessions (pr_server p)) \<and>
    (\<forall>db. pr_db p = Some db \<longrightarrow> db_ok db) \<and>
    (\<exists>c. parse_args e = Started c \<and> cache_reach pe (Some (cfg_poll_interval c)) (pr_usage p))"
  using process_parts [OF assms(1)] reach_config_ok [OF _ assms(2)] reachable_ok by (auto simp: config_ok_def)

section \<open>A served process\<close>

definition served_start :: start_env where
  "served_start = sample_start\<lparr>se_vars := (\<lambda>_. None)(''ANTHROUTER_DB_PATH'' := Some ''r.db'')\<rparr>"

definition sample_boot :: start_world where
  "sample_boot =
     \<lparr>sw_split = (\<lambda>_. Some \<lparr>url_scheme = ''https'', url_host = Some ''h'', url_port = Some None, url_path = []\<rparr>),
      sw_truststore = True, sw_leaf = True, sw_stored = sample_db, sw_rewrites = None, sw_now = 0\<rparr>"

lemma served_started: "\<exists>c. parse_args served_start = Started c \<and> cfg_db_path c = Some ''r.db''"
proof -
  have t: "parse_classification_str [] = Some DEFAULT_LABEL_MAP" "parse_model_aliases_str [] = Some []"
    by code_simp+
  have "numbers_ok served_start" by (simp add: numbers_ok_def served_start_def sample_start_def INT_VARS_def FLOAT_VARS_def)
  then show ?thesis
    by (simp add: parse_args_def t opt_arg_def text_arg_def served_start_def sample_start_def config_of_args_def
        int_arg_def float_arg_def bool_arg_def env_bool_def or_off_def validate_config_def enum_errors_def
        bound_errors_def weight_errors_def report_def float_le_def float_min_def float_max_def resolve_paths_def
        resolve_home_def rstrip_slash_def DEFAULT_UPSTREAM_BASE_URL_def Let_def py_eval)
qed

lemma sample_serving:
  "\<exists>p. main served_start sample_boot None = Serving p \<and> pr_db p = Some (sample_db\<lparr>rd_retention_days :=
     cfg_retention_days (running (pr_admin p))\<rparr>)"
proof -
  from served_started obtain c where "parse_args served_start = Started c" "cfg_db_path c = Some ''r.db''" by blast
  then show ?thesis
    by (simp add: main_def create_server_def sample_boot_def upstream_target_of_def sample_db_def)
qed

lemma sample_process:
  assumes "main served_start sample_boot None = Serving p"
  shows "process_reach served_start ae pe sha p"
  by (rule process_reach.serving [OF assms]) (simp add: sample_boot_def reach_db_ok [OF sample_reach])

theorem process_invariant_witness:
  "\<exists>p. process_reach served_start sample_admin sample_poll_env id p \<and> pr_db p \<noteq> None \<and>
    validate_config (se_split served_start) (running (pr_admin p)) = Inr [] \<and> (\<forall>db. pr_db p = Some db \<longrightarrow> db_ok db)"
proof -
  from sample_serving obtain p where p: "main served_start sample_boot None = Serving p" "pr_db p \<noteq> None" by auto
  have reached: "process_reach served_start sample_admin sample_poll_env id p" by (rule sample_process [OF p(1)])
  have "ae_split sample_admin = se_split served_start"
    by (simp add: sample_admin_def served_start_def sample_start_def)
  from process_invariant [OF reached this] reached p(2) show ?thesis by blast
qed

end
