(* ===== verification/Process_Reads.thy ===== *)
theory Process_Reads
  imports Process_Props
begin

text \<open>
  What a client of the admin API sees of a process, and which requests reach it: a GET reads, a recorded
  request can be read back, and neither a decrypted connection nor a request for another host gets in.
\<close>

section \<open>Reading\<close>

lemma usage_view_path:
  assumes "handle_get parse path params b = View_usage"
  shows "rstrip_slash path = ''/admin/oauth-usage''"
  using assms unfolding handle_get_def Let_def
  by (simp split: prod.splits if_splits option.splits list.splits)

lemma error_view_code:
  assumes "handle_get parse path params b = View_error code ty"
  shows "code \<in> {400, 404, 503}"
  using assms unfolding handle_get_def Let_def
  by (simp split: prod.splits if_splits option.splits list.splits)

lemma raising_view_path:
  assumes "handle_get parse path params b = View_raises x"
  shows "\<exists>raw. raw \<noteq> [] \<and> list_all unicode_digit raw \<and> parse raw = None"
  using assms unfolding handle_get_def Let_def
  by (intro exI [of _ "drop 16 (rstrip_slash path)"])
     (auto split: prod.splits if_splits option.splits list.splits)

lemma view_without_db:
  "handle_get parse path params False \<in> {View_config, View_error 503 ''api_error''}"
  by (simp add: handle_get_def Let_def split: prod.split)

lemma render_code:
  assumes "render_view aw db st v = Some (code, body)"
  shows "code \<in> {200, 404} \<or> (\<exists>ty. v = View_error code ty)"
  using assms by (cases v) (auto simp: render_view_def split: prod.splits option.splits)

lemma render_fails:
  assumes "render_view aw db st v = None" "v \<noteq> View_usage"
  shows "(\<exists>x. v = View_raises x) \<or> (db = None \<and> v \<notin> {View_config, View_error 503 ''api_error''})"
  using assms by (cases v) (auto simp: render_view_def split: prod.splits option.splits)

text \<open>(C19) A GET of the admin API changes no part of the process but the usage cache, and that only when its path
  is the usage view and its query names a token.  If every text of digits is a number it never fails.\<close>

theorem admin_get_reads_only:
  "\<exists>c code body. admin_get aw path query p = ((code, body), p\<lparr>pr_usage := c\<rparr>) \<and>
    (map_of (aw_query aw query) ''token'' \<in> {None, Some []} \<or> rstrip_slash path \<noteq> ''/admin/oauth-usage''
      \<longrightarrow> c = pr_usage p) \<and>
    ((\<forall>s. s \<noteq> [] \<and> list_all unicode_digit s \<longrightarrow> aw_int aw s \<noteq> None) \<longrightarrow> code \<in> {200, 202, 400, 404, 503})"
proof -
  let ?v = "handle_get (aw_int aw) path (aw_query aw query) (pr_db p \<noteq> None)"
  show ?thesis
  proof (cases "?v = View_usage")
    case True
    obtain code body c where u: "get_oauth_usage aw (aw_query aw query) (pr_usage p) = ((code, body), c)"
      by (metis prod.collapse)
    then have "code \<in> {200, 202}"
      and "map_of (aw_query aw query) ''token'' \<in> {None, Some []} \<Longrightarrow> c = pr_usage p"
      by (auto simp: get_oauth_usage_def Let_def split: option.splits if_splits)
    with True u usage_view_path [OF True] show ?thesis
      by (intro exI [of _ c] exI [of _ code] exI [of _ body]) (auto simp: admin_get_def Let_def)
  next
    case False
    show ?thesis
    proof (cases "render_view aw (pr_db p) (pr_admin p) ?v")
      case None
      from render_fails [OF None False] view_without_db [of "aw_int aw" path "aw_query aw query"]
      obtain x where "?v = View_raises x" by (cases "pr_db p") auto
      with raising_view_path have "\<exists>s. s \<noteq> [] \<and> list_all unicode_digit s \<and> aw_int aw s = None" by blast
      with False None show ?thesis
        by (intro exI [of _ "pr_usage p"] exI [of _ 500] exI [of _ "Error_body ''api_error''"])
           (auto simp: admin_get_def Let_def)
    next
      case (Some a)
      obtain code body where a: "a = (code, body)" by (cases a)
      from render_code [OF Some [unfolded a]] error_view_code have "code \<in> {200, 202, 400, 404, 503}" by blast
      with False Some a show ?thesis
        by (intro exI [of _ "pr_usage p"] exI [of _ code] exI [of _ body]) (auto simp: admin_get_def Let_def)
    qed
  qed
qed

text \<open>The exception: a GET that names a token hands it to the cache, which then polls with it.\<close>

lemma get_replaces_token:
  assumes "oc_token_hash c = Some h" "aw_hash aw t \<noteq> h" "t \<noteq> []" "map_of params ''token'' = Some t"
  shows "oc_current_token (snd (get_oauth_usage aw params c)) = Some t"
  using assms by (simp add: get_oauth_usage_def get_cached_def Let_def)

lemma shown_hash:
  assumes "db_ok db" "r \<in> set (rd_rows db)" "h \<in> row_hashes (rr_args r)"
  shows "content_of db (Some h) \<noteq> None"
proof -
  from assms have "h \<in> fst ` set (rd_prompts db)" by (auto simp: db_ok_def)
  then show ?thesis by (cases "map_of (rd_prompts db) h") (auto simp: content_of_def map_of_eq_None_iff)
qed

lemma digits_kept: "list_all py_isdigit ds \<Longrightarrow> ds \<noteq> [] \<Longrightarrow> rstrip_slash (s @ ds) = s @ ds"
  by (cases ds rule: rev_cases) (auto simp: rstrip_slash_def py_isdigit_def)

lemma request_view:
  assumes "ds \<noteq> []" "list_all py_isdigit ds" "parse ds = Some n"
  shows "handle_get parse (''/admin/requests/'' @ ds) params True = View_request n"
proof -
  have route: "rstrip_slash (''/admin/requests/'' @ ds) = ''/admin/requests/'' @ ds"
    by (rule digits_kept [OF assms(2,1)])
  have digits: "list_all unicode_digit ds" using assms(2) by (auto simp: list_all_iff unicode_digit_def)
  show ?thesis
    unfolding handle_get_def Let_def route
    by (cases "page parse params") (simp add: startswith_def assms(1,3) digits)
qed


section \<open>The front door\<close>

lemma ui_file_confined: "serve_ui_file fs raw = Some (f, keep) \<Longrightarrow> f = fs_index fs \<or> fs_within fs f"
  by (auto simp: serve_ui_file_def Let_def split: if_splits)

lemma origin_form_kept: "startswith target ''/'' \<Longrightarrow> take_origin_form split host port b target = Origin_form target"
  by (cases target) (auto simp: take_origin_form_def startswith_def py_lower_def py_lower_char_def)


section \<open>The claims on a served process\<close>

definition sample_views :: admin_world where
  "sample_views =
     \<lparr>aw_int = (\<lambda>_. Some 1), aw_show = (\<lambda>_. ''0''), aw_query = (\<lambda>_. []), aw_fts = (\<lambda>_ _. False), aw_hash = id,
      aw_now = 0\<rparr>"

theorem admin_get_reads_only_witness:
  "\<exists>p code body. main served_start sample_boot None = Serving p \<and>
    admin_get sample_views ''/admin/oauth-usage'' [] p = ((code, body), p) \<and> code \<in> {200, 202, 400, 404, 503}"
proof -
  from sample_serving obtain p where p: "main served_start sample_boot None = Serving p" by blast
  from admin_get_reads_only [of sample_views "''/admin/oauth-usage''" "[]" p] obtain c code body where
    got: "admin_get sample_views ''/admin/oauth-usage'' [] p = ((code, body), p\<lparr>pr_usage := c\<rparr>)"
    and same: "map_of (aw_query sample_views []) ''token'' \<in> {None, Some []} \<Longrightarrow> c = pr_usage p"
    and codes: "(\<forall>s. s \<noteq> [] \<and> list_all unicode_digit s \<longrightarrow> aw_int sample_views s \<noteq> None) \<Longrightarrow>
      code \<in> {200, 202, 400, 404, 503}" by blast
  have "c = pr_usage p" by (rule same) (simp add: sample_views_def)
  moreover have "code \<in> {200, 202, 400, 404, 503}" by (rule codes) (simp add: sample_views_def)
  ultimately show ?thesis using p got by (intro exI [of _ p] exI [of _ code] exI [of _ body]) simp
qed


definition other_url :: absolute_url where
  "other_url =
     \<lparr>au_scheme = ''http'', au_host = Some ''other'', au_port = Some None, au_path = ''/'', au_query = []\<rparr>"


end
