(* ===== verification/Schema.thy ===== *)
theory Schema
  imports Py_Prelude
begin

text \<open>
  The migrations of \<^verbatim>\<open>anthrouter/db.py\<close>.  Python's \<open>sqlite3\<close> opens no transaction for DDL, so each
  statement of a migration takes effect on its own, and a process that ends between two statements leaves
  the schema in between; only migration 8 opens a transaction.  A schema is its version, its columns
  beyond those of migration 0, the hash columns each reference-count trigger counts, and whether the
  status CHECK is the new one.  None is the error of SQLite.
\<close>

section \<open>Schemas and statements\<close>

record schema =
  sc_version :: nat
  sc_tables :: bool
  sc_columns :: "string list"
  sc_event_columns :: "string list"
  sc_insert_trigger :: "string list option"
  sc_delete_trigger :: "string list option"
  sc_reclassified :: bool

definition no_schema :: schema where
  "no_schema =
     \<lparr>sc_version = 0, sc_tables = False, sc_columns = [], sc_event_columns = [], sc_insert_trigger = None,
      sc_delete_trigger = None, sc_reclassified = False\<rparr>"

datatype trigger = On_insert | On_delete

datatype ddl =
    Create_tables
  | Create_trigger_if_absent trigger "string list"
  | Add_column string
  | Add_event_column string
  | Drop_trigger trigger
  | Create_trigger trigger "string list"
  | Set_version nat
  | Rebuild string nat

definition trigger_of :: "trigger \<Rightarrow> schema \<Rightarrow> string list option" where
  "trigger_of t s = (case t of On_insert \<Rightarrow> sc_insert_trigger s | On_delete \<Rightarrow> sc_delete_trigger s)"

definition set_trigger :: "trigger \<Rightarrow> string list option \<Rightarrow> schema \<Rightarrow> schema" where
  "set_trigger t v s =
     (case t of On_insert \<Rightarrow> s\<lparr>sc_insert_trigger := v\<rparr> | On_delete \<Rightarrow> s\<lparr>sc_delete_trigger := v\<rparr>)"

text \<open>A column that is there already is an error of \<open>ALTER TABLE\<close>, a trigger of \<open>CREATE TRIGGER\<close>.\<close>

definition execute :: "ddl \<Rightarrow> schema \<Rightarrow> schema option" where
  "execute d s =
     (case d of
        Create_tables \<Rightarrow> Some (s\<lparr>sc_tables := True\<rparr>)
      | Create_trigger_if_absent t cs \<Rightarrow> Some (if trigger_of t s = None then set_trigger t (Some cs) s else s)
      | Add_column c \<Rightarrow> if c \<in> set (sc_columns s) then None else Some (s\<lparr>sc_columns := sc_columns s @ [c]\<rparr>)
      | Add_event_column c \<Rightarrow>
          if c \<in> set (sc_event_columns s) then None else Some (s\<lparr>sc_event_columns := sc_event_columns s @ [c]\<rparr>)
      | Drop_trigger t \<Rightarrow> Some (set_trigger t None s)
      | Create_trigger t cs \<Rightarrow> if trigger_of t s \<noteq> None then None else Some (set_trigger t (Some cs) s)
      | Set_version n \<Rightarrow> Some (s\<lparr>sc_version := n\<rparr>)
      | Rebuild c n \<Rightarrow>
          Some (s\<lparr>sc_reclassified := True,
                  sc_columns := (if c \<in> set (sc_columns s) then sc_columns s else sc_columns s @ [c]),
                  sc_version := n\<rparr>))"

fun execute_all :: "ddl list \<Rightarrow> schema \<Rightarrow> schema option" where
  "execute_all [] s = Some s"
| "execute_all (d # ds) s = Option.bind (execute d s) (execute_all ds)"

section \<open>Migrations\<close>

definition V0_HASHES :: "string list" where
  "V0_HASHES = [''system_prompt_sha256'', ''system_prompt_sanitized_sha256'', ''tools_sha256'']"

definition V4_HASHES :: "string list" where
  "V4_HASHES =
     [''system_prompt_sha256'', ''system_prompt_sanitized_sha256'', ''system_prompt_caveman_sha256'', ''tools_sha256'']"

definition V7_HASHES :: "string list" where
  "V7_HASHES =
     [''system_prompt_sha256'', ''system_prompt_sanitized_sha256'', ''system_prompt_caveman_sha256'',
      ''opening_system_sha256'', ''opening_system_dispatched_sha256'', ''tools_sha256'']"

text \<open>The guarded \<open>ALTER TABLE\<close>s: those of the columns that the table does not have.\<close>

definition add_missing :: "string list \<Rightarrow> schema \<Rightarrow> ddl list" where
  "add_missing cs s = map Add_column (filter (\<lambda>c. c \<notin> set (sc_columns s)) cs)"

definition replace_triggers :: "string list \<Rightarrow> ddl list" where
  "replace_triggers hs =
     [Drop_trigger On_insert, Drop_trigger On_delete, Create_trigger On_insert hs, Create_trigger On_delete hs]"

text \<open>The statements a migration issues on a schema, without the version at its end.\<close>

definition migration :: "nat \<Rightarrow> schema \<Rightarrow> ddl list" where
  "migration v s =
     (if v = 0 then [Create_tables, Create_trigger_if_absent On_insert V0_HASHES,
                     Create_trigger_if_absent On_delete V0_HASHES]
      else if v = 1 then [Add_event_column ''payload_full'']
      else if v = 2 then map Add_column [''system_prompt_score'', ''user_prompt_score'', ''routing_weighted_score'']
      else if v = 3 then add_missing [''classifier_stop_reason''] s
      else if v = 4 then add_missing [''system_prompt_caveman_sha256''] s @ replace_triggers V4_HASHES
      else if v = 5 then add_missing [''user_prompt_dispatched_text''] s
      else if v = 6 then add_missing [''upstream_request_id''] s
      else if v = 7 then
        add_missing [''opening_system_sha256'', ''opening_system_dispatched_sha256'', ''attribution_reminders_stripped''] s
          @ replace_triggers V7_HASHES
      else [])"

text \<open>A migration with its version; the eighth is one transaction.\<close>

definition statements :: "nat \<Rightarrow> schema \<Rightarrow> ddl list" where
  "statements v s = (if v = 8 then [Rebuild ''thread_model'' 9] else migration v s @ [Set_version (Suc v)])"

definition SCHEMA_VERSION :: nat where "SCHEMA_VERSION = 9"

function ensure_schema :: "nat \<Rightarrow> schema \<Rightarrow> schema option" where
  "ensure_schema v s =
     (if SCHEMA_VERSION \<le> v then Some s
      else Option.bind (execute_all (statements v s) s) (ensure_schema (Suc v)))"
  by pat_completeness auto
termination by (relation "measure (\<lambda>(v, _). SCHEMA_VERSION - v)") (auto simp: SCHEMA_VERSION_def)

declare ensure_schema.simps [simp del]

text \<open>What a process leaves: it runs the migrations from the version it finds and may end after any
  statement.\<close>

inductive leaves :: "schema \<Rightarrow> schema \<Rightarrow> bool" where
  interrupted: "sc_version s < SCHEMA_VERSION \<Longrightarrow> prefix ds (statements (sc_version s) s) \<Longrightarrow>
    execute_all ds s = Some s' \<Longrightarrow> leaves s s'"

definition final_schema :: schema where
  "final_schema =
     \<lparr>sc_version = 9, sc_tables = True,
      sc_columns =
        [''system_prompt_score'', ''user_prompt_score'', ''routing_weighted_score'', ''classifier_stop_reason'',
         ''system_prompt_caveman_sha256'', ''user_prompt_dispatched_text'', ''upstream_request_id'',
         ''opening_system_sha256'', ''opening_system_dispatched_sha256'', ''attribution_reminders_stripped'',
         ''thread_model''],
      sc_event_columns = [''payload_full''],
      sc_insert_trigger = Some V7_HASHES, sc_delete_trigger = Some V7_HASHES, sc_reclassified = True\<rparr>"

end
