(* ===== verification/Schema_Props.thy ===== *)
theory Schema_Props
  imports Schema
begin

text \<open>
  Interrupted upgrades: from whatever a process leaves, the next start reaches the final schema, except
  between the unguarded statements of migrations 1 and 2, from where no start ever does.
\<close>

section \<open>Columns in order\<close>

definition all_columns :: "string list" where
  "all_columns = sc_columns final_schema"

lemma all_columns_eq:
  "all_columns =
     [''system_prompt_score'', ''user_prompt_score'', ''routing_weighted_score'', ''classifier_stop_reason'',
      ''system_prompt_caveman_sha256'', ''user_prompt_dispatched_text'', ''upstream_request_id'',
      ''opening_system_sha256'', ''opening_system_dispatched_sha256'', ''attribution_reminders_stripped'',
      ''thread_model'']"
  by (simp add: all_columns_def final_schema_def)

lemma all_columns_facts: "length all_columns = 11" "distinct all_columns"
  by (simp_all add: all_columns_eq)

lemma in_take_columns: "i < 11 \<Longrightarrow> k \<le> 11 \<Longrightarrow> all_columns ! i \<in> set (take k all_columns) \<longleftrightarrow> i < k"
  using all_columns_facts by (auto simp: in_set_conv_nth nth_eq_iff_index_eq)

definition adds :: "nat \<Rightarrow> nat \<Rightarrow> ddl list" where
  "adds k hi = map (\<lambda>i. Add_column (all_columns ! i)) [k..<hi]"

lemma add_missing_adds:
  assumes "sc_columns s = take k all_columns" "lo \<le> k" "k \<le> hi" "hi \<le> 11"
  shows "add_missing (map ((!) all_columns) [lo..<hi]) s = adds k hi"
proof -
  have "filter (\<lambda>i. all_columns ! i \<notin> set (take k all_columns)) [lo..<hi] = filter (\<lambda>i. k \<le> i) [lo..<hi]"
    using assms by (intro filter_cong) (auto simp: in_take_columns not_less)
  also have "\<dots> = [k..<hi]"
  proof -
    have "[lo..<hi] = [lo..<k] @ [k..<hi]" using assms(2,3) by (metis le_add_diff_inverse upt_add_eq_append)
    then show ?thesis by (simp add: filter_empty_conv)
  qed
  finally show ?thesis by (simp add: add_missing_def adds_def filter_map comp_def assms(1))
qed

lemma adds_Cons: "k < hi \<Longrightarrow> adds k hi = Add_column (all_columns ! k) # adds (Suc k) hi"
  by (simp add: adds_def upt_conv_Cons)

lemma add_next:
  assumes "sc_columns s = take k all_columns" "k < 11"
  shows "execute (Add_column (all_columns ! k)) s = Some (s\<lparr>sc_columns := take (Suc k) all_columns\<rparr>)"
  using assms all_columns_facts by (simp add: execute_def in_take_columns take_Suc_conv_app_nth)

lemma adds_prefix:
  assumes "prefix ds (adds k hi)" "execute_all ds s = Some s'" "sc_columns s = take k all_columns" "k \<le> hi" "hi \<le> 11"
  shows "\<exists>k'. k \<le> k' \<and> k' \<le> hi \<and> s' = s\<lparr>sc_columns := take k' all_columns\<rparr>"
  using assms
proof (induction "hi - k" arbitrary: k ds s)
  case 0
  then have "ds = []" by (simp add: adds_def)
  with 0 show ?case by (intro exI [of _ k]) (simp flip: "0.prems"(3))
next
  case (Suc n)
  then have k: "k < hi" by simp
  show ?case
  proof (cases ds)
    case Nil
    with Suc.prems show ?thesis by (intro exI [of _ k]) (simp flip: Suc.prems(3))
  next
    case (Cons d es)
    with Suc.prems(1) k have d: "d = Add_column (all_columns ! k)" "prefix es (adds (Suc k) hi)"
      by (simp_all add: adds_Cons)
    let ?s = "s\<lparr>sc_columns := take (Suc k) all_columns\<rparr>"
    from Suc.prems(2) Cons d(1) add_next [OF Suc.prems(3)] k Suc.prems(5)
    have es: "execute_all es ?s = Some s'" by simp
    have n: "n = hi - Suc k" using Suc.hyps(2) by simp
    have c: "sc_columns ?s = take (Suc k) all_columns" by simp
    from Suc.hyps(1) [OF n d(2) es c] k Suc.prems(5) obtain k'
      where "Suc k \<le> k'" "k' \<le> hi" "s' = ?s\<lparr>sc_columns := take k' all_columns\<rparr>" by auto
    then show ?thesis by (intro exI [of _ k']) simp
  qed
qed

lemma adds_all:
  assumes "sc_columns s = take k all_columns" "k \<le> hi" "hi \<le> 11"
  shows "execute_all (adds k hi) s = Some (s\<lparr>sc_columns := take hi all_columns\<rparr>)"
  using assms
proof (induction "hi - k" arbitrary: k s)
  case 0
  then show ?case by (simp add: adds_def flip: "0.prems"(1))
next
  case (Suc n)
  then have k: "k < hi" by simp
  with Suc.prems Suc.hyps(1) [of "Suc k" "s\<lparr>sc_columns := take (Suc k) all_columns\<rparr>"] Suc.hyps(2) show ?case
    by (simp add: adds_Cons add_next)
qed

lemma execute_all_append: "execute_all (ds @ es) s = Option.bind (execute_all ds s) (execute_all es)"
  by (induction ds arbitrary: s) (auto split: bind_split)

section \<open>Runs of a guarded migration\<close>

lemma triggers_prefix:
  assumes "prefix ds (replace_triggers hs)" "execute_all ds s = Some s'"
  shows "\<exists>a \<in> {sc_insert_trigger s, None, Some hs}. \<exists>b \<in> {sc_delete_trigger s, None, Some hs}.
    s' = s\<lparr>sc_insert_trigger := a, sc_delete_trigger := b\<rparr>"
  using assms
  by (auto simp: replace_triggers_def prefix_Cons execute_def set_trigger_def trigger_of_def split: if_splits)

lemma triggers_all:
  "execute_all (replace_triggers hs) s = Some (s\<lparr>sc_insert_trigger := Some hs, sc_delete_trigger := Some hs\<rparr>)"
  by (simp add: replace_triggers_def execute_def set_trigger_def trigger_of_def)

lemma guarded_all:
  assumes "sc_columns s = take k all_columns" "k \<le> hi" "hi \<le> 11"
  shows "execute_all (adds k hi @ replace_triggers hs @ [Set_version n]) s =
      Some (s\<lparr>sc_version := n, sc_columns := take hi all_columns, sc_insert_trigger := Some hs, sc_delete_trigger := Some hs\<rparr>)"
    and "execute_all (adds k hi @ [Set_version n]) s =
      Some (s\<lparr>sc_version := n, sc_columns := take hi all_columns\<rparr>)"
  by (simp_all add: execute_all_append adds_all [OF assms] triggers_all execute_def)

lemma guarded_prefix:
  assumes "prefix ds (adds k hi @ ts @ [Set_version n])" "ts = [] \<or> ts = replace_triggers hs"
    and "execute_all ds s = Some s'" and "sc_columns s = take k all_columns" "k \<le> hi" "hi \<le> 11"
  shows "(\<exists>k' a b. k \<le> k' \<and> k' \<le> hi \<and> s' = s\<lparr>sc_columns := take k' all_columns, sc_insert_trigger := a, sc_delete_trigger := b\<rparr> \<and>
      (if ts = [] then a = sc_insert_trigger s \<and> b = sc_delete_trigger s
       else a \<in> {sc_insert_trigger s, None, Some hs} \<and> b \<in> {sc_delete_trigger s, None, Some hs})) \<or>
    execute_all (adds k hi @ ts @ [Set_version n]) s = Some s'"
proof -
  let ?s = "s\<lparr>sc_columns := take hi all_columns\<rparr>"
  consider (adding) "prefix ds (adds k hi)"
    | (triggers) es where "ds = adds k hi @ es" "prefix es ts"
    | (complete) "ds = adds k hi @ ts @ [Set_version n]"
    using assms(1) by (auto simp: prefix_append prefix_Cons)
  then show ?thesis
  proof cases
    case adding
    from adds_prefix [OF this assms(3-6)] obtain k' where "k \<le> k'" "k' \<le> hi" "s' = s\<lparr>sc_columns := take k' all_columns\<rparr>"
      by blast
    then show ?thesis
      by (intro disjI1 exI [of _ k'] exI [of _ "sc_insert_trigger s"] exI [of _ "sc_delete_trigger s"]) simp
  next
    case triggers
    with assms(3) adds_all [OF assms(4-6)] have es: "execute_all es ?s = Some s'" by (simp add: execute_all_append)
    show ?thesis
    proof (cases "ts = []")
      case True
      with triggers es have s': "s' = ?s" by simp
      show ?thesis unfolding s' using True assms(5)
        by - (rule disjI1, rule exI [of _ hi], rule exI [of _ "sc_insert_trigger s"],
          rule exI [of _ "sc_delete_trigger s"], simp)
    next
      case False
      with triggers assms(2) have "prefix es (replace_triggers hs)" by simp
      from triggers_prefix [OF this es] obtain a b where "a \<in> {sc_insert_trigger ?s, None, Some hs}"
        "b \<in> {sc_delete_trigger ?s, None, Some hs}" "s' = ?s\<lparr>sc_insert_trigger := a, sc_delete_trigger := b\<rparr>"
        by (elim bexE) (rule that)
      then have "a \<in> {sc_insert_trigger s, None, Some hs}" "b \<in> {sc_delete_trigger s, None, Some hs}"
        "s' = s\<lparr>sc_columns := take hi all_columns, sc_insert_trigger := a, sc_delete_trigger := b\<rparr>" by simp_all
      with False assms(5) show ?thesis by (intro disjI1 exI [of _ hi] exI [of _ a] exI [of _ b]) simp
    qed
  next
    case complete
    with assms(3) show ?thesis by simp
  qed
qed

section \<open>The schemas that occur\<close>

definition columns_before :: "nat \<Rightarrow> nat" where
  "columns_before v =
     (if v \<le> 2 then 0 else if v \<le> 7 then v else if v = 8 then 10 else 11)"

definition triggers_at :: "nat \<Rightarrow> string list option set" where
  "triggers_at v =
     (if v = 0 then {None, Some V0_HASHES} else if v < 4 then {Some V0_HASHES}
      else if v = 4 then {Some V0_HASHES, None, Some V4_HASHES} else if v < 7 then {Some V4_HASHES}
      else if v = 7 then {Some V4_HASHES, None, Some V7_HASHES} else {Some V7_HASHES})"

definition events_at :: "nat \<Rightarrow> string list set" where
  "events_at v = (if v = 0 then {[]} else if v = 1 then {[], [''payload_full'']} else {[''payload_full'']})"

definition schema_ok :: "schema \<Rightarrow> bool" where
  "schema_ok s \<longleftrightarrow>
     (let v = sc_version s in
      v \<le> 9 \<and> (\<exists>k. columns_before v \<le> k \<and> k \<le> columns_before (Suc v) \<and> sc_columns s = take k all_columns) \<and>
      sc_event_columns s \<in> events_at v \<and> sc_insert_trigger s \<in> triggers_at v \<and>
      sc_delete_trigger s \<in> triggers_at v \<and> sc_reclassified s = (v = 9) \<and> (1 \<le> v \<longrightarrow> sc_tables s))"

text \<open>Not between the unguarded statements of migrations 1 and 2.\<close>

definition restartable :: "schema \<Rightarrow> bool" where
  "restartable s \<longleftrightarrow>
     (sc_version s = 1 \<longrightarrow> sc_event_columns s = []) \<and> (sc_version s = 2 \<longrightarrow> sc_columns s = [])"

definition guarded_triggers :: "nat \<Rightarrow> ddl list" where
  "guarded_triggers v = (if v = 4 then replace_triggers V4_HASHES else if v = 7 then replace_triggers V7_HASHES else [])"

lemma column_names:
  "[''classifier_stop_reason''] = map ((!) all_columns) [3..<4]"
  "[''system_prompt_caveman_sha256''] = map ((!) all_columns) [4..<5]"
  "[''user_prompt_dispatched_text''] = map ((!) all_columns) [5..<6]"
  "[''upstream_request_id''] = map ((!) all_columns) [6..<7]"
  "[''opening_system_sha256'', ''opening_system_dispatched_sha256'', ''attribution_reminders_stripped''] =
     map ((!) all_columns) [7..<10]"
  "map Add_column [''system_prompt_score'', ''user_prompt_score'', ''routing_weighted_score''] = adds 0 3"
  by (simp_all add: all_columns_eq adds_def upt_rec)

lemma guarded_statements:
  assumes "v \<in> {3, 4, 5, 6, 7}" "sc_columns s = take k all_columns" "columns_before v \<le> k" "k \<le> columns_before (Suc v)"
  shows "statements v s = adds k (columns_before (Suc v)) @ guarded_triggers v @ [Set_version (Suc v)]"
proof -
  have "v = 3 \<Longrightarrow> add_missing [''classifier_stop_reason''] s = adds k 4"
    unfolding column_names using assms by (intro add_missing_adds) (simp_all add: columns_before_def)
  moreover have "v = 4 \<Longrightarrow> add_missing [''system_prompt_caveman_sha256''] s = adds k 5"
    unfolding column_names using assms by (intro add_missing_adds) (simp_all add: columns_before_def)
  moreover have "v = 5 \<Longrightarrow> add_missing [''user_prompt_dispatched_text''] s = adds k 6"
    unfolding column_names using assms by (intro add_missing_adds) (simp_all add: columns_before_def)
  moreover have "v = 6 \<Longrightarrow> add_missing [''upstream_request_id''] s = adds k 7"
    unfolding column_names using assms by (intro add_missing_adds) (simp_all add: columns_before_def)
  moreover have "v = 7 \<Longrightarrow> add_missing [''opening_system_sha256'', ''opening_system_dispatched_sha256'',
      ''attribution_reminders_stripped''] s = adds k 10"
    unfolding column_names using assms by (intro add_missing_adds) (simp_all add: columns_before_def)
  ultimately show ?thesis
    using assms(1) by (auto simp: statements_def migration_def columns_before_def guarded_triggers_def)
qed

text \<open>A complete migration takes a schema that occurs to one of the next version, from which a start can go
  on.\<close>

lemma migration_completes:
  assumes ok: "schema_ok s" "restartable s" and v: "sc_version s = v" "v < 9"
  shows "\<exists>s'. execute_all (statements v s) s = Some s' \<and> schema_ok s' \<and> restartable s' \<and> sc_version s' = Suc v"
proof -
  from ok(1) v obtain k where k: "sc_columns s = take k all_columns" "columns_before v \<le> k" "k \<le> columns_before (Suc v)"
    by (auto simp: schema_ok_def Let_def)
  consider "v = 0" | "v = 1" | "v = 2" | "v \<in> {3, 4, 5, 6, 7}" | "v = 8" using v(2) by fastforce
  then show ?thesis
  proof cases
    case 1
    with ok v show ?thesis
      by (auto simp: statements_def migration_def execute_def trigger_of_def set_trigger_def schema_ok_def Let_def
          columns_before_def triggers_at_def events_at_def restartable_def)
  next
    case 2
    with ok v show ?thesis
      by (auto simp: statements_def migration_def execute_def schema_ok_def Let_def
          columns_before_def triggers_at_def events_at_def restartable_def)
  next
    case 3
    with ok v have c: "sc_columns s = take 0 all_columns" by (simp add: restartable_def)
    have "statements 2 s = adds 0 3 @ [Set_version 3]"
      unfolding statements_def migration_def column_names(6) [symmetric] by simp
    with guarded_all(2) [OF c, of 3 3]
    have run: "execute_all (statements v s) s = Some (s\<lparr>sc_version := 3, sc_columns := take 3 all_columns\<rparr>)"
      by (simp add: 3)
    show ?thesis unfolding run using 3 ok v
      by (auto simp: schema_ok_def Let_def columns_before_def triggers_at_def events_at_def restartable_def)
  next
    case 4
    have hi: "columns_before (Suc v) \<le> 11" by (simp add: columns_before_def)
    let ?c = "s\<lparr>sc_version := Suc v, sc_columns := take (columns_before (Suc v)) all_columns\<rparr>"
    note st = guarded_statements [OF 4 k] and with_triggers = guarded_all(1) [OF k(1,3) hi, of _ "Suc v"]
      and plain = guarded_all(2) [OF k(1,3) hi, of "Suc v"]
    consider "v = 3" | "v = 4" | "v = 5" | "v = 6" | "v = 7" using 4 by auto
    then have "\<exists>a b. execute_all (statements v s) s = Some (?c\<lparr>sc_insert_trigger := a, sc_delete_trigger := b\<rparr>) \<and>
        a \<in> triggers_at (Suc v) \<and> b \<in> triggers_at (Suc v)"
    proof cases
      case 2
      with st with_triggers [of V4_HASHES] show ?thesis
        by (intro exI [of _ "Some V4_HASHES"]) (simp add: guarded_triggers_def triggers_at_def)
    next
      case 5
      with st with_triggers [of V7_HASHES] show ?thesis
        by (intro exI [of _ "Some V7_HASHES"]) (simp add: guarded_triggers_def triggers_at_def)
    qed (use st plain ok v in \<open>simp_all add: guarded_triggers_def triggers_at_def schema_ok_def Let_def\<close>,
        (rule exI [of _ "sc_insert_trigger s"], rule exI [of _ "sc_delete_trigger s"], simp)+)
    then obtain a b where ab: "execute_all (statements v s) s = Some (?c\<lparr>sc_insert_trigger := a, sc_delete_trigger := b\<rparr>)"
      "a \<in> triggers_at (Suc v)" "b \<in> triggers_at (Suc v)" by blast
    have "columns_before (Suc v) \<le> columns_before (Suc (Suc v))" by (simp add: columns_before_def)
    moreover have "sc_event_columns s \<in> events_at (Suc v)" "sc_tables s" "\<not> sc_reclassified s" "Suc v \<le> 9" "Suc v \<noteq> 9"
      using 4 ok v by (auto simp: schema_ok_def Let_def events_at_def)
    ultimately show ?thesis
      using ab 4 by (auto simp: schema_ok_def Let_def restartable_def)
  next
    case 5
    have last: "take 10 all_columns @ [all_columns ! 10] = all_columns" by (simp add: all_columns_eq)
    have "''thread_model'' = all_columns ! 10" by (simp add: all_columns_eq)
    moreover have "k = 10 \<or> k = 11" using k 5 by (auto simp: columns_before_def)
    ultimately have "(if ''thread_model'' \<in> set (take k all_columns) then take k all_columns
        else take k all_columns @ [''thread_model'']) = take 11 all_columns"
      using in_take_columns [of 10 k] all_columns_facts last by auto
    with ok v 5 k(1) show ?thesis
      by (auto simp: statements_def execute_def schema_ok_def Let_def columns_before_def triggers_at_def events_at_def
          restartable_def)
  qed
qed

lemma unfinished_ok:
  assumes ok: "schema_ok s" and v: "sc_version s = v" "v < 9"
    and run: "prefix ds (statements v s)" "execute_all ds s = Some s'"
  shows "schema_ok s'"
proof -
  from ok v obtain k where k: "sc_columns s = take k all_columns" "columns_before v \<le> k" "k \<le> columns_before (Suc v)"
    by (auto simp: schema_ok_def Let_def)
  consider "v = 0" | "v = 1" | "v = 2" | "v \<in> {3, 4, 5, 6, 7}" | "v = 8" using v(2) by fastforce
  then show ?thesis
  proof cases
    case 1
    let ?t = "[Create_tables, Create_trigger_if_absent On_insert V0_HASHES, Create_trigger_if_absent On_delete V0_HASHES]"
    have st: "statements 0 s = ?t @ [Set_version 1]" by (simp add: statements_def migration_def)
    have new: "\<exists>a \<in> triggers_at 0. \<exists>b \<in> triggers_at 0. \<exists>t. s' = s\<lparr>sc_tables := t, sc_insert_trigger := a, sc_delete_trigger := b\<rparr>"
      if "ds \<in> {[], take 1 ?t, take 2 ?t, ?t}"
    proof -
      have "sc_insert_trigger s \<in> triggers_at 0" "sc_delete_trigger s \<in> triggers_at 0" "Some V0_HASHES \<in> triggers_at 0"
        using ok v 1 by (simp_all add: schema_ok_def Let_def triggers_at_def)
      moreover have "\<exists>a \<in> {sc_insert_trigger s, Some V0_HASHES}. \<exists>b \<in> {sc_delete_trigger s, Some V0_HASHES}.
          \<exists>t. s' = s\<lparr>sc_tables := t, sc_insert_trigger := a, sc_delete_trigger := b\<rparr>"
        using that run(2) by (cases s) (auto simp: execute_def trigger_of_def set_trigger_def split: if_splits)
      ultimately show ?thesis by blast
    qed
    have "ds \<in> {[], take 1 ?t, take 2 ?t, ?t} \<or> ds = statements v s"
      using run(1) unfolding 1 st by (auto simp: prefix_Cons)
    then show ?thesis
    proof
      assume "ds \<in> {[], take 1 ?t, take 2 ?t, ?t}"
      from new [OF this] show ?thesis using ok v 1 by (auto simp: schema_ok_def Let_def)
    next
      assume "ds = statements v s"
      moreover have "restartable s" using 1 v by (simp add: restartable_def)
      ultimately show ?thesis using run(2) migration_completes [OF ok _ v] by auto
    qed
  next
    case 2
    let ?p = "''payload_full''"
    have st: "statements 1 s = [Add_event_column ?p, Set_version 2]" by (simp add: statements_def migration_def)
    have ds: "ds = [] \<or> ds = [Add_event_column ?p] \<or> ds = statements v s"
      using run(1) unfolding 2 st by (auto simp: prefix_Cons)
    show ?thesis
    proof (cases "sc_event_columns s = []")
      case True
      then have "restartable s" using 2 v by (simp add: restartable_def)
      moreover have "schema_ok (s\<lparr>sc_event_columns := [?p]\<rparr>)"
        using ok v 2 by (simp add: schema_ok_def Let_def events_at_def)
      ultimately show ?thesis
        using ds run(2) ok migration_completes [OF ok _ v] True by (auto simp: execute_def)
    next
      case False
      with ok v 2 have "?p \<in> set (sc_event_columns s)" by (auto simp: schema_ok_def Let_def events_at_def)
      then have "execute (Add_event_column ?p) s = None" by (simp add: execute_def)
      with ds run(2) have "ds = []" unfolding 2 st by (elim disjE) simp_all
      with run(2) ok show ?thesis by simp
    qed
  next
    case 3
    have st: "statements 2 s = adds 0 3 @ [Set_version 3]"
      unfolding statements_def migration_def column_names(6) [symmetric] by simp
    show ?thesis
    proof (cases "k = 0")
      case True
      with k have c: "sc_columns s = take 0 all_columns" by simp
      from run(1) have "prefix ds (adds 0 3 @ [] @ [Set_version 3])" by (simp add: 3 st)
      then consider (part) k' where "k' \<le> 3" "s' = s\<lparr>sc_columns := take k' all_columns\<rparr>"
        | (full) "execute_all (statements v s) s = Some s'"
        using guarded_prefix [OF _ _ run(2) c, of 3 "[]" 3 undefined] by (auto simp: 3 st)
      then show ?thesis
      proof cases
        case part
        with ok v 3 show ?thesis by (auto simp: schema_ok_def Let_def columns_before_def)
      next
        case full
        have "restartable s" using 3 v c by (simp add: restartable_def)
        with full show ?thesis using migration_completes [OF ok _ v] by simp
      qed
    next
      case False
      with k 3 have "all_columns ! 0 \<in> set (sc_columns s)" using in_take_columns [of 0 k] by (simp add: columns_before_def)
      then have none: "execute (Add_column (all_columns ! 0)) s = None" by (simp add: execute_def)
      have "statements v s = Add_column (all_columns ! 0) # adds 1 3 @ [Set_version 3]"
        unfolding 3 st using adds_Cons [of 0 3] by simp
      with run(1) have "ds = [] \<or> (\<exists>es. ds = Add_column (all_columns ! 0) # es)" by (auto simp: prefix_Cons)
      with run(2) none have "ds = []" by (elim disjE exE) simp_all
      with run(2) ok show ?thesis by simp
    qed
  next
    case 4
    have hi: "columns_before (Suc v) \<le> 11" by (simp add: columns_before_def)
    note st = guarded_statements [OF 4 k]
    obtain hs where hs: "guarded_triggers v = [] \<or> guarded_triggers v = replace_triggers hs"
      "guarded_triggers v = [] \<longleftrightarrow> v \<notin> {4, 7}" "v = 4 \<Longrightarrow> hs = V4_HASHES" "v = 7 \<Longrightarrow> hs = V7_HASHES"
    proof (cases "v = 4")
      case True
      then show ?thesis by (intro that [of V4_HASHES]) (simp_all add: guarded_triggers_def replace_triggers_def)
    next
      case False
      then show ?thesis by (intro that [of V7_HASHES]) (simp_all add: guarded_triggers_def replace_triggers_def)
    qed
    have "prefix ds (adds k (columns_before (Suc v)) @ guarded_triggers v @ [Set_version (Suc v)])" using run(1) st by simp
    from guarded_prefix [OF this hs(1) run(2) k(1,3) hi] show ?thesis
    proof
      assume "execute_all (adds k (columns_before (Suc v)) @ guarded_triggers v @ [Set_version (Suc v)]) s = Some s'"
      moreover have "restartable s" using 4 v by (auto simp: restartable_def)
      ultimately show ?thesis using migration_completes [OF ok _ v] by (simp add: st)
    next
      assume "\<exists>k' a b. k \<le> k' \<and> k' \<le> columns_before (Suc v) \<and>
        s' = s\<lparr>sc_columns := take k' all_columns, sc_insert_trigger := a, sc_delete_trigger := b\<rparr> \<and>
        (if guarded_triggers v = [] then a = sc_insert_trigger s \<and> b = sc_delete_trigger s
         else a \<in> {sc_insert_trigger s, None, Some hs} \<and> b \<in> {sc_delete_trigger s, None, Some hs})"
      then obtain k' a b where s': "k \<le> k'" "k' \<le> columns_before (Suc v)"
        "s' = s\<lparr>sc_columns := take k' all_columns, sc_insert_trigger := a, sc_delete_trigger := b\<rparr>"
        "if guarded_triggers v = [] then a = sc_insert_trigger s \<and> b = sc_delete_trigger s
         else a \<in> {sc_insert_trigger s, None, Some hs} \<and> b \<in> {sc_delete_trigger s, None, Some hs}" by blast
      have t: "sc_insert_trigger s \<in> triggers_at v" "sc_delete_trigger s \<in> triggers_at v"
        using ok v by (simp_all add: schema_ok_def Let_def)
      have "a \<in> triggers_at v \<and> b \<in> triggers_at v"
      proof (cases "v \<in> {4, 7}")
        case True
        with hs(2) have "guarded_triggers v \<noteq> []" by simp
        note s'(4) [unfolded if_not_P [OF this]]
        with True t hs(3,4) show ?thesis by (auto simp: triggers_at_def)
      next
        case False
        with hs(2) have "guarded_triggers v = []" by simp
        with s'(4) [unfolded if_P [OF this]] t show ?thesis by simp
      qed
      moreover have "\<exists>i\<ge>columns_before v. i \<le> columns_before (Suc v) \<and> take k' all_columns = take i all_columns"
        using k s'(1,2) by (intro exI [of _ k']) auto
      ultimately show ?thesis using ok v unfolding s'(3) by (simp add: schema_ok_def Let_def)
    qed
  next
    case 5
    then have "statements v s = [Rebuild ''thread_model'' 9]" by (simp add: statements_def)
    with run(1) have "ds = [] \<or> ds = statements v s" by (auto simp: prefix_Cons)
    moreover have "restartable s" using 5 v by (simp add: restartable_def)
    ultimately show ?thesis using run(2) ok migration_completes [OF ok _ v] by auto
  qed
qed

lemma leaves_ok: "leaves\<^sup>*\<^sup>* no_schema s \<Longrightarrow> schema_ok s"
proof (induction rule: rtranclp_induct)
  case base
  show ?case by (simp add: schema_ok_def no_schema_def columns_before_def triggers_at_def events_at_def)
next
  case (step s s')
  from step.hyps(2) show ?case
    by cases (use step.IH unfinished_ok in \<open>auto simp: SCHEMA_VERSION_def\<close>)
qed

lemma upgrade_from:
  assumes "schema_ok s" "restartable s" "sc_version s = v"
  shows "ensure_schema v s = Some final_schema"
  using assms
proof (induction "9 - v" arbitrary: v s)
  case 0
  then have v: "v = 9" by (auto simp: schema_ok_def Let_def)
  with 0 obtain k where "sc_columns s = take k all_columns" "11 \<le> k" by (auto simp: schema_ok_def Let_def columns_before_def)
  with 0 v have "s = final_schema"
    using all_columns_facts by (auto simp: schema_ok_def Let_def triggers_at_def events_at_def final_schema_def all_columns_eq)
  with v show ?case by (simp add: ensure_schema.simps SCHEMA_VERSION_def)
next
  case (Suc n)
  then have "v < 9" by simp
  from migration_completes [OF Suc.prems(1,2,3) this] obtain s' where s': "execute_all (statements v s) s = Some s'"
    "schema_ok s'" "restartable s'" "sc_version s' = Suc v" by blast
  from Suc.hyps(1) [OF _ s'(2,3,4)] Suc.hyps(2) have "ensure_schema (Suc v) s' = Some final_schema" by simp
  with s'(1) \<open>v < 9\<close> show ?case by (subst ensure_schema.simps) (simp add: SCHEMA_VERSION_def)
qed

text \<open>(C23) However often and wherever starts are interrupted, the next start upgrades the database to the final
  schema, with both triggers counting every hash column, unless the interruption fell between the
  statements of migration 1 or 2.\<close>

theorem interrupted_upgrade_recovers:
  assumes "leaves\<^sup>*\<^sup>* no_schema s" and "restartable s"
  shows "ensure_schema (sc_version s) s = Some final_schema"
  using upgrade_from [OF leaves_ok [OF assms(1)] assms(2) refl] .

text \<open>After an interruption between the column of migration 1 and its version no start ever succeeds.\<close>

definition stuck_schema :: schema where
  "stuck_schema =
     no_schema\<lparr>sc_version := 1, sc_tables := True, sc_event_columns := [''payload_full''],
       sc_insert_trigger := Some V0_HASHES, sc_delete_trigger := Some V0_HASHES\<rparr>"

lemma interrupted_migration_stuck:
  "leaves\<^sup>*\<^sup>* no_schema stuck_schema \<and> ensure_schema (sc_version stuck_schema) stuck_schema = None \<and>
    (\<forall>s. leaves stuck_schema s \<longrightarrow> s = stuck_schema)"
proof -
  let ?v1 = "no_schema\<lparr>sc_version := 1, sc_tables := True, sc_insert_trigger := Some V0_HASHES,
    sc_delete_trigger := Some V0_HASHES\<rparr>"
  have "leaves no_schema ?v1"
    by (rule interrupted [of _ "statements 0 no_schema"])
      (simp_all add: no_schema_def SCHEMA_VERSION_def statements_def migration_def execute_def trigger_of_def set_trigger_def)
  moreover have "leaves ?v1 stuck_schema"
    by (rule interrupted [of _ "[Add_event_column ''payload_full'']"])
      (simp_all add: no_schema_def stuck_schema_def SCHEMA_VERSION_def statements_def migration_def execute_def)
  ultimately have "leaves\<^sup>*\<^sup>* no_schema stuck_schema" by (meson r_into_rtranclp rtranclp.rtrancl_into_rtrancl)
  moreover have "ensure_schema (sc_version stuck_schema) stuck_schema = None"
    by (subst ensure_schema.simps)
      (simp add: stuck_schema_def no_schema_def SCHEMA_VERSION_def statements_def migration_def execute_def)
  moreover have "s = stuck_schema" if "leaves stuck_schema s" for s
    using that
    by cases (auto simp: stuck_schema_def no_schema_def statements_def migration_def prefix_Cons execute_def)
  ultimately show ?thesis by blast
qed

theorem interrupted_upgrade_recovers_witness:
  "ensure_schema 0 no_schema = Some final_schema"
  using interrupted_upgrade_recovers [OF rtranclp.rtrancl_refl [of leaves no_schema]]
  by (simp add: restartable_def no_schema_def)

end
