(* ===== verification/Spec2Isabelle.thy ===== *)
theory Spec2Isabelle
  imports Transport Thread_Props Sse_Delivery Session_State Volatility Caveman_Props Message_Props Interception_Props
    Admin_Findings Configured_Routing Oauth_Props Process_Reads Schema_Props
begin

text \<open>
  A model of \<^verbatim>\<open>anthrouter\<close>, a proxy between an Anthropic client and the Messages API.  It chooses the
  model of each request, adapts the body to what that model accepts, sends it with retries, and returns
  the answer.

  A request runs through the parts in this order.  \<open>handle_messages\<close> (\<^verbatim>\<open>handlers.py\<close>: \<open>Message_Handling\<close>)
  is the whole of \<^verbatim>\<open>POST /v1/messages\<close>: it reads the request (\<open>Request_Inspection\<close>), answers a local
  command itself (\<open>Local_Answers\<close>, \<open>local_message\<close> in \<open>Response_Shaping\<close>), or routes it (\<open>Thread_Routing\<close>:
  \<open>route_request\<close>), using the session stores of \<^verbatim>\<open>session_state.py\<close> (\<open>Session_State\<close> over \<open>Bounded_Store\<close>)
  and the router of \<^verbatim>\<open>model_router.py\<close> (\<open>Router_Core\<close>, \<open>Routing_Decision\<close>, \<open>Router\<close>).  The sanitizer
  (\<^verbatim>\<open>sanitizer.py\<close>, \<^verbatim>\<open>prompt_volatility.py\<close>: \<open>Volatility\<close>), the attribution strip (\<^verbatim>\<open>request_text.py\<close>:
  \<open>Request_Text\<close>) and the caveman rewrite (\<^verbatim>\<open>caveman_rewrite.py\<close>: \<open>Caveman\<close>) change its content.  The
  transport (\<^verbatim>\<open>transport.py\<close>, \<^verbatim>\<open>http_util.py\<close>: \<open>Transport\<close>, \<open>Http_Util\<close>) builds the body
  (\<^verbatim>\<open>mapper/anthropic_transform.py\<close>: \<open>Transform\<close>) and sends it; \<open>Sse_Delivery\<close> forwards a stream to the
  client.  Its result is one row of the request database, a value of \<open>db_row\<close>.  \<open>Payload_Common\<close> and
  \<open>Model_Table\<close> hold the helpers and tables of \<^verbatim>\<open>mapper/common.py\<close>, \<^verbatim>\<open>model_config.py\<close> and
  \<^verbatim>\<open>model_tier.py\<close>; \<open>Py_Prelude\<close> holds Python's strings, numbers and dicts.  \<open>Interception\<close> is
  \<^verbatim>\<open>interception.py\<close>: CONNECT, tunnels, and requests forwarded raw.

  The rest of the program surrounds this path.  \<open>Config\<close> (\<^verbatim>\<open>config.py\<close>) reads and validates the settings;
  \<open>Admin\<close> (\<^verbatim>\<open>admin.py\<close>) changes them and \<^verbatim>\<open>config.env\<close> while the process runs (\<open>Admin_File\<close> holds the facts
  about the file); \<open>Configured_Routing\<close> joins them to the router.  \<open>Request_Db\<close> (\<^verbatim>\<open>db.py\<close>) keeps the rows
  that \<open>handle_messages\<close> leaves, and \<open>Schema\<close> is its migrations.  \<open>Oauth_Usage\<close> (\<^verbatim>\<open>oauth_usage.py\<close>) polls
  the usage of a token, measured against the calendar of \<open>Pace\<close> (\<^verbatim>\<open>pace.py\<close>).  \<open>Field_Metadata\<close> is the
  table that \<^verbatim>\<open>config.py\<close> gives the editor.

  \<open>Http_Front\<close> puts the parts together: \<open>do_POST\<close>, \<open>do_GET\<close> and \<open>other_method\<close> choose the handler of a request,
  and \<open>post_messages\<close>, \<open>admin_config_post\<close> and \<open>admin_get\<close> run one on the record \<open>process\<close>, the state that all
  threads share.  \<open>Process\<close> is \<^verbatim>\<open>server.py\<close> and \<^verbatim>\<open>__main__.py\<close>: how a process starts (\<open>main\<close>,
  \<open>create_server\<close>) and the steps it takes from there (\<open>process_reach\<close>).

  What the lemmas show.  \<open>Router_Props\<close>: a decision reports what its payload holds, every failure of
  the classifier is closed to the baseline, and the number of classifier calls is bounded.  \<open>Thread_Props\<close>:
  the same for whole requests, and that a Thread stays on its model, a refused continuation is replayed on
  the model chosen for it, and the tier cache replays a classification.  \<open>Transform\<close>: a built body is
  accepted by the model it is sent to and no other field changes.  \<open>Transport\<close>: retries are bounded, errors
  keep their status, credentials pass through.  \<open>Sse_Delivery\<close>: what the client receives for every way a
  stream or a socket may end.  \<open>Session_State\<close>, \<open>Volatility\<close>: bounds and invariants over all
  reachable states.  \<open>Caveman_Props\<close>: edits are confined, failures are clean, rewrites are cached.
  \<open>Message_Props\<close>: the composition of all stages: what is dispatched is what the decision reports, a
  monitor request and a local command leave no trace, and each request leaves one row.
  \<open>Interception_Props\<close>: no tunnel reaches the decrypted host, and bodies are bounded and kept whole.
  \<open>Admin_Props\<close>: a POST needs the token, saves what it was given and keeps the configuration valid;
  \<open>Admin_Findings\<close>: the values that validation lets through or the file loses.  \<open>Configured_Routing\<close>: with
  every reachable configuration routing never raises.  \<open>Request_Db_Props\<close>, \<open>Request_Db_Reads\<close>: reference
  counts, retention, paging and search.  \<open>Recorded_Requests\<close>: the rows that requests leave, recorded with shared
  texts, read back as a store that keeps every row with its own texts.  \<open>Field_Metadata\<close>: validation keeps what
  the table promises.  \<open>Process_Props\<close>: the invariants of all components hold together in every reachable
  process.  \<open>Process_Reads\<close>: what a GET may change, that recorded requests can be read, and which requests
  reach the editor and the views.  \<open>Schema_Props\<close>: an interrupted upgrade recovers.  \<open>Pace\<close> and
  \<open>Oauth_Props\<close>: elapsed shares stay in range, waits are bounded and back off.

  Four interfaces are locales, each interpreted on the model.  \<open>bounded_store\<close> (\<open>Bounded_Store\<close>): what the
  session stores, the tracker and the router's cache rely on.  \<open>strip_pass\<close> (\<open>Payload_Common\<close>): a pass that
  reports a change and leaves nothing for a second pass.  \<open>block_matcher\<close> (\<open>Request_Text\<close>): a matcher that
  consumes text.  \<open>row_store\<close> (\<open>Recorded_Requests\<close>): what a request relies on when it hands its row to the database.

  How values are represented.  A character is a code point below 256; an em dash, an arrow or an ellipsis
  is an argument where a text holds one.  A JSON value is the datatype \<open>json\<close>, a dict an association list
  in insertion order, a float an exact rational.  SHA-256, \<open>json.dumps\<close>, \<open>json.loads\<close>, \<open>repr\<close> and the
  parsing of numbers and dates are arguments.  The upstream and the classifier are functions of the
  calls made so far.  A clock is the value it returns, one argument for each reading.  An operation under
  a lock is one step.  An exception is a value of \<open>exn\<close>.

  A setting that is a float may be infinite or NaN (\<open>pyfloat\<close>).  A validation message is a value, not its
  text.  A table of the database is a list of rows in insertion order, and a retention chunk takes old rows
  in that order; the full-text index is an argument.  DDL statements commit one by one, except those of
  migration 8.  A date is its proleptic ordinal, a time zone a function from instants to offsets.

  Bounds.  Recursion is structural or has a proved measure.  \<open>classifier_loop\<close> and \<open>send_loop\<close> take the
  number of attempts that the code's \<open>range\<close> gives, so no fuel is invented.

  Requests are steps of one process, each whole: two threads interleave only between them.  The rows of a
  request go to the database at its end.  The names of headers are in lower case.

  Not modelled.  Logging; sockets, TLS and threads, with the binding of the port; argparse itself; the JSON
  text of the admin views, the descriptions of \<open>FIELD_METADATA\<close> and the user interface; errors of SQLite
  other than a violated CHECK.  NaN and infinities outside the
  settings, and characters above 255, are not represented.
\<close>

end
